(* ===== verification/Prelude.thy ===== *)
theory Prelude
  imports Complex_Main
begin

text \<open>
  What every component of the client shares: the JavaScript values that cross its
  boundaries (responses of the server, caught errors, the state of a navigation), the
  operators the source applies to them (\<open>||\<close>, \<open>??\<close>, \<open>?.\<close>, property reads
  that throw), the record of a run of a component over its events, and the collections of
  rewrite rules the later theories fill.

  Text. A JavaScript string is a \<^typ>\<open>string\<close> whose characters are the UTF-16 units
  below 256. The Vietnamese literals of the source are written in the seven-bit VIQR
  spelling (RFC 1456: \<open>a^\<close>, \<open>o+\<close>, \<open>dd\<close>, tones as \<open>`\<close>, \<open>?\<close>,
  \<open>~\<close>, \<open>.\<close>) with the acute tone written \<open>/\<close>; the client only compares
  them with each other and displays them.
\<close>

named_theorems js_simps \<open>evaluation rules of the JavaScript operators\<close>
named_theorems inv_intros \<open>preservation of invariants by operations\<close>

section \<open>Numbers and values\<close>

text \<open>
  A number is NaN, an infinity or a finite double, given by its exact rational value (both
  zeros are 0: the client never divides, so their signs cannot be told apart).
\<close>

datatype jsnum = NaN | PosInf | NegInf | Fin rat

datatype jsval =
    Undef
  | Null
  | JBool bool
  | JNum jsnum
  | JStr string
  | JArr "jsval list"
  | JObj "(string \<times> jsval) list"

fun num_truthy :: "jsnum \<Rightarrow> bool" where
  "num_truthy NaN = False"
| "num_truthy PosInf = True"
| "num_truthy NegInf = True"
| "num_truthy (Fin q) = (q \<noteq> 0)"

fun truthy :: "jsval \<Rightarrow> bool" where
  "truthy Undef = False"
| "truthy Null = False"
| "truthy (JBool b) = b"
| "truthy (JNum n) = num_truthy n"
| "truthy (JStr s) = (s \<noteq> [])"
| "truthy (JArr _) = True"
| "truthy (JObj _) = True"

definition nullish :: "jsval \<Rightarrow> bool" where
  [js_simps]: "nullish v \<longleftrightarrow> v = Undef \<or> v = Null"

text \<open>The operators \<open>a || b\<close> and \<open>a ?? b\<close>.\<close>

definition js_or :: "jsval \<Rightarrow> jsval \<Rightarrow> jsval" where
  [js_simps]: "js_or a b = (if truthy a then a else b)"

definition js_coalesce :: "jsval \<Rightarrow> jsval \<Rightarrow> jsval" where
  [js_simps]: "js_coalesce a b = (if nullish a then b else a)"

lemma truthy_js_or [simp]: "truthy b \<Longrightarrow> truthy (js_or a b)"
  by (simp add: js_or_def)

section \<open>Property reads\<close>

text \<open>
  A computation that can throw returns \<open>Inl e\<close> for the thrown value \<open>e\<close>. Reading
  a property of \<open>undefined\<close> or \<open>null\<close> throws a \<open>TypeError\<close>; a missing
  property of an object, and any property of another primitive, is \<open>undefined\<close>. The
  optional read \<open>v?.k\<close> gives \<open>undefined\<close> instead of throwing.
\<close>

type_synonym 'a throws = "jsval + 'a"

definition throws_bind :: "'a throws \<Rightarrow> ('a \<Rightarrow> 'b throws) \<Rightarrow> 'b throws" where
  "throws_bind m f = (case m of Inl e \<Rightarrow> Inl e | Inr x \<Rightarrow> f x)"

lemma throws_bind_simps [simp]:
  "throws_bind (Inl e) f = Inl e"
  "throws_bind (Inr x) f = f x"
  by (simp_all add: throws_bind_def)

lemma throws_bind_Inr_iff: "throws_bind m f = Inr y \<longleftrightarrow> (\<exists>x. m = Inr x \<and> f x = Inr y)"
  by (cases m) simp_all

definition type_error :: jsval where
  "type_error = JObj [(''name'', JStr ''TypeError'')]"

fun get_prop :: "jsval \<Rightarrow> string \<Rightarrow> jsval throws" where
  "get_prop Undef k = Inl type_error"
| "get_prop Null k = Inl type_error"
| "get_prop (JObj fs) k = Inr (case map_of fs k of None \<Rightarrow> Undef | Some v \<Rightarrow> v)"
| "get_prop (JBool _) k = Inr Undef"
| "get_prop (JNum _) k = Inr Undef"
| "get_prop (JStr _) k = Inr Undef"
| "get_prop (JArr _) k = Inr Undef"

definition get_oprop :: "jsval \<Rightarrow> string \<Rightarrow> jsval" where
  "get_oprop v k = (case get_prop v k of Inl _ \<Rightarrow> Undef | Inr w \<Rightarrow> w)"

text \<open>\<open>v.k1.k2\<dots>\<close> and \<open>v?.k1?.k2\<dots>\<close>.\<close>

fun path :: "jsval \<Rightarrow> string list \<Rightarrow> jsval throws" where
  "path v [] = Inr v"
| "path v (k # ks) = (case get_prop v k of Inl e \<Rightarrow> Inl e | Inr w \<Rightarrow> path w ks)"

fun opath :: "jsval \<Rightarrow> string list \<Rightarrow> jsval" where
  "opath v [] = v"
| "opath v (k # ks) = opath (get_oprop v k) ks"

lemma get_oprop_simps [simp]:
  "get_oprop Undef k = Undef"
  "get_oprop Null k = Undef"
  "get_oprop (JObj fs) k = (case map_of fs k of None \<Rightarrow> Undef | Some v \<Rightarrow> v)"
  "get_oprop (JStr s) k = Undef"
  by (simp_all add: get_oprop_def)

lemma opath_Undef [simp]: "opath Undef ks = Undef"
  by (induction ks) simp_all

text \<open>Where the strict read succeeds, the optional read agrees with it.\<close>

lemma path_opath: "path v ks = Inr w \<Longrightarrow> opath v ks = w"
proof (induction ks arbitrary: v)
  case Nil
  then show ?case by simp
next
  case (Cons k ks)
  then show ?case by (auto simp: get_oprop_def split: sum.splits)
qed

text \<open>
  Every property read of the model throws only \<open>TypeError\<close>s.
\<close>

lemma get_prop_throws: "get_prop v k = Inl e \<Longrightarrow> e = type_error \<and> nullish v"
  by (cases v) (auto simp: nullish_def)

lemma path_throws: "path v ks = Inl e \<Longrightarrow> e = type_error"
  by (induction ks arbitrary: v) (auto split: sum.splits dest: get_prop_throws)

section \<open>Runs of a component\<close>

text \<open>
  A component that keeps state is a step function over its events. An invariant that every
  event preserves holds after every run; the locale states this once, and each component
  interprets it on its own step function.
\<close>

fun run :: "('s \<Rightarrow> 'e \<Rightarrow> 's) \<Rightarrow> 's \<Rightarrow> 'e list \<Rightarrow> 's" where
  "run step s [] = s"
| "run step s (e # es) = run step (step s e) es"

lemma run_append [simp]: "run step s (xs @ ys) = run step (run step s xs) ys"
  by (induction xs arbitrary: s) simp_all

lemma run_snoc: "run step s (es @ [e]) = step (run step s es) e"
  by simp

locale component =
  fixes step :: "'s \<Rightarrow> 'e \<Rightarrow> 's"
    and inv :: "'s \<Rightarrow> bool"
  assumes inv_step: "inv s \<Longrightarrow> inv (step s e)"
begin

lemma inv_run: "inv s \<Longrightarrow> inv (run step s es)"
  by (induction es arbitrary: s) (auto intro: inv_step)

lemma inv_prefix: "inv s \<Longrightarrow> inv (run step s (take n es))"
  by (rule inv_run)

end

end
