(* ===== verification/RegExp.thy ===== *)
theory RegExp
  imports JsString
begin

text \<open>
  Regular expressions as syntax trees over character classes, so that the patterns of the
  source are written down as they are, and a matcher by derivatives. \<open>matches r s\<close> is
  \<open>/^r$/.test(s)\<close>; \<open>search r s\<close> is \<open>/r/.test(s)\<close> without anchors.
\<close>

datatype regex =
    Empty
  | Eps
  | Cls "char \<Rightarrow> bool"
  | Seq regex regex
  | Alt regex regex
  | Star regex

definition Plus :: "regex \<Rightarrow> regex" where
  "Plus r = Seq r (Star r)"

fun Times :: "nat \<Rightarrow> regex \<Rightarrow> regex" where
  "Times 0 r = Eps"
| "Times (Suc n) r = Seq r (Times n r)"

fun UpTo :: "nat \<Rightarrow> regex \<Rightarrow> regex" where   \<comment> \<open>\<open>r{0,n}\<close>\<close>
  "UpTo 0 r = Eps"
| "UpTo (Suc n) r = Alt Eps (Seq r (UpTo n r))"

definition Lit :: "char \<Rightarrow> regex" where
  "Lit c = Cls (\<lambda>d. d = c)"

section \<open>The language of an expression\<close>

inductive in_star :: "(string \<Rightarrow> bool) \<Rightarrow> string \<Rightarrow> bool" for L where
  star_nil: "in_star L []"
| star_app: "L u \<Longrightarrow> u \<noteq> [] \<Longrightarrow> in_star L v \<Longrightarrow> in_star L (u @ v)"

fun lang :: "regex \<Rightarrow> string \<Rightarrow> bool" where
  "lang Empty s = False"
| "lang Eps s = (s = [])"
| "lang (Cls p) s = (\<exists>c. s = [c] \<and> p c)"
| "lang (Seq a b) s = (\<exists>u v. s = u @ v \<and> lang a u \<and> lang b v)"
| "lang (Alt a b) s = (lang a s \<or> lang b s)"
| "lang (Star a) s = in_star (lang a) s"

inductive_cases in_star_ConsE: "in_star L (c # s)"

lemma in_star_Cons: "in_star L (c # s) \<longleftrightarrow> (\<exists>u v. s = u @ v \<and> L (c # u) \<and> in_star L v)"
proof
  assume "in_star L (c # s)"
  then show "\<exists>u v. s = u @ v \<and> L (c # u) \<and> in_star L v"
    by (rule in_star_ConsE) (auto simp: Cons_eq_append_conv)
next
  assume "\<exists>u v. s = u @ v \<and> L (c # u) \<and> in_star L v"
  then show "in_star L (c # s)" by (metis append_Cons list.distinct(1) star_app)
qed

section \<open>The matcher\<close>

fun nullable :: "regex \<Rightarrow> bool" where
  "nullable Empty = False"
| "nullable Eps = True"
| "nullable (Cls _) = False"
| "nullable (Seq a b) = (nullable a \<and> nullable b)"
| "nullable (Alt a b) = (nullable a \<or> nullable b)"
| "nullable (Star _) = True"

fun deriv :: "char \<Rightarrow> regex \<Rightarrow> regex" where
  "deriv c Empty = Empty"
| "deriv c Eps = Empty"
| "deriv c (Cls p) = (if p c then Eps else Empty)"
| "deriv c (Seq a b) =
     (if nullable a then Alt (Seq (deriv c a) b) (deriv c b) else Seq (deriv c a) b)"
| "deriv c (Alt a b) = Alt (deriv c a) (deriv c b)"
| "deriv c (Star a) = Seq (deriv c a) (Star a)"

fun matches :: "regex \<Rightarrow> string \<Rightarrow> bool" where
  "matches r [] = nullable r"
| "matches r (c # s) = matches (deriv c r) s"

definition Any :: regex where
  "Any = Star (Cls (\<lambda>_. True))"

definition search :: "regex \<Rightarrow> string \<Rightarrow> bool" where
  "search r s = matches (Seq Any (Seq r Any)) s"

lemma nullable_lang: "nullable r \<longleftrightarrow> lang r []"
  by (induction r) (auto intro: star_nil)

lemma deriv_lang: "lang (deriv c r) s \<longleftrightarrow> lang r (c # s)"
proof (induction r arbitrary: s)
  case (Seq a b)
  have split: "(\<exists>u v. c # s = u @ v \<and> lang a u \<and> lang b v)
    \<longleftrightarrow> (lang a [] \<and> lang b (c # s)) \<or> (\<exists>u v. s = u @ v \<and> lang a (c # u) \<and> lang b v)"
    by (auto simp: Cons_eq_append_conv)
  show ?case using Seq by (auto simp: split nullable_lang)
next
  case (Star a)
  then show ?case by (auto simp: in_star_Cons)
qed auto

lemma matches_lang: "matches r s \<longleftrightarrow> lang r s"
  by (induction s arbitrary: r) (simp_all add: nullable_lang deriv_lang)

section \<open>Languages of the derived forms\<close>

lemma lang_Seq_Cls [simp]:
  "lang (Seq (Cls p) r) s \<longleftrightarrow> (case s of [] \<Rightarrow> False | c # t \<Rightarrow> p c \<and> lang r t)"
  by (cases s) (auto intro: exI [where x = "[_]"])

lemma in_star_Cls: "in_star (lang (Cls p)) s \<longleftrightarrow> (\<forall>c \<in> set s. p c)"
proof (induction s)
  case Nil
  then show ?case by (simp add: star_nil)
next
  case (Cons a s)
  then show ?case by (auto simp: in_star_Cons)
qed

lemma lang_Star_Cls: "lang (Star (Cls p)) s \<longleftrightarrow> (\<forall>c \<in> set s. p c)"
  by (simp only: lang.simps in_star_Cls)

lemma lang_Plus_Cls [simp]: "lang (Plus (Cls p)) s \<longleftrightarrow> s \<noteq> [] \<and> (\<forall>c \<in> set s. p c)"
  by (simp only: Plus_def lang_Seq_Cls lang_Star_Cls split: list.splits) auto

lemma lang_Lit [simp]: "lang (Lit c) s \<longleftrightarrow> s = [c]"
  by (auto simp: Lit_def)

lemma lang_Times_Cls: "lang (Times n (Cls p)) s \<longleftrightarrow> length s = n \<and> (\<forall>c \<in> set s. p c)"
proof (induction n arbitrary: s)
  case 0
  then show ?case by auto
next
  case (Suc n)
  then show ?case by (simp only: Times.simps lang_Seq_Cls split: list.splits) auto
qed

lemma lang_Any: "lang Any s"
  unfolding Any_def lang_Star_Cls by simp

lemma search_lang: "search r s \<longleftrightarrow> (\<exists>u m v. s = u @ m @ v \<and> lang r m)"
  by (auto simp: search_def matches_lang lang_Any)

lemma search_Cls: "search (Cls p) s \<longleftrightarrow> (\<exists>c \<in> set s. p c)"
  by (auto simp: search_lang) (metis split_list append_Cons append_Nil)

end
