(* ===== verification/JsNumber.thy ===== *)
theory JsNumber
  imports JsString
begin

text \<open>
  The numbers of the language: rounding a rational to the nearest double (ties to even), the
  operators the client applies to numbers, and the three readings of a string as a number
  (\<open>parseFloat\<close>, \<open>Number\<close>, \<open>parseInt\<close>).
\<close>

section \<open>Rounding to a double\<close>

fun nbits :: "nat \<Rightarrow> nat" where
  "nbits n = (if n = 0 then 0 else Suc (nbits (n div 2)))"

declare nbits.simps [simp del]

definition pow2 :: "int \<Rightarrow> rat" where
  "pow2 e = (if 0 \<le> e then 2 ^ nat e else 1 / 2 ^ nat (- e))"

text \<open>The exponent of a positive rational: \<open>pow2 (ilog2 q) \<le> q < pow2 (ilog2 q + 1)\<close>.\<close>

definition ilog2 :: "rat \<Rightarrow> int" where
  "ilog2 q =
     (let (n, d) = quotient_of q; e = int (nbits (nat n)) - int (nbits (nat d))
      in if pow2 e \<le> q then e else e - 1)"

definition round_even :: "rat \<Rightarrow> int" where
  "round_even q =
     (let f = \<lfloor>q\<rfloor>; r = q - of_int f
      in if r < 1 / 2 then f else if 1 / 2 < r then f + 1 else if even f then f else f + 1)"

definition to_double :: "rat \<Rightarrow> jsnum" where
  "to_double q =
     (if q = 0 then Fin 0
      else let e = max (ilog2 \<bar>q\<bar> - 52) (- 1074);
               v = of_int (round_even (\<bar>q\<bar> / pow2 e)) * pow2 e
           in if 2 ^ 1024 \<le> v then (if 0 < q then PosInf else NegInf) else Fin (sgn q * v))"

lemma pow2_pos [simp]: "0 < pow2 e"
  by (simp add: pow2_def)

lemma pow2_nonneg: "0 \<le> e \<Longrightarrow> pow2 e = 2 ^ nat e"
  by (simp add: pow2_def)

lemma nbits_bounds: "0 < n \<Longrightarrow> 2 ^ (nbits n - 1) \<le> n \<and> n < 2 ^ nbits n \<and> 0 < nbits n"
proof (induction n rule: nbits.induct)
  case (1 n)
  show ?case
  proof (cases "n div 2 = 0")
    case True
    with "1.prems" have "n = 1" by simp
    then show ?thesis by (simp add: nbits.simps)
  next
    case False
    then have IH: "2 ^ (nbits (n div 2) - 1) \<le> n div 2" "n div 2 < 2 ^ nbits (n div 2)"
      "0 < nbits (n div 2)" using 1 by simp_all
    have nb: "nbits n = Suc (nbits (n div 2))" using "1.prems" by (subst nbits.simps) simp
    have "(2::nat) ^ nbits (n div 2) = 2 * 2 ^ (nbits (n div 2) - 1)"
      using IH(3) by (metis Suc_diff_1 power_Suc)
    then have "2 ^ nbits (n div 2) \<le> n" and "n < 2 * 2 ^ nbits (n div 2)"
      using IH(1,2) by linarith+
    then show ?thesis by (simp add: nb)
  qed
qed

text \<open>For an integer the exponent is the position of the leading bit.\<close>

lemma ilog2_nat: "0 < n \<Longrightarrow> ilog2 (of_nat n) = int (nbits n) - 1"
proof -
  assume n: "0 < n"
  have e: "nbits (Suc 0) = 1" by (simp add: nbits.simps)
  have "pow2 (int (nbits n) - 1) = of_nat (2 ^ (nbits n - 1))"
    using nbits_bounds [OF n] by (simp add: pow2_def nat_diff_distrib)
  also have "\<dots> \<le> of_nat n" using nbits_bounds [OF n] by (simp only: of_nat_le_iff)
  finally show ?thesis by (simp add: ilog2_def Let_def e)
qed

lemma round_even_int [simp]: "round_even (of_int k) = k"
  by (simp add: round_even_def)

text \<open>
  Every integer of magnitude at most \<open>2^53\<close> is a double: rounding leaves it unchanged.
\<close>

lemma nbits_le: "n < 2 ^ k \<Longrightarrow> nbits n \<le> k"
proof (rule ccontr)
  assume n: "n < 2 ^ k" and "\<not> nbits n \<le> k"
  then have k: "k \<le> nbits n - 1" and pos: "0 < n" by (cases n; simp add: nbits.simps)+
  have "(2::nat) ^ k \<le> 2 ^ (nbits n - 1)" using k by simp
  with nbits_bounds [OF pos] n show False by linarith
qed

lemma to_double_small_nat:
  assumes "0 < n" and "n < 2 ^ 53"
  shows "to_double (of_nat n) = Fin (of_nat n)"
proof -
  let ?L = "int (nbits n) - 1"
  have L: "ilog2 \<bar>of_nat n\<bar> = ?L" using ilog2_nat [OF assms(1)] by simp
  have nb: "nbits n \<le> 53" using nbits_le [OF assms(2)] .
  have pos: "0 < nbits n" using nbits_bounds [OF assms(1)] by simp
  define e where "e = ?L - 52"
  have e: "max (ilog2 \<bar>of_nat n\<bar> - 52) (- 1074) = e" "e \<le> 0"
    using nb pos unfolding L e_def by simp_all
  have "(of_nat n :: rat) / pow2 e = of_int (int n * 2 ^ nat (- e))"
    using e(2) by (simp add: pow2_def)
  then have r: "of_int (round_even (of_nat n / pow2 e)) * pow2 e = (of_nat n :: rat)"
    by (simp only: round_even_int) (use e(2) in \<open>simp add: pow2_def\<close>)
  have "(of_nat n :: rat) < of_nat (2 ^ 53)" using assms(2) by (simp only: of_nat_less_iff)
  also have "\<dots> \<le> 2 ^ 1024" by simp
  finally have "\<not> (2 ^ 1024 \<le> (of_nat n :: rat))" by simp
  then show ?thesis
    using assms(1) r unfolding to_double_def e(1) by (simp add: Let_def)
qed

lemma to_double_0 [simp]: "to_double 0 = Fin 0"
  by (simp add: to_double_def)

lemma to_double_nat: "n < 2 ^ 53 \<Longrightarrow> to_double (of_nat n) = Fin (of_nat n)"
  by (cases "n = 0") (simp_all add: to_double_small_nat)

lemma to_double_numeral:
  "(numeral k :: nat) < 2 ^ 53 \<Longrightarrow> to_double (numeral k) = Fin (numeral k)"
  using to_double_nat [of "numeral k"] by simp

section \<open>Operators\<close>

fun num_lt :: "jsnum \<Rightarrow> jsnum \<Rightarrow> bool" where
  "num_lt (Fin a) (Fin b) = (a < b)"
| "num_lt (Fin _) PosInf = True"
| "num_lt NegInf (Fin _) = True"
| "num_lt NegInf PosInf = True"
| "num_lt _ _ = False"

abbreviation num_gt :: "jsnum \<Rightarrow> jsnum \<Rightarrow> bool" where
  "num_gt a b \<equiv> num_lt b a"

lemma num_lt_NaN [simp]: "\<not> num_lt NaN a" "\<not> num_lt a NaN"
  by (cases a; simp)+

lemma num_lt_trans: "num_lt a b \<Longrightarrow> num_lt b c \<Longrightarrow> num_lt a c"
  by (cases a; cases b; cases c) auto

lemma num_lt_irrefl [simp]: "\<not> num_lt a a"
  by (cases a) auto

text \<open>\<open>a >= b\<close> is false when either side is NaN, so it is not the negation of \<open><\<close>.\<close>

definition num_ge :: "jsnum \<Rightarrow> jsnum \<Rightarrow> bool" where
  "num_ge a b \<longleftrightarrow> a \<noteq> NaN \<and> b \<noteq> NaN \<and> \<not> num_lt a b"

text \<open>Strict equality \<open>===\<close> of numbers.\<close>

definition num_eq :: "jsnum \<Rightarrow> jsnum \<Rightarrow> bool" where
  "num_eq a b \<longleftrightarrow> a = b \<and> a \<noteq> NaN"

fun num_mul :: "jsnum \<Rightarrow> jsnum \<Rightarrow> jsnum" where
  "num_mul (Fin a) (Fin b) = to_double (a * b)"
| "num_mul NaN _ = NaN"
| "num_mul _ NaN = NaN"
| "num_mul (Fin a) b = (if a = 0 then NaN else if (0 < a) = (b = PosInf) then PosInf else NegInf)"
| "num_mul a (Fin b) = (if b = 0 then NaN else if (0 < b) = (a = PosInf) then PosInf else NegInf)"
| "num_mul a b = (if a = b then PosInf else NegInf)"

text \<open>The remainder \<open>a % b\<close> takes the sign of the dividend.\<close>

definition truncate :: "rat \<Rightarrow> int" where
  "truncate q = (if 0 \<le> q then \<lfloor>q\<rfloor> else \<lceil>q\<rceil>)"

fun num_rem :: "jsnum \<Rightarrow> jsnum \<Rightarrow> jsnum" where
  "num_rem (Fin a) (Fin b) = (if b = 0 then NaN else Fin (a - b * of_int (truncate (a / b))))"
| "num_rem (Fin a) PosInf = Fin a"
| "num_rem (Fin a) NegInf = Fin a"
| "num_rem _ _ = NaN"

lemma num_rem_1: "num_rem (Fin a) (Fin 1) = Fin 0 \<longleftrightarrow> a \<in> \<int>"
proof
  assume "num_rem (Fin a) (Fin 1) = Fin 0"
  then have "a = of_int (truncate a)" by simp
  then show "a \<in> \<int>" by (metis Ints_of_int)
next
  assume "a \<in> \<int>"
  then obtain k where "a = of_int k" by (auto elim: Ints_cases)
  then show "num_rem (Fin a) (Fin 1) = Fin 0" by (simp add: truncate_def)
qed

text \<open>\<open>Math.round\<close>: halves go up.\<close>

fun num_round :: "jsnum \<Rightarrow> jsnum" where
  "num_round (Fin q) = Fin (of_int \<lfloor>q + 1 / 2\<rfloor>)"
| "num_round a = a"

section \<open>Readings of a string\<close>

text \<open>
  An unsigned decimal literal at the start of a string: digits, an optional fraction and an
  optional exponent, with the rest of the string.
\<close>

definition mantissa :: "string \<Rightarrow> (rat \<times> string) option" where
  "mantissa s =
     (let i = takeWhile is_digit s; r = dropWhile is_digit s
      in case r of
           [] \<Rightarrow> if i = [] then None else Some (of_nat (nat_of_digits i), r)
         | c # r' \<Rightarrow>
             if c = CHR ''.''
             then let f = takeWhile is_digit r'
                  in if i = [] \<and> f = [] then None
                     else Some (of_nat (nat_of_digits (i @ f)) / 10 ^ length f, dropWhile is_digit r')
             else if i = [] then None else Some (of_nat (nat_of_digits i), r))"

definition sign_of :: "string \<Rightarrow> rat \<times> string" where
  "sign_of s =
     (case s of
        [] \<Rightarrow> (1, s)
      | c # r \<Rightarrow> if c = CHR ''-'' then (- 1, r) else if c = CHR ''+'' then (1, r) else (1, s))"

definition exponent_part :: "string \<Rightarrow> int \<times> string" where
  "exponent_part s =
     (case s of
        [] \<Rightarrow> (0, s)
      | c # r \<Rightarrow>
          if c = CHR ''e'' \<or> c = CHR ''E''
          then let (sg, t) = sign_of r; d = takeWhile is_digit t
               in if d = [] then (0, s)
                  else ((if sg < 0 then - int (nat_of_digits d) else int (nat_of_digits d)),
                        dropWhile is_digit t)
          else (0, s))"

definition scale10 :: "rat \<Rightarrow> int \<Rightarrow> rat" where
  "scale10 q e = (if 0 \<le> e then q * 10 ^ nat e else q / 10 ^ nat (- e))"

text \<open>A signed decimal literal or \<open>Infinity\<close>.\<close>

definition decimal :: "string \<Rightarrow> (jsnum \<times> string) option" where
  "decimal s =
     (let (sg, t) = sign_of s
      in if starts_with t ''Infinity'' then Some (if sg < 0 then NegInf else PosInf, drop 8 t)
         else case mantissa t of
                None \<Rightarrow> None
              | Some (m, r) \<Rightarrow>
                  let (e, r') = exponent_part r in Some (to_double (sg * scale10 m e), r'))"

definition parse_float :: "string \<Rightarrow> jsnum" where
  "parse_float s = (case decimal (dropWhile is_space s) of None \<Rightarrow> NaN | Some (v, _) \<Rightarrow> v)"

text \<open>\<open>Number(s)\<close> reads the whole string, and knows the prefixes \<open>0x\<close>, \<open>0o\<close>, \<open>0b\<close>.\<close>

definition radix_digit :: "char \<Rightarrow> nat option" where
  "radix_digit c =
     (if is_digit c then Some (code c - 48)
      else if is_lower c then Some (code c - 87)
      else if is_upper c then Some (code c - 55)
      else None)"

definition radix_ok :: "nat \<Rightarrow> char \<Rightarrow> bool" where
  "radix_ok b c = (case radix_digit c of None \<Rightarrow> False | Some d \<Rightarrow> d < b)"

definition radix_value :: "nat \<Rightarrow> string \<Rightarrow> nat" where
  "radix_value b s = foldl (\<lambda>n c. b * n + the (radix_digit c)) 0 s"

definition radix_prefix :: "string \<Rightarrow> nat option" where
  "radix_prefix s =
     (if starts_with s ''0x'' \<or> starts_with s ''0X'' then Some 16
      else if starts_with s ''0o'' \<or> starts_with s ''0O'' then Some 8
      else if starts_with s ''0b'' \<or> starts_with s ''0B'' then Some 2
      else None)"

definition to_number :: "string \<Rightarrow> jsnum" where
  "to_number s =
     (let t = trim s
      in if t = [] then Fin 0
         else case radix_prefix t of
                Some b \<Rightarrow>
                  let d = drop 2 t
                  in if d \<noteq> [] \<and> list_all (radix_ok b) d then to_double (of_nat (radix_value b d))
                     else NaN
              | None \<Rightarrow>
                  (case decimal t of Some (v, []) \<Rightarrow> v | _ \<Rightarrow> NaN))"

text \<open>\<open>parseInt(s)\<close> without a radix.\<close>

definition parse_int :: "string \<Rightarrow> jsnum" where
  "parse_int s =
     (let (sg, t) = sign_of (dropWhile is_space s);
          hex = starts_with t ''0x'' \<or> starts_with t ''0X'';
          b = (if hex then 16 else 10);
          d = takeWhile (radix_ok b) (if hex then drop 2 t else t)
      in if d = [] then NaN else to_double (sg * of_nat (radix_value b d)))"

subsection \<open>Strings of digits\<close>

text \<open>On a string of digits the three readings agree with the decimal value.\<close>

definition digits :: "string \<Rightarrow> bool" where
  "digits s \<longleftrightarrow> s \<noteq> [] \<and> list_all is_digit s"

lemma digits_show_nat [simp]: "digits (show_nat n)"
  by (auto simp: digits_def list_all_iff dest: show_nat_digits)

lemma digits_takeWhile: "digits s \<Longrightarrow> takeWhile is_digit s = s \<and> dropWhile is_digit s = []"
  by (auto simp: digits_def list_all_iff takeWhile_eq_all_conv dropWhile_eq_Nil_conv)

lemma digits_nonempty: "digits s \<Longrightarrow> (s = []) = False"
  by (simp add: digits_def)

lemma digits_hd: "digits s \<Longrightarrow> is_digit (hd s)"
  by (cases s) (auto simp: digits_def)

lemma digits_dropWhile_space: "digits s \<Longrightarrow> dropWhile is_space s = s"
  by (cases s) (auto simp: digits_def)

lemma digits_sign: "digits s \<Longrightarrow> sign_of s = (1, s)"
  by (cases s) (auto simp: digits_def sign_of_def is_digit_def)

lemma digits_not_Infinity: "digits s \<Longrightarrow> \<not> starts_with s ''Infinity''"
  by (cases s) (auto simp: digits_def starts_with_def is_digit_def)

lemma decimal_digits:
  assumes "digits s"
  shows "decimal s = Some (to_double (of_nat (nat_of_digits s)), [])"
proof -
  have "mantissa s = Some (of_nat (nat_of_digits s), [])"
    unfolding mantissa_def Let_def
    using digits_takeWhile [OF assms, THEN conjunct1] digits_takeWhile [OF assms, THEN conjunct2]
      digits_nonempty [OF assms] by (simp only: list.case if_False)
  then show ?thesis
    using assms
    by (simp add: decimal_def digits_sign digits_not_Infinity exponent_part_def scale10_def)
qed

lemma parse_float_digits:
  "digits s \<Longrightarrow> parse_float s = to_double (of_nat (nat_of_digits s))"
  by (simp add: parse_float_def digits_dropWhile_space decimal_digits)

lemma parse_float_show_nat: "n < 2 ^ 53 \<Longrightarrow> parse_float (show_nat n) = Fin (of_nat n)"
  by (simp only: parse_float_digits digits_show_nat nat_of_digits_show_nat to_double_nat)

lemma takeWhile_radix: "list_all is_digit s \<Longrightarrow> takeWhile (radix_ok 10) s = s"
  by (induction s) (auto simp: radix_ok_def radix_digit_def is_digit_def)

lemma radix_value_10: "list_all is_digit s \<Longrightarrow> radix_value 10 s = nat_of_digits s"
  unfolding radix_value_def nat_of_digits_def
  by (induction s rule: rev_induct) (auto simp: radix_digit_def digit_val_def is_digit_def)

lemma parse_int_digits:
  assumes "digits s" and "nat_of_digits s < 2 ^ 53"
  shows "parse_int s = Fin (of_nat (nat_of_digits s))"
proof -
  have d: "list_all is_digit s" "s \<noteq> []" using assms(1) by (simp_all add: digits_def)
  have not_prefix: "\<not> starts_with s [a, x]" if "\<not> is_digit x" for a x
  proof
    assume "starts_with s [a, x]"
    then have "x \<in> set s" by (auto simp: starts_with_iff)
    with that d(1) show False by (auto simp: list_all_iff)
  qed
  have "\<not> starts_with s ''0x'' \<and> \<not> starts_with s ''0X''" by (simp add: not_prefix is_digit_def)
  then show ?thesis
    using assms to_double_nat [OF assms(2)] d
    by (simp add: parse_int_def digits_dropWhile_space digits_sign takeWhile_radix radix_value_10)
qed

end
