(* ===== verification/Formatting.thy ===== *)
theory Formatting
  imports RegExp JsNumber
begin

text \<open>
  The pure helpers of \<^verbatim>\<open>src/client/src/utils\<close>: the masks of the card form
  (\<^verbatim>\<open>format-credit-card.ts\<close>), the password rule (\<^verbatim>\<open>validate-password.ts\<close>), the currency
  helpers (\<^verbatim>\<open>format_currency.ts\<close>, \<^verbatim>\<open>convert_currency.ts\<close>, \<^verbatim>\<open>symbol_currency.ts\<close>) and the
  cookie options (\<^verbatim>\<open>cookie.ts\<close>).

  Two pieces of code outside the repository are parameters: \<open>cardType\<close>, the issuer that
  \<open>Payment.fns.cardType\<close> of the package \<^verbatim>\<open>payment\<close> finds for a number (\<open>None\<close> for
  its \<open>null\<close>), and \<open>intl\<close>, the \<open>Intl.NumberFormat\<close> of the host with the locale
  data it carries.
\<close>

section \<open>Card masks\<close>

definition clearNumber :: "string \<Rightarrow> string" where
  "clearNumber value = filter is_digit value"

definition formatCreditCardNumber :: "(string \<Rightarrow> string option) \<Rightarrow> string \<Rightarrow> string" where
  "formatCreditCardNumber cardType value =
     (if value = [] then value
      else
        let issuer = cardType value;
            clearValue = clearNumber value;
            nextValue =
              (if issuer = Some ''amex'' then
                 slice clearValue 0 4 @ '' '' @ slice clearValue 4 10 @ '' '' @ slice clearValue 10 15
               else if issuer = Some ''dinersclub'' then
                 slice clearValue 0 4 @ '' '' @ slice clearValue 4 10 @ '' '' @ slice clearValue 10 14
               else
                 slice clearValue 0 4 @ '' '' @ slice clearValue 4 8 @ '' '' @
                 slice clearValue 8 12 @ '' '' @ slice clearValue 12 19)
        in trim nextValue)"

definition formatCVC :: "(string \<Rightarrow> string option) \<Rightarrow> string \<Rightarrow> string \<Rightarrow> string" where
  "formatCVC cardType value cardNumber =
     (let clearValue = clearNumber value;
          maxLength = (if cardNumber \<noteq> [] then (if cardType cardNumber = Some ''amex'' then 4 else 3)
                       else 3)
      in slice clearValue 0 maxLength)"

definition formatExpirationDate :: "string \<Rightarrow> string" where
  "formatExpirationDate value =
     (let clearValue = clearNumber value
      in if 3 \<le> length clearValue
         then slice clearValue 0 2 @ ''/'' @ slice clearValue 2 4
         else clearValue)"

text \<open>The fields of the record in the order \<open>Object.keys\<close> lists them.\<close>

definition formatFormData :: "(string \<times> string) list \<Rightarrow> string list" where
  "formatFormData data = map (\<lambda>(key, v). key @ '': '' @ v) data"

text \<open>The number of digits each mask keeps.\<close>

definition mask_digits :: "string option \<Rightarrow> nat" where
  "mask_digits issuer =
     (if issuer = Some ''amex'' then 15 else if issuer = Some ''dinersclub'' then 14 else 19)"

lemma clearNumber_append [simp]: "clearNumber (a @ b) = clearNumber a @ clearNumber b"
  by (simp add: clearNumber_def)

lemma clearNumber_space [simp]: "clearNumber ('' '') = []"
  by (simp add: clearNumber_def)

lemma clearNumber_Cons_space [simp]: "clearNumber (CHR '' '' # s) = clearNumber s"
  by (simp add: clearNumber_def)

lemma clearNumber_idem [simp]: "clearNumber (clearNumber s) = clearNumber s"
  by (simp add: clearNumber_def)

lemma clearNumber_all_digits: "\<forall>c \<in> set s. is_digit c \<Longrightarrow> clearNumber s = s"
  by (simp add: clearNumber_def filter_id_conv)

lemma set_clearNumber: "c \<in> set (clearNumber s) \<Longrightarrow> is_digit c"
  by (auto simp: clearNumber_def)

lemma clearNumber_slice [simp]:
  "clearNumber (slice (clearNumber s) i j) = slice (clearNumber s) i j"
  by (rule clearNumber_all_digits) (use set_slice set_clearNumber in blast)

lemma filter_dropWhile_neg: "(\<And>x. Q x \<Longrightarrow> \<not> P x) \<Longrightarrow> filter P (dropWhile Q xs) = filter P xs"
  by (induction xs) auto

text \<open>Trimming does not lose a digit.\<close>

lemma clearNumber_trim [simp]: "clearNumber (trim s) = clearNumber s"
proof -
  have "filter is_digit (trim_end t) = filter is_digit t" for t
    unfolding trim_end_def rev_filter [symmetric]
    by (subst filter_dropWhile_neg) (auto simp: rev_filter)
  moreover have "filter is_digit (dropWhile is_space s) = filter is_digit s"
    by (rule filter_dropWhile_neg) auto
  ultimately show ?thesis by (simp add: clearNumber_def trim_def)
qed

text \<open>
  Masking keeps exactly the first digits of the input, in order, as many as the mask of the
  issuer has places for.
\<close>

lemma clearNumber_format:
  "clearNumber (formatCreditCardNumber cardType v) =
     take (mask_digits (cardType v)) (clearNumber v)"
proof (cases "v = []")
  case True
  then show ?thesis by (simp add: formatCreditCardNumber_def clearNumber_def)
next
  case False
  have 1: "slice (clearNumber v) 0 4 @ slice (clearNumber v) 4 10 @ slice (clearNumber v) 10 n =
      take n (clearNumber v)" if "10 \<le> n" for n
    using that by (simp add: slice_append flip: slice_0)
  have 2: "slice (clearNumber v) 0 4 @ slice (clearNumber v) 4 8 @ slice (clearNumber v) 8 12 @
      slice (clearNumber v) 12 19 = take 19 (clearNumber v)"
    by (simp add: slice_append flip: slice_0)
  show ?thesis
    using False 1 [of 15] 1 [of 14] 2
    by (simp add: formatCreditCardNumber_def Let_def mask_digits_def)
qed

lemma mask_depends_on_digits:
  assumes "clearNumber v = clearNumber w" and "cardType v = cardType w" and "v \<noteq> []" and "w \<noteq> []"
  shows "formatCreditCardNumber cardType v = formatCreditCardNumber cardType w"
  using assms by (simp add: formatCreditCardNumber_def)

definition mask_layout :: "string option \<Rightarrow> string \<Rightarrow> string" where
  "mask_layout issuer d = formatCreditCardNumber (\<lambda>_. issuer) d"

lemma slice_take: "j \<le> n \<Longrightarrow> slice (take n s) i j = slice s i j"
  by (simp add: slice_def drop_take min_def)

text \<open>
  C38 The card mask keeps the first digits of what was typed, in order (15 for amex, 14 for
  dinersclub, 19 otherwise), and adds nothing but single characters of white space: whatever
  the issuer test answers, the masked text has only digits and blanks.
\<close>

theorem card_mask_digits:
  "clearNumber (formatCreditCardNumber cardType v) = take (mask_digits (cardType v)) (clearNumber v)
   \<and> (v \<noteq> [] \<longrightarrow> set (formatCreditCardNumber cardType v) \<subseteq> {c. is_digit c} \<union> {CHR '' ''})"
proof (intro conjI impI)
  show "clearNumber (formatCreditCardNumber cardType v) =
      take (mask_digits (cardType v)) (clearNumber v)"
    by (rule clearNumber_format)
  assume "v \<noteq> []"
  have s: "c \<in> set (slice (clearNumber v) i j) \<Longrightarrow> is_digit c" for c i j
    using set_slice set_clearNumber by blast
  have t: "set (trim u) \<subseteq> set u" for u
    unfolding trim_def trim_end_def by (auto dest!: set_dropWhileD)
  show "set (formatCreditCardNumber cardType v) \<subseteq> {c. is_digit c} \<union> {CHR '' ''}"
    using \<open>v \<noteq> []\<close> unfolding formatCreditCardNumber_def Let_def
    by (auto dest!: subsetD [OF t] dest: s split: if_splits)
qed

theorem card_mask_digits_witness:
  "set (formatCreditCardNumber (\<lambda>_. None) ''4111-1111'') \<subseteq> {c. is_digit c} \<union> {CHR '' ''}"
  using card_mask_digits [of "\<lambda>_. None" "''4111-1111''"] by simp

lemma format_mask_layout:
  assumes "clearNumber v \<noteq> []"
  shows "formatCreditCardNumber cardType v = mask_layout (cardType v) (clearNumber v)"
  using assms unfolding mask_layout_def formatCreditCardNumber_def [of cardType v]
    formatCreditCardNumber_def [of "\<lambda>_. cardType v" "clearNumber v"]
  by (auto simp: clearNumber_def)

lemma mask_layout_take:
  assumes "take (mask_digits issuer) d \<noteq> []" and "clearNumber d = d"
  shows "mask_layout issuer (take (mask_digits issuer) d) = mask_layout issuer d"
proof -
  have "clearNumber (take n d) = take n d" for n
    using assms(2) by (metis clearNumber_all_digits in_set_takeD set_clearNumber)
  then show ?thesis
    using assms unfolding mask_layout_def formatCreditCardNumber_def Let_def
    by (auto simp: slice_take mask_digits_def)
qed

text \<open>
  Masking is idempotent: a masked number, masked again (as happens on every key stroke,
  since the field shows the masked text), stays as it is, provided the issuer found for the
  masked text is the one found for the typed text.
\<close>

lemma card_mask_idempotent:
  assumes "cardType (formatCreditCardNumber cardType v) = cardType v"
  shows "formatCreditCardNumber cardType (formatCreditCardNumber cardType v) =
    formatCreditCardNumber cardType v"
proof (cases "clearNumber (formatCreditCardNumber cardType v) = []")
  case True
  then have "clearNumber v = []" by (auto simp: clearNumber_format mask_digits_def split: if_splits)
  then have "formatCreditCardNumber cardType v = []"
    by (simp add: formatCreditCardNumber_def Let_def slice_def trim_def trim_end_def is_space_def)
  then show ?thesis by (simp add: formatCreditCardNumber_def)
next
  case False
  then have ne: "clearNumber v \<noteq> []" by (auto simp: clearNumber_format)
  let ?f = "formatCreditCardNumber cardType v"
  have "formatCreditCardNumber cardType ?f =
      mask_layout (cardType v) (take (mask_digits (cardType v)) (clearNumber v))"
    using format_mask_layout [OF False, of cardType] assms by (simp add: clearNumber_format)
  also have "\<dots> = mask_layout (cardType v) (clearNumber v)"
    by (rule mask_layout_take) (use False in \<open>simp_all add: clearNumber_format\<close>)
  also have "\<dots> = ?f" using format_mask_layout [OF ne] by simp
  finally show ?thesis .
qed

lemma card_mask_idempotent_witness:
  "formatCreditCardNumber (\<lambda>_. Some ''amex'') (formatCreditCardNumber (\<lambda>_. Some ''amex'') ''3782 822463 1'')
   = ''3782 822463 1''"
proof -
  have f: "formatCreditCardNumber (\<lambda>_. Some ''amex'') ''3782 822463 1'' = ''3782 822463 1''"
    by (simp add: formatCreditCardNumber_def clearNumber_def slice_def trim_def trim_end_def
        is_digit_def is_space_def)
  show ?thesis
    using card_mask_idempotent [of "\<lambda>_. Some ''amex''" "''3782 822463 1''"] f by simp
qed

section \<open>Passwords\<close>

definition minLength :: regex where
  "minLength = Seq (Times 8 (Cls is_dot_class)) (Star (Cls is_dot_class))"

definition is_special :: "char \<Rightarrow> bool" where
  "is_special c \<longleftrightarrow> c \<in> set ''!@#$%^&*(),.?\":{}|<>''"

definition validatePassword :: "string \<Rightarrow> bool" where
  "validatePassword password \<longleftrightarrow>
     search minLength password \<and>
     search (Cls is_upper) password \<and>
     search (Cls is_lower) password \<and>
     search (Cls is_digit) password \<and>
     search (Cls is_special) password"

text \<open>The length rule asks for eight consecutive characters on one line.\<close>

lemma search_minLength:
  "search minLength s \<longleftrightarrow>
     (\<exists>u m v. s = u @ m @ v \<and> length m = 8 \<and> (\<forall>c \<in> set m. is_dot_class c))"
proof
  assume "search minLength s"
  then obtain u a b v where s: "s = u @ (a @ b) @ v" and a: "lang (Times 8 (Cls is_dot_class)) a"
    by (auto simp: search_lang minLength_def simp del: Times.simps)
  from a have "length a = 8 \<and> (\<forall>c \<in> set a. is_dot_class c)"
    using lang_Times_Cls by blast
  with s show "\<exists>u m v. s = u @ m @ v \<and> length m = 8 \<and> (\<forall>c \<in> set m. is_dot_class c)"
    by (metis append_assoc)
next
  assume "\<exists>u m v. s = u @ m @ v \<and> length m = 8 \<and> (\<forall>c \<in> set m. is_dot_class c)"
  then obtain u m v where s: "s = u @ m @ v" and m: "length m = 8" "\<forall>c \<in> set m. is_dot_class c"
    by blast
  have "lang (Times 8 (Cls is_dot_class)) m" using m by (simp only: lang_Times_Cls)
  moreover have "lang (Star (Cls is_dot_class)) []" by (simp only: lang_Star_Cls) simp
  ultimately have "lang minLength (m @ [])" unfolding minLength_def lang.simps(4) by blast
  with s show "search minLength s" by (auto simp: search_lang)
qed

lemma validatePassword_iff:
  "validatePassword s \<longleftrightarrow>
     (\<exists>u m v. s = u @ m @ v \<and> length m = 8 \<and> (\<forall>c \<in> set m. is_dot_class c)) \<and>
     (\<exists>c \<in> set s. is_upper c) \<and> (\<exists>c \<in> set s. is_lower c) \<and>
     (\<exists>c \<in> set s. is_digit c) \<and> (\<exists>c \<in> set s. is_special c)"
  by (simp only: validatePassword_def search_minLength search_Cls)

text \<open>On a single line the rule is the usual one: eight characters and the four classes.\<close>

lemma search_minLength_line:
  assumes "\<forall>c \<in> set s. is_dot_class c"
  shows "search minLength s \<longleftrightarrow> 8 \<le> length s"
proof
  assume "search minLength s"
  then show "8 \<le> length s" by (auto simp: search_minLength)
next
  assume "8 \<le> length s"
  then have "s = [] @ take 8 s @ drop 8 s \<and> length (take 8 s) = 8" by simp
  moreover have "\<forall>c \<in> set (take 8 s). is_dot_class c" using assms by (meson in_set_takeD)
  ultimately show "search minLength s" unfolding search_minLength by blast
qed

section \<open>Currencies\<close>

text \<open>
  \<open>formatCurrency\<close> of the source takes any balance and any currency; a falsy currency gives
  the text \<open>error\<close>. The number format of the host may throw (an ill-formed currency code).
\<close>

type_synonym intl_format = "jsval \<Rightarrow> jsval \<Rightarrow> string throws"

definition formatCurrency :: "intl_format \<Rightarrow> jsval \<Rightarrow> jsval \<Rightarrow> string throws" where
  "formatCurrency intl balance currency =
     (if \<not> truthy currency then Inr ''error'' else intl currency balance)"

definition is_numeric_char :: "char \<Rightarrow> bool" where   \<comment> \<open>\<open>[\d.-]\<close>\<close>
  "is_numeric_char c \<longleftrightarrow> is_digit c \<or> c = CHR ''.'' \<or> c = CHR ''-''"

text \<open>
  The look-behind \<open>(?<=\.\d*)\.\<close> removes every dot that a dot precedes with only digits
  between; the flag says whether the scan is inside such a run.
\<close>

fun drop_second_dots :: "bool \<Rightarrow> string \<Rightarrow> string" where
  "drop_second_dots after_dot [] = []"
| "drop_second_dots after_dot (c # s) =
     (if c = CHR ''.'' then (if after_dot then drop_second_dots True s
                             else c # drop_second_dots True s)
      else if is_digit c then c # drop_second_dots after_dot s
      else c # drop_second_dots False s)"

definition unFormatCurrency :: "string \<Rightarrow> jsnum" where
  "unFormatCurrency formattedCurrency =
     (let numericString = drop_second_dots False (filter is_numeric_char formattedCurrency);
          numericValue = parse_float numericString;
          roundedValue = num_round numericValue
      in if roundedValue = NaN then Fin 0 else roundedValue)"

definition convertCurrency :: "jsnum \<Rightarrow> string \<Rightarrow> jsval" where
  "convertCurrency amount currency =
     (if currency = ''VND'' then JNum amount
      else if currency = ''USD'' then JNum (num_mul amount (Fin 25200))
      else if currency = ''ETH'' then JNum amount
      else Undef)"

definition symbolCurrency :: "string \<Rightarrow> string" where
  "symbolCurrency currency =
     (if currency = ''VND'' then ''dd''
      else if currency = ''USD'' then ''$''
      else if currency = ''ETH'' then ''ETH''
      else '' '')"

lemma drop_second_dots_digits:
  "\<forall>c \<in> set s. is_digit c \<Longrightarrow> drop_second_dots b s = s"
  by (induction s arbitrary: b) (auto simp: is_digit_def)

lemma unFormatCurrency_not_NaN: "unFormatCurrency s \<noteq> NaN"
  by (simp add: unFormatCurrency_def Let_def)

lemma unFormatCurrency_integer: "unFormatCurrency s = Fin q \<Longrightarrow> q \<in> \<int>"
proof -
  assume "unFormatCurrency s = Fin q"
  then have "num_round (parse_float (drop_second_dots False (filter is_numeric_char s))) = Fin q
    \<or> q = 0"
    by (auto simp: unFormatCurrency_def Let_def split: if_splits)
  then show "q \<in> \<int>"
    by (cases "parse_float (drop_second_dots False (filter is_numeric_char s))") auto
qed

text \<open>
  Any decoration of a number by symbols and separators other than dots and dashes reads back
  as the number.
\<close>

lemma unFormatCurrency_show_nat:
  assumes "filter is_numeric_char s = show_nat n" and "n < 2 ^ 53"
  shows "unFormatCurrency s = Fin (of_nat n)"
proof -
  have "drop_second_dots False (show_nat n) = show_nat n"
    by (rule drop_second_dots_digits) (auto dest: show_nat_digits)
  moreover have "\<lfloor>rat_of_nat n + 1 / 2\<rfloor> = int n"
    by (rule floor_unique) simp_all
  ultimately show ?thesis
    using assms by (simp add: unFormatCurrency_def parse_float_show_nat)
qed

section \<open>Cookies\<close>

record cookie_options =
  maxAge :: nat     \<comment> \<open>in seconds, as the cookie's \<open>Max-Age\<close> attribute\<close>
  cookie_path :: string

definition setCookie_options :: "string \<Rightarrow> cookie_options" where
  "setCookie_options p = \<lparr>maxAge = 1000 * 60 * 15, cookie_path = p\<rparr>"

end
