(* ===== verification/AuthStore.thy ===== *)
theory AuthStore
  imports Prelude
begin

text \<open>
  The Redux store: the slice of \<^verbatim>\<open>redux/auth/authSlice.ts\<close> (login and registration
  forms, access token), the slice of \<^verbatim>\<open>redux/features/walletSlice.ts\<close>, and their combination
  in \<^verbatim>\<open>redux/store.ts\<close>. Payloads come from the network unchecked, so the fields that hold
  them are arbitrary JavaScript values: the TypeScript types of the source are erased at run
  time. The cache of the query library under \<open>api\<close> is not part of this state.
\<close>

section \<open>State\<close>

record User =
  u_email :: jsval
  u_message :: jsval

record UserState = User +
  u_password :: jsval

record LoginState =
  loginUser :: User
  l_isFetching :: bool
  l_error :: jsval

record RegisterState =
  registerUser :: UserState
  r_isFetching :: bool
  r_error :: jsval

record AuthState =
  login :: LoginState
  register :: RegisterState
  accessToken :: jsval

definition initialAuth :: AuthState where
  "initialAuth =
     \<lparr>login = \<lparr>loginUser = \<lparr>u_email = JStr [], u_message = JStr []\<rparr>,
               l_isFetching = False, l_error = JStr []\<rparr>,
      register = \<lparr>registerUser = \<lparr>u_email = JStr [], u_message = JStr [], u_password = JStr []\<rparr>,
                  r_isFetching = False, r_error = JStr []\<rparr>,
      accessToken = JStr []\<rparr>"

record IWallet =
  isUpdated :: bool

definition initialWallet :: IWallet where
  "initialWallet = \<lparr>isUpdated = False\<rparr>"

record RootState =
  auth :: AuthState
  wallet :: IWallet

definition initialRoot :: RootState where
  "initialRoot = \<lparr>auth = initialAuth, wallet = initialWallet\<rparr>"

section \<open>Actions and reducers\<close>

datatype form = LoginForm | RegisterForm   \<comment> \<open>the payloads \<open>"login"\<close> and \<open>"register"\<close>\<close>

text \<open>
  The life cycle actions of a thunk: a rejected one carries the value given to
  \<open>rejectWithValue\<close> (or \<open>undefined\<close>) and the message of the serialized error.
\<close>

datatype action =
    ClearMessage form
  | ClearError form
  | AddAccessToken jsval
  | RemoveAccessToken
  | LoginPending
  | LoginFulfilled jsval
  | LoginRejected jsval jsval
  | RegisterPending
  | RegisterFulfilled jsval
  | RegisterRejected jsval jsval
  | SetWalletUpdated bool

definition rejection_text :: "jsval \<Rightarrow> jsval \<Rightarrow> jsval" where
  "rejection_text payload msg =
     (if truthy payload then payload else js_or msg (JStr ''Co/ lo^~i xa?y ra!''))"

fun authReducer :: "AuthState \<Rightarrow> action \<Rightarrow> AuthState" where
  "authReducer s (ClearMessage LoginForm) =
     s\<lparr>login := (login s)\<lparr>loginUser := (loginUser (login s))\<lparr>u_message := JStr []\<rparr>\<rparr>\<rparr>"
| "authReducer s (ClearMessage RegisterForm) =
     s\<lparr>register := (register s)\<lparr>registerUser := (registerUser (register s))\<lparr>u_message := JStr []\<rparr>\<rparr>\<rparr>"
| "authReducer s (ClearError LoginForm) = s\<lparr>login := (login s)\<lparr>l_error := JStr []\<rparr>\<rparr>"
| "authReducer s (ClearError RegisterForm) = s\<lparr>register := (register s)\<lparr>r_error := JStr []\<rparr>\<rparr>"
| "authReducer s (AddAccessToken t) = s\<lparr>accessToken := t\<rparr>"
| "authReducer s RemoveAccessToken = s\<lparr>accessToken := JStr []\<rparr>"
| "authReducer s LoginPending =
     s\<lparr>login := (login s)\<lparr>l_isFetching := True, l_error := JStr []\<rparr>\<rparr>"
| "authReducer s (LoginFulfilled p) =
     s\<lparr>login := (login s)\<lparr>
         loginUser := (loginUser (login s))\<lparr>u_email := get_oprop p ''email'',
                                             u_message := get_oprop p ''message''\<rparr>,
         l_isFetching := False, l_error := JStr []\<rparr>\<rparr>"
| "authReducer s (LoginRejected p m) =
     s\<lparr>login := (login s)\<lparr>l_isFetching := False, l_error := rejection_text p m\<rparr>\<rparr>"
| "authReducer s RegisterPending =
     s\<lparr>register := (register s)\<lparr>r_isFetching := True, r_error := JStr []\<rparr>\<rparr>"
| "authReducer s (RegisterFulfilled p) =
     s\<lparr>register := (register s)\<lparr>
         registerUser := (registerUser (register s))\<lparr>
           u_email := get_oprop p ''email'',
           u_password := get_oprop p ''password'',
           u_message := get_oprop p ''message''\<rparr>,
         r_isFetching := False, r_error := JStr []\<rparr>\<rparr>"
| "authReducer s (RegisterRejected p m) =
     s\<lparr>register := (register s)\<lparr>r_isFetching := False, r_error := rejection_text p m\<rparr>\<rparr>"
| "authReducer s (SetWalletUpdated _) = s"

fun walletReducer :: "IWallet \<Rightarrow> action \<Rightarrow> IWallet" where
  "walletReducer s (SetWalletUpdated b) = s\<lparr>isUpdated := b\<rparr>"
| "walletReducer s _ = s"

definition rootReducer :: "RootState \<Rightarrow> action \<Rightarrow> RootState" where
  "rootReducer s a = \<lparr>auth = authReducer (auth s) a, wallet = walletReducer (wallet s) a\<rparr>"

lemma truthy_rejection_text [simp]: "truthy (rejection_text p m)"
  by (simp add: rejection_text_def)

lemma auth_run [simp]: "auth (run rootReducer s as) = run authReducer (auth s) as"
  by (induction as arbitrary: s) (simp_all add: rootReducer_def)

lemma wallet_run [simp]: "wallet (run rootReducer s as) = run walletReducer (wallet s) as"
  by (induction as arbitrary: s) (simp_all add: rootReducer_def)

section \<open>What the slice keeps\<close>

text \<open>
  The token changes only by the two token actions: the token of any run is the one of the
  abstract token cell that sees those actions only.
\<close>

fun token_cell :: "jsval \<Rightarrow> action \<Rightarrow> jsval" where
  "token_cell t (AddAccessToken t') = t'"
| "token_cell t RemoveAccessToken = JStr []"
| "token_cell t _ = t"

lemma accessToken_step: "accessToken (authReducer s a) = token_cell (accessToken s) a"
  by (cases "(s, a)" rule: authReducer.cases) simp_all

lemma accessToken_run: "accessToken (run authReducer s as) = run token_cell (accessToken s) as"
  by (induction as arbitrary: s) (simp_all add: accessToken_step)

text \<open>
  A form never shows an error while its request is in flight: pending clears the error, and
  only the rejection that ends the request sets one.
\<close>

definition no_error_in_flight :: "AuthState \<Rightarrow> bool" where
  "no_error_in_flight s \<longleftrightarrow>
     (l_isFetching (login s) \<longrightarrow> l_error (login s) = JStr []) \<and>
     (r_isFetching (register s) \<longrightarrow> r_error (register s) = JStr [])"

lemma no_error_in_flight_step [inv_intros]:
  "no_error_in_flight s \<Longrightarrow> no_error_in_flight (authReducer s a)"
  by (cases "(s, a)" rule: authReducer.cases) (auto simp: no_error_in_flight_def)

interpretation auth_slice: component authReducer no_error_in_flight
  by unfold_locales (rule inv_intros)

text \<open>The actions of one form leave the other form alone.\<close>

fun action_form :: "action \<Rightarrow> form option" where
  "action_form (ClearMessage f) = Some f"
| "action_form (ClearError f) = Some f"
| "action_form LoginPending = Some LoginForm"
| "action_form (LoginFulfilled _) = Some LoginForm"
| "action_form (LoginRejected _ _) = Some LoginForm"
| "action_form RegisterPending = Some RegisterForm"
| "action_form (RegisterFulfilled _) = Some RegisterForm"
| "action_form (RegisterRejected _ _) = Some RegisterForm"
| "action_form _ = None"

lemma login_frame: "action_form a \<noteq> Some LoginForm \<Longrightarrow> login (authReducer s a) = login s"
  by (cases "(s, a)" rule: authReducer.cases) simp_all

lemma register_frame: "action_form a \<noteq> Some RegisterForm \<Longrightarrow> register (authReducer s a) = register s"
  by (cases "(s, a)" rule: authReducer.cases) simp_all

section \<open>Properties\<close>

text \<open>
  C18 In every state the store reaches from its initial state, by any sequence of actions, the
  error of a form is empty while the request of that form is in flight.
\<close>

theorem store_no_error_in_flight:
  "no_error_in_flight (auth (run rootReducer initialRoot as))"
proof -
  have "no_error_in_flight initialAuth" by (simp add: no_error_in_flight_def initialAuth_def)
  then show ?thesis by (simp add: initialRoot_def auth_slice.inv_run)
qed

theorem store_no_error_in_flight_witness:
  "no_error_in_flight (auth (run rootReducer initialRoot [LoginRejected Undef Undef, LoginPending]))
   \<and> l_isFetching (login (auth (run rootReducer initialRoot [LoginRejected Undef Undef, LoginPending])))"
  using store_no_error_in_flight [of "[LoginRejected Undef Undef, LoginPending]"]
  by (simp add: initialRoot_def rootReducer_def)

text \<open>
  C17 The store refines a token cell: whatever actions are dispatched, in any order, the access
  token is the one the cell holds after the token actions among them, and the wallet flag and
  the two forms never influence it.
\<close>

theorem store_refines_token_cell:
  "accessToken (auth (run rootReducer s as)) =
     run token_cell (accessToken (auth s)) (filter (\<lambda>a. action_form a = None) as)"
proof -
  have "run token_cell t as = run token_cell t (filter (\<lambda>a. action_form a = None) as)" for t
  proof (induction as arbitrary: t)
    case Nil
    show ?case by simp
  next
    case (Cons a as)
    have "token_cell t a = t" if "action_form a \<noteq> None"
      using that by (cases "(t, a)" rule: token_cell.cases) auto
    with Cons show ?case by simp
  qed
  then show ?thesis by (simp add: accessToken_run)
qed

end
