(* ===== verification/Effects.thy ===== *)
theory Effects
  imports AuthStore
begin

text \<open>
  What a handler does besides changing the state of its component: the effects are listed in
  the order the source performs them. The replies of the network and the errors it raises
  have the shape \<^verbatim>\<open>axios\<close> documents: a resolved call gives a response with \<open>status\<close>
  and \<open>data\<close>; a rejected call throws an error that has a \<open>response\<close> when the server
  answered and none when it did not.
\<close>

datatype kind = Success | Error | Plain

datatype effect =
    Toast kind jsval                      \<comment> \<open>\<open>toast.success\<close>, \<open>toast.error\<close>, \<open>toast\<close>\<close>
  | Message kind jsval                    \<comment> \<open>\<open>message.success\<close>, \<open>message.error\<close> of antd\<close>
  | Navigate string jsval                 \<comment> \<open>\<open>navigate(path, { state })\<close>\<close>
  | Dispatch action
  | Delay nat "effect list"               \<comment> \<open>\<open>setTimeout\<close>, in milliseconds\<close>
  | StoreItem string jsval jsval          \<comment> \<open>\<open>localStorage.setItem(prefix + key, value)\<close>\<close>
  | CopyText jsval                        \<comment> \<open>\<open>navigator.clipboard.writeText\<close>\<close>
  | Redirect jsval                        \<comment> \<open>assignment to \<open>window.location.href\<close>\<close>
  | Refetch
  | ResetForm                             \<comment> \<open>\<open>reset()\<close>, \<open>form.resetFields()\<close>\<close>
  | CloseParent                           \<comment> \<open>a call of the \<open>onClose\<close> property\<close>
  | Uncaught jsval                        \<comment> \<open>an exception (or rejection) nobody handles\<close>

datatype reply = Resolved nat jsval | Failed jsval

definition response :: "nat \<Rightarrow> jsval \<Rightarrow> jsval" where
  "response status d = JObj [(''status'', JNum (Fin (of_nat status))), (''data'', d)]"

text \<open>The error of a call the server refused, and of a call that got no answer.\<close>

definition http_error :: "nat \<Rightarrow> jsval \<Rightarrow> jsval" where
  "http_error status d =
     JObj [(''message'', JStr ''Request failed''), (''response'', response status d)]"

definition network_error :: jsval where
  "network_error = JObj [(''message'', JStr ''Network Error'')]"

text \<open>The idiom \<open>error?.response?.data?.message || text\<close>.\<close>

definition error_message :: "jsval \<Rightarrow> string \<Rightarrow> jsval" where
  "error_message e txt = js_or (opath e [''response'', ''data'', ''message'']) (JStr txt)"

lemma opath_http_error [simp]:
  "opath (http_error st d) [''response'', ''data'', ''message''] = get_oprop d ''message''"
  by (simp add: http_error_def response_def)

lemma opath_network_error [simp]:
  "opath network_error [''response'', ''data'', ''message''] = Undef"
  by (simp add: network_error_def)

lemma error_message_network [simp]: "error_message network_error txt = JStr txt"
  by (simp add: error_message_def js_or_def network_error_def)

lemma truthy_error_message [simp]: "txt \<noteq> [] \<Longrightarrow> truthy (error_message e txt)"
  by (simp add: error_message_def)

text \<open>The actions a list of effects dispatches now, and the ones behind timers too.\<close>

fun dispatched :: "effect list \<Rightarrow> action list" where
  "dispatched [] = []"
| "dispatched (Dispatch a # es) = a # dispatched es"
| "dispatched (_ # es) = dispatched es"

lemma dispatched_append [simp]: "dispatched (xs @ ys) = dispatched xs @ dispatched ys"
  by (induction xs rule: dispatched.induct) simp_all

definition uncaught :: "effect list \<Rightarrow> bool" where
  "uncaught es \<longleftrightarrow> (\<exists>e. Uncaught e \<in> set es)"

end
