(* ===== verification/AxiosClient.thy ===== *)
theory AxiosClient
  imports Effects "HOL-Library.Multiset"
begin

text \<open>
  The HTTP client of \<^verbatim>\<open>config/axios.config.ts\<close>. \<open>createAxios\<close> captures the access
  token at the moment it is called and installs two interceptors on the new instance; the flag
  \<open>isRefreshing\<close> and the list \<open>refreshSubscribers\<close> belong to the module and are shared
  by every instance. The component is a transition system: requests are in flight, in any
  number, and the network answers them in any order.

  A request records the token its instance captured, its \<open>Authorization\<close> header, the
  \<open>_retry\<close> mark and who waits for its answer: a caller of the application (numbered by
  \<open>call\<close>) or the response interceptor that awaits the refresh, with the request it will
  retry and the error it got. A closure in \<open>refreshSubscribers\<close> is the request it will
  send again. Of \<^verbatim>\<open>axios\<close> itself the model uses its documented behaviour: a request goes
  through the request interceptor when it is sent, also when it is a retry of an earlier
  configuration (whose headers and extra fields it keeps), and an answer outside 200..299
  rejects.
\<close>

section \<open>State\<close>

datatype request = Request (captured: jsval) (authorization: "jsval option") (retried: bool) (origin: origin)
  and origin = Caller nat | RefreshFor request jsval

record client =
  isRefreshing :: bool
  refreshSubscribers :: "request list"
  inFlight :: "request list"
  settled :: "(nat \<times> reply) list"
  token :: jsval            \<comment> \<open>\<open>store.getState().auth.accessToken\<close>\<close>
  calls :: nat              \<comment> \<open>callers so far\<close>
  sent :: "request list"    \<comment> \<open>every request put on the wire, newest first\<close>

definition initialClient :: "jsval \<Rightarrow> client" where
  "initialClient t =
     \<lparr>isRefreshing = False, refreshSubscribers = [], inFlight = [], settled = [],
      token = t, calls = 0, sent = []\<rparr>"

section \<open>Operations\<close>

definition subscribeTokenRefresh :: "request \<Rightarrow> client \<Rightarrow> client" where
  "subscribeTokenRefresh cb c = c\<lparr>refreshSubscribers := refreshSubscribers c @ [cb]\<rparr>"

definition requestInterceptor :: "request \<Rightarrow> request" where
  "requestInterceptor r =
     (if truthy (captured r)
      then Request (captured r) (Some (captured r)) (retried r) (origin r)
      else r)"

definition send :: "request \<Rightarrow> client \<Rightarrow> client" where
  "send r c = (let r' = requestInterceptor r
               in c\<lparr>inFlight := inFlight c @ [r'], sent := r' # sent c\<rparr>)"

definition onRefreshed :: "client \<Rightarrow> client" where
  "onRefreshed c =
     (fold send (refreshSubscribers c) c)\<lparr>refreshSubscribers := []\<rparr>"

text \<open>An application call: a fresh instance and a request on it.\<close>

definition call :: "client \<Rightarrow> client" where
  "call c = send (Request (token c) None False (Caller (calls c))) (c\<lparr>calls := Suc (calls c)\<rparr>)"

text \<open>
  The answer that ends a request goes to whoever waits for it. When that is the interceptor
  awaiting a refresh, the rest of the interceptor runs.
\<close>

fun settle :: "origin \<Rightarrow> reply \<Rightarrow> client \<Rightarrow> client" where
  "settle (Caller n) a c = c\<lparr>settled := (n, a) # settled c\<rparr>"
| "settle (RefreshFor (Request tok h b orig) error) (Failed e) c =
     settle orig (Failed e) (c\<lparr>isRefreshing := False\<rparr>)"
| "settle (RefreshFor (Request tok h b orig) error) (Resolved st d) c =
     (if st = 200 then
        (case get_prop d ''data'' of
           Inl e \<Rightarrow> settle orig (Failed e) (c\<lparr>isRefreshing := False\<rparr>)
         | Inr newAccessToken \<Rightarrow>
             send (Request tok (Some newAccessToken) b orig)
               ((onRefreshed (c\<lparr>token := newAccessToken\<rparr>))\<lparr>isRefreshing := False\<rparr>))
      else settle orig (Failed error) c)"

definition unauthorized :: "jsval \<Rightarrow> bool" where
  "unauthorized e \<longleftrightarrow> opath e [''response'', ''status''] = JNum (Fin 401)"

definition mark_retried :: "request \<Rightarrow> request" where
  "mark_retried r = Request (captured r) (authorization r) True (origin r)"

fun responseInterceptor :: "request \<Rightarrow> reply \<Rightarrow> client \<Rightarrow> client" where
  "responseInterceptor r (Resolved st d) c = settle (origin r) (Resolved st d) c"
| "responseInterceptor r (Failed e) c =
     (if unauthorized e \<and> \<not> retried r then
        (if \<not> isRefreshing c
         then send (Request (captured r) None False (RefreshFor (mark_retried r) e))
                (c\<lparr>isRefreshing := True\<rparr>)
         else subscribeTokenRefresh (mark_retried r) c)
      else settle (origin r) (Failed e) c)"

section \<open>Transitions\<close>

text \<open>
  The application makes a call; the network answers one of the requests in flight; another
  part of the application writes the token (login, logout, the other HTTP client).
\<close>

inductive ax_step :: "client \<Rightarrow> client \<Rightarrow> bool" where
  new_call: "ax_step c (call c)"
| deliver: "inFlight c = xs @ r # ys \<Longrightarrow>
     ax_step c (responseInterceptor r a (c\<lparr>inFlight := xs @ ys\<rparr>))"
| set_token: "ax_step c (c\<lparr>token := t\<rparr>)"

inductive reachable :: "client \<Rightarrow> bool" where
  start: "reachable (initialClient t)"
| step: "reachable c \<Longrightarrow> ax_step c c' \<Longrightarrow> reachable c'"

inductive_cases ax_stepE: "ax_step c c'"

section \<open>Frame lemmas\<close>

lemma send_simps [simp]:
  "isRefreshing (send r c) = isRefreshing c"
  "refreshSubscribers (send r c) = refreshSubscribers c"
  "inFlight (send r c) = inFlight c @ [requestInterceptor r]"
  "settled (send r c) = settled c"
  "token (send r c) = token c"
  "calls (send r c) = calls c"
  "sent (send r c) = requestInterceptor r # sent c"
  by (simp_all add: send_def Let_def)

lemma fold_send_simps [simp]:
  "isRefreshing (fold send rs c) = isRefreshing c"
  "refreshSubscribers (fold send rs c) = refreshSubscribers c"
  "inFlight (fold send rs c) = inFlight c @ map requestInterceptor rs"
  "settled (fold send rs c) = settled c"
  "token (fold send rs c) = token c"
  "calls (fold send rs c) = calls c"
  "sent (fold send rs c) = rev (map requestInterceptor rs) @ sent c"
  by (induction rs arbitrary: c) simp_all

lemma onRefreshed_simps [simp]:
  "isRefreshing (onRefreshed c) = isRefreshing c"
  "refreshSubscribers (onRefreshed c) = []"
  "inFlight (onRefreshed c) = inFlight c @ map requestInterceptor (refreshSubscribers c)"
  "settled (onRefreshed c) = settled c"
  "token (onRefreshed c) = token c"
  "calls (onRefreshed c) = calls c"
  "sent (onRefreshed c) = rev (map requestInterceptor (refreshSubscribers c)) @ sent c"
  by (simp_all add: onRefreshed_def)

lemma requestInterceptor_simps [simp]:
  "captured (requestInterceptor r) = captured r"
  "retried (requestInterceptor r) = retried r"
  "origin (requestInterceptor r) = origin r"
  by (simp_all add: requestInterceptor_def)

lemma mark_retried_simps [simp]:
  "captured (mark_retried r) = captured r"
  "retried (mark_retried r)"
  "origin (mark_retried r) = origin r"
  by (simp_all add: mark_retried_def)

lemma subscribe_simps [simp]:
  "isRefreshing (subscribeTokenRefresh r c) = isRefreshing c"
  "refreshSubscribers (subscribeTokenRefresh r c) = refreshSubscribers c @ [r]"
  "inFlight (subscribeTokenRefresh r c) = inFlight c"
  "settled (subscribeTokenRefresh r c) = settled c"
  "token (subscribeTokenRefresh r c) = token c"
  "calls (subscribeTokenRefresh r c) = calls c"
  "sent (subscribeTokenRefresh r c) = sent c"
  by (simp_all add: subscribeTokenRefresh_def)

section \<open>No caller is lost\<close>

fun owner :: "origin \<Rightarrow> nat" where
  "owner (Caller n) = n"
| "owner (RefreshFor (Request tok h b orig) error) = owner orig"

definition waiting :: "client \<Rightarrow> request list" where
  "waiting c = inFlight c @ refreshSubscribers c"

text \<open>Every caller, wherever its request is: on the wire, in a closure, or answered.\<close>

definition owners :: "client \<Rightarrow> nat multiset" where
  "owners c = image_mset (\<lambda>r. owner (origin r)) (mset (waiting c)) + mset (map fst (settled c))"

lemma owner_RefreshFor: "owner (RefreshFor r e) = owner (origin r)"
  by (cases r) simp

lemma image_requestInterceptor [simp]:
  "image_mset (\<lambda>r. owner (origin r)) (mset (map requestInterceptor rs)) =
   image_mset (\<lambda>r. owner (origin r)) (mset rs)"
  by (induction rs) simp_all

lemma owners_send [simp]: "owners (send r c) = add_mset (owner (origin r)) (owners c)"
  by (simp add: owners_def waiting_def)

lemma owners_onRefreshed [simp]: "owners (onRefreshed c) = owners c"
  unfolding owners_def waiting_def onRefreshed_simps mset_append image_mset_union
    image_requestInterceptor by simp

lemma owners_flag [simp]:
  "owners (c\<lparr>isRefreshing := b\<rparr>) = owners c" "owners (c\<lparr>token := t\<rparr>) = owners c"
  by (simp_all add: owners_def waiting_def)

lemma owners_settle: "owners (settle orig a c) = add_mset (owner orig) (owners c)"
  by (induction orig a c rule: settle.induct)
    (auto simp: split: sum.splits, simp add: owners_def waiting_def)

lemma owners_subscribe [simp]:
  "owners (subscribeTokenRefresh r c) = add_mset (owner (origin r)) (owners c)"
  by (simp add: owners_def waiting_def)

lemma owners_responseInterceptor:
  "owners (responseInterceptor r a c) = add_mset (owner (origin r)) (owners c)"
  by (cases a) (simp_all add: owners_settle owner_RefreshFor)

lemma owners_remove:
  "inFlight c = xs @ r # ys \<Longrightarrow>
   owners c = add_mset (owner (origin r)) (owners (c\<lparr>inFlight := xs @ ys\<rparr>))"
  by (simp add: owners_def waiting_def)

lemma calls_settle [simp]: "calls (settle orig a c) = calls c"
  by (induction orig a c rule: settle.induct) (auto split: sum.splits)

lemma calls_responseInterceptor [simp]: "calls (responseInterceptor r a c) = calls c"
  by (cases a) simp_all

definition no_caller_lost :: "client \<Rightarrow> bool" where
  "no_caller_lost c \<longleftrightarrow> owners c = mset [0..<calls c]"

lemma no_caller_lost_step: "ax_step c c' \<Longrightarrow> no_caller_lost c \<Longrightarrow> no_caller_lost c'"
proof (induction rule: ax_step.induct)
  case (new_call c)
  have "owners (c\<lparr>calls := n\<rparr>) = owners c" for n by (simp add: owners_def waiting_def)
  with new_call show ?case by (simp add: no_caller_lost_def call_def)
next
  case (deliver c xs r ys a)
  then show ?case
    by (simp add: no_caller_lost_def owners_responseInterceptor flip: owners_remove)
next
  case (set_token c t)
  then show ?case by (simp add: no_caller_lost_def)
qed

lemma no_caller_lost_reachable: "reachable c \<Longrightarrow> no_caller_lost c"
proof (induction rule: reachable.induct)
  case (start t)
  show ?case by (simp add: no_caller_lost_def initialClient_def owners_def waiting_def)
next
  case (step c c')
  then show ?case by (blast intro: no_caller_lost_step)
qed

section \<open>One refresh at a time\<close>

definition is_refresh :: "request \<Rightarrow> bool" where
  "is_refresh r \<longleftrightarrow> (case origin r of Caller _ \<Rightarrow> False | RefreshFor _ _ \<Rightarrow> True)"

definition refreshes :: "client \<Rightarrow> nat" where
  "refreshes c = length (filter is_refresh (waiting c))"

text \<open>
  The invariant of the flag: at most one refresh is on the wire or waiting, and only while the
  flag is set; what a refresh will retry is a marked request of a caller; everything in the
  subscriber list is marked, and a refresh on the wire is not.
\<close>

definition single_refresh :: "client \<Rightarrow> bool" where
  "single_refresh c \<longleftrightarrow>
     refreshes c \<le> (if isRefreshing c then 1 else 0) \<and>
     (\<forall>r orig e. r \<in> set (waiting c) \<longrightarrow> origin r = RefreshFor orig e \<longrightarrow>
        retried orig \<and> \<not> is_refresh orig) \<and>
     (\<forall>r \<in> set (refreshSubscribers c). retried r) \<and>
     (\<forall>r \<in> set (inFlight c). is_refresh r \<longrightarrow> \<not> retried r)"

lemma is_refresh_interceptor [simp]: "is_refresh (requestInterceptor r) = is_refresh r"
  by (simp add: is_refresh_def)

lemma is_refresh_mark [simp]: "is_refresh (mark_retried r) = is_refresh r"
  by (simp add: is_refresh_def)

lemma is_refresh_Caller [simp]: "origin r = Caller n \<Longrightarrow> \<not> is_refresh r"
  by (simp add: is_refresh_def)

lemma is_refresh_RefreshFor [simp]: "origin r = RefreshFor q e \<Longrightarrow> is_refresh r"
  by (simp add: is_refresh_def)

lemma not_is_refresh: "\<not> is_refresh r \<Longrightarrow> \<exists>n. origin r = Caller n"
  by (cases "origin r") (simp_all add: is_refresh_def)

lemma filter_map_interceptor [simp]:
  "filter is_refresh (map requestInterceptor rs) = map requestInterceptor (filter is_refresh rs)"
  by (induction rs) simp_all

lemma refreshes_zero: "refreshes c = 0 \<longleftrightarrow> (\<forall>r \<in> set (waiting c). \<not> is_refresh r)"
  by (auto simp: refreshes_def filter_empty_conv)

lemma refreshes_remove:
  "inFlight c = xs @ r # ys \<Longrightarrow>
   refreshes c = (if is_refresh r then 1 else 0) + refreshes (c\<lparr>inFlight := xs @ ys\<rparr>)"
  by (simp add: refreshes_def waiting_def)

text \<open>The parts of the transitions, each with what it keeps.\<close>

lemma waiting_simps [simp]:
  "waiting (send r c) = inFlight c @ [requestInterceptor r] @ refreshSubscribers c"
  "waiting (onRefreshed c) = inFlight c @ map requestInterceptor (refreshSubscribers c)"
  "waiting (subscribeTokenRefresh r c) = waiting c @ [r]"
  "waiting (c\<lparr>isRefreshing := b\<rparr>) = waiting c"
  "waiting (c\<lparr>token := t\<rparr>) = waiting c"
  "waiting (c\<lparr>settled := l\<rparr>) = waiting c"
  "waiting (c\<lparr>calls := n\<rparr>) = waiting c"
  by (simp_all add: waiting_def)

lemma refreshes_simps [simp]:
  "refreshes (send r c) = (if is_refresh r then 1 else 0) + refreshes c"
  "refreshes (onRefreshed c) = refreshes c"
  "refreshes (subscribeTokenRefresh r c) = (if is_refresh r then 1 else 0) + refreshes c"
  "refreshes (c\<lparr>isRefreshing := b\<rparr>) = refreshes c"
  "refreshes (c\<lparr>token := t\<rparr>) = refreshes c"
  "refreshes (c\<lparr>settled := l\<rparr>) = refreshes c"
  "refreshes (c\<lparr>calls := n\<rparr>) = refreshes c"
  by (simp_all add: refreshes_def) (simp add: waiting_def)+

lemma waiting_mem: "r \<in> set (waiting c) \<longleftrightarrow> r \<in> set (inFlight c) \<or> r \<in> set (refreshSubscribers c)"
  by (simp add: waiting_def)

lemma sr_settled: "single_refresh (c\<lparr>settled := l\<rparr>) = single_refresh c"
  and sr_token: "single_refresh (c\<lparr>token := t\<rparr>) = single_refresh c"
  and sr_calls: "single_refresh (c\<lparr>calls := n\<rparr>) = single_refresh c"
  by (simp_all add: single_refresh_def)

lemma sr_send_caller: "single_refresh c \<Longrightarrow> \<not> is_refresh r \<Longrightarrow> single_refresh (send r c)"
  unfolding single_refresh_def by (auto simp: waiting_mem)

lemma sr_flag: "single_refresh c \<Longrightarrow> refreshes c = 0 \<Longrightarrow> single_refresh (c\<lparr>isRefreshing := b\<rparr>)"
  unfolding single_refresh_def by simp

lemma sr_onRefreshed:
  assumes "single_refresh c" and "refreshes c = 0"
  shows "single_refresh (onRefreshed c)"
proof -
  from assms(2) have "\<forall>r \<in> set (waiting c). \<not> is_refresh r" by (simp add: refreshes_zero)
  with assms show ?thesis unfolding single_refresh_def by (auto simp: waiting_mem)
qed

lemma sr_subscribe:
  assumes "single_refresh c"
    and "is_refresh r \<Longrightarrow> isRefreshing c \<and> refreshes c = 0"
    and "\<And>orig e. origin r = RefreshFor orig e \<Longrightarrow> retried orig \<and> \<not> is_refresh orig"
  shows "single_refresh (subscribeTokenRefresh (mark_retried r) c)"
  using assms unfolding single_refresh_def by (auto simp: waiting_mem)

lemma sr_send_refresh:
  assumes "single_refresh c" and "\<not> isRefreshing c" and "\<not> is_refresh r"
  shows "single_refresh (send (Request tok None False (RefreshFor (mark_retried r) e))
           (c\<lparr>isRefreshing := True\<rparr>))"
  using assms unfolding single_refresh_def by (auto simp: waiting_mem)

lemma sr_remove:
  assumes "single_refresh c" and "inFlight c = xs @ r # ys"
  shows "single_refresh (c\<lparr>inFlight := xs @ ys\<rparr>)"
    and "is_refresh r \<Longrightarrow> isRefreshing c \<and> refreshes (c\<lparr>inFlight := xs @ ys\<rparr>) = 0 \<and> \<not> retried r"
    and "origin r = RefreshFor orig e \<Longrightarrow> retried orig \<and> \<not> is_refresh orig"
  using assms refreshes_remove [OF assms(2)] unfolding single_refresh_def
  by (auto simp: waiting_def split: if_splits)

lemma sr_settle_caller:
  "single_refresh c \<Longrightarrow> \<not> is_refresh r \<Longrightarrow> single_refresh (settle (origin r) a c)"
  by (drule not_is_refresh) (auto simp: sr_settled)

lemma sr_settle_refresh:
  assumes "single_refresh c" and "refreshes c = 0" and "\<not> is_refresh orig"
  shows "single_refresh (settle (RefreshFor orig e) a c)"
proof (cases orig)
  case (Request tok h b og)
  with assms(3) obtain n where og: "og = Caller n" by (auto dest: not_is_refresh)
  show ?thesis
    using assms unfolding Request og
    by (cases a) (auto simp: sr_settled sr_token sr_flag sr_onRefreshed intro!: sr_send_caller
        split: sum.splits)
qed

lemma single_refresh_step: "ax_step c c' \<Longrightarrow> single_refresh c \<Longrightarrow> single_refresh c'"
proof (induction rule: ax_step.induct)
  case (new_call c)
  then show ?case unfolding call_def by (intro sr_send_caller) (simp_all add: sr_calls)
next
  case (deliver c xs r ys a)
  note rm = sr_remove [OF deliver.prems deliver.hyps]
  have settle: "single_refresh (settle (origin r) b (c\<lparr>inFlight := xs @ ys\<rparr>))" for b
  proof (cases "origin r")
    case (Caller n)
    then show ?thesis using rm(1) by (simp add: sr_settled)
  next
    case (RefreshFor orig e)
    then show ?thesis using rm by (simp add: sr_settle_refresh)
  qed
  show ?case
  proof (cases a)
    case (Resolved st d)
    then show ?thesis using settle by simp
  next
    case (Failed e)
    then show ?thesis
      using settle rm by (auto intro!: sr_send_refresh sr_subscribe)
  qed
next
  case (set_token c t)
  then show ?case by (simp add: sr_token)
qed

lemma single_refresh_reachable: "reachable c \<Longrightarrow> single_refresh c"
proof (induction rule: reachable.induct)
  case (start t)
  show ?case by (simp add: single_refresh_def initialClient_def refreshes_def waiting_def)
next
  case (step c c')
  then show ?case by (blast intro: single_refresh_step)
qed

section \<open>At most two attempts per caller\<close>

text \<open>
  \<open>attempts n c\<close> counts how often the request of caller \<open>n\<close> itself went on the wire.
\<close>

definition is_caller :: "nat \<Rightarrow> request \<Rightarrow> bool" where
  "is_caller n r \<longleftrightarrow> origin r = Caller n"

definition attempts :: "nat \<Rightarrow> client \<Rightarrow> nat" where
  "attempts n c = length (filter (is_caller n) (sent c))"

definition budget :: "request \<Rightarrow> nat" where   \<comment> \<open>attempts already made by a request in flight\<close>
  "budget r = (if is_refresh r then 1 else if retried r then 2 else 1)"

definition two_attempts :: "client \<Rightarrow> bool" where
  "two_attempts c \<longleftrightarrow>
     (\<forall>n. attempts n c \<le> 2) \<and>
     (\<forall>r \<in> set (inFlight c). attempts (owner (origin r)) c \<le> budget r) \<and>
     (\<forall>r \<in> set (refreshSubscribers c). attempts (owner (origin r)) c \<le> 1) \<and>
     (\<forall>n \<ge> calls c. attempts n c = 0)"

lemma attempts_send: "attempts n (send r c) = (if origin r = Caller n then 1 else 0) + attempts n c"
  by (simp add: attempts_def is_caller_def)

lemma attempts_simps [simp]:
  "attempts n (c\<lparr>isRefreshing := b\<rparr>) = attempts n c"
  "attempts n (c\<lparr>token := t\<rparr>) = attempts n c"
  "attempts n (c\<lparr>settled := l\<rparr>) = attempts n c"
  "attempts n (c\<lparr>calls := k\<rparr>) = attempts n c"
  "attempts n (c\<lparr>inFlight := rs\<rparr>) = attempts n c"
  "attempts n (c\<lparr>refreshSubscribers := rs\<rparr>) = attempts n c"
  "attempts n (subscribeTokenRefresh r c) = attempts n c"
  by (simp_all add: attempts_def)

text \<open>Each caller has one entry: the facts the counting needs from \<open>no_caller_lost\<close>.\<close>

definition one_entry :: "client \<Rightarrow> bool" where
  "one_entry c \<longleftrightarrow> (\<forall>n. count (owners c) n \<le> 1) \<and> (\<forall>n \<in># owners c. n < calls c)"

lemma no_caller_lost_one_entry:
  assumes "no_caller_lost c"
  shows "one_entry c"
proof -
  have o: "owners c = mset [0..<calls c]" using assms by (simp only: no_caller_lost_def)
  have cnt: "count (mset [0..<calls c]) n = (if n \<in> set [0..<calls c] then 1 else 0)" for n
    by (rule spec [OF iffD1 [OF distinct_count_atmost_1 distinct_upt]])
  have "count (owners c) n \<le> 1" for n unfolding o cnt by simp
  moreover have "n < calls c" if "n \<in># owners c" for n
    using that unfolding o by (simp only: set_mset_mset set_upt atLeastLessThan_iff)
  ultimately show ?thesis unfolding one_entry_def by blast
qed

lemma one_entry_add:
  assumes "one_entry c" and "owners c = add_mset n M"
  shows "n \<notin># M" and "n < calls c"
proof -
  have "count (add_mset n M) n \<le> 1" using assms unfolding one_entry_def by metis
  then show "n \<notin># M" by (simp add: not_in_iff)
  show "n < calls c" using assms unfolding one_entry_def by simp
qed

lemma one_entry_sub:
  assumes "one_entry c" and "owners c = add_mset n (owners c')" and "calls c' = calls c"
  shows "one_entry c'"
proof -
  have "count (owners c') k \<le> count (owners c) k" for k using assms(2) by simp
  then have "count (owners c') k \<le> 1" for k
    using assms(1) unfolding one_entry_def by (meson order_trans)
  then show ?thesis using assms unfolding one_entry_def by simp
qed

lemma owner_in_owners:
  "r \<in> set (waiting c) \<Longrightarrow> owner (origin r) \<in># owners c"
  by (auto simp: owners_def)

lemma ta_send_caller:
  assumes "two_attempts c" and "origin r = Caller n" and "n \<notin># owners c" and "n < calls c"
    and "attempts n c \<le> (if retried r then 1 else 0)"
  shows "two_attempts (send r c)"
proof -
  have "owner (origin q) \<noteq> n" if "q \<in> set (waiting c)" for q
    using that assms(3) owner_in_owners by metis
  then show ?thesis
    using assms unfolding two_attempts_def
    by (auto simp: attempts_send budget_def waiting_def ball_Un split: if_splits)
qed

lemma ta_send_refresh:
  assumes "two_attempts c" and "is_refresh r" and "attempts (owner (origin r)) c \<le> 1"
  shows "two_attempts (send r c)"
proof -
  have "origin r \<noteq> Caller n" for n using assms(2) by (auto simp: is_refresh_def)
  then show ?thesis using assms unfolding two_attempts_def
    by (auto simp: attempts_send budget_def)
qed

lemma ta_subscribe:
  "two_attempts c \<Longrightarrow> attempts (owner (origin r)) c \<le> 1 \<Longrightarrow>
   two_attempts (subscribeTokenRefresh r c)"
  unfolding two_attempts_def by auto

lemma onRefreshed_fold:
  "onRefreshed c = fold send (refreshSubscribers c) (c\<lparr>refreshSubscribers := []\<rparr>)"
proof -
  have "(fold send rs c)\<lparr>refreshSubscribers := []\<rparr> = fold send rs (c\<lparr>refreshSubscribers := []\<rparr>)" for rs
    by (induction rs arbitrary: c) (simp_all add: send_def Let_def)
  then show ?thesis by (simp add: onRefreshed_def)
qed

lemma attempts_fold_send:
  "\<forall>r \<in> set rs. owner (origin r) \<noteq> n \<Longrightarrow> attempts n (fold send rs c) = attempts n c"
  by (induction rs arbitrary: c) (auto simp: attempts_send)

lemma owners_fold_send:
  "owners (fold send rs c) = image_mset (\<lambda>r. owner (origin r)) (mset rs) + owners c"
  by (induction rs arbitrary: c) simp_all

text \<open>Flushing the subscribers sends each of them for the second time.\<close>

lemma ta_fold_send:
  assumes "two_attempts c"
    and "\<forall>r \<in> set rs. \<not> is_refresh r \<and> retried r \<and> attempts (owner (origin r)) c \<le> 1"
    and "one_entry (fold send rs c)"
  shows "two_attempts (fold send rs c)"
  using assms
proof (induction rs arbitrary: c)
  case Nil
  then show ?case by simp
next
  case (Cons r rs)
  from Cons.prems(2) obtain n where n: "origin r = Caller n" by (auto dest: not_is_refresh)
  have "owners (fold send (r # rs) c) =
      add_mset n (image_mset (\<lambda>r. owner (origin r)) (mset rs) + owners c)"
    by (simp add: owners_fold_send n)
  note fresh = one_entry_add [OF Cons.prems(3) this]
  then have one: "n < calls c" by simp
  from fresh have "n \<notin># owners c" and "n \<notin> (\<lambda>r. owner (origin r)) ` set rs"
    by auto
  then have "two_attempts (send r c)"
    and "\<forall>q \<in> set rs. attempts (owner (origin q)) (send r c) = attempts (owner (origin q)) c"
    using Cons.prems(1,2) n one by (auto intro!: ta_send_caller simp: attempts_send)
  then show ?case using Cons.IH [of "send r c"] Cons.prems by simp
qed

lemma ta_onRefreshed:
  assumes "two_attempts c" and "single_refresh c" and "refreshes c = 0" and "one_entry c"
  shows "two_attempts (onRefreshed c)"
proof -
  have "one_entry (onRefreshed c)" using assms(4) by (simp add: one_entry_def)
  moreover have "two_attempts (c\<lparr>refreshSubscribers := []\<rparr>)"
    using assms(1) by (simp add: two_attempts_def)
  moreover have "\<forall>r \<in> set (refreshSubscribers c). \<not> is_refresh r \<and> retried r \<and>
      attempts (owner (origin r)) (c\<lparr>refreshSubscribers := []\<rparr>) \<le> 1"
    using assms(1-3) by (auto simp: two_attempts_def single_refresh_def refreshes_zero waiting_mem)
  ultimately show ?thesis unfolding onRefreshed_fold by (intro ta_fold_send) simp_all
qed

lemma ta_settled: "two_attempts (c\<lparr>settled := l\<rparr>) = two_attempts c"
  and ta_flag: "two_attempts (c\<lparr>isRefreshing := b\<rparr>) = two_attempts c"
  and ta_token: "two_attempts (c\<lparr>token := t\<rparr>) = two_attempts c"
  by (simp_all add: two_attempts_def)

lemmas ta_frame = ta_settled ta_flag ta_token

lemma one_entry_frame [simp]:
  "one_entry (c\<lparr>token := t\<rparr>) = one_entry c"
  by (simp add: one_entry_def)

lemma ta_settle_refresh:
  assumes "two_attempts c" and "single_refresh c" and "refreshes c = 0" and "one_entry c"
    and orig: "retried orig" "origin orig = Caller n" and n: "n \<notin># owners c" "n < calls c"
    and "attempts n c \<le> 1"
  shows "two_attempts (settle (RefreshFor orig e) a c)"
proof (cases orig)
  case (Request tok h b og)
  then have og: "og = Caller n" and b: "b" using orig by simp_all
  have send: "two_attempts (send (Request tok (Some t) b og)
      ((onRefreshed (c\<lparr>token := t\<rparr>))\<lparr>isRefreshing := False\<rparr>))" for t
  proof (rule ta_send_caller)
    show "two_attempts ((onRefreshed (c\<lparr>token := t\<rparr>))\<lparr>isRefreshing := False\<rparr>)"
      using assms(1-4) by (simp add: ta_frame ta_onRefreshed sr_token)
    have "owner (origin r) \<noteq> n" if "r \<in> set (refreshSubscribers c)" for r
      using that n(1) owner_in_owners [of r c] by (auto simp: waiting_mem)
    then have "attempts n (onRefreshed (c\<lparr>token := t\<rparr>)) = attempts n c"
      unfolding onRefreshed_fold by (subst attempts_fold_send) simp_all
    then show "attempts n ((onRefreshed (c\<lparr>token := t\<rparr>))\<lparr>isRefreshing := False\<rparr>)
        \<le> (if retried (Request tok (Some t) b og) then 1 else 0)"
      using b assms(9) by simp
  qed (use og n in simp_all)
  show ?thesis
    unfolding Request using send assms(1)
    by (cases a) (auto simp: og ta_frame split: sum.splits)
qed

lemma ta_settle:
  assumes "two_attempts c" and "single_refresh c"
    and "is_refresh r \<Longrightarrow> refreshes c = 0"
    and "\<And>orig e. origin r = RefreshFor orig e \<Longrightarrow> retried orig \<and> \<not> is_refresh orig"
    and "one_entry c" and "owner (origin r) \<notin># owners c" and "owner (origin r) < calls c"
    and "attempts (owner (origin r)) c \<le> budget r"
  shows "two_attempts (settle (origin r) a c)"
proof (cases "origin r")
  case (Caller n)
  then show ?thesis using assms(1) by (simp add: ta_frame)
next
  case (RefreshFor orig e)
  with assms(4) obtain n where n: "retried orig" "origin orig = Caller n"
    by (auto dest: not_is_refresh)
  then have "owner (origin r) = n" using RefreshFor by (simp add: owner_RefreshFor)
  moreover have "is_refresh r" using RefreshFor by simp
  ultimately show ?thesis
    using n assms unfolding RefreshFor
    by (intro ta_settle_refresh [where n = n]) (simp_all add: budget_def)
qed

lemma two_attempts_step:
  assumes "ax_step c c'" and "two_attempts c" and "single_refresh c" and "no_caller_lost c"
  shows "two_attempts c'"
  using assms
proof (induction rule: ax_step.induct)
  case (new_call c)
  let ?c = "c\<lparr>calls := Suc (calls c)\<rparr>"
  have ta: "two_attempts ?c" using new_call(1) by (simp add: two_attempts_def)
  have ow: "owners ?c = owners c" by (simp add: owners_def)
  have "calls c \<notin># owners ?c" unfolding ow
    using no_caller_lost_one_entry [OF new_call(3)] by (auto simp: one_entry_def)
  moreover have "attempts (calls c) ?c = 0" using new_call(1) by (simp add: two_attempts_def)
  ultimately show ?case unfolding call_def by (intro ta_send_caller [OF ta]) simp_all
next
  case (deliver c xs r ys a)
  let ?c = "c\<lparr>inFlight := xs @ ys\<rparr>"
  note rm = sr_remove [OF deliver.prems(2) deliver.hyps]
  note fresh = one_entry_add [OF no_caller_lost_one_entry [OF deliver.prems(3)]
      owners_remove [OF deliver.hyps]]
  have ta: "two_attempts ?c" using deliver.prems(1) deliver.hyps by (auto simp: two_attempts_def)
  have used: "attempts (owner (origin r)) ?c \<le> budget r"
    using deliver.prems(1) deliver.hyps by (simp add: two_attempts_def)
  have one: "one_entry ?c"
    by (rule one_entry_sub [OF no_caller_lost_one_entry [OF deliver.prems(3)]
          owners_remove [OF deliver.hyps]]) simp
  have settle: "two_attempts (settle (origin r) b ?c)" for b
    by (rule ta_settle [OF ta rm(1) _ _ one _ _ used]) (use rm(2,3) fresh in auto)
  show ?case
  proof (cases a)
    case (Resolved st d)
    then show ?thesis using settle by simp
  next
    case (Failed e)
    show ?thesis
    proof (cases "unauthorized e \<and> \<not> retried r")
      case True
      then have "attempts (owner (origin r)) ?c \<le> 1" using used by (simp add: budget_def split: if_splits)
      with Failed True ta show ?thesis
        by (auto simp: ta_frame owner_RefreshFor intro!: ta_send_refresh ta_subscribe)
    next
      case False
      with Failed settle show ?thesis by auto
    qed
  qed
next
  case (set_token c t)
  then show ?case by (simp add: ta_frame)
qed

lemma two_attempts_reachable: "reachable c \<Longrightarrow> two_attempts c"
proof (induction rule: reachable.induct)
  case (start t)
  show ?case by (simp add: two_attempts_def initialClient_def attempts_def)
next
  case (step c c')
  then show ?case
    by (blast intro: two_attempts_step single_refresh_reachable no_caller_lost_reachable)
qed

section \<open>A refused refresh\<close>

text \<open>
  The state after the refresh itself was answered 401: its own retry waits in the subscriber
  list that only a finished refresh empties, and no refresh is on the wire.
\<close>

definition stuck :: "client \<Rightarrow> bool" where
  "stuck c \<longleftrightarrow> isRefreshing c \<and> (\<forall>r \<in> set (inFlight c). \<not> is_refresh r)"

lemma stuck_step:
  "ax_step c c' \<Longrightarrow> stuck c \<Longrightarrow>
   stuck c' \<and> set (refreshSubscribers c) \<subseteq> set (refreshSubscribers c')"
proof (induction rule: ax_step.induct)
  case (new_call c)
  then show ?case by (auto simp: stuck_def call_def)
next
  case (deliver c xs r ys a)
  then obtain n where "origin r = Caller n" by (auto simp: stuck_def dest: not_is_refresh)
  with deliver show ?case by (cases a) (auto simp: stuck_def)
next
  case (set_token c t)
  then show ?case by (simp add: stuck_def)
qed

lemma stuck_steps:
  assumes "ax_step\<^sup>*\<^sup>* c d" and "stuck c"
  shows "stuck d \<and> set (refreshSubscribers c) \<subseteq> set (refreshSubscribers d)"
  using assms by (induction rule: rtranclp_induct) (auto dest: stuck_step)

lemma reachable_steps: "ax_step\<^sup>*\<^sup>* c d \<Longrightarrow> reachable c \<Longrightarrow> reachable d"
  by (induction rule: rtranclp_induct) (auto intro: reachable.step)

lemma waiting_not_settled:
  assumes "one_entry c" and "r \<in> set (waiting c)"
  shows "owner (origin r) \<notin> fst ` set (settled c)"
proof
  assume "owner (origin r) \<in> fst ` set (settled c)"
  then have "0 < count (mset (map fst (settled c))) (owner (origin r))" by simp
  moreover have "0 < count (image_mset (\<lambda>r. owner (origin r)) (mset (waiting c))) (owner (origin r))"
    using assms(2) by simp
  ultimately have "2 \<le> count (owners c) (owner (origin r))"
    unfolding owners_def count_union by linarith
  then show False using assms(1) unfolding one_entry_def
    by (metis Suc_1 not_less_eq_eq)
qed

section \<open>The token on the wire\<close>

definition captured_token :: "client \<Rightarrow> bool" where
  "captured_token c \<longleftrightarrow>
     (\<forall>r \<in> set (sent c). truthy (captured r) \<longrightarrow> authorization r = Some (captured r))"

definition sends_only :: "client \<Rightarrow> client \<Rightarrow> bool" where
  "sends_only c c' \<longleftrightarrow> (\<exists>qs. sent c' = map requestInterceptor qs @ sent c)"

lemma sends_only_refl: "sent c' = sent c \<Longrightarrow> sends_only c c'"
  unfolding sends_only_def by (rule exI [of _ "[]"]) simp

lemma sends_only_send: "sent c = sent c0 \<Longrightarrow> sends_only c0 (send r c)"
  unfolding sends_only_def by (rule exI [of _ "[r]"]) simp

lemma sends_only_settle: "sends_only c (settle orig a c)"
proof (induction orig a c rule: settle.induct)
  case (3 tok h b orig error st d c)
  have "\<exists>qs. requestInterceptor r # rev (map requestInterceptor rs) @ l = map requestInterceptor qs @ l"
    for r rs l by (rule exI [of _ "r # rev rs"]) (simp add: rev_map)
  then show ?case using 3 by (auto simp: sends_only_def split: sum.splits)
qed (auto simp: sends_only_def intro: exI [of _ "[]"])

lemma sends_only_step: "ax_step c c' \<Longrightarrow> sends_only c c'"
proof (induction rule: ax_step.induct)
  case (new_call c)
  show ?case unfolding call_def by (rule sends_only_send) simp
next
  case (deliver c xs r ys a)
  have "sends_only (c\<lparr>inFlight := xs @ ys\<rparr>) (responseInterceptor r a (c\<lparr>inFlight := xs @ ys\<rparr>))"
    by (cases a) (simp_all add: sends_only_settle sends_only_send sends_only_refl)
  then show ?case by (simp add: sends_only_def)
next
  case (set_token c t)
  show ?case by (simp add: sends_only_refl)
qed

lemma captured_token_reachable: "reachable c \<Longrightarrow> captured_token c"
proof (induction rule: reachable.induct)
  case (start t)
  show ?case by (simp add: initialClient_def captured_token_def)
next
  case (step c c')
  from sends_only_step [OF step.hyps(2)] step.IH show ?case
    by (auto simp: sends_only_def captured_token_def requestInterceptor_def)
qed

section \<open>Properties\<close>

text \<open>
  C1 No request is lost or answered twice: in every reachable state each caller so far has
  exactly one entry, either a request on the wire that is its own or a refresh made for it, a
  closure in the subscriber list, or an answer, whatever the order of the answers.
\<close>

theorem axios_no_caller_lost:
  assumes "reachable c"
  shows "image_mset (\<lambda>r. owner (origin r)) (mset (inFlight c @ refreshSubscribers c))
           + mset (map fst (settled c)) = mset [0..<calls c]"
  using no_caller_lost_reachable [OF assms] by (simp add: no_caller_lost_def owners_def waiting_def)

theorem axios_no_caller_lost_witness:
  "image_mset (\<lambda>r. owner (origin r)) (mset (inFlight (call (initialClient Null)) @ []))
     + mset [] = mset [0..<1]"
  using axios_no_caller_lost [OF reachable.step [OF reachable.start [of Null] ax_step.new_call]]
  by (simp add: call_def initialClient_def)

text \<open>
  C2 At most one refresh is outstanding, however many requests fail with 401 at the same time,
  and the flag \<open>isRefreshing\<close> is set as long as one is.
\<close>

theorem axios_single_refresh:
  assumes "reachable c"
  shows "length (filter is_refresh (inFlight c @ refreshSubscribers c)) \<le> (if isRefreshing c then 1 else 0)"
  using single_refresh_reachable [OF assms]
  by (simp only: single_refresh_def refreshes_def waiting_def)

theorem axios_single_refresh_witness:
  "reachable (initialClient Null) \<and>
   length (filter is_refresh (inFlight (initialClient Null) @ refreshSubscribers (initialClient Null))) \<le> 1"
  using axios_single_refresh [OF reachable.start [of Null]] reachable.start [of Null]
  by (simp add: initialClient_def)

text \<open>
  C3 The client retries at most once: the request of a caller goes on the wire at most twice,
  in any interleaving of calls and answers, refreshes included.
\<close>

theorem axios_at_most_two_attempts:
  assumes "reachable c"
  shows "attempts n c \<le> 2"
  using two_attempts_reachable [OF assms] by (simp add: two_attempts_def)

theorem axios_at_most_two_attempts_witness:
  "attempts 0 (call (initialClient Null)) \<le> 2"
  by (rule axios_at_most_two_attempts [OF reachable.step [OF reachable.start ax_step.new_call]])

text \<open>
  C4 A refused refresh locks the client up. When the refresh request itself is answered 401
  (an expired refresh cookie), its interceptor finds \<open>isRefreshing\<close> set and makes it wait for
  its own completion: from then on, whatever happens, the flag stays set, no request that waits
  in the subscriber list at that moment (the caller whose 401 started the refresh among them) is
  ever answered, and a further 401 of a request that was not repeated yet only lengthens the
  list: nothing is sent, nobody is answered, and the token stays.
\<close>

theorem axios_refused_refresh_deadlock:
  assumes "reachable c" and "inFlight c = xs @ r # ys" and "is_refresh r" and "unauthorized e"
    and "c' = responseInterceptor r (Failed e) (c\<lparr>inFlight := xs @ ys\<rparr>)"
    and "ax_step\<^sup>*\<^sup>* c' d" and "q = mark_retried r \<or> q \<in> set (refreshSubscribers c')"
  shows "isRefreshing d \<and> owner (origin q) \<notin> fst ` set (settled d) \<and>
    (inFlight d = us @ p # vs \<and> \<not> retried p \<and> unauthorized e' \<longrightarrow>
      responseInterceptor p (Failed e') (d\<lparr>inFlight := us @ vs\<rparr>) =
        d\<lparr>inFlight := us @ vs, refreshSubscribers := refreshSubscribers d @ [mark_retried p]\<rparr>)"
proof -
  note rm = sr_remove [OF single_refresh_reachable [OF assms(1)] assms(2)]
  have c': "c' = subscribeTokenRefresh (mark_retried r) (c\<lparr>inFlight := xs @ ys\<rparr>)"
    using assms(4,5) rm(2) [OF assms(3)] by simp
  have stuck: "stuck c'"
    using rm(2) [OF assms(3)] unfolding c' stuck_def by (simp add: refreshes_zero waiting_mem)
  note d = stuck_steps [OF assms(6) stuck]
  have "reachable c'" unfolding assms(5) by (rule reachable.step [OF assms(1) deliver [OF assms(2)]])
  then have "one_entry d"
    by (blast intro: no_caller_lost_one_entry no_caller_lost_reachable reachable_steps assms(6))
  moreover have "q \<in> set (waiting d)" using assms(7) d unfolding c' by (auto simp: waiting_mem)
  ultimately show ?thesis using d waiting_not_settled by (simp add: stuck_def subscribeTokenRefresh_def)
qed

theorem axios_refused_refresh_deadlock_witness:
  "0 \<notin> fst ` set (settled (responseInterceptor
      (Request Null None False (RefreshFor (Request Null None True (Caller 0)) (http_error 401 Undef)))
      (Failed (http_error 401 Undef))
      ((initialClient Null)\<lparr>isRefreshing := True, calls := 1,
         sent := [Request Null None False (RefreshFor (Request Null None True (Caller 0)) (http_error 401 Undef)),
                  Request Null None False (Caller 0)]\<rparr>)))"
proof -
  define e where "e = http_error 401 Undef"
  define r where "r = Request Null None False (RefreshFor (Request Null None True (Caller 0)) e)"
  define c where "c = (initialClient Null)\<lparr>isRefreshing := True, calls := 1, inFlight := [r],
      sent := [r, Request Null None False (Caller 0)]\<rparr>"
  have u: "unauthorized e"
    by (simp add: e_def unauthorized_def http_error_def response_def)
  have one: "call (initialClient Null) = (initialClient Null)\<lparr>inFlight := [Request Null None False (Caller 0)],
      calls := 1, sent := [Request Null None False (Caller 0)]\<rparr>"
    by (simp add: call_def initialClient_def send_def Let_def requestInterceptor_def)
  have "reachable (responseInterceptor (Request Null None False (Caller 0)) (Failed e)
      ((call (initialClient Null))\<lparr>inFlight := [] @ []\<rparr>))"
    by (rule reachable.step [OF reachable.step [OF reachable.start new_call] deliver]) (simp add: one)
  also have "responseInterceptor (Request Null None False (Caller 0)) (Failed e)
      ((call (initialClient Null))\<lparr>inFlight := [] @ []\<rparr>) = c"
    unfolding one c_def r_def using u
    by (simp add: initialClient_def send_def Let_def requestInterceptor_def mark_retried_def)
  finally have "reachable c" .
  from axios_refused_refresh_deadlock [OF this, of "[]" r "[]" e _ _ "mark_retried r"]
  show ?thesis using u by (simp add: c_def r_def e_def is_refresh_def mark_retried_def initialClient_def)
qed

text \<open>
  C5 A retry never carries the refreshed token: every request the client ever sends from an
  instance created with a token carries that very token, also the requests it repeats after a
  refresh has stored a new one, because the request interceptor overwrites the header.
\<close>

theorem axios_retry_carries_captured_token:
  assumes "reachable c" and "r \<in> set (sent c)" and "truthy (captured r)"
  shows "authorization r = Some (captured r)"
  using captured_token_reachable [OF assms(1)] assms(2,3) by (simp add: captured_token_def)

text \<open>The witness is a run in which the refresh stores the token \<open>new\<close> and the retry sends \<open>old\<close>.\<close>

theorem axios_retry_carries_captured_token_witness:
  "\<exists>c r. reachable c \<and> r \<in> set (sent c) \<and> retried r \<and> token c = JStr ''new'' \<and>
     authorization r = Some (JStr ''old'')"
proof -
  let ?old = "JStr ''old''"
  define e where "e = http_error 401 Undef"
  define q where "q = Request ?old (Some ?old) True (Caller 0)"
  define f where "f = Request ?old (Some ?old) False (RefreshFor q e)"
  have u: "unauthorized e" by (simp add: e_def unauthorized_def http_error_def response_def)
  let ?c1 = "call (initialClient ?old)"
  let ?r1 = "Request ?old (Some ?old) False (Caller 0)"
  let ?c2 = "responseInterceptor ?r1 (Failed e) (?c1\<lparr>inFlight := [] @ []\<rparr>)"
  let ?c3 = "responseInterceptor f (Resolved 200 (JObj [(''data'', JStr ''new'')])) (?c2\<lparr>inFlight := [] @ []\<rparr>)"
  have "reachable ?c1" by (rule reachable.step [OF reachable.start new_call])
  moreover have "inFlight ?c1 = [] @ ?r1 # []"
    by (simp add: call_def initialClient_def requestInterceptor_def)
  ultimately have "reachable ?c2" by (rule reachable.step [OF _ deliver])
  moreover have "inFlight ?c2 = [] @ f # []"
    using u by (simp add: call_def initialClient_def requestInterceptor_def f_def q_def mark_retried_def)
  ultimately have r3: "reachable ?c3" by (rule reachable.step [OF _ deliver])
  have in3: "q \<in> set (sent ?c3)"
    by (simp add: f_def q_def requestInterceptor_def)
  have auth: "authorization q = Some (captured q)"
    by (rule axios_retry_carries_captured_token [OF r3 in3]) (simp add: q_def)
  have tok: "token ?c3 = JStr ''new''" by (simp add: f_def q_def)
  show ?thesis
  proof (intro exI conjI)
    show "reachable ?c3" by (rule r3)
    show "q \<in> set (sent ?c3)" by (rule in3)
    show "retried q" by (simp add: q_def)
    show "token ?c3 = JStr ''new''" by (rule tok)
    show "authorization q = Some ?old" using auth by (simp add: q_def)
  qed
qed

text \<open>
  A successful refresh as the server documents it (\<^verbatim>\<open>backend/docs\<close>: the new tokens are
  under \<open>payload\<close>) stores \<open>undefined\<close> as the access token, because the client reads the
  field \<open>data\<close> of the body.
\<close>

lemma axios_refresh_stores_undefined:
  "token (settle (RefreshFor orig e) (Resolved 200 (JObj [(''payload'', p)])) c) = Undef"
  by (cases orig) simp

end
