(* ===== verification/JsText.thy ===== *)
theory JsText
  imports Prelude JsNumber "HOL-Library.Char_ord" "HOL-Library.List_Lexorder"
begin

text \<open>
  The text of a value: what a template literal \<open>${v}\<close> inserts. Numbers follow
  \<open>Number::toString\<close>: the shortest decimal digits that read back as the same double, laid
  out with or without an exponent. An object gives \<open>[object Object]\<close>, an array its elements
  joined by commas.
\<close>

section \<open>Numbers\<close>

text \<open>The position of the decimal point: \<open>10 ^ (n - 1) \<le> q < 10 ^ n\<close>, for \<open>0 < q\<close>.\<close>

fun leading_zeros :: "nat \<Rightarrow> rat \<Rightarrow> nat" where
  "leading_zeros 0 q = 0"
| "leading_zeros (Suc fuel) q = (if 1 \<le> q * 10 then 0 else Suc (leading_zeros fuel (q * 10)))"

definition point_pos :: "rat \<Rightarrow> int" where
  "point_pos q =
     (if 1 \<le> q then int (length (show_nat (nat \<lfloor>q\<rfloor>))) else - int (leading_zeros 330 q))"

definition shortest_digits :: "rat \<Rightarrow> nat" where
  "shortest_digits q =
     (let n = point_pos q;
          candidates = (\<lambda>k. let x = scale10 q (int k - n); s = nat \<lfloor>x\<rfloor>
                            in map (\<lambda>t. (k, t))
                                 (if x - of_int \<lfloor>x\<rfloor> \<le> 1 / 2 then [s, Suc s] else [Suc s, s]))
      in case find (\<lambda>(k, t). to_double (scale10 (of_nat t) (n - int k)) = Fin q)
                (concat (map candidates [1..<18])) of
           Some (k, t) \<Rightarrow> t
         | None \<Rightarrow> 0)"

definition layout_digits :: "int \<Rightarrow> string \<Rightarrow> string" where
  "layout_digits n ds =
     (let k = int (length ds)
      in if k \<le> n \<and> n \<le> 21 then ds @ replicate (nat (n - k)) CHR ''0''
         else if 0 < n \<and> n \<le> 21 then take (nat n) ds @ ''.'' @ drop (nat n) ds
         else if - 6 < n \<and> n \<le> 0 then ''0.'' @ replicate (nat (- n)) CHR ''0'' @ ds
         else (if k = 1 then ds else take 1 ds @ ''.'' @ drop 1 ds) @ ''e''
              @ (if 0 \<le> n - 1 then ''+'' else ''-'') @ show_nat (nat \<bar>n - 1\<bar>))"

fun num_text :: "jsnum \<Rightarrow> string" where
  "num_text NaN = ''NaN''"
| "num_text PosInf = ''Infinity''"
| "num_text NegInf = ''-Infinity''"
| "num_text (Fin q) =
     (if q < 0 then ''-'' else []) @
     (if of_int \<lfloor>q\<rfloor> = q \<and> \<bar>q\<bar> \<le> 2 ^ 53 then show_nat (nat \<lfloor>\<bar>q\<bar>\<rfloor>)
      else layout_digits (point_pos \<bar>q\<bar>) (show_nat (shortest_digits \<bar>q\<bar>)))"

section \<open>Values\<close>

fun js_text :: "jsval \<Rightarrow> string" and js_join :: "jsval list \<Rightarrow> string" where
  "js_text Undef = ''undefined''"
| "js_text Null = ''null''"
| "js_text (JBool b) = (if b then ''true'' else ''false'')"
| "js_text (JNum n) = num_text n"
| "js_text (JStr s) = s"
| "js_text (JArr vs) = js_join vs"
| "js_text (JObj _) = ''[object Object]''"
| "js_join [] = []"
| "js_join (v # vs) = (if nullish v then [] else js_text v) @ (if vs = [] then [] else '','' @ js_join vs)"

text \<open>A count is written with its decimal digits.\<close>

lemma num_text_nat [simp]: "n \<le> 2 ^ 53 \<Longrightarrow> num_text (Fin (of_nat n)) = show_nat n"
proof -
  assume "n \<le> 2 ^ 53"
  then have "(of_nat n :: rat) \<le> of_nat (2 ^ 53)" by (simp only: of_nat_le_iff)
  then show ?thesis by simp
qed

lemma js_text_nat: "n \<le> 2 ^ 53 \<Longrightarrow> js_text (JNum (Fin (of_nat n))) = show_nat n"
  by simp

text \<open>The number a value converts to, and the comparison of a value with a number.\<close>

fun js_number :: "jsval \<Rightarrow> jsnum" where
  "js_number Undef = NaN"
| "js_number Null = Fin 0"
| "js_number (JBool b) = Fin (if b then 1 else 0)"
| "js_number (JNum n) = n"
| "js_number (JStr s) = to_number s"
| "js_number (JArr vs) = to_number (js_join vs)"
| "js_number (JObj _) = NaN"

definition js_lt :: "jsval \<Rightarrow> jsnum \<Rightarrow> bool" where
  "js_lt v n = num_lt (js_number v) n"

definition js_gt :: "jsval \<Rightarrow> jsnum \<Rightarrow> bool" where
  "js_gt v n = num_lt n (js_number v)"

text \<open>The comparison of two values: two texts are compared by their characters.\<close>

definition js_prim :: "jsval \<Rightarrow> jsval" where
  "js_prim v =
     (case v of
        JArr vs \<Rightarrow> JStr (js_join vs)
      | JObj _ \<Rightarrow> JStr ''[object Object]''
      | _ \<Rightarrow> v)"

fun str_lt :: "string \<Rightarrow> string \<Rightarrow> bool" where
  "str_lt _ [] = False"
| "str_lt [] (_ # _) = True"
| "str_lt (c # s) (d # t) = (code c < code d \<or> c = d \<and> str_lt s t)"

text \<open>It is the lexicographic order of the library, hence a linear order.\<close>

lemma str_lt_lexicographic: "str_lt s t \<longleftrightarrow> s < t"
  by (induction s t rule: str_lt.induct) (auto simp: less_char_def)

fun js_less :: "jsval \<Rightarrow> jsval \<Rightarrow> bool" where
  "js_less (JStr s) (JStr t) = str_lt s t"
| "js_less a b = num_lt (js_number a) (js_number b)"

definition js_greater :: "jsval \<Rightarrow> jsval \<Rightarrow> bool" where
  "js_greater a b = js_less (js_prim b) (js_prim a)"

lemma js_greater_num [simp]: "js_greater (JNum m) (JNum n) = num_lt n m"
  by (simp add: js_greater_def js_prim_def)

lemma js_lt_num [simp]: "js_lt (JNum m) n = num_lt m n" "\<not> js_lt Undef n"
  by (simp_all add: js_lt_def)

lemma js_gt_num [simp]: "js_gt (JNum m) n = num_lt n m" "\<not> js_gt Undef n"
  by (simp_all add: js_gt_def)

end
