(* ===== verification/ReauthQuery.thy ===== *)
theory ReauthQuery
  imports AuthStore JsText
begin

text \<open>
  The second HTTP client: the base query of \<^verbatim>\<open>redux/features/api/apiSlice.ts\<close>, which renews
  the access token itself, and the endpoints injected into it
  (\<^verbatim>\<open>redux/features/credit-card/creditCardApi.ts\<close>, \<^verbatim>\<open>redux/features/profile/profileApi.ts\<close>)
  with the cache tags they provide and invalidate.

  The network is a parameter: given the requests sent so far, newest first, it gives the
  result of the newest one and the actions other parts of the client dispatched while it was
  under way. \<open>fetchBaseQuery\<close> never throws: it returns \<open>data\<close> or \<open>error\<close>. The bearer
  header is represented by the token in it.
\<close>

section \<open>Requests\<close>

record query_args =
  q_url :: string
  q_method :: string
  q_body :: jsval
  q_credentials :: bool

record query_request = query_args +
  q_authorization :: "jsval option"

datatype fetch_result = Data jsval | FetchError jsval jsval   \<comment> \<open>status and data of the error\<close>

type_synonym network = "query_request list \<Rightarrow> fetch_result \<times> action list"

definition get_args :: "string \<Rightarrow> query_args" where
  "get_args url = \<lparr>q_url = url, q_method = ''GET'', q_body = Undef, q_credentials = False\<rparr>"

definition refresh_args :: query_args where
  "refresh_args =
     \<lparr>q_url = ''/api/v1/auth/refresh'', q_method = ''POST'', q_body = Undef, q_credentials = True\<rparr>"

definition prepareHeaders :: "RootState \<Rightarrow> jsval option" where
  "prepareHeaders st =
     (let t = accessToken (auth st) in if truthy t then Some t else None)"

text \<open>The state of a query: the store and the requests sent so far, newest first.\<close>

type_synonym query_state = "RootState \<times> query_request list"

fun baseQuery :: "network \<Rightarrow> query_args \<Rightarrow> query_state \<Rightarrow> fetch_result \<times> query_state" where
  "baseQuery net args (st, reqs) =
     (let reqs' = query_args.extend args \<lparr>q_authorization = prepareHeaders st\<rparr> # reqs;
          (result, others) = net reqs'
      in (result, run rootReducer st others, reqs'))"

definition dispatch_to :: "action \<Rightarrow> query_state \<Rightarrow> query_state" where
  "dispatch_to a = (\<lambda>(st, reqs). (rootReducer st a, reqs))"

fun unauthorized_result :: "fetch_result \<Rightarrow> bool" where
  "unauthorized_result (Data _) = False"
| "unauthorized_result (FetchError status _) = (status = JNum (Fin 401))"

fun result_data :: "fetch_result \<Rightarrow> jsval" where
  "result_data (Data v) = v"
| "result_data (FetchError _ _) = Undef"

definition baseQueryWithReauth ::
    "network \<Rightarrow> query_args \<Rightarrow> query_state \<Rightarrow> fetch_result \<times> query_state" where
  "baseQueryWithReauth net args s =
     (let (result, s1) = baseQuery net args s
      in if unauthorized_result result then
           let (refreshResult, s2) = baseQuery net refresh_args s1
           in if truthy (result_data refreshResult) then
                let accessToken = get_oprop (result_data refreshResult) ''accessToken''
                in baseQuery net args (dispatch_to (AddAccessToken accessToken) s2)
              else (result, dispatch_to RemoveAccessToken s2)
         else (result, s1))"

section \<open>Endpoints and cache tags\<close>

definition getCreditCards_query :: query_args where
  "getCreditCards_query = get_args ''/api/v1/card/get-cards''"

definition addCreditCard_query :: "jsval \<Rightarrow> query_args" where
  "addCreditCard_query newCard =
     \<lparr>q_url = ''/api/v1/card/add-card'', q_method = ''POST'', q_body = newCard, q_credentials = False\<rparr>"

definition deleteCreditCard_query :: "jsval \<Rightarrow> query_args" where
  "deleteCreditCard_query card_id =
     \<lparr>q_url = ''/api/v1/card/delete-card/'' @ js_text card_id, q_method = ''DELETE'', q_body = Undef,
      q_credentials = False\<rparr>"

definition detailCreditCard_query :: "jsval \<Rightarrow> query_args" where
  "detailCreditCard_query card_id = get_args (''/api/v1/card/details/'' @ js_text card_id)"

definition getProfile_query :: query_args where
  "getProfile_query = get_args ''/api/v1/users/me''"

datatype tag = CreditCardTag jsval   \<comment> \<open>\<open>{ type: "CreditCard", id }\<close>\<close>

fun map_throws :: "('a \<Rightarrow> 'b throws) \<Rightarrow> 'a list \<Rightarrow> 'b list throws" where
  "map_throws f [] = Inr []"
| "map_throws f (x # xs) =
     (case f x of Inl e \<Rightarrow> Inl e
      | Inr y \<Rightarrow> (case map_throws f xs of Inl e \<Rightarrow> Inl e | Inr ys \<Rightarrow> Inr (y # ys)))"

text \<open>A result whose truthy \<open>data\<close> is no array has no method \<open>map\<close>.\<close>

definition getCreditCards_providesTags :: "jsval \<Rightarrow> tag list throws" where
  "getCreditCards_providesTags result =
     (let d = get_oprop result ''data''
      in if truthy d then
           (case d of
              JArr cards \<Rightarrow>
                (case map_throws (\<lambda>card. get_prop card ''_id'') cards of
                   Inl e \<Rightarrow> Inl e
                 | Inr ids \<Rightarrow> Inr (CreditCardTag (JStr ''LIST'') # map CreditCardTag ids))
            | _ \<Rightarrow> Inl type_error)
         else Inr [CreditCardTag (JStr ''LIST'')])"

definition detailCreditCard_providesTags :: "jsval \<Rightarrow> tag list" where
  "detailCreditCard_providesTags card_id = [CreditCardTag card_id]"

definition addCreditCard_invalidatesTags :: "tag list" where
  "addCreditCard_invalidatesTags = [CreditCardTag (JStr ''LIST'')]"

definition deleteCreditCard_invalidatesTags :: "jsval \<Rightarrow> tag list" where
  "deleteCreditCard_invalidatesTags card_id = [CreditCardTag card_id]"

text \<open>A cached query is fetched again when it provides a tag that a mutation invalidates.\<close>

definition refetched :: "tag list \<Rightarrow> tag list \<Rightarrow> bool" where
  "refetched provided invalid \<longleftrightarrow> (\<exists>t \<in> set invalid. t \<in> set provided)"

section \<open>Lemmas\<close>

lemma map_throws_Inr:
  "map_throws f xs = Inr ys \<longleftrightarrow> list_all2 (\<lambda>x y. f x = Inr y) xs ys"
proof (induction xs arbitrary: ys)
  case Nil
  show ?case by (cases ys) simp_all
next
  case (Cons x xs)
  show ?case
  proof (cases ys)
    case Nil
    then show ?thesis by (simp split: sum.splits)
  next
    case (Cons y zs)
    then show ?thesis by (auto simp: Cons.IH [symmetric] split: sum.splits)
  qed
qed

lemma run_token: "accessToken (auth (run rootReducer s as)) = run token_cell (accessToken (auth s)) as"
  by (simp add: accessToken_run)

lemma baseQuery_log [simp]:
  "snd (snd (baseQuery net args s)) =
     query_args.extend args \<lparr>q_authorization = prepareHeaders (fst s)\<rparr> # snd s"
  by (cases s) (simp add: Let_def split: prod.splits)

lemma baseQuery_result:
  "fst (baseQuery net args s) =
     fst (net (query_args.extend args \<lparr>q_authorization = prepareHeaders (fst s)\<rparr> # snd s))"
  by (cases s) (simp add: Let_def split: prod.splits)

declare baseQuery.simps [simp del]

lemma dispatch_to_simps [simp]:
  "snd (dispatch_to a s) = snd s" "fst (dispatch_to a s) = rootReducer (fst s) a"
  by (simp_all add: dispatch_to_def split: prod.splits)

text \<open>The three ways a query ends.\<close>

lemma reauth_plain:
  "\<not> unauthorized_result (fst (baseQuery net args s)) \<Longrightarrow>
   baseQueryWithReauth net args s = baseQuery net args s"
  by (simp add: baseQueryWithReauth_def Let_def case_prod_beta)

lemma reauth_refused:
  assumes "unauthorized_result (fst (baseQuery net args s))"
    and "\<not> truthy (result_data (fst (baseQuery net refresh_args (snd (baseQuery net args s)))))"
  shows "baseQueryWithReauth net args s =
    (fst (baseQuery net args s),
     dispatch_to RemoveAccessToken (snd (baseQuery net refresh_args (snd (baseQuery net args s)))))"
  using assms by (simp add: baseQueryWithReauth_def Let_def case_prod_beta)

lemma reauth_renewed:
  assumes "unauthorized_result (fst (baseQuery net args s))"
    and "truthy (result_data (fst (baseQuery net refresh_args (snd (baseQuery net args s)))))"
  shows "baseQueryWithReauth net args s =
    baseQuery net args
      (dispatch_to
        (AddAccessToken
          (get_oprop (result_data (fst (baseQuery net refresh_args (snd (baseQuery net args s)))))
            ''accessToken''))
        (snd (baseQuery net refresh_args (snd (baseQuery net args s)))))"
  using assms by (simp add: baseQueryWithReauth_def Let_def case_prod_beta)

lemmas reauth_cases = reauth_plain reauth_refused reauth_renewed

section \<open>Properties\<close>

text \<open>
  C19 A query sends at most three requests: itself, one renewal of the token and one repetition
  of itself, in this order; the renewal is never repeated.
\<close>

theorem reauth_requests:
  "\<exists>new. snd (snd (baseQueryWithReauth net args s)) = new @ snd s \<and>
     map query_args.truncate new \<in>
       {[query_args.truncate args],
        [refresh_args, query_args.truncate args],
        [query_args.truncate args, refresh_args, query_args.truncate args]}"
proof -
  let ?r1 = "baseQuery net args s"
  let ?r2 = "baseQuery net refresh_args (snd ?r1)"
  have tr: "query_args.truncate (query_args.extend a m) = query_args.truncate a" for a m
    by (simp add: query_args.defs)
  have rf: "query_args.truncate refresh_args = refresh_args"
    by (simp add: query_args.defs refresh_args_def)
  consider "\<not> unauthorized_result (fst ?r1)"
    | "unauthorized_result (fst ?r1)" "\<not> truthy (result_data (fst ?r2))"
    | "unauthorized_result (fst ?r1)" "truthy (result_data (fst ?r2))" by blast
  then show ?thesis
    by cases (auto simp: reauth_cases tr rf)
qed

text \<open>
  C20 After a renewal the repeated request carries the renewed token: when the first answer is
  401, the renewal answers with a truthy token \<open>t\<close> in the field \<open>accessToken\<close>, the newest
  request of the query has the header with \<open>t\<close>, whatever other actions were dispatched in
  the meantime, and \<open>t\<close> is the token of the store when the request leaves.
\<close>

theorem reauth_retry_uses_renewed_token:
  assumes "unauthorized_result (fst (baseQuery net args s))"
    and "result_data (fst (baseQuery net refresh_args (snd (baseQuery net args s)))) = JObj fs"
    and "map_of fs ''accessToken'' = Some t" and "truthy t"
  shows "\<exists>rest. snd (snd (baseQueryWithReauth net args s)) =
           query_args.extend args \<lparr>q_authorization = Some t\<rparr> # rest"
  using assms by (simp add: reauth_renewed prepareHeaders_def rootReducer_def)

definition expired_then_renewed :: network where
  "expired_then_renewed reqs =
     (if length reqs = 1 then (FetchError (JNum (Fin 401)) Undef, [])
      else if length reqs = 2 then (Data (JObj [(''accessToken'', JStr ''new'')]), [RemoveAccessToken])
      else (Data (JArr []), []))"

theorem reauth_retry_uses_renewed_token_witness:
  "\<exists>rest. snd (snd (baseQueryWithReauth expired_then_renewed getProfile_query (initialRoot, []))) =
     query_args.extend getProfile_query \<lparr>q_authorization = Some (JStr ''new'')\<rparr> # rest"
  by (rule reauth_retry_uses_renewed_token [where fs = "[(''accessToken'', JStr ''new'')]"])
    (simp_all add: expired_then_renewed_def initialRoot_def baseQuery.simps)

text \<open>
  C21 When the server refuses the renewal (its result has no data), the query logs the user
  out: the token in the store is empty, the caller gets the very result the query was answered
  with first (its 401, with the data of the server), and nothing but the query and the renewal
  was sent, the query with the token the store had.
\<close>

theorem reauth_refusal_logs_out:
  assumes "unauthorized_result (fst (baseQuery net args s))"
    and "\<not> truthy (result_data (fst (baseQuery net refresh_args (snd (baseQuery net args s)))))"
  shows "accessToken (auth (fst (snd (baseQueryWithReauth net args s)))) = JStr [] \<and>
    fst (baseQueryWithReauth net args s) =
      fst (net (query_args.extend args \<lparr>q_authorization = prepareHeaders (fst s)\<rparr> # snd s)) \<and>
    unauthorized_result (fst (baseQueryWithReauth net args s)) \<and>
    (\<exists>h. snd (snd (baseQueryWithReauth net args s)) =
       query_args.extend refresh_args \<lparr>q_authorization = h\<rparr> #
       query_args.extend args \<lparr>q_authorization = prepareHeaders (fst s)\<rparr> # snd s)"
  using assms by (auto simp: reauth_refused rootReducer_def baseQuery_result)

definition always_refused :: network where
  "always_refused reqs = (FetchError (JNum (Fin 401)) Undef, [AddAccessToken (JStr ''other'')])"

theorem reauth_refusal_logs_out_witness:
  "accessToken (auth (fst (snd (baseQueryWithReauth always_refused getProfile_query (initialRoot, []))))) = JStr []"
  using reauth_refusal_logs_out [of always_refused getProfile_query "(initialRoot, [])"]
  by (simp add: always_refused_def baseQuery.simps)

text \<open>
  A renewal answered as the server documents it, with the new tokens under \<open>payload\<close> and
  no field \<open>accessToken\<close>, leaves the repeated request without any token, however good the
  new tokens are.
\<close>

lemma reauth_payload_drops_token:
  assumes "unauthorized_result (fst (baseQuery net args s))"
    and "result_data (fst (baseQuery net refresh_args (snd (baseQuery net args s)))) =
           JObj [(''message'', m), (''payload'', p)]"
  shows "\<exists>rest. snd (snd (baseQueryWithReauth net args s)) =
           query_args.extend args \<lparr>q_authorization = None\<rparr> # rest"
  using assms by (simp add: reauth_renewed prepareHeaders_def rootReducer_def)

definition documented_renewal :: network where
  "documented_renewal reqs =
     (if length reqs = 1 then (FetchError (JNum (Fin 401)) Undef, [])
      else (Data (JObj [(''message'', JStr ''ok''), (''payload'', JObj [(''access_token'', JStr ''new'')])]), []))"

lemma reauth_payload_drops_token_witness:
  "\<exists>rest. snd (snd (baseQueryWithReauth documented_renewal getProfile_query (initialRoot, []))) =
     query_args.extend getProfile_query \<lparr>q_authorization = None\<rparr> # rest"
  by (rule reauth_payload_drops_token)
    (simp_all add: documented_renewal_def initialRoot_def baseQuery.simps)

text \<open>
  The cache follows the cards: for a list of cards the server sent, deleting a card refetches
  the list exactly when the card is on it (or is called \<open>LIST\<close>), refetches the details of that
  card and of no other one, and adding a card always refetches the list.
\<close>

lemma card_cache_tags:
  assumes "get_oprop result ''data'' = JArr cards"
    and "list_all2 (\<lambda>card card_id. get_prop card ''_id'' = Inr card_id) cards ids"
  shows "\<exists>tags. getCreditCards_providesTags result = Inr tags \<and>
    (refetched tags (deleteCreditCard_invalidatesTags v) \<longleftrightarrow> v \<in> set ids \<or> v = JStr ''LIST'') \<and>
    (refetched (detailCreditCard_providesTags w) (deleteCreditCard_invalidatesTags v) \<longleftrightarrow> w = v) \<and>
    refetched tags addCreditCard_invalidatesTags"
proof -
  have "map_throws (\<lambda>card. get_prop card ''_id'') cards = Inr ids"
    using assms(2) by (simp add: map_throws_Inr)
  then show ?thesis
    using assms(1)
    by (auto simp: getCreditCards_providesTags_def refetched_def deleteCreditCard_invalidatesTags_def
        detailCreditCard_providesTags_def addCreditCard_invalidatesTags_def)
qed

lemma card_cache_tags_witness:
  "\<exists>tags. getCreditCards_providesTags
       (JObj [(''data'', JArr [JObj [(''_id'', JStr ''c1'')]])]) = Inr tags \<and>
     refetched tags (deleteCreditCard_invalidatesTags (JStr ''c1'')) \<and>
     \<not> refetched tags (deleteCreditCard_invalidatesTags (JStr ''c2''))"
  using card_cache_tags [of "JObj [(''data'', JArr [JObj [(''_id'', JStr ''c1'')]])]"
      "[JObj [(''_id'', JStr ''c1'')]]" "[JStr ''c1'']" "JStr ''c1''" Undef]
    card_cache_tags [of "JObj [(''data'', JArr [JObj [(''_id'', JStr ''c1'')]])]"
      "[JObj [(''_id'', JStr ''c1'')]]" "[JStr ''c1'']" "JStr ''c2''" Undef]
  by auto

end
