(* ===== verification/Ui.thy ===== *)
theory Ui
  imports JsText RegExp
begin

text \<open>
  What a component renders. A JSX element is a tree of the parts a user can see or act on:
  texts, expressions, images and icons, elements with children, clickable elements, buttons
  with their \<open>disabled\<close> property, input fields with their \<open>onChange\<close>, input fields that also
  carry constraints the browser checks itself (\<open>Input\<close>), forms with their \<open>onSubmit\<close>, links, and
  sheets (drawers, dialogs and modals, which show their children when open). Class names are kept only where they depend on the state (\<open>Styled\<close>); fixed styling is
  dropped. \<open>'e\<close> is the type of the events the component handles.
\<close>

section \<open>What the browser checks\<close>

text \<open>
  The constraints of an input field. \<open>maxlength\<close> limits what can be typed; the other three are
  checked when a form is submitted, and a form with a field that does not meet them is not: no
  \<open>onSubmit\<close> runs. A pattern and the type \<open>email\<close> do not concern an empty field.
\<close>

datatype constraint = Required | MaxLength nat | Pattern regex | MailAddress

text \<open>The valid address of the HTML standard, as the regular expression given there.\<close>

definition is_alnum :: "char \<Rightarrow> bool" where
  "is_alnum c \<longleftrightarrow> is_upper c \<or> is_lower c \<or> is_digit c"

definition mail_local_char :: "char \<Rightarrow> bool" where   \<comment> \<open>\<open>[a-zA-Z0-9.!#$%&'*+\/=?^_`{|}~-]\<close>\<close>
  "mail_local_char c \<longleftrightarrow> is_alnum c \<or> c \<in> set ''.!#$%&*+/=?^_{|}~-'' \<or> c = CHR 0x27 \<or> c = CHR 0x60"

definition mail_inner_char :: "char \<Rightarrow> bool" where   \<comment> \<open>\<open>[a-zA-Z0-9-]\<close>\<close>
  "mail_inner_char c \<longleftrightarrow> is_alnum c \<or> c = CHR ''-''"

definition mail_label :: regex where
  "mail_label = Seq (Cls is_alnum) (Alt Eps (Seq (UpTo 61 (Cls mail_inner_char)) (Cls is_alnum)))"

definition mail_syntax :: regex where
  "mail_syntax =
     Seq (Plus (Cls mail_local_char))
       (Seq (Lit CHR ''@'') (Seq mail_label (Star (Seq (Lit CHR ''.'') mail_label))))"

definition mail_address :: "string \<Rightarrow> bool" where
  "mail_address s \<longleftrightarrow> matches mail_syntax s"

fun native_ok :: "constraint \<Rightarrow> string \<Rightarrow> bool" where
  "native_ok Required v = (v \<noteq> [])"
| "native_ok (MaxLength n) v = True"
| "native_ok (Pattern r) v = (v = [] \<or> matches r v)"
| "native_ok MailAddress v = (v = [] \<or> mail_address v)"

definition accepts :: "constraint list \<Rightarrow> string \<Rightarrow> bool" where
  "accepts cs v \<longleftrightarrow> list_all (\<lambda>c. native_ok c v) cs"

fun within_limit :: "string \<Rightarrow> constraint \<Rightarrow> bool" where
  "within_limit v (MaxLength n) = (length v \<le> n)"
| "within_limit v _ = True"

definition typable :: "constraint list \<Rightarrow> string \<Rightarrow> bool" where
  "typable cs v \<longleftrightarrow> list_all (within_limit v) cs"

section \<open>Rendered trees\<close>

datatype 'e ui =
    Text string
  | Expr jsval
  | Img jsval
  | Icon string
  | Box "'e ui list"
  | Styled string "'e ui list"
  | Click 'e "'e ui list"
  | Btn bool 'e "'e ui list"
  | Field string jsval "string \<Rightarrow> 'e"
  | Input "constraint list" string jsval "string \<Rightarrow> 'e"
  | Form 'e "'e ui list"
  | Link string "'e ui list"
  | Sheet bool 'e "'e ui list"

text \<open>\<open>c && u\<close> with a boolean \<open>c\<close>, and \<open>xs.map(f)\<close>.\<close>

definition whenever :: "bool \<Rightarrow> 'e ui \<Rightarrow> 'e ui" where
  "whenever c u = (if c then u else Box [])"

text \<open>React shows strings and numbers; it shows nothing for booleans, \<open>null\<close>, \<open>undefined\<close>.\<close>

fun rendered :: "jsval \<Rightarrow> string list" where
  "rendered (JStr s) = [s]"
| "rendered (JNum n) = [num_text n]"
| "rendered (JArr vs) = concat (map rendered vs)"
| "rendered _ = []"

text \<open>The texts on the screen, in order.\<close>

fun shown :: "'e ui \<Rightarrow> string list" where
  "shown (Text s) = [s]"
| "shown (Expr v) = rendered v"
| "shown (Img _) = []"
| "shown (Icon _) = []"
| "shown (Box us) = concat (map shown us)"
| "shown (Styled _ us) = concat (map shown us)"
| "shown (Click _ us) = concat (map shown us)"
| "shown (Btn _ _ us) = concat (map shown us)"
| "shown (Field _ v _) = rendered v"
| "shown (Input _ _ v _) = rendered v"
| "shown (Form _ us) = concat (map shown us)"
| "shown (Link _ us) = concat (map shown us)"
| "shown (Sheet opened _ us) = (if opened then concat (map shown us) else [])"

text \<open>The events a click can raise now: a disabled button and a closed sheet raise none.\<close>

fun clickable :: "'e ui \<Rightarrow> 'e list" where
  "clickable (Text _) = []"
| "clickable (Expr _) = []"
| "clickable (Img _) = []"
| "clickable (Icon _) = []"
| "clickable (Box us) = concat (map clickable us)"
| "clickable (Styled _ us) = concat (map clickable us)"
| "clickable (Click e us) = e # concat (map clickable us)"
| "clickable (Btn disabled e us) = (if disabled then [] else e # concat (map clickable us))"
| "clickable (Field _ _ _) = []"
| "clickable (Input _ _ _ _) = []"
| "clickable (Form e us) = e # concat (map clickable us)"
| "clickable (Link _ us) = concat (map clickable us)"
| "clickable (Sheet opened e us) = (if opened then e # concat (map clickable us) else [])"

text \<open>The addresses the links on the screen lead to.\<close>

fun links :: "'e ui \<Rightarrow> string list" where
  "links (Box us) = concat (map links us)"
| "links (Styled _ us) = concat (map links us)"
| "links (Click _ us) = concat (map links us)"
| "links (Btn _ _ us) = concat (map links us)"
| "links (Form _ us) = concat (map links us)"
| "links (Link to us) = to # concat (map links us)"
| "links (Sheet opened _ us) = (if opened then concat (map links us) else [])"
| "links _ = []"

text \<open>The constrained fields on the screen, with the texts they hold.\<close>

definition field_text :: "jsval \<Rightarrow> string" where
  "field_text v = (if nullish v then [] else js_text v)"

fun constrained :: "'e ui \<Rightarrow> (constraint list \<times> string) list" where
  "constrained (Input cs _ v _) = [(cs, field_text v)]"
| "constrained (Box us) = concat (map constrained us)"
| "constrained (Styled _ us) = concat (map constrained us)"
| "constrained (Click _ us) = concat (map constrained us)"
| "constrained (Btn _ _ us) = concat (map constrained us)"
| "constrained (Form _ us) = concat (map constrained us)"
| "constrained (Link _ us) = concat (map constrained us)"
| "constrained (Sheet opened _ us) = (if opened then concat (map constrained us) else [])"
| "constrained _ = []"

definition form_valid :: "'e ui \<Rightarrow> bool" where
  "form_valid u \<longleftrightarrow> list_all (\<lambda>(cs, v). accepts cs v) (constrained u)"

lemma whenever_simps [simp]:
  "shown (whenever c u) = (if c then shown u else [])"
  "clickable (whenever c u) = (if c then clickable u else [])"
  "links (whenever c u) = (if c then links u else [])"
  by (simp_all add: whenever_def)

lemma clickable_map [simp]:
  "e \<in> set (concat (map clickable (map f xs))) \<longleftrightarrow> (\<exists>x \<in> set xs. e \<in> set (clickable (f x)))"
  by auto

lemma shown_map [simp]:
  "t \<in> set (concat (map shown (map f xs))) \<longleftrightarrow> (\<exists>x \<in> set xs. t \<in> set (shown (f x)))"
  by auto

section \<open>Valid addresses\<close>

lemma lang_UpTo_Cls: "lang (UpTo n (Cls p)) s \<Longrightarrow> \<forall>c \<in> set s. p c"
proof (induction n arbitrary: s)
  case (Suc n)
  then show ?case by (auto split: list.splits)
qed simp

lemma mail_label_chars:
  assumes "lang mail_label s"
  shows "s \<noteq> [] \<and> (\<forall>c \<in> set s. mail_inner_char c)"
proof -
  from assms obtain c t where s: "s = c # t" "is_alnum c"
    and t: "t = [] \<or> lang (Seq (UpTo 61 (Cls mail_inner_char)) (Cls is_alnum)) t"
    unfolding mail_label_def lang_Seq_Cls by (auto split: list.splits simp del: UpTo.simps)
  from t have "\<forall>x \<in> set t. mail_inner_char x"
    using lang_UpTo_Cls [of 61 mail_inner_char]
    by (fastforce simp: mail_inner_char_def simp del: UpTo.simps)
  with s show ?thesis by (simp add: mail_inner_char_def)
qed

lemma mail_rest_chars:
  assumes "in_star (lang (Seq (Lit CHR ''.'') mail_label)) s"
  shows "\<forall>c \<in> set s. mail_inner_char c \<or> c = CHR ''.''"
  using assms
proof (induction rule: in_star.induct)
  case (star_app u v)
  then show ?case using mail_label_chars by fastforce
qed simp

text \<open>A local part, an at sign, a first label, and labels with a dot before each.\<close>

lemma mail_address_split:
  assumes "mail_address s"
  obtains a l ds where "s = a @ ''@'' @ l @ ds" and "a \<noteq> []" and "\<forall>c \<in> set a. mail_local_char c"
    and "l \<noteq> []" and "\<forall>c \<in> set l. mail_inner_char c"
    and "ds = [] \<or> (\<exists>l' ds'. ds = ''.'' @ l' @ ds' \<and> l' \<noteq> [])"
    and "\<forall>c \<in> set ds. mail_inner_char c \<or> c = CHR ''.''"
proof -
  from assms obtain a l ds where s: "s = a @ ''@'' @ l @ ds"
    and a: "lang (Plus (Cls mail_local_char)) a" and l: "lang mail_label l"
    and ds: "in_star (lang (Seq (Lit CHR ''.'') mail_label)) ds"
    unfolding mail_address_def mail_syntax_def matches_lang lang.simps lang_Lit by auto
  have "ds = [] \<or> (\<exists>l' ds'. ds = ''.'' @ l' @ ds' \<and> l' \<noteq> [])"
    using ds
  proof cases
    case (star_app u v)
    then obtain l' where "u = ''.'' @ l'" "lang mail_label l'" by auto
    with star_app mail_label_chars [of l'] show ?thesis by auto
  qed simp
  with s a mail_label_chars [OF l] mail_rest_chars [OF ds] show ?thesis
    by (intro that) auto
qed

end
