(* ===== verification/Routing.thy ===== *)
theory Routing
  imports AuthStore Ui
begin

text \<open>
  Which page an address shows: the expiry test of \<^verbatim>\<open>utils/expired-token.ts\<close>, the guards of
  \<^verbatim>\<open>utils/protect_routes.tsx\<close> and \<^verbatim>\<open>utils/registered-route.tsx\<close>, the route table of
  \<^verbatim>\<open>app.tsx\<close>, and the two sidebars (\<^verbatim>\<open>components/sidebar\<close>, \<^verbatim>\<open>components/b2b/sidebar.tsx\<close>)
  with the header of the business portal (\<^verbatim>\<open>components/b2b/header.tsx\<close>).

  Two pieces of code outside the repository are parameters: \<open>decode\<close>, the reading of a token
  by \<^verbatim>\<open>jwt-decode\<close>, which gives the payload or throws; and \<open>pick\<close>, the choice of a route
  by \<^verbatim>\<open>react-router\<close>, of which \<open>router_ok\<close> states what its documentation promises.
\<close>

section \<open>The expiry of the token\<close>

type_synonym jwt_decode = "jsval \<Rightarrow> jsval throws"

definition useTokenExpired :: "jwt_decode \<Rightarrow> nat \<Rightarrow> RootState \<Rightarrow> bool throws" where
  "useTokenExpired decode now st =
     (let tok = accessToken (auth st)
      in if \<not> truthy tok then Inr True
         else (case decode tok of
                 Inl e \<Rightarrow> Inl e
               | Inr payload \<Rightarrow>
                   (case get_prop payload ''exp'' of
                      Inl e \<Rightarrow> Inl e
                    | Inr expiry \<Rightarrow>
                        let currentTime = Fin (of_nat (now div 1000))
                        in Inr (js_lt expiry currentTime))))"

text \<open>What a guard does: it goes elsewhere, lets the page render, or the render throws.\<close>

datatype guarded = GoTo string | Outlet | Broken jsval

definition ProtectRoutes :: "jwt_decode \<Rightarrow> nat \<Rightarrow> RootState \<Rightarrow> guarded" where
  "ProtectRoutes decode now st =
     (case useTokenExpired decode now st of
        Inl e \<Rightarrow> Broken e
      | Inr expiredToken \<Rightarrow> if expiredToken then GoTo ''/auth/login'' else Outlet)"

definition RegisteredRoute :: guarded where
  "RegisteredRoute = Outlet"

section \<open>The route table\<close>

datatype page =
    Home | Setting | B2BAPIManagement | ScanQR | PaymentGateway | PaymentResults | SelectOptions
  | TransferPage | TransferResults | TransferByQrCode | TransferLayout | History
  | TransactionDetails | DepositWithdraw | DepositResult | CreditCardPage | AddCreditCard
  | ReceivePage | B2BDashboard | B2BUsers | Analytics | B2BSettings | PageNotFound
  | LoginPage | VerifyLoginPage | RegisterPage | VerifyRegisterPage | SecurityCodePage
  | ForgotPasswordForm | ResetPasswordForm

text \<open>The pages are finitely many, which makes statements about all of them executable.\<close>

instantiation page :: enum
begin

definition enum_page :: "page list" where
  "enum_page =
     [Home, Setting, B2BAPIManagement, ScanQR, PaymentGateway, PaymentResults,
      SelectOptions, TransferPage, TransferResults, TransferByQrCode,
      TransferLayout, History, TransactionDetails, DepositWithdraw, DepositResult,
      CreditCardPage, AddCreditCard, ReceivePage, B2BDashboard, B2BUsers, Analytics,
      B2BSettings, PageNotFound, LoginPage, VerifyLoginPage, RegisterPage,
      VerifyRegisterPage, SecurityCodePage, ForgotPasswordForm, ResetPasswordForm]"

definition enum_all_page :: "(page \<Rightarrow> bool) \<Rightarrow> bool" where
  "enum_all_page P = list_all P enum_class.enum"

definition enum_ex_page :: "(page \<Rightarrow> bool) \<Rightarrow> bool" where
  "enum_ex_page P = list_ex P enum_class.enum"

lemma page_in_enum: "(p :: page) \<in> set enum_class.enum"
  by (cases p) (simp_all add: enum_page_def)

instance
proof
  show "UNIV = set (enum_class.enum :: page list)" using page_in_enum by auto
  show "distinct (enum_class.enum :: page list)" by (simp add: enum_page_def)
  show "enum_class.enum_all P \<longleftrightarrow> Ball UNIV P" for P :: "page \<Rightarrow> bool"
    using page_in_enum by (auto simp: enum_all_page_def list_all_iff)
  show "enum_class.enum_ex P \<longleftrightarrow> Bex UNIV P" for P :: "page \<Rightarrow> bool"
    using page_in_enum by (auto simp: enum_ex_page_def list_ex_iff)
qed

end

datatype guard = Protected | Registered | Unguarded

datatype layout = AuthenticatedLayout | B2BLayout | NonAuthenticatedLayout | NoLayout

text \<open>A leaf of the route tree: its full path, its guard and layout, its nested pages.\<close>

datatype route =
  Route (route_path: string) (route_guard: guard) (route_layout: layout) (route_pages: "page list")

definition app_routes :: "route list" where
  "app_routes =
     [Route ''/'' Protected AuthenticatedLayout [Home],
      Route ''/setting'' Protected AuthenticatedLayout [Setting],
      Route ''/connect-app'' Protected AuthenticatedLayout [B2BAPIManagement],
      Route ''/scan-qrcode'' Protected AuthenticatedLayout [ScanQR],
      Route ''/payment'' Protected AuthenticatedLayout [PaymentGateway],
      Route ''/payment/results'' Protected AuthenticatedLayout [PaymentResults],
      Route ''/option-payment'' Protected AuthenticatedLayout [SelectOptions],
      Route ''/transfer'' Protected AuthenticatedLayout [TransferPage],
      Route ''/transfer/result'' Protected AuthenticatedLayout [TransferResults],
      Route ''/transfer/info'' Protected AuthenticatedLayout [TransferByQrCode],
      Route ''/transfer'' Protected AuthenticatedLayout [TransferLayout],
      Route ''/transfer'' Protected AuthenticatedLayout [TransferLayout, TransferPage],
      Route ''/transfer/result'' Protected AuthenticatedLayout [TransferLayout, TransferResults],
      Route ''/transfer/info'' Protected AuthenticatedLayout [TransferLayout, TransferByQrCode],
      Route ''/transaction/history'' Protected AuthenticatedLayout [History],
      Route ''/transaction/details'' Protected AuthenticatedLayout [TransactionDetails],
      Route ''/deposit-withdraw'' Protected AuthenticatedLayout [DepositWithdraw],
      Route ''/deposit-withdraw/result'' Protected AuthenticatedLayout [DepositResult],
      Route ''/credit-card'' Protected AuthenticatedLayout [CreditCardPage],
      Route ''/credit-card/add-card'' Protected AuthenticatedLayout [CreditCardPage, AddCreditCard],
      Route ''/receive-page'' Protected AuthenticatedLayout [ReceivePage],
      Route ''/b2b'' Protected B2BLayout [B2BDashboard],
      Route ''/b2b/dashboard'' Protected B2BLayout [B2BDashboard],
      Route ''/b2b/users'' Protected B2BLayout [B2BUsers],
      Route ''/b2b/api-keys'' Protected B2BLayout [B2BAPIManagement],
      Route ''/b2b/analytics'' Protected B2BLayout [Analytics],
      Route ''/b2b/settings'' Protected B2BLayout [B2BSettings],
      Route ''*'' Protected NoLayout [PageNotFound],
      Route ''/auth/login'' Registered NonAuthenticatedLayout [LoginPage],
      Route ''/auth/login/verify-login'' Registered NonAuthenticatedLayout [VerifyLoginPage],
      Route ''/auth/register'' Registered NonAuthenticatedLayout [RegisterPage],
      Route ''/auth/register/verify-register'' Registered NonAuthenticatedLayout [VerifyRegisterPage],
      Route ''/auth/register/security-code'' Registered NonAuthenticatedLayout [SecurityCodePage],
      Route ''/auth/login/forgot-password'' Registered NonAuthenticatedLayout [ForgotPasswordForm],
      Route ''/auth/login/reset-password'' Registered NonAuthenticatedLayout [ResetPasswordForm],
      Route ''*'' Unguarded NoLayout [PageNotFound]]"

text \<open>No page is left out: each is part of some route.\<close>

lemma every_page_routed: "\<forall>p :: page. \<exists>r \<in> set app_routes. p \<in> set (route_pages r)"
  by code_simp

text \<open>
  The router compares addresses without regard to case and to slashes at the end. Of the routes
  of the table it picks one whose path is the address; when there is none it picks the first
  of the splat routes.
\<close>

definition norm_path :: "string \<Rightarrow> string" where
  "norm_path loc =
     (let s = rev (dropWhile (\<lambda>c. c = CHR ''/'') (rev (to_lower loc))) in if s = [] then ''/'' else s)"

type_synonym router = "route list \<Rightarrow> string \<Rightarrow> route"

definition router_ok :: "router \<Rightarrow> bool" where
  "router_ok pick \<longleftrightarrow>
     (\<forall>loc.
        (if norm_path loc \<in> route_path ` set app_routes \<and> norm_path loc \<noteq> ''*''
         then pick app_routes loc \<in> set app_routes \<and> route_path (pick app_routes loc) = norm_path loc
         else pick app_routes loc = Route ''*'' Protected NoLayout [PageNotFound]))"

datatype screen = Redirected string | Crashed jsval | Shown layout "page list"

definition App :: "router \<Rightarrow> jwt_decode \<Rightarrow> nat \<Rightarrow> RootState \<Rightarrow> string \<Rightarrow> screen" where
  "App pick decode now st loc =
     (let r = pick app_routes loc;
          g = (case route_guard r of
                 Protected \<Rightarrow> ProtectRoutes decode now st
               | Registered \<Rightarrow> RegisteredRoute
               | Unguarded \<Rightarrow> Outlet)
      in case g of
           GoTo p \<Rightarrow> Redirected p
         | Broken e \<Rightarrow> Crashed e
         | Outlet \<Rightarrow> Shown (route_layout r) (route_pages r))"

definition auth_paths :: "string list" where
  "auth_paths =
     [''/auth/login'', ''/auth/login/verify-login'', ''/auth/register'',
      ''/auth/register/verify-register'', ''/auth/register/security-code'',
      ''/auth/login/forgot-password'', ''/auth/login/reset-password'']"

section \<open>The sidebar\<close>

datatype tab_item = Tab (tab_name: string) (tab_link: string) (tab_icon: string)

definition sidebarItems :: "tab_item list" where
  "sidebarItems =
     [Tab ''Trang chu?'' ''/'' ''home.svg'',
      Tab ''Chuye^?n tie^`n'' ''/transfer'' ''send_money.svg'',
      Tab ''Nha^.n tie^`n'' ''/receive-page'' ''receive.svg'',
      Tab ''Thanh toa/n'' ''/option-payment'' ''payment.svg'',
      Tab ''Na.p/Ru/t tie^`n'' ''/deposit-withdraw'' ''depo-with.svg'',
      Tab ''Qua?n ly/ the?'' ''/credit-card'' ''credit-card.svg'',
      Tab ''Li.ch su+? giao di.ch'' ''/transaction/history'' ''transaction-history.svg'',
      Tab ''API'' ''/connect-app'' ''connect_app.svg'',
      Tab ''Ca`i dda(.t'' ''/setting'' ''set.svg'']"

text \<open>The selected tab, and the entry \<open>selectedTab\<close> of the local storage.\<close>

record sidebar =
  selected :: string
  stored_tab :: "string option"

text \<open>
  The last event is the \<open>beforeunload\<close> listener: whether its target is a window, and the
  origins of that window and of the page.
\<close>

datatype sidebar_event =
    LocationChanged string
  | HandleSelect string
  | BeforeUnload bool string string

definition mount_sidebar :: "string option \<Rightarrow> string \<Rightarrow> sidebar" where
  "mount_sidebar stored initial =
     \<lparr>selected = (case stored of Some s \<Rightarrow> if s \<noteq> [] then s else initial | None \<Rightarrow> initial),
      stored_tab = stored\<rparr>"

fun SideBar :: "sidebar \<Rightarrow> sidebar_event \<Rightarrow> sidebar" where
  "SideBar s (LocationChanged currentPath) =
     (case find (\<lambda>item. tab_link item = currentPath) sidebarItems of
        Some matchingTab \<Rightarrow> \<lparr>selected = tab_name matchingTab, stored_tab = Some (tab_name matchingTab)\<rparr>
      | None \<Rightarrow> s)"
| "SideBar s (HandleSelect tabName) = \<lparr>selected = tabName, stored_tab = Some tabName\<rparr>"
| "SideBar s (BeforeUnload is_window nextOrigin origin) =
     (if is_window \<and> nextOrigin \<noteq> origin then s\<lparr>stored_tab := None\<rparr> else s)"

definition SideBarPart :: "tab_item \<Rightarrow> string \<Rightarrow> sidebar_event ui" where
  "SideBarPart item sel =
     (let isSelected = (tab_name item = sel)
      in Click (HandleSelect (tab_name item))
           [Link (tab_link item)
              [Styled (if isSelected then ''bg-blue-600'' else []) [],
               Styled (if isSelected then ''bg-blue-500 hover:bg-blue-400'' else ''hover:bg-gray-100'')
                 [Icon (tab_icon item),
                  Styled (if isSelected then ''text-white'' else ''text-gray-800'')
                    [Text (tab_name item)]]]])"

definition SideBar_view :: "sidebar \<Rightarrow> sidebar_event ui" where
  "SideBar_view s = Box (map (\<lambda>item. SideBarPart item (selected s)) sidebarItems)"

section \<open>The business portal\<close>

definition menuItems :: "tab_item list" where
  "menuItems =
     [Tab ''Dashboard'' ''/b2b/dashboard'' ''FiHome'',
      Tab ''User Management'' ''/b2b/users'' ''FiUsers'',
      Tab ''API Keys'' ''/b2b/api-keys'' ''FiKey'',
      Tab ''Analytics'' ''/b2b/analytics'' ''FiBarChart'',
      Tab ''Settings'' ''/b2b/settings'' ''FiSettings'']"

definition isActive :: "string \<Rightarrow> string \<Rightarrow> bool" where
  "isActive pathname p \<longleftrightarrow> pathname = p \<or> starts_with pathname p"

definition B2BSidebar :: "string \<Rightarrow> unit ui" where
  "B2BSidebar pathname =
     Box
       [Box [Icon ''FiShield'', Text ''MPC Business'', Text ''Enterprise Portal''],
        Box (map (\<lambda>item.
               Link (tab_link item)
                 [Styled
                    (if isActive pathname (tab_link item)
                     then ''bg-blue-50 text-blue-700 border-r-2 border-blue-700''
                     else ''text-gray-700 hover:bg-gray-50 hover:text-gray-900'')
                    [Icon (tab_icon item), Text (tab_name item)]])
             menuItems),
        Box
          [Text ''Quick Stats'',
           Box [Text ''Active Users'', Text ''1,250''],
           Box [Text ''API Requests'', Text ''45.6K''],
           Box [Text ''Transactions'', Text ''8.9K'']]]"

record b2b_header =
  showUserMenu :: bool
  showNotifications :: bool

datatype b2b_header_event = ToggleNotifications | ToggleUserMenu

definition initial_b2b_header :: b2b_header where
  "initial_b2b_header = \<lparr>showUserMenu = False, showNotifications = False\<rparr>"

fun B2BHeader :: "b2b_header \<Rightarrow> b2b_header_event \<Rightarrow> b2b_header" where
  "B2BHeader s ToggleNotifications = s\<lparr>showNotifications := \<not> showNotifications s\<rparr>"
| "B2BHeader s ToggleUserMenu = s\<lparr>showUserMenu := \<not> showUserMenu s\<rparr>"

text \<open>A notification: title, message, time and type.\<close>

definition notifications :: "(string \<times> string \<times> string \<times> string) list" where
  "notifications =
     [(''New API Key Created'', ''A new API key was created for your organization'',
       ''2 minutes ago'', ''info''),
      (''High API Usage Alert'', ''You've used 80% of your monthly API quota'',
       ''1 hour ago'', ''warning''),
      (''Transaction Completed'', ''Successfully signed transaction: 0.5 ETH transfer'',
       ''3 hours ago'', ''success'')]"

definition getNotificationIcon :: "string \<Rightarrow> string" where
  "getNotificationIcon kind_name =
     (if kind_name = ''success'' then ''text-green-600 bg-green-100''
      else if kind_name = ''warning'' then ''text-yellow-600 bg-yellow-100''
      else if kind_name = ''error'' then ''text-red-600 bg-red-100''
      else ''text-blue-600 bg-blue-100'')"

definition B2BHeader_view :: "b2b_header \<Rightarrow> b2b_header_event ui" where
  "B2BHeader_view s =
     Box
       [Box
         [Icon ''FiSearch'',
          Click ToggleNotifications [Icon ''FiBell''],
          whenever (showNotifications s)
            (Box
              [Text ''Notifications'',
               Box (map (\<lambda>(title, msg, time, kind_name).
                      Box [Styled (getNotificationIcon kind_name) [Icon ''FiShield''],
                           Text title, Text msg, Text time])
                    notifications),
               Text ''View All Notifications'']),
          Click ToggleUserMenu
            [Icon ''FiUser'', Text ''John Doe'', Text ''Admin'', Icon ''FiChevronDown''],
          whenever (showUserMenu s)
            (Box
              [Text ''John Doe'', Text ''john.doe@company.com'',
               Box [Icon ''FiUser'', Text ''Profile''],
               Box [Icon ''FiSettings'', Text ''Settings''],
               Box [Icon ''FiLogOut'', Text ''Sign Out'']])],
        Box
          [Text ''Organization:'', Text ''Acme Corporation'', Text ''Professional Plan'',
           Text ''API Usage: 45,678 / 100,000'']]"

section \<open>Lemmas on the table\<close>

text \<open>Apart from the splat routes, the paths without token check are the seven of \<open>/auth\<close>.\<close>

lemma table_guards:
  "\<forall>r \<in> set app_routes. route_path r \<noteq> ''*'' \<longrightarrow>
     route_guard r = (if route_path r \<in> set auth_paths then Registered else Protected)"
  by code_simp

lemma table_auth: "set auth_paths \<subseteq> route_path ` set app_routes"
  by code_simp

lemma table_layout:
  "\<forall>r \<in> set app_routes. route_guard r = Registered \<longrightarrow> route_layout r = NonAuthenticatedLayout"
  by code_simp

lemma table_login:
  "\<forall>r \<in> set app_routes. route_path r = ''/auth/login'' \<longrightarrow>
     r = Route ''/auth/login'' Registered NonAuthenticatedLayout [LoginPage]"
  by code_simp

lemma auth_paths_norm: "\<forall>p \<in> set auth_paths. norm_path p = p \<and> p \<noteq> ''*''"
  by code_simp

lemma pick_cases:
  assumes "router_ok pick"
  obtains (static) "pick app_routes loc \<in> set app_routes"
      "route_path (pick app_routes loc) = norm_path loc" "norm_path loc \<noteq> ''*''"
    | (splat) "pick app_routes loc = Route ''*'' Protected NoLayout [PageNotFound]"
      "norm_path loc \<notin> set auth_paths"
proof (cases "norm_path loc \<in> route_path ` set app_routes \<and> norm_path loc \<noteq> ''*''")
  case True
  then show ?thesis using assms static unfolding router_ok_def by metis
next
  case False
  have "norm_path loc \<notin> set auth_paths"
    using False table_auth auth_paths_norm by blast
  then show ?thesis using False assms splat unfolding router_ok_def by metis
qed

lemma App_guard:
  assumes "router_ok pick" and "norm_path loc \<notin> set auth_paths"
  shows "route_guard (pick app_routes loc) = Protected"
  using assms(1)
proof (cases rule: pick_cases [where loc = loc])
  case static
  then show ?thesis using table_guards assms(2) by auto
next
  case splat
  then show ?thesis by simp
qed

lemma App_auth:
  assumes "router_ok pick" and "norm_path loc \<in> set auth_paths"
  shows "route_guard (pick app_routes loc) = Registered \<and>
    route_layout (pick app_routes loc) = NonAuthenticatedLayout"
  using assms(1)
proof (cases rule: pick_cases [where loc = loc])
  case static
  then show ?thesis using table_guards table_layout assms(2) by auto
next
  case splat
  then show ?thesis using assms(2) by simp
qed

text \<open>A router that keeps the promise.\<close>

definition first_match :: router where
  "first_match rs loc =
     (case find (\<lambda>r. route_path r = norm_path loc \<and> route_path r \<noteq> ''*'') rs of
        Some r \<Rightarrow> r
      | None \<Rightarrow> (case find (\<lambda>r. route_path r = ''*'') rs of Some r \<Rightarrow> r | None \<Rightarrow> hd rs))"

lemma first_match_ok: "router_ok first_match"
proof -
  have splat: "find (\<lambda>r. route_path r = ''*'') app_routes =
      Some (Route ''*'' Protected NoLayout [PageNotFound])"
    by code_simp
  show ?thesis
    unfolding router_ok_def first_match_def
    by (auto simp: splat find_Some_iff find_None_iff split: option.splits) (metis image_eqI nth_mem)+
qed

section \<open>Lemmas on the sidebar\<close>

text \<open>The stored tab, when there is one, is the selected tab.\<close>

definition tab_remembered :: "sidebar \<Rightarrow> bool" where
  "tab_remembered s \<longleftrightarrow> (\<forall>t. stored_tab s = Some t \<longrightarrow> t \<noteq> [] \<longrightarrow> t = selected s)"

lemma tab_remembered_step [inv_intros]: "tab_remembered s \<Longrightarrow> tab_remembered (SideBar s e)"
  by (cases e) (auto simp: tab_remembered_def split: option.splits)

interpretation sidebar_tabs: component SideBar tab_remembered
  by unfold_locales (rule inv_intros)

lemma sidebar_links:
  "\<forall>i \<in> set sidebarItems. find (\<lambda>item. tab_link item = tab_link i) sidebarItems = Some i"
  by code_simp

lemma sidebar_names: "\<forall>i \<in> set sidebarItems. filter (\<lambda>item. tab_name item = tab_name i) sidebarItems = [i]"
  by code_simp

section \<open>Properties\<close>

text \<open>
  C15 The guard is complete: with no token, or an expired one, an address shows a page without
  a detour over the login page exactly when it is one of the seven addresses under
  \<open>/auth\<close>; every other address, unknown ones included, redirects to the login page.
\<close>

theorem guard_complete:
  assumes "router_ok pick" and "useTokenExpired decode now st = Inr True"
  shows "App pick decode now st loc = Redirected ''/auth/login'' \<longleftrightarrow> norm_path loc \<notin> set auth_paths"
proof (cases "norm_path loc \<in> set auth_paths")
  case True
  then show ?thesis
    using App_auth [OF assms(1) True] by (simp add: App_def Let_def RegisteredRoute_def)
next
  case False
  then show ?thesis
    using App_guard [OF assms(1) False] assms(2) by (simp add: App_def Let_def ProtectRoutes_def)
qed

theorem guard_complete_witness:
  "App first_match (\<lambda>_. Inr (JObj [])) 0 initialRoot ''/Setting/'' = Redirected ''/auth/login''"
proof -
  have "useTokenExpired (\<lambda>_. Inr (JObj [])) 0 initialRoot = Inr True"
    by (simp add: useTokenExpired_def initialRoot_def initialAuth_def)
  moreover have "norm_path ''/Setting/'' \<notin> set auth_paths" by code_simp
  ultimately show ?thesis using guard_complete [OF first_match_ok, of _ _ _ "''/Setting/''"] by blast
qed

text \<open>
  A redirect never loops: the address it leads to shows the login page at once, whatever
  the token, the clock and the store are by then.
\<close>

lemma redirect_shows_login:
  assumes "router_ok pick" and "App pick decode now st loc = Redirected p"
  shows "App pick decode' now' st' p = Shown NonAuthenticatedLayout [LoginPage]"
proof -
  have p: "p = ''/auth/login''"
    using assms(2) by (auto simp: App_def Let_def ProtectRoutes_def RegisteredRoute_def
        split: guard.splits guarded.splits sum.splits if_splits)
  have auth: "p \<in> set auth_paths" by (simp add: p auth_paths_def)
  then have norm: "norm_path p = p" using auth_paths_norm by blast
  from assms(1) have "pick app_routes p = Route ''/auth/login'' Registered NonAuthenticatedLayout [LoginPage]"
  proof (cases rule: pick_cases [where loc = p])
    case static
    then show ?thesis using table_login norm p by auto
  next
    case splat
    then show ?thesis using auth norm by simp
  qed
  then show ?thesis by (simp add: App_def Let_def RegisteredRoute_def)
qed

lemma redirect_shows_login_witness:
  "App first_match (\<lambda>_. Inr Null) 7 initialRoot ''/auth/login'' =
     Shown NonAuthenticatedLayout [LoginPage]"
proof -
  have "App first_match (\<lambda>_. Inr (JObj [])) 0 initialRoot ''/setting'' = Redirected ''/auth/login''"
    by code_simp
  from redirect_shows_login [OF first_match_ok this] show ?thesis .
qed

text \<open>
  The exact life of a token: one whose \<open>exp\<close> is the second \<open>n\<close> is accepted until the
  last millisecond of that second, not only before it begins.
\<close>

lemma token_accepted_until:
  assumes "decode (accessToken (auth st)) = Inr (JObj payload)"
    and "map_of payload ''exp'' = Some (JNum (Fin (of_nat n)))"
    and "truthy (accessToken (auth st))"
  shows "useTokenExpired decode now st = Inr (1000 * (n + 1) \<le> now)"
proof -
  have "n < now div 1000 \<longleftrightarrow> 1000 * (n + 1) \<le> now" by (simp add: less_eq_div_iff_mult_less_eq Suc_le_eq [symmetric] algebra_simps)
  then show ?thesis using assms by (simp add: useTokenExpired_def Let_def)
qed

lemma token_accepted_until_witness:
  "useTokenExpired (\<lambda>_. Inr (JObj [(''exp'', JNum (Fin (of_nat 5)))])) 5999
     (rootReducer initialRoot (AddAccessToken (JStr ''t''))) = Inr False"
  using token_accepted_until [of "\<lambda>_. Inr (JObj [(''exp'', JNum (Fin (of_nat 5)))])"
      "rootReducer initialRoot (AddAccessToken (JStr ''t''))" "[(''exp'', JNum (Fin (of_nat 5)))]" 5 5999]
  by (simp add: rootReducer_def)

text \<open>
  Navigation and sidebar agree: in every run of the sidebar, after the browser reaches the
  address of one of its tabs, that tab and no other one is highlighted, and it is the one the
  local storage remembers, so mounting the sidebar again highlights it too.
\<close>

lemma sidebar_follows_location:
  assumes "item \<in> set sidebarItems"
    and "s = run SideBar (mount_sidebar stored initial) (es @ [LocationChanged (tab_link item)])"
  shows "filter (\<lambda>i. tab_name i = selected s) sidebarItems = [item] \<and>
    stored_tab s = Some (selected s) \<and>
    selected (mount_sidebar (stored_tab s) other) = selected s"
proof -
  have find: "find (\<lambda>i. tab_link i = tab_link item) sidebarItems = Some item"
    using sidebar_links assms(1) by blast
  have ne: "tab_name item \<noteq> []" using assms(1) by (auto simp: sidebarItems_def)
  have "s = \<lparr>selected = tab_name item, stored_tab = Some (tab_name item)\<rparr>"
    by (simp add: assms(2) find)
  then show ?thesis using sidebar_names assms(1) ne by (simp add: mount_sidebar_def)
qed

lemma sidebar_follows_location_witness:
  "selected (run SideBar (mount_sidebar None ''x'') ([HandleSelect ''y''] @ [LocationChanged ''/setting''])) = ''Ca`i dda(.t''"
proof -
  have m: "Tab ''Ca`i dda(.t'' ''/setting'' ''set.svg'' \<in> set sidebarItems"
    by (simp add: sidebarItems_def)
  show ?thesis
    using sidebar_follows_location [OF m refl, of None "''x''" "[HandleSelect ''y'']"]
    by (simp add: sidebarItems_def)
qed

end
