(* ===== verification/Services.thy ===== *)
theory Services
  imports AxiosClient JsText
begin

text \<open>
  The calls of \<^verbatim>\<open>src/client/src/services/api\<close>: the request each one builds and the part of the
  response it returns. A request leaves either through plain \<^verbatim>\<open>axios\<close> or through an instance
  of \<open>createAxios\<close> (theory \<^verbatim>\<open>AxiosClient\<close>), which adds the token and renews it. The
  addresses in \<open>import.meta.env\<close> are set when the client is built: they are a parameter,
  \<open>undefined\<close> when not set.
\<close>

record vite_env =
  VITE_API_URL :: jsval
  VITE_API_PAYMENT :: jsval

datatype via = PlainAxios | Instance

datatype verb = GET | POST | PUT | PATCH | DELETE

text \<open>The part of the response a call returns: all of it, \<open>.data\<close>, \<open>.data.data\<close>, or nothing.\<close>

datatype projection = Whole | ResponseData | DataData | NoResult

record api_request =
  via :: via
  verb :: verb
  url :: string
  body :: jsval
  with_credentials :: bool
  returns :: projection

definition project :: "projection \<Rightarrow> nat \<Rightarrow> jsval \<Rightarrow> jsval throws" where
  "project p status d =
     (case p of
        Whole \<Rightarrow> Inr (response status d)
      | ResponseData \<Rightarrow> Inr d
      | DataData \<Rightarrow> get_prop d ''data''
      | NoResult \<Rightarrow> Inr Undef)"

definition plain :: "verb \<Rightarrow> string \<Rightarrow> jsval \<Rightarrow> bool \<Rightarrow> api_request" where
  "plain v u b cred =
     \<lparr>via = PlainAxios, verb = v, url = u, body = b, with_credentials = cred, returns = Whole\<rparr>"

text \<open>Every instance is created with \<open>withCredentials: true\<close>.\<close>

definition instance_request :: "verb \<Rightarrow> string \<Rightarrow> jsval \<Rightarrow> api_request" where
  "instance_request v u b =
     \<lparr>via = Instance, verb = v, url = u, body = b, with_credentials = True, returns = Whole\<rparr>"

section \<open>Authentication (\<open>auth.api.ts\<close>)\<close>

definition loginAPI :: "jsval \<Rightarrow> api_request" where
  "loginAPI b = plain POST ''http://localhost:5001/api/v1/auth/login'' b True"

definition verifyLoginAPI :: "vite_env \<Rightarrow> jsval \<Rightarrow> api_request" where
  "verifyLoginAPI env b =
     plain POST (js_text (VITE_API_URL env) @ ''/api/v1/user/signin/verify'') b True"

definition verifyRegisterAPI :: "vite_env \<Rightarrow> jsval \<Rightarrow> api_request" where
  "verifyRegisterAPI env b =
     plain POST (js_text (VITE_API_URL env) @ ''/api/v1/user/signup/verify'') b True"

definition registerAPI :: "jsval \<Rightarrow> api_request" where
  "registerAPI b = plain POST ''http://localhost:5001/api/v1/auth/signup'' b True"

definition securityCode_request :: "jsval \<Rightarrow> api_request" where
  "securityCode_request b = instance_request PUT ''/api/v1/user/update-security-code'' b"

definition resendOTP :: "vite_env \<Rightarrow> jsval \<Rightarrow> api_request" where
  "resendOTP env b =
     plain POST (js_text (VITE_API_URL env) @ ''/api/v1/user/resend-email'') b False"

definition getProfileAPI :: api_request where
  "getProfileAPI = instance_request GET ''/api/v1/user/profile'' Undef"

definition logout :: api_request where
  "logout = instance_request POST ''/api/v1/user/log-out'' Undef"

definition forgotPassword_request :: "vite_env \<Rightarrow> jsval \<Rightarrow> api_request" where
  "forgotPassword_request env email =
     plain POST (js_text (VITE_API_URL env) @ ''/api/v1/user/forgot-password'')
       (JObj [(''email'', email)]) False"

definition resetPassword_request :: "vite_env \<Rightarrow> jsval \<Rightarrow> jsval \<Rightarrow> jsval \<Rightarrow> api_request" where
  "resetPassword_request env email password otp =
     plain POST (js_text (VITE_API_URL env) @ ''/api/v1/user/reset-password'')
       (JObj [(''email'', email), (''password'', password), (''otp'', otp)]) False"

section \<open>Connected applications (\<open>connect-app.api.ts\<close>)\<close>

definition getPartnerWallet :: "jsval \<Rightarrow> api_request" where
  "getPartnerWallet partnerId =
     (instance_request GET (''/api/v1/partner/'' @ js_text partnerId) Undef)\<lparr>returns := DataData\<rparr>"

definition connectWallet :: "jsval \<Rightarrow> jsval \<Rightarrow> jsval \<Rightarrow> api_request" where
  "connectWallet partnerId userId security_code =
     instance_request POST ''/api/v1/connect-wallet''
       (JObj [(''partnerID'', partnerId), (''security_code'', security_code), (''userID'', userId)])"

definition getConnectedAppWallet :: api_request where
  "getConnectedAppWallet =
     (instance_request GET ''/api/v1/connected-app'' Undef)\<lparr>returns := DataData\<rparr>"

definition disconnectWallet :: "jsval \<Rightarrow> api_request" where
  "disconnectWallet partnerId =
     (instance_request DELETE (''/api/v1/disconnect-wallet/'' @ js_text partnerId) Undef)
       \<lparr>returns := ResponseData\<rparr>"

section \<open>Cards (\<open>credit-card.api.ts\<close>)\<close>

text \<open>The template literals of two addresses contain line breaks; \<open>newline\<close> is one.\<close>

definition newline :: string where
  "newline = [char_of (10 :: nat)]"

definition addCard :: "jsval \<Rightarrow> api_request" where
  "addCard b = instance_request POST ''/api/v1/card/add-card'' b"

definition getCards :: api_request where
  "getCards =
     (instance_request GET (''/api/v1/card/get-cards'' @ newline) Undef)\<lparr>returns := DataData\<rparr>"

definition deleteCard :: "jsval \<Rightarrow> api_request" where
  "deleteCard card_id =
     instance_request DELETE
       (''/api/v1/card/delete-card/'' @ js_text card_id @ newline @ ''  '' @ newline) Undef"

section \<open>Payments (\<open>payment.api.ts\<close>)\<close>

definition paymentAPI :: "vite_env \<Rightarrow> jsval \<Rightarrow> api_request" where
  "paymentAPI env tok =
     plain GET (js_text (VITE_API_PAYMENT env) @ ''/api/payment/get-order/'' @ js_text tok) Undef False"

definition confirmPaymentAPI :: "jsval \<Rightarrow> api_request" where
  "confirmPaymentAPI b = instance_request POST ''/api/v1/confirm-payment'' b"

definition getVouchersPartner :: "vite_env \<Rightarrow> jsval \<Rightarrow> api_request" where
  "getVouchersPartner env partner_id =
     plain GET
       (js_text (VITE_API_URL env) @ ''/api/v1/voucher/get-vouchers-partner?partnerID='' @ js_text partner_id)
       Undef False"

definition applyVoucher_request :: "jsval \<Rightarrow> api_request" where
  "applyVoucher_request b = instance_request POST ''/api/v1/apply-voucher'' b"

section \<open>Settings (\<open>setting.api.ts\<close>)\<close>

definition editProfile :: "jsval \<Rightarrow> api_request" where
  "editProfile formData = instance_request PUT ''/api/v1/user/edit-profile'' formData"

definition changePassword_request :: "jsval \<Rightarrow> api_request" where
  "changePassword_request b = instance_request PATCH ''/api/v1/user/change-password'' b"

definition changeSecurityCode_request :: "jsval \<Rightarrow> api_request" where
  "changeSecurityCode_request b = instance_request PATCH ''/api/v1/user/change-security-code'' b"

section \<open>Transactions (\<open>transaction.api.ts\<close>, \<open>transfer.api.ts\<close>)\<close>

definition getTransactionPaginate :: "jsval \<Rightarrow> jsval \<Rightarrow> jsval \<Rightarrow> api_request" where
  "getTransactionPaginate wallet_address page limit =
     instance_request GET
       (''/api/v1/transactions?wallet_address='' @ js_text wallet_address @
        ''&page='' @ js_text page @ ''&page_size='' @ js_text limit) Undef"

definition getTransactionDetails :: "jsval \<Rightarrow> api_request" where
  "getTransactionDetails transaction_id =
     instance_request GET
       (''/api/v1/transaction/get/transaction/details/'' @ js_text transaction_id) Undef"

definition getUserByEmail :: "vite_env \<Rightarrow> jsval \<Rightarrow> api_request" where
  "getUserByEmail env email =
     plain GET (js_text (VITE_API_URL env) @ ''/api/v1/user/get-user?email='' @ js_text email) Undef False"

definition sendMoneyAPI :: "jsval \<Rightarrow> api_request" where
  "sendMoneyAPI b = instance_request POST ''/api/v1/transactions/'' b"

definition getTransactionAPI :: "jsval \<Rightarrow> api_request" where
  "getTransactionAPI transaction_id =
     instance_request GET
       (''/api/v1/transaction/get/transaction/details/'' @ js_text transaction_id) Undef"

definition depositMoney :: "jsval \<Rightarrow> api_request" where
  "depositMoney b = instance_request POST ''/api/v1/wallet/deposit-money'' b"

definition withdrawMoney :: "jsval \<Rightarrow> api_request" where
  "withdrawMoney b = instance_request POST ''/api/v1/wallet/withdraw-money'' b"

section \<open>Organizations (\<open>organization.api.ts\<close>)\<close>

definition API_URL :: "vite_env \<Rightarrow> jsval" where
  "API_URL env = js_or (VITE_API_URL env) (JStr ''http://localhost:5001'')"

definition organizations :: "vite_env \<Rightarrow> string" where
  "organizations env = js_text (API_URL env) @ ''/organizations''"

definition getOrganizations :: "vite_env \<Rightarrow> jsval \<Rightarrow> jsval \<Rightarrow> api_request" where
  "getOrganizations env page limit =
     (plain GET
       (organizations env @ ''?page='' @ js_text (if page = Undef then JNum (Fin 1) else page) @
        ''&limit='' @ js_text (if limit = Undef then JNum (Fin 10) else limit)) Undef False)
       \<lparr>returns := ResponseData\<rparr>"

definition createOrganization :: "vite_env \<Rightarrow> jsval \<Rightarrow> api_request" where
  "createOrganization env d = (plain POST (organizations env) d False)\<lparr>returns := ResponseData\<rparr>"

definition getOrganization :: "vite_env \<Rightarrow> jsval \<Rightarrow> api_request" where
  "getOrganization env org =
     (plain GET (organizations env @ ''/'' @ js_text org) Undef False)\<lparr>returns := ResponseData\<rparr>"

definition getAPIKeys :: "vite_env \<Rightarrow> jsval \<Rightarrow> api_request" where
  "getAPIKeys env org =
     (plain GET (organizations env @ ''/'' @ js_text org @ ''/api-keys'') Undef False)
       \<lparr>returns := ResponseData\<rparr>"

definition createAPIKey :: "vite_env \<Rightarrow> jsval \<Rightarrow> jsval \<Rightarrow> api_request" where
  "createAPIKey env org d =
     (plain POST (organizations env @ ''/'' @ js_text org @ ''/api-keys'') d False)
       \<lparr>returns := ResponseData\<rparr>"

definition deleteAPIKey :: "vite_env \<Rightarrow> jsval \<Rightarrow> jsval \<Rightarrow> api_request" where
  "deleteAPIKey env org key =
     (plain DELETE (organizations env @ ''/'' @ js_text org @ ''/api-keys/'' @ js_text key) Undef False)
       \<lparr>returns := NoResult\<rparr>"

definition getUsageStats :: "vite_env \<Rightarrow> jsval \<Rightarrow> api_request" where
  "getUsageStats env org =
     (plain GET (organizations env @ ''/'' @ js_text org @ ''/usage'') Undef False)
       \<lparr>returns := ResponseData\<rparr>"

text \<open>
  The records of an organization and the mock data of the file, which no page reads. A field that
  may be missing is an option; the settings of an organization are any object.
\<close>

record organization =
  org_id :: string
  org_name :: string
  org_domain :: "string option"
  org_api_key_prefix :: string
  org_status :: string
  org_plan :: string
  org_max_users :: nat
  org_max_api_requests_per_month :: nat
  org_settings :: "jsval option"
  org_created_at :: string
  org_updated_at :: string

record organization_key =
  ok_id :: string
  ok_organization_id :: string
  ok_name :: string
  ok_key_hash :: string
  ok_permissions :: "string list"
  ok_status :: string
  ok_last_used_at :: "string option"
  ok_expires_at :: "string option"
  ok_created_at :: string
  ok_updated_at :: string

record usage_stats =
  us_total_requests :: nat
  us_requests_this_month :: nat
  us_average_response_time :: rat

definition mockOrganizations :: "organization list" where
  "mockOrganizations =
     [\<lparr>org_id = ''1'', org_name = ''Acme Corp'', org_domain = Some ''acme.com'',
       org_api_key_prefix = ''ACME1234'', org_status = ''active'', org_plan = ''professional'',
       org_max_users = 100, org_max_api_requests_per_month = 100000, org_settings = None,
       org_created_at = ''2024-01-15T10:00:00Z'', org_updated_at = ''2024-01-15T10:00:00Z''\<rparr>,
      \<lparr>org_id = ''2'', org_name = ''TechStart Inc'', org_domain = Some ''techstart.io'',
       org_api_key_prefix = ''TECH5678'', org_status = ''active'', org_plan = ''basic'',
       org_max_users = 10, org_max_api_requests_per_month = 10000, org_settings = None,
       org_created_at = ''2024-02-01T10:00:00Z'', org_updated_at = ''2024-02-01T10:00:00Z''\<rparr>]"

definition mockAPIKeys :: "organization_key list" where
  "mockAPIKeys =
     [\<lparr>ok_id = ''1'', ok_organization_id = ''1'', ok_name = ''Production API Key'',
       ok_key_hash = ''hash123'', ok_permissions = [''wallet:read'', ''wallet:write'', ''transaction:sign''],
       ok_status = ''active'', ok_last_used_at = Some ''2024-06-10T10:00:00Z'', ok_expires_at = None,
       ok_created_at = ''2024-01-15T10:00:00Z'', ok_updated_at = ''2024-01-15T10:00:00Z''\<rparr>,
      \<lparr>ok_id = ''2'', ok_organization_id = ''1'', ok_name = ''Development API Key'',
       ok_key_hash = ''hash456'', ok_permissions = [''wallet:read'', ''transaction:sign''],
       ok_status = ''active'', ok_last_used_at = Some ''2024-06-09T10:00:00Z'', ok_expires_at = None,
       ok_created_at = ''2024-02-01T10:00:00Z'', ok_updated_at = ''2024-02-01T10:00:00Z''\<rparr>]"

definition mockUsageStats :: usage_stats where
  "mockUsageStats =
     \<lparr>us_total_requests = 15420, us_requests_this_month = 3241, us_average_response_time = 491 / 2\<rparr>"

text \<open>
  The mock data are consistent: identifiers are unique, every key belongs to an organization of
  the list, and the requests of a month stay within the limit of the organization of the keys and
  within the total.
\<close>

lemma mock_data_consistent:
  "distinct (map org_id mockOrganizations) \<and> distinct (map ok_id mockAPIKeys) \<and>
   list_all (\<lambda>k. list_ex (\<lambda>g. org_id g = ok_organization_id k \<and>
     us_requests_this_month mockUsageStats \<le> org_max_api_requests_per_month g) mockOrganizations) mockAPIKeys \<and>
   us_requests_this_month mockUsageStats \<le> us_total_requests mockUsageStats"
  by (simp add: mockOrganizations_def mockAPIKeys_def mockUsageStats_def)

end
