(* ===== verification/OtpDrawers.thy ===== *)
theory OtpDrawers
  imports Services Ui "HOL-Library.AList"
begin

text \<open>
  The drawers that ask for the six characters of the security code and send the operation they
  confirm: the transfer (\<^verbatim>\<open>components/transfer/drawer_security.tsx\<close>), the payment
  (\<^verbatim>\<open>components/payment/drawer_bottom.tsx\<close>), the deposit and withdrawal
  (\<^verbatim>\<open>pages/deposit-withdraw/drawer_security.tsx\<close>) and the connection of a partner
  (\<^verbatim>\<open>pages/connect-app/drawer_security.tsx\<close>).

  A handler that awaits a call is two operations: \<open>change\<close>, from the key stroke up to the call
  (the request, when there is one, is its second component), and \<open>resume\<close>, from the answer to
  the end, with the effects in order. Between the two the user can type again: the locale
  \<open>otp_entry\<close> states what the four drawers share and what follows for every interleaving of
  key strokes and answers.
\<close>

section \<open>Objects\<close>

text \<open>The object \<open>{ ...v, [k]: w }\<close>, and \<open>{ k, ...rest } = v\<close>.\<close>

fun spread_set :: "jsval \<Rightarrow> string \<Rightarrow> jsval \<Rightarrow> jsval" where
  "spread_set (JObj fs) k w = JObj (AList.update k w fs)"
| "spread_set _ k w = JObj [(k, w)]"

fun rest_without :: "jsval \<Rightarrow> string \<Rightarrow> jsval" where
  "rest_without (JObj fs) k = JObj (AList.delete k fs)"
| "rest_without _ k = JObj []"

lemma get_spread_set [simp]: "get_oprop (spread_set v k w) k = w"
  by (cases v) (simp_all add: update_conv')

lemma get_spread_set_other [simp]:
  "k' \<noteq> k \<Longrightarrow> get_oprop (spread_set (JObj fs) k w) k' = get_oprop (JObj fs) k'"
  by (simp add: update_conv')

lemma get_rest_without:
  "get_oprop (rest_without (JObj fs) k) k' = (if k' = k then Undef else get_oprop (JObj fs) k')"
  by (simp add: delete_conv')

section \<open>The contract of a code entry\<close>

datatype otp_event = Type string | Answer reply

text \<open>
  The run of a code entry: its state, its pending requests and the requests it sent, oldest
  first. An answer that no request is waiting for is impossible and changes nothing.
\<close>

fun otp_run ::
    "(string \<Rightarrow> 's \<Rightarrow> 's \<times> api_request option) \<Rightarrow> (reply \<Rightarrow> 's \<Rightarrow> 's \<times> effect list) \<Rightarrow>
     otp_event list \<Rightarrow> 's \<times> nat \<Rightarrow> 's \<times> nat \<times> api_request list \<times> effect list" where
  "otp_run change resume [] (s, pending) = (s, pending, [], [])"
| "otp_run change resume (Type v # es) (s, pending) =
     (case change v s of
        (s', None) \<Rightarrow> otp_run change resume es (s', pending)
      | (s', Some r) \<Rightarrow>
          (case otp_run change resume es (s', Suc pending) of
             (t, n, rs, out) \<Rightarrow> (t, n, r # rs, out)))"
| "otp_run change resume (Answer a # es) (s, pending) =
     (if pending = 0 then otp_run change resume es (s, pending)
      else (case resume a s of
              (s', out') \<Rightarrow>
                (case otp_run change resume es (s', pending - 1) of
                   (t, n, rs, out) \<Rightarrow> (t, n, rs, out' @ out))))"

fun typed :: "otp_event list \<Rightarrow> string list" where
  "typed [] = []"
| "typed (Type v # es) = v # typed es"
| "typed (Answer _ # es) = typed es"

definition requests :: "'s \<times> nat \<times> api_request list \<times> effect list \<Rightarrow> api_request list" where
  "requests result = fst (snd (snd result))"

definition pending_requests :: "'s \<times> nat \<times> api_request list \<times> effect list \<Rightarrow> nat" where
  "pending_requests result = fst (snd result)"

definition final_state :: "'s \<times> nat \<times> api_request list \<times> effect list \<Rightarrow> 's" where
  "final_state result = fst result"

text \<open>A code entry sends a request exactly when the sixth character arrives, with that code.\<close>

locale otp_entry =
  fixes change :: "string \<Rightarrow> 's \<Rightarrow> 's \<times> api_request option"
    and resume :: "reply \<Rightarrow> 's \<Rightarrow> 's \<times> effect list"
    and request_for :: "string \<Rightarrow> api_request"
  assumes change_short: "length v \<noteq> 6 \<Longrightarrow> snd (change v s) = None"
    and change_full: "length v = 6 \<Longrightarrow> snd (change v s) = Some (request_for v)"
begin

lemma requests_run:
  "requests (otp_run change resume es (s, n)) = map request_for (filter (\<lambda>v. length v = 6) (typed es))"
proof (induction es arbitrary: s n)
  case Nil
  show ?case by (simp add: requests_def)
next
  case (Cons e es)
  show ?case
  proof (cases e)
    case (Type v)
    obtain s' q where c: "change v s = (s', q)" by fastforce
    have q: "q = (if length v = 6 then Some (request_for v) else None)"
      using change_short [of v s] change_full [of v s] c by simp
    show ?thesis
      using Cons [of s' n] Cons [of s' "Suc n"]
      by (simp add: Type c q requests_def case_prod_beta)
  next
    case (Answer a)
    obtain s' out where r: "resume a s = (s', out)" by fastforce
    show ?thesis
      using Cons [of s 0] Cons [of s' "n - 1"]
      by (simp add: Answer r requests_def case_prod_beta)
  qed
qed

lemma no_request_without_code:
  "(\<forall>v \<in> set (typed es). length v \<noteq> 6) \<Longrightarrow> requests (otp_run change resume es (s, n)) = []"
  by (simp add: requests_run filter_empty_conv)

end

text \<open>Some entries also stop their spinner whatever the answer is.\<close>

locale settling_entry = otp_entry +
  fixes busy :: "'a \<Rightarrow> bool"
  assumes resume_idle: "\<not> busy (fst (resume a s))"
    and change_busy: "length v \<noteq> 6 \<Longrightarrow> busy (fst (change v s)) = busy s"
begin

lemma idle_when_answered:
  assumes "n = 0 \<longrightarrow> \<not> busy s"
  shows "pending_requests (otp_run change resume es (s, n)) = 0 \<longrightarrow>
    \<not> busy (final_state (otp_run change resume es (s, n)))"
  using assms
proof (induction es arbitrary: s n)
  case Nil
  then show ?case by (simp add: final_state_def pending_requests_def)
next
  case (Cons e es)
  show ?case
  proof (cases e)
    case (Type v)
    obtain s' q where c: "change v s = (s', q)" by fastforce
    have q: "q = None \<Longrightarrow> n = 0 \<longrightarrow> \<not> busy s'"
      using change_full [of v s] change_busy [of v s] Cons.prems c by auto
    show ?thesis
      using Cons.IH [of n s'] Cons.IH [of "Suc n" s'] q
      by (simp add: Type c final_state_def pending_requests_def case_prod_beta split: option.split)
  next
    case (Answer b)
    obtain s' out where r: "resume b s = (s', out)" by fastforce
    have "\<not> busy s'" using resume_idle [of b s] r by simp
    then show ?thesis
      using Cons.IH [of "n - 1" s'] Cons.IH [of 0 s] Cons.prems
      by (simp add: Answer r final_state_def pending_requests_def case_prod_beta)
  qed
qed

end

section \<open>State of a drawer\<close>

text \<open>The three \<open>useState\<close> cells that each of the four drawers has.\<close>

record drawer =
  otp :: string
  d_error :: jsval
  d_loading :: bool

section \<open>Transfers\<close>

definition TransferDrawer_init :: drawer where
  "TransferDrawer_init = \<lparr>otp = [], d_error = Undef, d_loading = False\<rparr>"

definition TransferDrawer_request :: "jsval \<Rightarrow> string \<Rightarrow> api_request" where
  "TransferDrawer_request d value = sendMoneyAPI (spread_set d ''security_code'' (JStr value))"

definition TransferDrawer_change ::
    "jsval \<Rightarrow> string \<Rightarrow> drawer \<Rightarrow> drawer \<times> api_request option" where
  "TransferDrawer_change d value s =
     (if length value = 6
      then (\<lparr>otp = value, d_error = Null, d_loading = True\<rparr>, Some (TransferDrawer_request d value))
      else (s\<lparr>otp := value, d_error := Null\<rparr>, None))"

text \<open>The catch block reads \<open>error?.response.data.message\<close>, and can throw itself.\<close>

definition TransferDrawer_catch :: "jsval \<Rightarrow> drawer \<Rightarrow> drawer \<times> effect list" where
  "TransferDrawer_catch e s =
     (let s' = s\<lparr>d_loading := False\<rparr>;
          msg = (if nullish e then Inr Undef else path e [''response'', ''data'', ''message''])
      in case msg of
           Inl e' \<Rightarrow> (s', [Uncaught e'])
         | Inr m \<Rightarrow> (s'\<lparr>d_error := m\<rparr>, []))"

fun TransferDrawer_resume :: "reply \<Rightarrow> drawer \<Rightarrow> drawer \<times> effect list" where
  "TransferDrawer_resume (Resolved status d) s =
     (if status = 200 then
        (case path d [''data'', ''_id''] of
           Inl e \<Rightarrow> TransferDrawer_catch e s
         | Inr transaction_id \<Rightarrow>
             (s\<lparr>d_loading := False\<rparr>,
              [Navigate ''/transfer/result'' (JObj [(''id'', transaction_id)]),
               Dispatch (SetWalletUpdated True)]))
      else (s, []))"
| "TransferDrawer_resume (Failed e) s = TransferDrawer_catch e s"

text \<open>The drawers show the same parts; the field stays enabled under the spinner.\<close>

datatype drawer_event = DrawerClose | CodeTyped string

definition error_border :: "jsval \<Rightarrow> string" where
  "error_border e = (if truthy e then ''border-red-500'' else [])"

definition TransferDrawer_view :: "bool \<Rightarrow> drawer \<Rightarrow> drawer_event ui" where
  "TransferDrawer_view opened s =
     Sheet opened DrawerClose
       [Click DrawerClose [Icon ''close.svg''],
        Text ''Nha^.p ma~ ba?o ma^.t'',
        Expr (d_error s),
        Styled (error_border (d_error s))
          [Field ''password'' (JStr (otp s)) CodeTyped,
           whenever (d_loading s) (Icon ''loading.svg'')]]"

interpretation transfer_otp:
  otp_entry "TransferDrawer_change d" TransferDrawer_resume "TransferDrawer_request d" for d
  by unfold_locales (simp_all add: TransferDrawer_change_def)

section \<open>Payments\<close>

definition PaymentDrawer_init :: drawer where
  "PaymentDrawer_init = \<lparr>otp = [], d_error = JStr [], d_loading = False\<rparr>"

definition PaymentDrawer_request :: "jsval \<Rightarrow> jsval \<Rightarrow> string \<Rightarrow> api_request" where
  "PaymentDrawer_request transactionID voucher_code value =
     confirmPaymentAPI
       (JObj [(''security_code'', JStr value), (''transactionID'', transactionID),
              (''voucher_code'', voucher_code)])"

definition PaymentDrawer_change ::
    "jsval \<Rightarrow> jsval \<Rightarrow> string \<Rightarrow> drawer \<Rightarrow> drawer \<times> api_request option" where
  "PaymentDrawer_change transactionID voucher_code value s =
     (if length value = 6
      then (s\<lparr>otp := value, d_loading := True\<rparr>,
            Some (PaymentDrawer_request transactionID voucher_code value))
      else (s\<lparr>otp := value\<rparr>, None))"

fun PaymentDrawer_resume :: "jsval \<Rightarrow> reply \<Rightarrow> drawer \<Rightarrow> drawer \<times> effect list" where
  "PaymentDrawer_resume transactionID (Resolved status d) s =
     (if status = 200
      then (s\<lparr>d_loading := False\<rparr>,
            [Navigate ''/payment/results'' (JObj [(''id'', transactionID)]),
             Dispatch (SetWalletUpdated True)])
      else (s, []))"
| "PaymentDrawer_resume transactionID (Failed e) s =
     (let s' = s\<lparr>d_loading := False\<rparr>
      in case path e [''response'', ''data'', ''message''] of
           Inl e' \<Rightarrow> (s', [Uncaught e'])
         | Inr m \<Rightarrow> (s'\<lparr>d_error := m\<rparr>, []))"

definition PaymentDrawer_view :: "bool \<Rightarrow> drawer \<Rightarrow> drawer_event ui" where
  "PaymentDrawer_view opened s =
     Sheet opened DrawerClose
       [Click DrawerClose [Icon ''close.svg''],
        Text ''Nha^.p ma~ ba?o ma^.t'',
        Expr (d_error s),
        Styled (error_border (d_error s))
          [Field ''password'' (JStr (otp s)) CodeTyped,
           whenever (d_loading s) (Icon ''loading.svg'')]]"

interpretation payment_otp:
  otp_entry "PaymentDrawer_change t v" "PaymentDrawer_resume t" "PaymentDrawer_request t v" for t v
  by unfold_locales (simp_all add: PaymentDrawer_change_def)

section \<open>Deposits and withdrawals\<close>

definition DepositDrawer_init :: drawer where
  "DepositDrawer_init = \<lparr>otp = [], d_error = Null, d_loading = False\<rparr>"

definition isDeposit_of :: "jsval \<Rightarrow> bool" where
  "isDeposit_of d = truthy (get_oprop d ''isDeposit'')"

definition DepositDrawer_request :: "jsval \<Rightarrow> string \<Rightarrow> api_request" where
  "DepositDrawer_request d value =
     (let b = spread_set (rest_without d ''isDeposit'') ''security_code'' (JStr value)
      in if isDeposit_of d then depositMoney b else withdrawMoney b)"

definition DepositDrawer_change ::
    "jsval \<Rightarrow> string \<Rightarrow> drawer \<Rightarrow> drawer \<times> api_request option" where
  "DepositDrawer_change d value s =
     (if length value = 6
      then (\<lparr>otp = value, d_error = Null, d_loading = True\<rparr>, Some (DepositDrawer_request d value))
      else (s\<lparr>otp := value, d_error := Null\<rparr>, None))"

text \<open>
  The object given to the result page. It is built when the timer fires, where a throw is not
  caught.
\<close>

definition DepositDrawer_result :: "jsval \<Rightarrow> string \<Rightarrow> jsval \<Rightarrow> effect list" where
  "DepositDrawer_result data_currency title_text d =
     (case path d [''data''] of
        Inl e \<Rightarrow> [Uncaught e]
      | Inr r \<Rightarrow>
          (case (get_prop r ''amount'', get_prop r ''updatedAt'', get_prop r ''title'', get_prop r ''_id'') of
             (Inr amount, Inr updatedAt, Inr title, Inr transaction_id) \<Rightarrow>
               [Navigate ''/deposit-withdraw/result''
                  (JObj [(''type'', JStr title_text), (''amount'', amount), (''currency'', data_currency),
                         (''createdAt'', updatedAt), (''title'', title), (''_id'', transaction_id)])]
           | _ \<Rightarrow> [Uncaught type_error]))"

definition DepositDrawer_catch :: "jsval \<Rightarrow> drawer \<Rightarrow> drawer \<times> effect list" where
  "DepositDrawer_catch e s =
     (s\<lparr>d_loading := False, d_error := error_message e ''DDa~ xa?y ra lo^~i.''\<rparr>, [])"

fun DepositDrawer_resume :: "jsval \<Rightarrow> reply \<Rightarrow> drawer \<Rightarrow> drawer \<times> effect list" where
  "DepositDrawer_resume d (Resolved status r) s =
     (if status = 200 then
        (s\<lparr>d_loading := False\<rparr>,
         (if isDeposit_of d
          then [Toast Success (JStr ''Na.p tie^`n tha`nh co^ng!''), Dispatch (SetWalletUpdated True),
                Delay 1000 (DepositDrawer_result (get_oprop d ''currency'') ''Na.p tie^`n'' r)]
          else [Toast Success (JStr ''Ru/t tie^`n tha`nh co^ng!''), Dispatch (SetWalletUpdated True),
                Delay 2000 (DepositDrawer_result (get_oprop d ''currency'') ''Ru/t tie^`n'' r)]) @
         [CloseParent])
      else
        (case get_prop r ''message'' of
           Inl e \<Rightarrow> DepositDrawer_catch e s
         | Inr m \<Rightarrow> (s\<lparr>d_loading := False\<rparr>, [Toast Error m, CloseParent])))"
| "DepositDrawer_resume d (Failed e) s = DepositDrawer_catch e s"

definition DepositDrawer_view :: "bool \<Rightarrow> drawer \<Rightarrow> drawer_event ui" where
  "DepositDrawer_view opened s =
     Sheet opened DrawerClose
       [Click DrawerClose [Icon ''close.svg''],
        Text ''Nha^.p ma~ ba?o ma^.t'',
        Expr (d_error s),
        Styled (error_border (d_error s))
          [Field ''password'' (JStr (otp s)) CodeTyped,
           whenever (d_loading s) (Icon ''loading.svg'')]]"

interpretation deposit_otp:
  settling_entry "DepositDrawer_change d" "DepositDrawer_resume d" "DepositDrawer_request d" d_loading for d
proof unfold_locales
  fix a and s :: drawer
  show "\<not> d_loading (fst (DepositDrawer_resume d a s))"
    by (cases a) (auto simp: DepositDrawer_catch_def split: sum.split)
qed (simp_all add: DepositDrawer_change_def)

section \<open>Connecting a partner\<close>

definition ConnectDrawer_init :: drawer where
  "ConnectDrawer_init = \<lparr>otp = [], d_error = Null, d_loading = False\<rparr>"

text \<open>
  The mutation sends three fields of \<open>{ ...data, security_code: value }\<close>; its success
  callback reads \<open>returnUrl\<close> of the body the server answered, and throws on an empty one.
\<close>

definition ConnectDrawer_request :: "jsval \<Rightarrow> string \<Rightarrow> api_request" where
  "ConnectDrawer_request d value =
     connectWallet (get_oprop d ''partnerId'') (get_oprop d ''userId'') (JStr value)"

definition ConnectDrawer_change ::
    "jsval \<Rightarrow> string \<Rightarrow> drawer \<Rightarrow> drawer \<times> api_request option" where
  "ConnectDrawer_change d value s =
     (if length value = 6
      then (\<lparr>otp = value, d_error = Null, d_loading = True\<rparr>, Some (ConnectDrawer_request d value))
      else (s\<lparr>otp := value, d_error := Null\<rparr>, None))"

definition ConnectDrawer_catch :: "jsval \<Rightarrow> drawer \<Rightarrow> drawer" where
  "ConnectDrawer_catch e s =
     s\<lparr>d_loading := False, d_error := error_message e ''DDa~ xa?y ra lo^~i.''\<rparr>"

fun ConnectDrawer_resume :: "jsval \<Rightarrow> reply \<Rightarrow> drawer \<Rightarrow> drawer \<times> effect list" where
  "ConnectDrawer_resume d (Resolved status r) s =
     (let ok = Toast Success (JStr ''Ke^/t no^/i vi/ tha`nh co^ng!'')
      in case get_prop r ''returnUrl'' of
           Inl e \<Rightarrow> (ConnectDrawer_catch e s, [ok])
         | Inr _ \<Rightarrow> (s\<lparr>d_loading := False\<rparr>, [ok, Redirect (get_oprop d ''returnUrl''), CloseParent]))"
| "ConnectDrawer_resume d (Failed e) s = (ConnectDrawer_catch e s, [])"

definition ConnectDrawer_view :: "bool \<Rightarrow> drawer \<Rightarrow> drawer_event ui" where
  "ConnectDrawer_view opened s =
     Sheet opened DrawerClose
       [Click DrawerClose [Icon ''close.svg''],
        Text ''Nha^.p ma~ ba?o ma^.t'',
        Expr (d_error s),
        Styled (error_border (d_error s))
          [Field ''password'' (JStr (otp s)) CodeTyped,
           whenever (d_loading s) (Icon ''loading.svg'')]]"

interpretation connect_otp:
  settling_entry "ConnectDrawer_change d" "ConnectDrawer_resume d" "ConnectDrawer_request d" d_loading for d
proof unfold_locales
  fix a and s :: drawer
  show "\<not> d_loading (fst (ConnectDrawer_resume d a s))"
    by (cases a) (auto simp: ConnectDrawer_catch_def Let_def split: sum.split)
qed (simp_all add: ConnectDrawer_change_def)

section \<open>Properties\<close>

text \<open>
  C12 The transfers the drawer sends are exactly the completed codes, in order, each as one
  authorized request whose security code is the code typed and whose other fields are those of
  the form: no shorter code sends anything, and, the field being open while a transfer is
  under way, a second code sends a second transfer whatever the answers are and whenever they
  come.
\<close>

theorem transfer_codes_sent:
  "requests (otp_run (TransferDrawer_change (JObj fs)) TransferDrawer_resume es (s, n)) =
     map (TransferDrawer_request (JObj fs)) (filter (\<lambda>v. length v = 6) (typed es)) \<and>
   (\<forall>v. via (TransferDrawer_request (JObj fs) v) = Instance \<and>
      get_oprop (body (TransferDrawer_request (JObj fs) v)) ''security_code'' = JStr v \<and>
      (\<forall>k. k \<noteq> ''security_code'' \<longrightarrow>
         get_oprop (body (TransferDrawer_request (JObj fs) v)) k = get_oprop (JObj fs) k))"
  by (simp add: transfer_otp.requests_run TransferDrawer_request_def sendMoneyAPI_def
      instance_request_def update_conv')

theorem transfer_codes_sent_witness:
  "length (requests (otp_run (TransferDrawer_change (JObj [(''amount'', JStr ''5'')])) TransferDrawer_resume
      [Type ''12345'', Type ''123456'', Type ''12345'', Type ''123456''] (TransferDrawer_init, 0))) = 2 \<and>
   get_oprop (body (TransferDrawer_request (JObj [(''amount'', JStr ''5'')]) ''123456'')) ''amount'' = JStr ''5''"
  using transfer_codes_sent [of "[(''amount'', JStr ''5'')]"
      "[Type ''12345'', Type ''123456'', Type ''12345'', Type ''123456'']" TransferDrawer_init 0]
  by simp

text \<open>
  A transfer that the server accepts with another success status than 200 leaves the drawer
  with its spinner for good: nothing is shown, nobody is told, and only a new code or a failure
  changes it.
\<close>

lemma transfer_other_success_stuck:
  assumes "status \<noteq> 200" and "length v = 6"
    and "s = fst (TransferDrawer_change d v TransferDrawer_init)"
  shows "TransferDrawer_resume (Resolved status r) s = (s, []) \<and> d_loading s \<and> d_error s = Null"
  using assms by (simp add: TransferDrawer_change_def)

lemma transfer_other_success_stuck_witness:
  "TransferDrawer_resume (Resolved 201 Undef) (fst (TransferDrawer_change Undef ''123456'' TransferDrawer_init))
     = (fst (TransferDrawer_change Undef ''123456'' TransferDrawer_init), [])"
  using transfer_other_success_stuck [OF _ _ refl, of 201 "''123456''" Undef Undef] by simp

text \<open>
  The deposit drawer sends, for each completed code, one authorized request to the deposit
  or the withdrawal address, as the form says, without the field \<open>isDeposit\<close> and with the code
  typed; and in every run, with the answers in any order, once all requests are answered the
  spinner is off.
\<close>

lemma deposit_codes_sent:
  assumes "result = otp_run (DepositDrawer_change (JObj d)) (DepositDrawer_resume (JObj d)) es
                      (DepositDrawer_init, 0)"
  shows "requests result =
      map (DepositDrawer_request (JObj d)) (filter (\<lambda>v. length v = 6) (typed es)) \<and>
    (\<forall>v. url (DepositDrawer_request (JObj d) v) =
          (if isDeposit_of (JObj d) then ''/api/v1/wallet/deposit-money'' else ''/api/v1/wallet/withdraw-money'') \<and>
        get_oprop (body (DepositDrawer_request (JObj d) v)) ''security_code'' = JStr v \<and>
        get_oprop (body (DepositDrawer_request (JObj d) v)) ''isDeposit'' = Undef) \<and>
    (pending_requests result = 0 \<longrightarrow> \<not> d_loading (final_state result))"
proof (intro conjI allI)
  show "requests result = map (DepositDrawer_request (JObj d)) (filter (\<lambda>v. length v = 6) (typed es))"
    unfolding assms by (rule deposit_otp.requests_run)
  show "pending_requests result = 0 \<longrightarrow> \<not> d_loading (final_state result)"
    unfolding assms by (rule deposit_otp.idle_when_answered) (simp add: DepositDrawer_init_def)
qed (simp_all add: DepositDrawer_request_def depositMoney_def withdrawMoney_def instance_request_def
    Let_def update_conv' delete_conv')

lemma deposit_codes_sent_witness:
  "\<not> d_loading (final_state (otp_run (DepositDrawer_change (JObj [])) (DepositDrawer_resume (JObj []))
      [Type ''123456'', Answer (Failed network_error)] (DepositDrawer_init, 0)))"
  using deposit_codes_sent [OF refl, of "[]" "[Type ''123456'', Answer (Failed network_error)]"]
  by (simp add: DepositDrawer_change_def pending_requests_def DepositDrawer_catch_def)

text \<open>
  The drawers follow the money: after an accepted deposit or withdrawal the wallet is marked
  as changed exactly once, and after a refused one nothing is dispatched and the refusal, or
  the default text, is shown.
\<close>

lemma deposit_marks_wallet:
  "dispatched (snd (DepositDrawer_resume d (Resolved 200 r) s)) = [SetWalletUpdated True] \<and>
   dispatched (snd (DepositDrawer_resume d (Failed e) s)) = [] \<and>
   truthy (d_error (fst (DepositDrawer_resume d (Failed e) s)))"
  by (simp add: DepositDrawer_catch_def)

end
