(* ===== verification/AuthPages.thy ===== *)
theory AuthPages
  imports OtpDrawers Formatting
begin

text \<open>
  Signing in and signing up: the thunks of \<^verbatim>\<open>redux/auth/authThunk.ts\<close>, the pages of
  \<^verbatim>\<open>pages/authentication\<close> and the inputs of \<^verbatim>\<open>components/authentication\<close>. A handler that
  awaits a call is split at the call, as in the theory of the drawers; the dispatched actions
  are the effects \<open>Dispatch\<close>, which the reducers of \<^verbatim>\<open>AuthStore\<close> run.
\<close>

section \<open>Addresses of mail\<close>

definition not_space_or_at :: "char \<Rightarrow> bool" where   \<comment> \<open>\<open>[^\s@]\<close>\<close>
  "not_space_or_at c \<longleftrightarrow> \<not> is_space c \<and> c \<noteq> CHR ''@''"

text \<open>The expression the login and the registration page both declare.\<close>

definition emailRegex :: regex where
  "emailRegex =
     Seq (Plus (Cls not_space_or_at))
       (Seq (Lit CHR ''@'')
         (Seq (Plus (Cls not_space_or_at))
           (Seq (Lit CHR ''.'') (Plus (Cls not_space_or_at)))))"

definition email_ok :: "string \<Rightarrow> bool" where
  "email_ok s = matches emailRegex s"

lemma email_ok_split:
  "email_ok s \<longleftrightarrow>
     (\<exists>a b c. s = a @ ''@'' @ b @ ''.'' @ c \<and> a \<noteq> [] \<and> b \<noteq> [] \<and> c \<noteq> [] \<and>
        (\<forall>x \<in> set a \<union> set b \<union> set c. not_space_or_at x))"
proof
  assume "email_ok s"
  then obtain a b c where "s = a @ ''@'' @ b @ ''.'' @ c" "a \<noteq> []" "b \<noteq> []" "c \<noteq> []"
    "\<forall>x \<in> set a. not_space_or_at x" "\<forall>x \<in> set b. not_space_or_at x" "\<forall>x \<in> set c. not_space_or_at x"
    unfolding email_ok_def matches_lang emailRegex_def lang.simps lang_Plus_Cls lang_Lit by auto
  then show "\<exists>a b c. s = a @ ''@'' @ b @ ''.'' @ c \<and> a \<noteq> [] \<and> b \<noteq> [] \<and> c \<noteq> [] \<and>
      (\<forall>x \<in> set a \<union> set b \<union> set c. not_space_or_at x)"
    by (intro exI [of _ a] exI [of _ b] exI [of _ c]) auto
next
  assume "\<exists>a b c. s = a @ ''@'' @ b @ ''.'' @ c \<and> a \<noteq> [] \<and> b \<noteq> [] \<and> c \<noteq> [] \<and>
      (\<forall>x \<in> set a \<union> set b \<union> set c. not_space_or_at x)"
  then obtain a b c where s: "s = a @ ''@'' @ b @ ''.'' @ c"
    and l: "lang (Plus (Cls not_space_or_at)) a" "lang (Plus (Cls not_space_or_at)) b"
      "lang (Plus (Cls not_space_or_at)) c"
    by auto
  have "lang (Lit CHR ''@'') ''@''" and "lang (Lit CHR ''.'') ''.''" by simp_all
  with s l show "email_ok s" unfolding email_ok_def matches_lang emailRegex_def lang.simps by blast
qed

section \<open>The thunks\<close>

text \<open>
  A thunk dispatches its \<open>pending\<close> action, sends its request, and ends with \<open>fulfilled\<close>, or
  with \<open>rejected\<close> and the value given to \<open>rejectWithValue\<close>.
\<close>

definition rejected_message :: jsval where
  "rejected_message = JStr ''Rejected''"

definition loginUsers_start :: "jsval \<Rightarrow> effect list \<times> api_request" where
  "loginUsers_start user =
     ([Dispatch LoginPending], plain POST ''http://localhost:5001/api/v1/auth/login'' user True)"

definition login_rejected :: "jsval \<Rightarrow> effect" where
  "login_rejected e = Dispatch (LoginRejected (error_message e ''DDa(ng nha^.p tha^/t ba.i!'') rejected_message)"

fun loginUsers_resume :: "jsval \<Rightarrow> reply \<Rightarrow> effect list" where
  "loginUsers_resume user (Resolved status d) =
     (if status = 200 then
        [Navigate ''/'' Undef, Dispatch (ClearMessage LoginForm)] @
        (case path d [''payload'', ''access_token''] of
           Inl e \<Rightarrow> [login_rejected e]
         | Inr tok \<Rightarrow>
             [Dispatch (AddAccessToken tok),
              Dispatch (LoginFulfilled (spread_set d ''email'' (get_oprop user ''email'')))])
      else
        (case get_prop d ''message'' of
           Inl e \<Rightarrow> [login_rejected e]
         | Inr m \<Rightarrow> [Dispatch (LoginRejected m rejected_message)]))"
| "loginUsers_resume user (Failed e) = [login_rejected e]"

definition registerUsers_start :: "jsval \<Rightarrow> effect list \<times> api_request" where
  "registerUsers_start user =
     ([Dispatch RegisterPending], plain POST ''http://localhost:5001/api/v1/auth/signup'' user False)"

definition register_rejected :: "jsval \<Rightarrow> effect" where
  "register_rejected e = Dispatch (RegisterRejected (error_message e ''DDa(ng ky/ tha^/t ba.i'') rejected_message)"

text \<open>The object \<open>{ ...v, ...w }\<close>.\<close>

fun spread :: "jsval \<Rightarrow> jsval \<Rightarrow> jsval" where
  "spread (JObj fs) (JObj gs) = JObj (foldl (\<lambda>l (k, w). AList.update k w l) fs gs)"
| "spread (JObj fs) _ = JObj fs"
| "spread _ (JObj gs) = JObj gs"
| "spread _ _ = JObj []"

fun registerUsers_resume :: "jsval \<Rightarrow> reply \<Rightarrow> effect list" where
  "registerUsers_resume user (Resolved status d) =
     (if status = 200 then
        (case path d [''payload'', ''user''] of
           Inl e \<Rightarrow> [register_rejected e]
         | Inr userData \<Rightarrow>
             (case get_prop userData ''id'' of
                Inl e \<Rightarrow> [register_rejected e]
              | Inr user_id \<Rightarrow>
                  [StoreItem ''share_data_'' user_id (opath d [''payload'', ''share_data'']),
                   Dispatch (RegisterFulfilled (spread d user))]))
      else
        (case get_prop d ''message'' of
           Inl e \<Rightarrow> [register_rejected e]
         | Inr m \<Rightarrow> [Dispatch (RegisterRejected m rejected_message)]))"
| "registerUsers_resume user (Failed e) = [register_rejected e]"

section \<open>Inputs\<close>

text \<open>The text field: whether its password is shown in clear.\<close>

datatype input_event = ToggleVisibility | InputChanged string string

definition InputText_toggle :: "bool \<Rightarrow> bool \<Rightarrow> bool" where
  "InputText_toggle isFetching isPasswordVisible =
     (if \<not> isFetching then \<not> isPasswordVisible else isPasswordVisible)"

text \<open>Every such field is required; one of the type \<open>email\<close> must hold an address.\<close>

definition InputText_constraints :: "string \<Rightarrow> constraint list" where
  "InputText_constraints input_type = Required # (if input_type = ''email'' then [MailAddress] else [])"

definition InputText_view ::
    "string \<Rightarrow> string \<Rightarrow> string \<Rightarrow> jsval \<Rightarrow> bool \<Rightarrow> bool \<Rightarrow> input_event ui" where
  "InputText_view input_name input_type title err isFetching isPasswordVisible =
     Box
       [Text title,
        Styled
          ((if truthy err then ''border-red-400 focus:ring-red-400''
            else ''focus:ring-blue-default focus:border-blue-default'') @ '' '' @
           (if isFetching then ''cursor-not-allowed bg-gray-100'' else []))
          [Input (InputText_constraints input_type)
             (if isPasswordVisible \<and> input_type = ''password'' then ''text'' else input_type)
             Undef (InputChanged input_name)],
        whenever (input_type = ''password'')
          (Click ToggleVisibility
             [Icon (if isPasswordVisible then ''FaRegEye'' else ''FaRegEyeSlash'')])]"

definition ButtonSubmit :: "bool \<Rightarrow> 'e \<Rightarrow> string \<Rightarrow> 'e ui" where
  "ButtonSubmit isLoading click title =
     (if \<not> isLoading then Btn False click [Text title] else Btn True click [Icon ''loading.svg''])"

section \<open>Login\<close>

record login_page =
  user :: jsval
  formErrors :: jsval

definition initial_login_page :: login_page where
  "initial_login_page =
     \<lparr>user = JObj [(''email'', JStr []), (''password'', JStr [])], formErrors = JStr []\<rparr>"

text \<open>The effect that runs when the error in the store changes.\<close>

definition Login_errorChanged :: "jsval \<Rightarrow> login_page \<Rightarrow> login_page \<times> effect list" where
  "Login_errorChanged err s =
     (if truthy err
      then (s\<lparr>formErrors := err\<rparr>, [Toast Error err, Dispatch (ClearError LoginForm)])
      else (s, []))"

definition Login_handleInputChange :: "string \<Rightarrow> string \<Rightarrow> login_page \<Rightarrow> login_page" where
  "Login_handleInputChange input_name value s = s\<lparr>user := spread_set (user s) input_name (JStr value)\<rparr>"

definition Login_handleLogin :: "login_page \<Rightarrow> effect list \<times> api_request option" where
  "Login_handleLogin s =
     (if \<not> email_ok (js_text (get_oprop (user s) ''email''))
      then ([Toast Error (JStr ''Email kho^ng ho+.p le^..'')], None)
      else case loginUsers_start (user s) of (out, r) \<Rightarrow> (out, Some r))"

text \<open>
  The submit of the form: the browser runs the handler only when its two fields are not empty, and
  the button is disabled while a login is under way.
\<close>

definition Login_submit :: "bool \<Rightarrow> login_page \<Rightarrow> effect list \<times> api_request option" where
  "Login_submit isFetching s =
     (if isFetching \<or>
         \<not> accepts (InputText_constraints ''text'') (field_text (get_oprop (user s) ''email'')) \<or>
         \<not> accepts (InputText_constraints ''password'') (field_text (get_oprop (user s) ''password''))
      then ([], None) else Login_handleLogin s)"

datatype login_event = LoginSubmit | LoginInput input_event | GoRegister

definition Login_view :: "bool \<Rightarrow> bool \<Rightarrow> login_page \<Rightarrow> input_event ui \<times> input_event ui \<times> login_event ui" where
  "Login_view isFetching visible s =
     (InputText_view ''email'' ''text'' ''Email'' (formErrors s) isFetching False,
      InputText_view ''password'' ''password'' ''Ma^.t kha^?u'' (formErrors s) isFetching visible,
      Box
        [Img (JStr ''auth_img.jpg''),
         Text ''Tho^ng tin dda(ng nha^.p'', Text ''Cha`o mu+`ng ba.n tro+? la.i!'',
         Form LoginSubmit
           [Link ''/auth/login/forgot-password'' [Text ''Que^n ma^.t kha^?u?''],
            ButtonSubmit isFetching LoginSubmit ''DDa(ng nha^.p''],
         Text ''Ba.n chu+a co/ ta`i khoa?n?'',
         (if isFetching then Text ''DDa(ng ky/'' else Link ''/auth/register'' [Text ''DDa(ng ky/''])])"

section \<open>Registration\<close>

text \<open>The errors of the form, by field, as \<open>setError\<close> leaves them.\<close>

type_synonym field_errors = "(string \<times> string) list"

definition password_mismatch :: string where
  "password_mismatch = ''Ma^.t kha^?u kho^ng kho+/p. Vui lo`ng thu+? la.i!''"

definition password_weak :: string where
  "password_weak =
     ''Ma^.t kha^?u pha?i chu+/a i/t nha^/t 8 ky/ tu+., bao go^`m chu+~ hoa, chu+~ thu+o+`ng, chu+~ so^/ va` ky/ tu+. dda(.c bie^.t.''"

record registration =
  reg_email :: string
  reg_password :: string
  reg_confirm :: string

definition registration_user :: "registration \<Rightarrow> jsval" where
  "registration_user d =
     JObj [(''email'', JStr (reg_email d)), (''password'', JStr (reg_password d))]"

definition Register_onSubmit ::
    "registration \<Rightarrow> field_errors \<Rightarrow> field_errors \<times> effect list \<times> api_request option" where
  "Register_onSubmit d errors =
     (if reg_password d \<noteq> reg_confirm d then
        (AList.update ''confirmPassword'' password_mismatch errors,
         [Toast Error (JStr password_mismatch)], None)
      else if \<not> validatePassword (reg_password d) then
        (AList.update ''password'' password_weak errors, [Toast Error (JStr password_weak)], None)
      else if \<not> email_ok (reg_email d) then
        (AList.update ''email'' ''Email kho^ng ho+.p le^..'' errors,
         [Toast Error (JStr ''Email kho^ng ho+.p le^..'')], None)
      else
        (case registerUsers_start (registration_user d) of (out, r) \<Rightarrow> (errors, out, Some r)))"

text \<open>
  The submit of the form: the browser hands it to \<open>handleSubmit\<close> of \<^verbatim>\<open>react-hook-form\<close> only when
  none of the three fields is empty and the first one holds an address, and not while a registration
  is under way (the button is disabled). Errors set by hand do not outlive the next submit of
  fields without rules, so the handler starts with none. What the browser checks is what the
  fields show, \<open>d\<close>. What the handler gets is what the library holds, \<open>held\<close>: the component
  replaces the \<open>onChange\<close> of \<open>register\<close> by a log to the console, so a value is taken over only
  when its field is left, and \<open>held\<close> is a parameter.
\<close>

definition Register_valid :: "registration \<Rightarrow> bool" where
  "Register_valid d \<longleftrightarrow>
     accepts (InputText_constraints ''email'') (reg_email d) \<and>
     accepts (InputText_constraints ''password'') (reg_password d) \<and>
     accepts (InputText_constraints ''password'') (reg_confirm d)"

definition Register_submit ::
    "bool \<Rightarrow> registration \<Rightarrow> registration \<Rightarrow> field_errors \<Rightarrow>
       field_errors \<times> effect list \<times> api_request option" where
  "Register_submit isFetching d held errors =
     (if isFetching \<or> \<not> Register_valid d then (errors, [], None) else Register_onSubmit held [])"

text \<open>A dispatched thunk never rejects, so the form is reset after every answer.\<close>

definition Register_resume :: "registration \<Rightarrow> reply \<Rightarrow> effect list" where
  "Register_resume d a = registerUsers_resume (registration_user d) a @ [ResetForm]"

definition Register_errorChanged :: "jsval \<Rightarrow> effect list" where
  "Register_errorChanged err =
     (if truthy err then [Toast Error err, Dispatch (ClearError RegisterForm)] else [])"

definition Register_messageChanged :: "jsval \<Rightarrow> effect list" where
  "Register_messageChanged msg =
     (if truthy msg then [Toast Success msg, Dispatch (ClearMessage RegisterForm)] else [])"

datatype register_event = RegisterSubmit

definition Register_view :: "bool \<Rightarrow> field_errors \<Rightarrow> input_event ui list \<times> register_event ui" where
  "Register_view isFetching errors =
     (let err = (\<lambda>k. case map_of errors k of None \<Rightarrow> Undef | Some m \<Rightarrow> JStr m)
      in ([InputText_view ''email'' ''email'' ''Email'' (err ''email'') isFetching False,
           InputText_view ''password'' ''password'' ''Ma^.t kha^?u'' (err ''password'') isFetching False,
           InputText_view ''confirmPassword'' ''password'' ''Nha^.p la.i ma^.t kha^?u''
             (err ''confirmPassword'') isFetching False],
          Box
            [Img (JStr ''auth_img.jpg''), Text ''DDa(ng ky/ ta`i khoa?n'',
             Form RegisterSubmit [ButtonSubmit isFetching RegisterSubmit ''DDa(ng ky/''],
             Text ''Ba.n dda~ co/ ta`i khoa?n?'', Link ''/auth/login'' [Text ''DDa(ng nha^.p'']]))"

section \<open>Verification of a login\<close>

record verify_login =
  vl_otp :: string
  vl_loading :: bool

definition VerifyLogin_init :: verify_login where
  "VerifyLogin_init = \<lparr>vl_otp = [], vl_loading = False\<rparr>"

definition VerifyLogin_request :: "vite_env \<Rightarrow> jsval \<Rightarrow> string \<Rightarrow> api_request" where
  "VerifyLogin_request env email value =
     verifyLoginAPI env (JObj [(''email'', email), (''otp'', JStr value)])"

definition VerifyLogin_change ::
    "vite_env \<Rightarrow> jsval \<Rightarrow> string \<Rightarrow> verify_login \<Rightarrow> verify_login \<times> api_request option" where
  "VerifyLogin_change env email value s =
     (if length value = 6
      then (\<lparr>vl_otp = value, vl_loading = True\<rparr>, Some (VerifyLogin_request env email value))
      else (s\<lparr>vl_otp := value\<rparr>, None))"

definition VerifyLogin_catch :: "jsval \<Rightarrow> effect list" where
  "VerifyLogin_catch e =
     (case path e [''response'', ''data'', ''message''] of
        Inl e' \<Rightarrow> [Uncaught e']
      | Inr m \<Rightarrow> [Toast Error m])"

fun VerifyLogin_resume :: "reply \<Rightarrow> verify_login \<Rightarrow> verify_login \<times> effect list" where
  "VerifyLogin_resume (Resolved status d) s =
     (s\<lparr>vl_loading := False\<rparr>,
      if status = 200 then
        Toast Success (JStr ''DDa(ng nha^.p tha`nh co^ng!'') #
        (case get_prop d ''data'' of
           Inl e \<Rightarrow> VerifyLogin_catch e
         | Inr tok \<Rightarrow> [Dispatch (AddAccessToken tok), Delay 2000 [Navigate ''/'' Undef]])
      else [])"
| "VerifyLogin_resume (Failed e) s = (s\<lparr>vl_loading := False\<rparr>, VerifyLogin_catch e)"

definition VerifyLogin_messageChanged :: "jsval \<Rightarrow> effect list" where
  "VerifyLogin_messageChanged msg =
     (if truthy msg then [Toast Success msg, Dispatch (ClearMessage LoginForm)] else [])"

text \<open>Without the address of a login under way the page is the one for unknown addresses.\<close>

definition VerifyLogin_view :: "jsval \<Rightarrow> jsval \<Rightarrow> verify_login \<Rightarrow> drawer_event ui option" where
  "VerifyLogin_view email err s =
     (if \<not> truthy email then None
      else Some (Box
        [Img (JStr ''auth_img.jpg''), Text ''Xa/c minh dda(ng nha^.p'',
         Text ''Chu/ng to^i dda~ gu+?i ma~ OTP dde^/n '', Expr email,
         Styled (error_border err @ '' '' @ (if vl_loading s then ''cursor-not-allowed bg-gray-200'' else []))
           [if vl_loading s then Expr (JStr (vl_otp s)) else Field ''tel'' (JStr (vl_otp s)) CodeTyped],
         whenever (vl_loading s) (Icon ''loading.svg'')]))"

interpretation verify_login_otp:
  settling_entry "VerifyLogin_change env email" VerifyLogin_resume "VerifyLogin_request env email"
    vl_loading for env email
proof unfold_locales
  fix a and s :: verify_login
  show "\<not> vl_loading (fst (VerifyLogin_resume a s))" by (cases a) simp_all
qed (simp_all add: VerifyLogin_change_def)

section \<open>Verification of a registration\<close>

record verify_register =
  vr_otp :: string
  resend_count :: nat
  vr_loading :: bool
  vr_error :: jsval


definition VerifyRegister_request :: "vite_env \<Rightarrow> jsval \<Rightarrow> string \<Rightarrow> api_request" where
  "VerifyRegister_request env email value =
     verifyRegisterAPI env (JObj [(''email'', email), (''otp'', JStr value)])"

definition VerifyRegister_change ::
    "vite_env \<Rightarrow> jsval \<Rightarrow> string \<Rightarrow> verify_register \<Rightarrow> verify_register \<times> api_request option" where
  "VerifyRegister_change env email value s =
     (if length value = 6
      then (s\<lparr>vr_otp := value, vr_loading := True\<rparr>, Some (VerifyRegister_request env email value))
      else (s\<lparr>vr_otp := value\<rparr>, None))"

text \<open>Both calls of the page end in the same catch block, up to the default text.\<close>

definition VerifyRegister_catch ::
    "string \<Rightarrow> jsval \<Rightarrow> verify_register \<Rightarrow> verify_register \<times> effect list" where
  "VerifyRegister_catch txt e s =
     (let errorMsg = error_message e txt
      in (s\<lparr>vr_error := errorMsg, vr_loading := False\<rparr>, [Toast Error errorMsg]))"

fun VerifyRegister_resume :: "reply \<Rightarrow> verify_register \<Rightarrow> verify_register \<times> effect list" where
  "VerifyRegister_resume (Resolved status d) s =
     (case get_prop d ''message'' of
        Inl e \<Rightarrow> VerifyRegister_catch ''DDa~ xa?y ra lo^~i'' e s
      | Inr m \<Rightarrow>
          if status = 200 then
            (s\<lparr>vr_loading := False\<rparr>,
             [Toast Success m, Dispatch (AddAccessToken (get_oprop d ''data'')),
              Delay 2000 [Navigate ''/auth/register/security-code'' (JObj [(''message'', m)])]])
          else (s\<lparr>vr_error := m, vr_loading := False\<rparr>, [Toast Error m]))"
| "VerifyRegister_resume (Failed e) s = VerifyRegister_catch ''DDa~ xa?y ra lo^~i'' e s"



definition VerifyRegister_messageChanged :: "jsval \<Rightarrow> effect list" where
  "VerifyRegister_messageChanged msg = (if truthy msg then [Toast Success msg] else [])"

datatype verify_register_event =
    VerifyTyped string
  | VerifyAnswer reply
  | ResendClick
  | ResendAnswer reply




definition VerifyRegister_view :: "jsval \<Rightarrow> verify_register \<Rightarrow> verify_register_event ui" where
  "VerifyRegister_view email s =
     Box
       [Img (JStr ''auth_img.jpg''), Text ''Xa/c minh dda(ng ky/'',
        Text ''Chu/ng to^i dda~ gu+?i ma~ OTP dde^/n '', Expr email,
        Styled (error_border (vr_error s) @ '' '' @
                (if vr_loading s then ''cursor-not-allowed bg-gray-200'' else []))
          [if vr_loading s then Expr (JStr (vr_otp s)) else Field ''tel'' (JStr (vr_otp s)) VerifyTyped],
        whenever (vr_loading s) (Icon ''loading.svg''),
        Styled (if vr_loading s \<or> resend_count s > 2 then ''text-gray-400 cursor-default''
                else ''text-blue-default'')
          [Btn (vr_loading s) ResendClick [Text ''Gu+?i la.i OTP'']]]"

lemma VerifyRegister_catch_simps [simp]:
  "resend_count (fst (VerifyRegister_catch txt e s)) = resend_count s"
  "\<not> vr_loading (fst (VerifyRegister_catch txt e s))"
  by (simp_all add: VerifyRegister_catch_def Let_def)

interpretation verify_register_otp:
  settling_entry "VerifyRegister_change env email" VerifyRegister_resume
    "VerifyRegister_request env email" vr_loading for env email
proof unfold_locales
  fix a and s :: verify_register
  show "\<not> vr_loading (fst (VerifyRegister_resume a s))" by (cases a) (auto split: sum.split)
qed (simp_all add: VerifyRegister_change_def)

section \<open>Choosing the security code\<close>

record security_code_page =
  security :: string
  sc_loading :: bool
  sc_error :: bool

definition SecurityCode_init :: security_code_page where
  "SecurityCode_init = \<lparr>security = [], sc_loading = False, sc_error = False\<rparr>"

definition SecurityCode_request :: "string \<Rightarrow> api_request" where
  "SecurityCode_request code_text = securityCode_request (JObj [(''security_code'', JStr code_text)])"

definition SecurityCode_messageChanged :: "jsval \<Rightarrow> effect list" where
  "SecurityCode_messageChanged location_state =
     (let msg = get_oprop location_state ''message''
      in if truthy msg then [Toast Plain msg] else [])"

definition SecurityCode_handleSubmit ::
    "security_code_page \<Rightarrow> security_code_page \<times> effect list \<times> api_request option" where
  "SecurityCode_handleSubmit s =
     (if length (security s) = 6
      then (s\<lparr>sc_loading := True\<rparr>, [], Some (SecurityCode_request (security s)))
      else (s\<lparr>sc_error := True\<rparr>, [Toast Error (JStr ''Ma~ ba?o ma^.t pha?i co/ 6 ky/ tu+..'')], None))"

definition SecurityCode_catch :: "jsval \<Rightarrow> security_code_page \<Rightarrow> security_code_page \<times> effect list" where
  "SecurityCode_catch e s =
     (s\<lparr>sc_error := True, sc_loading := False\<rparr>, [Toast Error (error_message e ''DDa~ xa?y ra lo^~i'')])"

fun SecurityCode_resume :: "reply \<Rightarrow> security_code_page \<Rightarrow> security_code_page \<times> effect list" where
  "SecurityCode_resume (Resolved status d) s =
     (if status = 401 then
        (s\<lparr>sc_error := True, sc_loading := False\<rparr>,
         [Toast Error (JStr ''Phie^n cu?a ba.n dda~ he^/t ha.n!''), Delay 1000 [Navigate ''/auth/register'' Undef]])
      else
        (case get_prop d ''message'' of
           Inl e \<Rightarrow> SecurityCode_catch e s
         | Inr m \<Rightarrow>
             if status = 200 then
               (s\<lparr>sc_error := False, sc_loading := False\<rparr>,
                [Toast Success m, Delay 1000 [Navigate ''/'' Undef]])
             else (s\<lparr>sc_error := True, sc_loading := False\<rparr>, [Toast Error m])))"
| "SecurityCode_resume (Failed e) s = SecurityCode_catch e s"

datatype security_code_event = SecurityTyped string | SecuritySubmit

definition SecurityCode_view :: "security_code_page \<Rightarrow> security_code_event ui" where
  "SecurityCode_view s =
     Box
       [Img (JStr ''auth_img.jpg''), Text ''Ca`i dda(.t ma~ ba?o ma^.t'',
        Styled ((if sc_error s then ''border-red-500'' else []) @ '' '' @
                (if sc_loading s then ''cursor-not-allowed bg-gray-200'' else []))
          [if sc_loading s then Expr (JStr (security s))
           else Field ''text'' (JStr (security s)) SecurityTyped],
        ButtonSubmit (sc_loading s) SecuritySubmit ''Xa/c nha^.n'']"

text \<open>The page as a code entry: typing a code and submitting it.\<close>

definition SecurityCode_enter :: "string \<Rightarrow> security_code_page \<Rightarrow> security_code_page \<times> api_request option" where
  "SecurityCode_enter v s =
     (case SecurityCode_handleSubmit (s\<lparr>security := v\<rparr>) of (s', out, r) \<Rightarrow> (s', r))"

interpretation security_code_otp:
  settling_entry SecurityCode_enter SecurityCode_resume SecurityCode_request sc_loading
proof unfold_locales
  fix a and s :: security_code_page
  show "\<not> sc_loading (fst (SecurityCode_resume a s))"
    by (cases a) (auto simp: SecurityCode_catch_def split: sum.split)
qed (simp_all add: SecurityCode_enter_def SecurityCode_handleSubmit_def)

section \<open>Recovering the password\<close>

text \<open>
  The two recovery forms keep only the flag \<open>isLoading\<close>; their catch blocks read
  \<open>error.data.message\<close>.
\<close>

definition recovery_catch :: "jsval \<Rightarrow> effect list" where
  "recovery_catch e =
     (case path e [''data'', ''message''] of
        Inl e' \<Rightarrow> [Uncaught e']
      | Inr m \<Rightarrow> [Message Error m])"

definition ForgotPassword_onFinish :: "vite_env \<Rightarrow> jsval \<Rightarrow> bool \<Rightarrow> bool \<times> api_request" where
  "ForgotPassword_onFinish env email isLoading = (True, forgotPassword_request env email)"

fun ForgotPassword_resume :: "jsval \<Rightarrow> reply \<Rightarrow> bool \<Rightarrow> bool \<times> effect list" where
  "ForgotPassword_resume email (Resolved status d) isLoading =
     (isLoading,
      if status = 200 then
        (case get_prop d ''message'' of
           Inl e \<Rightarrow> recovery_catch e
         | Inr m \<Rightarrow>
             [Message Success m,
              Navigate ''/auth/login/reset-password'' (JObj [(''email'', email)]), ResetForm])
      else [])"
| "ForgotPassword_resume email (Failed e) isLoading = (isLoading, recovery_catch e)"

datatype recovery_event = RecoverySubmit | RecoveryTyped string string

definition ForgotPassword_view :: "bool \<Rightarrow> recovery_event ui" where
  "ForgotPassword_view isLoading =
     Box
       [Text ''Kho^i phu.c ma^.t kha^?u'', Img (JStr ''auth_img.jpg''), Text ''Email'',
        whenever (\<not> isLoading) (Field ''email'' Undef (RecoveryTyped ''email'')),
        Btn isLoading RecoverySubmit
          [Text (if isLoading then ''DDang gu+?i...'' else ''Gu+?i email kho^i phu.c'')]]"

definition reset_special :: "char \<Rightarrow> bool" where   \<comment> \<open>\<open>[@$!%*?&]\<close>\<close>
  "reset_special c \<longleftrightarrow> c \<in> set ''@$!%*?&''"

definition reset_class :: "char \<Rightarrow> bool" where   \<comment> \<open>\<open>[A-Za-z\d@$!%*?&]\<close>\<close>
  "reset_class c \<longleftrightarrow> is_upper c \<or> is_lower c \<or> is_digit c \<or> reset_special c"

text \<open>\<open>(?=.*[p])\<close> at the start of the text.\<close>

definition lookahead :: "(char \<Rightarrow> bool) \<Rightarrow> string \<Rightarrow> bool" where
  "lookahead p s = matches (Seq (Star (Cls is_dot_class)) (Seq (Cls p) Any)) s"

definition reset_pattern :: "string \<Rightarrow> bool" where
  "reset_pattern s \<longleftrightarrow>
     lookahead is_lower s \<and> lookahead is_upper s \<and> lookahead is_digit s \<and>
     lookahead reset_special s \<and>
     matches (Seq (Times 8 (Cls reset_class)) (Star (Cls reset_class))) s"

text \<open>The rules of the three fields; each must hold for the form to be submitted.\<close>

record reset_values =
  rp_otp :: string
  rp_password :: string
  rp_confirm :: string

definition reset_rules :: "reset_values \<Rightarrow> bool" where
  "reset_rules v \<longleftrightarrow>
     rp_otp v \<noteq> [] \<and> length (rp_otp v) = 6 \<and>
     rp_password v \<noteq> [] \<and> 8 \<le> length (rp_password v) \<and> reset_pattern (rp_password v) \<and>
     rp_confirm v \<noteq> [] \<and> (rp_confirm v = [] \<or> rp_password v = rp_confirm v)"

definition ResetPassword_onFinish ::
    "vite_env \<Rightarrow> jsval \<Rightarrow> reset_values \<Rightarrow> bool \<Rightarrow> bool \<times> api_request" where
  "ResetPassword_onFinish env email v isLoading =
     (True, resetPassword_request env email (JStr (rp_password v)) (JStr (rp_otp v)))"

fun ResetPassword_resume :: "reply \<Rightarrow> bool \<Rightarrow> bool \<times> effect list" where
  "ResetPassword_resume (Resolved status d) isLoading =
     (isLoading,
      if status = 200 then
        (case get_prop d ''message'' of
           Inl e \<Rightarrow> recovery_catch e
         | Inr m \<Rightarrow> [Message Success m, Navigate ''/auth/login'' Undef, ResetForm])
      else [])"
| "ResetPassword_resume (Failed e) isLoading = (isLoading, recovery_catch e)"

definition ResetPassword_view :: "bool \<Rightarrow> recovery_event ui" where
  "ResetPassword_view isLoading =
     Box
       [Text ''Kho^i phu.c ma^.t kha^?u'', Text ''Nha^.p ca/c tho^ng tin ca^`n thie^/t dde^? kho^i phu.c ma^.t kha^?u'',
        Text ''Ma~ OTP'', whenever (\<not> isLoading) (Field ''number'' Undef (RecoveryTyped ''otp'')),
        Text ''Ma^.t kha^?u mo+/i'',
        whenever (\<not> isLoading) (Field ''password'' Undef (RecoveryTyped ''password'')),
        Text ''Nha^.p la.i ma^.t kha^?u'',
        whenever (\<not> isLoading) (Field ''password'' Undef (RecoveryTyped ''confirmPassword'')),
        Btn isLoading RecoverySubmit
          [Text (if isLoading then ''DDang kho^i phu.c...'' else ''Kho^i phu.c ma^.t kha^?u'')]]"

section \<open>Lemmas\<close>



lemma lookahead_exists:
  assumes "lookahead p s"
  shows "\<exists>c \<in> set s. p c"
proof -
  obtain u v where s: "s = u @ v" and v: "lang (Seq (Cls p) Any) v"
    using assms unfolding lookahead_def matches_lang lang.simps by blast
  then show ?thesis by (cases v) auto
qed

lemma reset_class_chars:
  assumes "matches (Seq (Times 8 (Cls reset_class)) (Star (Cls reset_class))) s"
  shows "8 \<le> length s \<and> (\<forall>c \<in> set s. reset_class c)"
proof -
  obtain a b where s: "s = a @ b" and a: "lang (Times 8 (Cls reset_class)) a"
    and b: "lang (Star (Cls reset_class)) b"
    using assms unfolding matches_lang lang.simps by blast
  from a have "length a = 8" and "\<forall>c \<in> set a. reset_class c" using lang_Times_Cls by blast+
  moreover from b have "\<forall>c \<in> set b. reset_class c" using lang_Star_Cls by blast
  ultimately show ?thesis using s by auto
qed

lemma reset_class_on_line: "reset_class c \<Longrightarrow> is_dot_class c"
  by (auto simp: reset_class_def reset_special_def is_dot_class_def is_upper_def is_lower_def is_digit_def)

section \<open>Properties\<close>

text \<open>
  A login the server accepts with an access token leaves the store with that token, with the
  address of the user who logged in, and with no request under way and no error, whatever the
  store held before.
\<close>

lemma login_success:
  assumes "path d [''payload'', ''access_token''] = Inr tok"
    and "st' = run rootReducer st
      (dispatched (fst (loginUsers_start u) @ loginUsers_resume u (Resolved 200 d)))"
  shows "accessToken (auth st') = tok \<and>
    u_email (loginUser (login (auth st'))) = get_oprop u ''email'' \<and>
    \<not> l_isFetching (login (auth st')) \<and> l_error (login (auth st')) = JStr [] \<and>
    register (auth st') = register (auth st)"
  using assms by (simp add: loginUsers_start_def rootReducer_def)

lemma login_success_witness:
  "accessToken (auth (run rootReducer initialRoot
     (dispatched (fst (loginUsers_start (JObj [(''email'', JStr ''a@b.c'')])) @
        loginUsers_resume (JObj [(''email'', JStr ''a@b.c'')])
          (Resolved 200 (JObj [(''payload'', JObj [(''access_token'', JStr ''t'')])])))))) = JStr ''t''"
proof -
  have "path (JObj [(''payload'', JObj [(''access_token'', JStr ''t'')])]) [''payload'', ''access_token''] =
      Inr (JStr ''t'')" by simp
  from login_success [OF this refl, of initialRoot "JObj [(''email'', JStr ''a@b.c'')]"]
  show ?thesis by blast
qed

text \<open>
  A login fails when the call fails, when it is answered with another status than 200, and when
  the answer has no payload to read the token from (\<open>res.data.payload.access_token\<close> throws).
\<close>

fun login_fails :: "reply \<Rightarrow> bool" where
  "login_fails (Failed e) = True"
| "login_fails (Resolved status d) = (status \<noteq> 200 \<or> nullish (get_oprop d ''payload''))"

lemma payload_path:
  "path d [''payload'', k] =
     (if nullish (get_oprop d ''payload'') then Inl type_error
      else get_prop (get_oprop d ''payload'') k)"
proof (cases "nullish d")
  case True
  then show ?thesis by (auto simp: nullish_def)
next
  case False
  then obtain w where w: "get_prop d ''payload'' = Inr w"
    by (cases d) (auto simp: nullish_def)
  then show ?thesis
    by (cases "nullish w") (auto simp: get_oprop_def nullish_def split: sum.splits)
qed

text \<open>
  C22 A login that fails, by a failed call, by any other status than 200, or by any answer without
  a payload, keeps the token the store had, ends the request and leaves an error that is never
  empty, whatever the server says; a login that does not fail leaves no error. On an answer
  without a payload the page has moved to the home page by then, on the other failures it has
  not.
\<close>

theorem login_failure:
  assumes "st' = run rootReducer st (dispatched (fst (loginUsers_start u) @ loginUsers_resume u a))"
  shows "\<not> l_isFetching (login (auth st')) \<and>
    (truthy (l_error (login (auth st'))) \<longleftrightarrow> login_fails a) \<and>
    (login_fails a \<longrightarrow> accessToken (auth st') = accessToken (auth st)) \<and>
    (Navigate ''/'' Undef \<in> set (loginUsers_resume u a) \<longleftrightarrow> (\<exists>d. a = Resolved 200 d))"
proof (cases a)
  case (Resolved status d)
  have "get_prop w k = Inl e \<Longrightarrow> nullish w" for w k e by (rule get_prop_throws [THEN conjunct2])
  with assms Resolved show ?thesis
    by (auto simp: loginUsers_start_def login_rejected_def rootReducer_def payload_path
        simp del: path.simps split: sum.splits)
qed (use assms in \<open>simp add: loginUsers_start_def login_rejected_def rootReducer_def\<close>)

theorem login_failure_witness:
  "truthy (l_error (login (auth (run rootReducer initialRoot
     (dispatched (fst (loginUsers_start Undef) @ loginUsers_resume Undef (Resolved 201 (JStr ''x''))))))))"
  using login_failure [OF refl, of initialRoot Undef "Resolved 201 (JStr ''x'')"] by simp

text \<open>The domain of an address: what follows the first at sign.\<close>

definition mail_domain :: "string \<Rightarrow> string" where
  "mail_domain s = tl (dropWhile (\<lambda>c. c \<noteq> CHR ''@'') s)"

lemma mail_domain_split: "CHR ''@'' \<notin> set a \<Longrightarrow> mail_domain (a @ CHR ''@'' # d) = d"
  by (induction a) (auto simp: mail_domain_def)

lemma mail_chars:
  "mail_inner_char c \<or> c = CHR ''.'' \<Longrightarrow> not_space_or_at c"
  "mail_local_char c \<Longrightarrow> not_space_or_at c"
  by (auto simp: mail_inner_char_def mail_local_char_def is_alnum_def not_space_or_at_def is_space_def
      is_upper_def is_lower_def is_digit_def)

text \<open>
  Of the addresses the browser lets through, the test of the handler refuses those whose domain
  has no dot, and no others.
\<close>

lemma email_ok_of_address:
  assumes "mail_address s"
  shows "email_ok s \<longleftrightarrow> CHR ''.'' \<in> set (mail_domain s)"
proof
  assume "email_ok s"
  then obtain a b c where s: "s = a @ ''@'' @ b @ ''.'' @ c" and a: "\<forall>x \<in> set a. not_space_or_at x"
    unfolding email_ok_split by blast
  then have "CHR ''@'' \<notin> set a" by (auto simp: not_space_or_at_def)
  with s show "CHR ''.'' \<in> set (mail_domain s)" by (simp add: mail_domain_split)
next
  assume dot: "CHR ''.'' \<in> set (mail_domain s)"
  from assms obtain a l ds where s: "s = a @ ''@'' @ l @ ds" and a: "a \<noteq> []" "\<forall>c \<in> set a. mail_local_char c"
    and l: "l \<noteq> []" "\<forall>c \<in> set l. mail_inner_char c"
    and ds: "ds = [] \<or> (\<exists>l' ds'. ds = ''.'' @ l' @ ds' \<and> l' \<noteq> [])"
      "\<forall>c \<in> set ds. mail_inner_char c \<or> c = CHR ''.''"
    by (rule mail_address_split)
  have ok: "\<forall>x \<in> set a \<union> set l \<union> set ds. not_space_or_at x"
    using a(2) l(2) ds(2) mail_chars by blast
  then have "CHR ''@'' \<notin> set a" by (auto simp: not_space_or_at_def)
  with s dot have "CHR ''.'' \<in> set l \<union> set ds" by (simp add: mail_domain_split)
  moreover have "CHR ''.'' \<notin> set l"
    using l(2) by (auto simp: mail_inner_char_def is_alnum_def is_upper_def is_lower_def is_digit_def)
  ultimately have "ds \<noteq> []" by auto
  with ds(1) obtain l' ds' where d: "ds = ''.'' @ l' @ ds'" "l' \<noteq> []" by blast
  then have "s = a @ ''@'' @ l @ ''.'' @ (l' @ ds')" "l' @ ds' \<noteq> []" using s by simp_all
  moreover have "\<forall>x \<in> set a \<union> set l \<union> set (l' @ ds'). not_space_or_at x" using ok d(1) by auto
  ultimately show "email_ok s" unfolding email_ok_split using a(1) l(1) by blast
qed

lemma mail_address_nonempty [simp]: "\<not> mail_address []"
  by (rule notI) (erule mail_address_split, simp)

lemma validatePassword_nonempty [simp]: "\<not> validatePassword []"
  by (simp add: validatePassword_def search_Cls)

lemma Register_valid_iff:
  "Register_valid d \<longleftrightarrow> mail_address (reg_email d) \<and> reg_password d \<noteq> [] \<and> reg_confirm d \<noteq> []"
  by (auto simp: Register_valid_def accepts_def InputText_constraints_def)

definition register_sent :: "bool \<Rightarrow> registration \<Rightarrow> bool" where
  "register_sent isFetching d \<longleftrightarrow>
     \<not> isFetching \<and> mail_address (reg_email d) \<and> CHR ''.'' \<in> set (mail_domain (reg_email d)) \<and>
     validatePassword (reg_password d) \<and> reg_confirm d = reg_password d"

lemma Register_submit_stopped:
  "isFetching \<or> \<not> Register_valid d \<Longrightarrow> Register_submit isFetching d held errors = (errors, [], None)"
  by (auto simp: Register_submit_def)

definition register_checks :: "registration \<Rightarrow> bool" where
  "register_checks d \<longleftrightarrow>
     reg_password d = reg_confirm d \<and> validatePassword (reg_password d) \<and> email_ok (reg_email d)"

lemma Register_onSubmit_sends:
  "register_checks d \<Longrightarrow> Register_onSubmit d [] =
     ([], [Dispatch RegisterPending],
      Some (plain POST ''http://localhost:5001/api/v1/auth/signup'' (registration_user d) False))"
  by (auto simp: register_checks_def Register_onSubmit_def registerUsers_start_def)

lemma Register_onSubmit_refuses:
  "\<not> register_checks d \<Longrightarrow>
     \<exists>field msg. Register_onSubmit d [] = ([(field, msg)], [Toast Error (JStr msg)], None) \<and>
       field \<in> {''email'', ''password'', ''confirmPassword''} \<and> msg \<noteq> []"
  by (auto simp: register_checks_def Register_onSubmit_def password_mismatch_def password_weak_def)

lemma register_sent_iff:
  "register_sent isFetching d \<longleftrightarrow>
     \<not> isFetching \<and> Register_valid d \<and> register_checks d"
  using email_ok_of_address [of "reg_email d"]
  by (auto simp: register_sent_def register_checks_def Register_valid_iff)

text \<open>
  C23 What the registration form does when it is submitted. A form with an empty field or an
  invalid address is stopped by the browser, and one with a registration under way by its
  disabled button: nothing changes, nothing is sent, and nothing is announced by the program.
  When the library holds what the fields show, one request, with the address and the password
  typed, leaves exactly when no registration is under way, the address is a valid one of the HTML
  standard whose domain has a dot, the password meets the rule and its repetition is the same; in
  every other case that reaches the handler one error is announced and exactly one field is
  marked. Whatever the library holds, a request carries the values held, and never a weak password
  or one that differs from the repetition held.
\<close>

theorem register_submits:
  "(isFetching \<or> reg_email d = [] \<or> reg_password d = [] \<or> reg_confirm d = [] \<or>
      \<not> mail_address (reg_email d) \<longrightarrow>
      Register_submit isFetching d held errors = (errors, [], None)) \<and>
   (register_sent isFetching d \<longrightarrow>
      Register_submit isFetching d d errors =
        ([], [Dispatch RegisterPending],
         Some (plain POST ''http://localhost:5001/api/v1/auth/signup'' (registration_user d) False))) \<and>
   (\<not> isFetching \<and> Register_valid d \<and> \<not> register_sent isFetching d \<longrightarrow>
      (\<exists>field msg. Register_submit isFetching d d errors = ([(field, msg)], [Toast Error (JStr msg)], None) \<and>
         field \<in> {''email'', ''password'', ''confirmPassword''} \<and> msg \<noteq> [])) \<and>
   (\<forall>r. snd (snd (Register_submit isFetching d held errors)) = Some r \<longrightarrow>
      r = plain POST ''http://localhost:5001/api/v1/auth/signup'' (registration_user held) False \<and>
      validatePassword (reg_password held) \<and> reg_confirm held = reg_password held)"
proof (cases "isFetching \<or> \<not> Register_valid d")
  case True
  then have "\<not> register_sent isFetching d" by (auto simp: register_sent_iff)
  with True Register_submit_stopped [OF True] show ?thesis by auto
next
  case False
  then have go: "Register_submit isFetching d h errors = Register_onSubmit h []" for h
    by (simp add: Register_submit_def)
  from False have sent: "register_sent isFetching d \<longleftrightarrow> register_checks d" by (simp add: register_sent_iff)
  show ?thesis
  proof (intro conjI impI allI)
    show "Register_submit isFetching d held errors = (errors, [], None)"
      if "isFetching \<or> reg_email d = [] \<or> reg_password d = [] \<or> reg_confirm d = [] \<or> \<not> mail_address (reg_email d)"
      using that False by (auto simp: Register_valid_iff)
    show "Register_submit isFetching d d errors =
        ([], [Dispatch RegisterPending],
         Some (plain POST ''http://localhost:5001/api/v1/auth/signup'' (registration_user d) False))"
      if "register_sent isFetching d"
      using that unfolding go sent by (rule Register_onSubmit_sends)
    show "\<exists>field msg. Register_submit isFetching d d errors = ([(field, msg)], [Toast Error (JStr msg)], None) \<and>
        field \<in> {''email'', ''password'', ''confirmPassword''} \<and> msg \<noteq> []"
      if "\<not> isFetching \<and> Register_valid d \<and> \<not> register_sent isFetching d"
      using that unfolding go sent by (intro Register_onSubmit_refuses) simp
    fix r
    assume r: "snd (snd (Register_submit isFetching d held errors)) = Some r"
    then have ok: "register_checks held"
      unfolding go using Register_onSubmit_refuses [of held] by fastforce
    then show "validatePassword (reg_password held)" "reg_confirm held = reg_password held"
      by (auto simp: register_checks_def)
    show "r = plain POST ''http://localhost:5001/api/v1/auth/signup'' (registration_user held) False"
      using r unfolding go Register_onSubmit_sends [OF ok] by simp
  qed
qed

theorem register_submits_witness:
  "Register_submit False \<lparr>reg_email = ''a@b.c'', reg_password = ''Abcdef1!'', reg_confirm = ''Abcdef1!''\<rparr>
      \<lparr>reg_email = ''a@b.c'', reg_password = ''Abcdef1!'', reg_confirm = ''Abcdef1!''\<rparr> [] =
     ([], [Dispatch RegisterPending],
      Some (plain POST ''http://localhost:5001/api/v1/auth/signup''
        (JObj [(''email'', JStr ''a@b.c''), (''password'', JStr ''Abcdef1!'')]) False))"
proof -
  let ?d = "\<lparr>reg_email = ''a@b.c'', reg_password = ''Abcdef1!'', reg_confirm = ''Abcdef1!''\<rparr>"
  have "validatePassword ''Abcdef1!''" and "mail_address ''a@b.c''" and "mail_domain ''a@b.c'' = ''b.c''"
    by code_simp+
  then have "register_sent False ?d" by (simp add: register_sent_def)
  with register_submits [of False ?d ?d "[]", THEN conjunct2, THEN conjunct1]
  have "Register_submit False ?d ?d [] =
      ([], [Dispatch RegisterPending],
       Some (plain POST ''http://localhost:5001/api/v1/auth/signup'' (registration_user ?d) False))"
    by (rule mp)
  then show ?thesis by (simp add: registration_user_def)
qed

text \<open>
  C24 The addresses the forms accept: no white space, exactly one at sign, something before it,
  and after it a dot that is neither the first nor the last character.
\<close>

theorem email_accepted:
  "email_ok s \<longleftrightarrow>
     (\<forall>c \<in> set s. \<not> is_space c) \<and>
     (\<exists>a d. s = a @ ''@'' @ d \<and> a \<noteq> [] \<and> CHR ''@'' \<notin> set a \<and> CHR ''@'' \<notin> set d \<and>
        (\<exists>i. 0 < i \<and> Suc i < length d \<and> d ! i = CHR ''.''))"
proof
  assume "email_ok s"
  then obtain a b c where s: "s = a @ ''@'' @ b @ ''.'' @ c" and ne: "a \<noteq> []" "b \<noteq> []" "c \<noteq> []"
    and ok: "\<forall>x \<in> set a \<union> set b \<union> set c. not_space_or_at x"
    unfolding email_ok_split by blast
  have "\<forall>x \<in> set s. \<not> is_space x" using s ok by (auto simp: not_space_or_at_def is_space_def)
  moreover have "0 < length b \<and> Suc (length b) < length (b @ ''.'' @ c) \<and>
      (b @ ''.'' @ c) ! length b = CHR ''.''"
    using ne by simp
  moreover have "CHR ''@'' \<notin> set a" and "CHR ''@'' \<notin> set (b @ ''.'' @ c)"
    using ok by (auto simp: not_space_or_at_def)
  ultimately show "(\<forall>c \<in> set s. \<not> is_space c) \<and>
     (\<exists>a d. s = a @ ''@'' @ d \<and> a \<noteq> [] \<and> CHR ''@'' \<notin> set a \<and> CHR ''@'' \<notin> set d \<and>
        (\<exists>i. 0 < i \<and> Suc i < length d \<and> d ! i = CHR ''.''))"
    using s ne(1) by blast
next
  assume r: "(\<forall>c \<in> set s. \<not> is_space c) \<and>
     (\<exists>a d. s = a @ ''@'' @ d \<and> a \<noteq> [] \<and> CHR ''@'' \<notin> set a \<and> CHR ''@'' \<notin> set d \<and>
        (\<exists>i. 0 < i \<and> Suc i < length d \<and> d ! i = CHR ''.''))"
  then obtain a d i where s: "s = a @ ''@'' @ d" and a: "a \<noteq> []" "CHR ''@'' \<notin> set a" "CHR ''@'' \<notin> set d"
    and i: "0 < i" "Suc i < length d" "d ! i = CHR ''.''" by blast
  have "i < length d" using i(2) by simp
  then have d: "d = take i d @ ''.'' @ drop (Suc i) d" using id_take_nth_drop [of i d] i(3) by simp
  have "\<forall>x \<in> set a \<union> set d. not_space_or_at x" using r s a by (auto simp: not_space_or_at_def)
  then have "\<forall>x \<in> set a \<union> set (take i d) \<union> set (drop (Suc i) d). not_space_or_at x"
    by (auto dest: in_set_takeD in_set_dropD)
  moreover have "s = a @ ''@'' @ take i d @ ''.'' @ drop (Suc i) d" using s d by simp
  moreover have "take i d \<noteq> []" and "drop (Suc i) d \<noteq> []" using i by auto
  ultimately show "email_ok s" unfolding email_ok_split using a(1) by blast
qed

theorem email_accepted_witness: "email_ok ''an@mpc.vn''"
proof (rule email_accepted [THEN iffD2], intro conjI exI)
  show "\<forall>c \<in> set ''an@mpc.vn''. \<not> is_space c" by code_simp
  show "''an@mpc.vn'' = ''an'' @ ''@'' @ ''mpc.vn''" by simp
  show "0 < (3::nat)" by simp
qed simp_all

text \<open>
  C25 A password that the recovery form accepts is one the registration accepts too: whoever
  chooses a password there could have registered with it.
\<close>

theorem reset_password_valid:
  assumes "reset_rules v"
  shows "validatePassword (rp_password v) \<and> rp_confirm v = rp_password v"
proof -
  let ?s = "rp_password v"
  have pat: "reset_pattern ?s" and conf: "rp_confirm v = ?s"
    using assms by (auto simp: reset_rules_def)
  have cls: "8 \<le> length ?s" "\<forall>c \<in> set ?s. is_dot_class c"
    using reset_class_chars [of ?s] pat reset_class_on_line by (auto simp: reset_pattern_def)
  have "search minLength ?s" using search_minLength_line [OF cls(2)] cls(1) by blast
  moreover have "\<exists>c \<in> set ?s. is_upper c" "\<exists>c \<in> set ?s. is_lower c" "\<exists>c \<in> set ?s. is_digit c"
    "\<exists>c \<in> set ?s. reset_special c"
    using pat lookahead_exists by (auto simp: reset_pattern_def)
  moreover have "reset_special c \<Longrightarrow> is_special c" for c
    by (auto simp: reset_special_def is_special_def)
  ultimately show ?thesis unfolding validatePassword_def search_Cls using conf by blast
qed

theorem reset_password_valid_witness:
  "validatePassword ''Abcdef1!''"
proof -
  have "reset_rules \<lparr>rp_otp = ''123456'', rp_password = ''Abcdef1!'', rp_confirm = ''Abcdef1!''\<rparr>"
    by code_simp
  from reset_password_valid [OF this] show ?thesis by simp
qed





text \<open>
  When the server refuses a request to recover a password, or does not answer, nobody learns
  of it: both forms throw while they handle the error, which no one catches, and their fields
  and button stay disabled.
\<close>

lemma recovery_refusal_lost:
  assumes "e = http_error status d \<or> e = network_error"
  shows "ForgotPassword_resume email (Failed e) (fst (ForgotPassword_onFinish env email False)) =
           (True, [Uncaught type_error]) \<and>
         ResetPassword_resume (Failed e) (fst (ResetPassword_onFinish env email v False)) =
           (True, [Uncaught type_error]) \<and>
         clickable (ForgotPassword_view True) = [] \<and> clickable (ResetPassword_view True) = []"
  using assms
  by (auto simp: recovery_catch_def http_error_def network_error_def ForgotPassword_onFinish_def
      ResetPassword_onFinish_def ForgotPassword_view_def ResetPassword_view_def)

lemma recovery_refusal_lost_witness:
  "ForgotPassword_resume Undef (Failed (http_error 404 (JObj [(''message'', JStr ''no such user'')]))) True
     = (True, [Uncaught type_error])"
  using recovery_refusal_lost [OF disjI1 [OF refl], of Undef 404 "JObj [(''message'', JStr ''no such user'')]"]
  by (simp add: ForgotPassword_onFinish_def)

end
