(* ===== verification/TransferFlow.thy ===== *)
theory TransferFlow
  imports OtpDrawers Formatting
begin

text \<open>
  Sending and receiving money: the three steps of \<^verbatim>\<open>pages/transfer\<close> (choice of the currency,
  of the receiver, of the amount), the page behind a scanned code
  (\<^verbatim>\<open>pages/receive/transfer.tsx\<close>), the page that shows such a code
  (\<^verbatim>\<open>pages/receive/receive.tsx\<close>) and the result page. The confirmation itself is the
  drawer of \<^verbatim>\<open>OtpDrawers\<close>.
\<close>

section \<open>The steps\<close>

record transfer_wizard =
  wizard_step :: string
  selectCurrency :: jsval
  userData :: jsval

definition initial_wizard :: transfer_wizard where
  "initial_wizard = \<lparr>wizard_step = ''select_currency'', selectCurrency = Undef, userData = Undef\<rparr>"

definition handleStepTransfer :: "string \<Rightarrow> transfer_wizard \<Rightarrow> transfer_wizard \<times> effect list" where
  "handleStepTransfer step_change w =
     (w\<lparr>wizard_step := step_change\<rparr>, if step_change = ''home'' then [Navigate ''/'' Undef] else [])"

text \<open>
  What the user can do in the component of the current step: choose a currency (the wallet of
  the profile, the name and the image of the item), go back from the second step, choose the
  receiver shown there, go back from the third. The other components are not on the page, so
  their events change nothing.
\<close>

datatype wizard_event =
    CurrencyClicked jsval string string
  | SearchBack
  | ReceiverClicked jsval
  | AmountBack

definition currency_data :: "jsval \<Rightarrow> string \<Rightarrow> string \<Rightarrow> jsval" where
  "currency_data wallet_data currency img =
     spread_set (spread_set (case wallet_data of JObj fs \<Rightarrow> JObj fs | _ \<Rightarrow> JObj [])
       ''currency'' (JStr currency)) ''image'' (JStr img)"

fun Transfer_step :: "transfer_wizard \<Rightarrow> wizard_event \<Rightarrow> transfer_wizard" where
  "Transfer_step w (CurrencyClicked wallet_data currency img) =
     (if wizard_step w = ''select_currency''
      then (fst (handleStepTransfer ''search_user'' w))
             \<lparr>selectCurrency := currency_data wallet_data currency img\<rparr>
      else w)"
| "Transfer_step w SearchBack =
     (if wizard_step w = ''search_user'' then fst (handleStepTransfer ''select_currency'' w) else w)"
| "Transfer_step w (ReceiverClicked receiver) =
     (if wizard_step w = ''search_user''
      then (fst (handleStepTransfer ''input_amount'' w))\<lparr>userData := receiver\<rparr>
      else w)"
| "Transfer_step w AmountBack =
     (if wizard_step w = ''input_amount'' then fst (handleStepTransfer ''search_user'' w) else w)"

text \<open>The component each step shows.\<close>

datatype wizard_page = ShowSelectCurrency | ShowSearchUser | ShowInputAmount | InvalidStep

definition Transfer_page :: "transfer_wizard \<Rightarrow> wizard_page" where
  "Transfer_page w =
     (if wizard_step w = ''select_currency'' then ShowSelectCurrency
      else if wizard_step w = ''search_user'' then ShowSearchUser
      else if wizard_step w = ''input_amount'' then ShowInputAmount
      else InvalidStep)"

text \<open>
  The layout route sends its own address to itself; the effect runs when the address changes.
\<close>

definition TransferLayout_effect :: "string \<Rightarrow> effect list" where
  "TransferLayout_effect pathname =
     (if pathname = ''/transfer'' then [Navigate ''/transfer'' Undef] else [])"

section \<open>Choosing the currency\<close>

text \<open>The wallet of the profile is read as a list: \<open>props.currency[i]\<close>.\<close>

fun get_index :: "jsval \<Rightarrow> nat \<Rightarrow> jsval throws" where
  "get_index Undef i = Inl type_error"
| "get_index Null i = Inl type_error"
| "get_index (JArr vs) i = Inr (if i < length vs then vs ! i else Undef)"
| "get_index (JObj fs) i = get_prop (JObj fs) (show_nat i)"
| "get_index (JStr s) i = Inr (if i < length s then JStr [s ! i] else Undef)"
| "get_index (JBool _) i = Inr Undef"
| "get_index (JNum _) i = Inr Undef"

definition ItemCurrency_select :: "jsval \<Rightarrow> string \<Rightarrow> string \<Rightarrow> wizard_event ui" where
  "ItemCurrency_select wallet_data currency img =
     Click (CurrencyClicked wallet_data currency img)
       [Box [Img (JStr img), Text currency], Box []]"

definition SelectCurrency_view :: "bool \<Rightarrow> jsval \<Rightarrow> wizard_event ui throws" where
  "SelectCurrency_view isLoading currency =
     (if isLoading then Inr (Box [Text ''Cho.n loa.i tie^`n'', Box [], Box [], Box []])
      else
        throws_bind (get_index currency 0) (\<lambda>w0.
        throws_bind (get_index currency 1) (\<lambda>w1.
        throws_bind (get_index currency 2) (\<lambda>w2.
          Inr (Box
            [Text ''Cho.n loa.i tie^`n'',
             ItemCurrency_select w0 ''VND'' ''vnd_icon.jpg'',
             ItemCurrency_select w1 ''USD'' ''usd_icon.png'',
             ItemCurrency_select w2 ''ETH'' ''eth_icon.png'']))))) "

section \<open>Choosing the receiver\<close>

record search_user =
  su_data :: jsval
  su_loading :: jsval

definition initial_search :: search_user where
  "initial_search = \<lparr>su_data = Undef, su_loading = Null\<rparr>"

text \<open>The text given to the debounced callback, and the callback itself.\<close>

definition SearchUser_onChange :: "string \<Rightarrow> string" where
  "SearchUser_onChange value = to_lower value"

definition SearchUser_debounced ::
    "jsval \<Rightarrow> string \<Rightarrow> search_user \<Rightarrow> search_user \<times> effect list" where
  "SearchUser_debounced wallet_data value s =
     (let accepted = (\<lparr>su_data = JObj [(''address'', JStr value)], su_loading = JBool False\<rparr>, [])
      in if trim value = [] then accepted
         else (case get_prop wallet_data ''address'' of
                 Inl e \<Rightarrow> (s, [Uncaught e])
               | Inr addr \<Rightarrow>
                   if JStr value = addr
                   then (s\<lparr>su_loading := JBool False\<rparr>,
                         [Toast Error (JStr ''Kho^ng the^? chuye^?n tie^`n cho chi/nh mi`nh!'')])
                   else accepted))"

text \<open>
  Selecting the receiver moves to the next step; the search marks itself as loading. The list
  of results reads the address of the data, and throws when there is none.
\<close>

definition SearchUser_handleUserData :: "search_user \<Rightarrow> search_user" where
  "SearchUser_handleUserData s = s\<lparr>su_loading := JBool True\<rparr>"

definition InfoUser_view :: "search_user \<Rightarrow> wizard_event ui throws" where
  "InfoUser_view s =
     (if su_loading s = JBool False then
        throws_bind (get_prop (su_data s) ''address'') (\<lambda>addr.
          Inr (Box [Click (ReceiverClicked (su_data s)) [Img (JStr ''default_avatar.jpg''), Expr addr]]))
      else if su_loading s = JBool True then Inr (Box [Box []])
      else Inr (Box []))"

section \<open>The amount\<close>

record input_amount =
  balance :: jsval
  dataSend :: jsval
  ia_error :: jsval
  isOpen :: bool

text \<open>
  The first render: \<open>stored\<close> is the key share found in the local storage, \<open>null\<close> when
  there is none.
\<close>

definition InputAmount_init :: "jsval \<Rightarrow> jsval \<Rightarrow> jsval \<Rightarrow> jsval \<Rightarrow> input_amount throws" where
  "InputAmount_init wallet_data user_data currencyData stored =
     throws_bind (get_prop wallet_data ''address'') (\<lambda>from_address.
     throws_bind (get_prop user_data ''address'') (\<lambda>to_address.
     throws_bind (get_prop currencyData ''currency'') (\<lambda>sym.
       Inr \<lparr>balance = JStr ''0'',
            dataSend = JObj
              [(''from_address'', from_address), (''to_address'', to_address), (''amount'', JStr []),
               (''symbol'', sym), (''share_data'', js_or stored (JStr [])),
               (''chain_id'', JNum (Fin 11155111)), (''security_code'', JStr [])],
            ia_error = Undef, isOpen = False\<rparr>)))"

fun InputAmount_balanceAnswer :: "reply \<Rightarrow> input_amount \<Rightarrow> input_amount" where
  "InputAmount_balanceAnswer (Resolved status d) s =
     s\<lparr>balance := js_coalesce (opath d [''payload'', ''balance'']) (JNum (Fin 0))\<rparr>"
| "InputAmount_balanceAnswer (Failed e) s = s"

definition InputAmount_handleChange :: "string \<Rightarrow> string \<Rightarrow> input_amount \<Rightarrow> input_amount" where
  "InputAmount_handleChange field_name value s =
     s\<lparr>ia_error := Null, dataSend := spread_set (dataSend s) field_name (JStr value)\<rparr>"

text \<open>The number field gives \<open>undefined\<close> when it is empty.\<close>

definition InputAmount_onValueChange :: "jsval \<Rightarrow> input_amount \<Rightarrow> input_amount" where
  "InputAmount_onValueChange value s =
     s\<lparr>dataSend := spread_set (dataSend s) ''amount'' (js_or value (JStr ''0'')), ia_error := Null\<rparr>"

definition InputAmount_handleSubmit :: "input_amount \<Rightarrow> input_amount" where
  "InputAmount_handleSubmit s =
     (let amount = get_oprop (dataSend s) ''amount''
      in if \<not> truthy amount then s\<lparr>ia_error := JStr ''Vui lo`ng nha^.p so^/ tie^`n''\<rparr>
         else if num_gt (js_number amount) (js_number (balance s))
         then s\<lparr>ia_error := JStr ''So^/ du+ kho^ng ddu?''\<rparr>
         else s\<lparr>isOpen := \<not> isOpen s\<rparr>)"

datatype input_amount_event =
    AmountTyped string
  | MessageTyped string
  | SubmitAmount
  | BackToSearch
  | BalanceAnswer reply

text \<open>
  The form: an emptied number field is \<open>undefined\<close>; closing the drawer runs the same handler as
  the button; going back leaves the form as it is and is handled by the wizard.
\<close>

fun InputAmount_step :: "input_amount \<Rightarrow> input_amount_event \<Rightarrow> input_amount" where
  "InputAmount_step s (AmountTyped v) = InputAmount_onValueChange (if v = [] then Undef else JStr v) s"
| "InputAmount_step s (MessageTyped v) = InputAmount_handleChange ''message'' v s"
| "InputAmount_step s SubmitAmount = InputAmount_handleSubmit s"
| "InputAmount_step s BackToSearch = s"
| "InputAmount_step s (BalanceAnswer a) = InputAmount_balanceAnswer a s"

definition InputAmount_view ::
    "intl_format \<Rightarrow> jsval \<Rightarrow> jsval \<Rightarrow> input_amount \<Rightarrow> input_amount_event ui throws" where
  "InputAmount_view intl user_data currencyData s =
     throws_bind (get_prop currencyData ''currency'') (\<lambda>currency.
     throws_bind (get_prop currencyData ''image'') (\<lambda>img.
     throws_bind (get_prop user_data ''avatar'') (\<lambda>avatar.
     throws_bind (get_prop user_data ''address'') (\<lambda>addr.
     throws_bind (if truthy (balance s) then formatCurrency intl (balance s) currency else Inr ''0'') (\<lambda>shown_balance.
       Inr (Box
         [Click BackToSearch [Text ''Nha^.p so^/ tie^`n''],
          Styled (if truthy (ia_error s) then ''text-red-500'' else [])
            [Field ''currency'' (JNum (Fin 0)) AmountTyped],
          Field ''textarea'' Undef MessageTyped,
          Box [Img img, Text ''So^/ du+:'', Text shown_balance],
          Box [Img (js_or avatar (JStr ''default_avatar.jpg'')), Text ''Ngu+o+`i nha^.n:'', Expr addr],
          Btn False SubmitAmount [Text ''Gu+?i'']]))))))"

section \<open>The result\<close>

text \<open>
  \<open>fmt_date\<close> is the date formatting of \<^verbatim>\<open>date-fns-tz\<close>, which may throw.
\<close>

type_synonym date_format = "jsval \<Rightarrow> string throws"

record transfer_results =
  tr_data :: jsval
  tr_loading :: bool

definition TransferResults_init :: transfer_results where
  "TransferResults_init = \<lparr>tr_data = Undef, tr_loading = True\<rparr>"

definition TransferResults_request :: "jsval \<Rightarrow> transfer_results \<Rightarrow> transfer_results \<times> api_request option" where
  "TransferResults_request location_state s =
     (case get_prop location_state ''id'' of
        Inl e \<Rightarrow> (s\<lparr>tr_loading := False\<rparr>, None)
      | Inr transaction_id \<Rightarrow> (s, Some (getTransactionAPI transaction_id)))"

fun TransferResults_resume :: "reply \<Rightarrow> transfer_results \<Rightarrow> transfer_results" where
  "TransferResults_resume (Resolved status d) s =
     (if status = 200 then
        (case get_prop d ''data'' of
           Inl e \<Rightarrow> s\<lparr>tr_loading := False\<rparr>
         | Inr t \<Rightarrow> \<lparr>tr_data = t, tr_loading = False\<rparr>)
      else s)"
| "TransferResults_resume (Failed e) s = s\<lparr>tr_loading := False\<rparr>"

definition Loading :: "'e ui" where
  "Loading = Box [Img (JStr ''loading_img.jpg''), Img (JStr ''loading.svg''), Text ''DDang ta?i cho+` chu/t nhe/...'']"

text \<open>The read \<open>v?.k1.k2\<close>: only the first step is optional.\<close>

definition qpath :: "jsval \<Rightarrow> string list \<Rightarrow> jsval throws" where
  "qpath v ks = (if nullish v then Inr Undef else path v ks)"

definition TransferResults_view :: "intl_format \<Rightarrow> date_format \<Rightarrow> transfer_results \<Rightarrow> unit ui throws" where
  "TransferResults_view intl fmt_date s =
     (if tr_loading s then Inr Loading
      else
        throws_bind (qpath (tr_data s) [''amount'']) (\<lambda>amount.
        throws_bind (qpath (tr_data s) [''currency'', ''symbol'']) (\<lambda>sym.
        throws_bind (formatCurrency intl amount sym) (\<lambda>amount_text.
        throws_bind (qpath (tr_data s) [''createdAt'']) (\<lambda>createdAt.
        throws_bind (fmt_date createdAt) (\<lambda>date_text.
        throws_bind (qpath (tr_data s) [''receiver'', ''full_name'']) (\<lambda>full_name.
        throws_bind (qpath (tr_data s) [''receiver'', ''email'']) (\<lambda>email.
          Inr (Box
            [Link ''/'' [Icon ''home.svg''], Img (JStr ''ic_success.png''),
             Text ''Chuye^?n tie^`n tha`nh co^ng'', Text amount_text, Text date_text,
             Box [Text ''Ngu+o+`i nha^.n'', Img (JStr ''default_avatar.jpg''), Expr full_name, Expr email],
             Link ''/'' [Text ''Quay ve^`''], Link ''/transfer'' [Text ''Chuye^?n tie^/p'']])))))))))"

section \<open>A transfer by scanned code\<close>

definition QrTransfer_init :: "jsval \<Rightarrow> string \<Rightarrow> input_amount throws" where
  "QrTransfer_init receiver currency =
     throws_bind (get_prop receiver ''_id'') (\<lambda>receiver_id.
       Inr \<lparr>balance = Undef,
            dataSend = JObj
              [(''amount'', JNum (Fin 0)), (''message'', JStr []), (''receiver'', receiver_id),
               (''currency'', JStr currency), (''security_code'', JStr [])],
            ia_error = Undef, isOpen = False\<rparr>)"

definition QrTransfer_handleChange :: "string \<Rightarrow> string \<Rightarrow> input_amount \<Rightarrow> input_amount" where
  "QrTransfer_handleChange field_name value s =
     s\<lparr>ia_error := Null, dataSend := spread_set (dataSend s) field_name (JStr value)\<rparr>"

definition QrTransfer_onValueChange :: "jsval \<Rightarrow> input_amount \<Rightarrow> input_amount" where
  "QrTransfer_onValueChange values s =
     s\<lparr>dataSend := spread_set (dataSend s) ''amount'' (JNum (js_number values)), ia_error := Null\<rparr>"

text \<open>
  The limits of the amount, read as a number in the currency of the code. The messages are built
  by the host's number format, which may throw; the handler is then abandoned.
\<close>

definition QrTransfer_handleSubmit ::
    "intl_format \<Rightarrow> string \<Rightarrow> jsval \<Rightarrow> input_amount \<Rightarrow> input_amount throws" where
  "QrTransfer_handleSubmit intl currency wallet_balance s =
     (let cur = js_text (get_oprop (dataSend s) ''currency'');
          amount = convertCurrency (js_number (get_oprop (dataSend s) ''amount'')) cur;
          bal = js_or (convertCurrency (js_number (js_coalesce wallet_balance (JNum (Fin 0)))) cur)
                  (JNum (Fin 0))
      in if \<not> truthy amount then Inr (s\<lparr>ia_error := JStr ''Vui lo`ng nha^.p so^/ tie^`n''\<rparr>)
         else if num_gt (js_number amount) (js_number bal) then Inr (s\<lparr>ia_error := JStr ''So^/ du+ kho^ng ddu?''\<rparr>)
         else if num_lt (js_number amount) (Fin 100) then
           throws_bind (formatCurrency intl (convertCurrency (Fin 100) currency) (JStr currency)) (\<lambda>t.
             Inr (s\<lparr>ia_error := JStr (''So^/ tie^`n chuye^?n to^/i thie^?u la` '' @ t)\<rparr>))
         else if num_gt (js_number amount) (Fin 100000000) then
           throws_bind (formatCurrency intl (JNum (Fin 100000000)) (JStr ''VND'')) (\<lambda>t.
             Inr (s\<lparr>ia_error := JStr (''So^/ tie^`n chuye^?n to^/i dda la` '' @ t)\<rparr>))
         else Inr (s\<lparr>isOpen := \<not> isOpen s\<rparr>))"

definition ConvertImage :: "string \<Rightarrow> jsval" where
  "ConvertImage currency =
     (if currency = ''VND'' then JStr ''vnd_icon.jpg''
      else if currency = ''USD'' then JStr ''usd_icon.png''
      else if currency = ''ETH'' then JStr ''eth_icon.png''
      else Undef)"

definition ItemCurrency_receive :: "intl_format \<Rightarrow> jsval \<Rightarrow> string \<Rightarrow> 'e ui throws" where
  "ItemCurrency_receive intl amount currency =
     throws_bind (formatCurrency intl amount (JStr currency)) (\<lambda>t.
       Inr (Box [Img (ConvertImage currency), Text ''So^/ du+:'', Text t]))"

definition QrTransfer_view ::
    "intl_format \<Rightarrow> jsval \<Rightarrow> jsval \<Rightarrow> input_amount \<Rightarrow> input_amount_event ui throws" where
  "QrTransfer_view intl wallet_balance receiver s =
     throws_bind (ItemCurrency_receive intl wallet_balance (js_text (get_oprop (dataSend s) ''currency''))) (\<lambda>item.
     throws_bind (get_prop receiver ''avatar'') (\<lambda>avatar.
     throws_bind (get_prop receiver ''full_name'') (\<lambda>full_name.
       Inr (Box
         [Expr (ia_error s),
          Text (symbolCurrency (js_text (get_oprop (dataSend s) ''currency''))),
          Styled (if truthy (ia_error s) then '' text-red-500'' else [])
            [Field ''currency'' (JNum (Fin 0)) AmountTyped],
          Field ''textarea'' Undef MessageTyped,
          item,
          Box [Img (js_or avatar (JStr ''default_avatar.jpg'')), Text ''Ngu+o+`i nha^.n:'', Expr full_name],
          Btn False SubmitAmount [Text ''Gu+?i'']]))))"

section \<open>The code to receive money\<close>

record receive_page =
  rcv_selected :: string
  rcv_user :: jsval
  rcv_currency :: string
  rcv_url :: string

definition qr_url :: "jsval \<Rightarrow> string \<Rightarrow> string" where
  "qr_url userID currency =
     ''https://wallet.pointer.io.vn/transfer/info?email='' @ js_text userID @ ''&currency='' @ currency"

text \<open>
  The page needs \<open>data\<close> in the profile; \<open>user.email || " "\<close> is the identifier in the code.
\<close>

definition Receive_init :: "jsval \<Rightarrow> receive_page throws option" where
  "Receive_init profile =
     (if \<not> truthy (get_oprop profile ''data'') then None
      else Some
        (throws_bind (path profile [''data'', ''userData'']) (\<lambda>user_data.
         throws_bind (path profile [''data'', ''walletData'', ''currencies'']) (\<lambda>currencies.
         throws_bind (get_prop user_data ''email'') (\<lambda>email.
           let userID = js_or email (JStr '' '')
           in Inr \<lparr>rcv_selected = ''VND'', rcv_user = userID, rcv_currency = ''VND'',
                   rcv_url = qr_url userID ''VND''\<rparr>)))))"

definition Receive_handleSelect :: "receive_page \<Rightarrow> string \<Rightarrow> receive_page" where
  "Receive_handleSelect s sel =
     s\<lparr>rcv_selected := sel, rcv_currency := sel, rcv_url := qr_url (rcv_user s) sel\<rparr>"

definition SelectCurrency_receive :: "intl_format \<Rightarrow> jsval \<Rightarrow> string \<Rightarrow> string \<Rightarrow> string ui throws" where
  "SelectCurrency_receive intl wallet_data currency sel =
     throws_bind (get_prop wallet_data ''balance'') (\<lambda>b.
     throws_bind (formatCurrency intl b (JStr currency)) (\<lambda>t.
       Inr (Styled (if currency = sel then ''border-blue-500'' else ''false'')
         [Btn False currency [Img (JStr ''vnd_icon.jpg''), Text currency, Text t]])))"

definition Receive_view :: "intl_format \<Rightarrow> jsval \<Rightarrow> receive_page \<Rightarrow> string ui throws" where
  "Receive_view intl currencies s =
     throws_bind (get_index currencies 0) (\<lambda>w0.
     throws_bind (get_index currencies 1) (\<lambda>w1.
     throws_bind (get_index currencies 2) (\<lambda>w2.
     throws_bind (SelectCurrency_receive intl w0 ''VND'' (rcv_selected s)) (\<lambda>v0.
     throws_bind (SelectCurrency_receive intl w1 ''USD'' (rcv_selected s)) (\<lambda>v1.
     throws_bind (SelectCurrency_receive intl w2 ''ETH'' (rcv_selected s)) (\<lambda>v2.
       Inr (Box [Text ''Ma~ nha^.n tie^`n'', Img (JStr (rcv_url s)), Box [v0, v1, v2]])))))))"

text \<open>
  \<open>URLSearchParams.get\<close>: the first pair with the name, where a plus sign stands for a blank
  and \<open>%XY\<close> for a character (below 128 here). The fragment of an address is not part of its
  query.
\<close>

fun split_at :: "char \<Rightarrow> string \<Rightarrow> string list" where
  "split_at c [] = [[]]"
| "split_at c (x # xs) =
     (if x = c then [] # split_at c xs
      else (case split_at c xs of [] \<Rightarrow> [[x]] | w # ws \<Rightarrow> (x # w) # ws))"

definition plus_to_blank :: "char \<Rightarrow> char" where
  "plus_to_blank c = (if c = CHR ''+'' then CHR '' '' else c)"

fun form_decode :: "string \<Rightarrow> string" where
  "form_decode (c # a # b # s) =
     (if c = CHR ''%'' then
        (case (radix_digit a, radix_digit b) of
           (Some x, Some y) \<Rightarrow>
             if x < 16 \<and> y < 16 then char_of (16 * x + y) # form_decode s
             else c # form_decode (a # b # s)
         | _ \<Rightarrow> c # form_decode (a # b # s))
      else plus_to_blank c # form_decode (a # b # s))"
| "form_decode [c, a] = [plus_to_blank c, plus_to_blank a]"
| "form_decode [c] = [plus_to_blank c]"
| "form_decode [] = []"

definition query_of :: "string \<Rightarrow> string" where
  "query_of u = drop 1 (dropWhile (\<lambda>c. c \<noteq> CHR ''?'') (takeWhile (\<lambda>c. c \<noteq> CHR ''#'') u))"

definition query_pairs :: "string \<Rightarrow> (string \<times> string) list" where
  "query_pairs q =
     map (\<lambda>w. (form_decode (takeWhile (\<lambda>c. c \<noteq> CHR ''='') w),
               form_decode (drop 1 (dropWhile (\<lambda>c. c \<noteq> CHR ''='') w))))
       (filter (\<lambda>w. w \<noteq> []) (split_at CHR ''&'' q))"

text \<open>What the transfer page reads: \<open>searchParams.get(name) ?? ""\<close>.\<close>

definition QrTransfer_param :: "string \<Rightarrow> string \<Rightarrow> string" where
  "QrTransfer_param u param_name =
     (case map_of (query_pairs (query_of u)) param_name of None \<Rightarrow> [] | Some v \<Rightarrow> v)"

section \<open>Lemmas\<close>

text \<open>A number written in decimal reads back.\<close>

lemma to_number_show_nat:
  assumes "n < 2 ^ 53"
  shows "to_number (show_nat n) = Fin (of_nat n)"
proof -
  let ?s = "show_nat n"
  have d: "digits ?s" by (rule digits_show_nat)
  then have "digits (rev ?s)" by (simp add: digits_def)
  then have "trim_end ?s = ?s" by (simp add: trim_end_def digits_dropWhile_space)
  then have tr: "trim ?s = ?s" using digits_dropWhile_space [OF d] by (simp add: trim_def)
  have not_prefix: "\<not> starts_with ?s [a, x]" if "\<not> is_digit x" for a x
  proof
    assume "starts_with ?s [a, x]"
    then have "x \<in> set ?s" by (auto simp: starts_with_iff)
    with that show False using show_nat_digits by blast
  qed
  have "radix_prefix ?s = None"
    unfolding radix_prefix_def by (simp add: not_prefix is_digit_def)
  then show ?thesis
    using decimal_digits [OF d] to_double_nat [OF assms] tr
    by (simp add: to_number_def)
qed

lemma js_number_text [simp]: "n < 2 ^ 53 \<Longrightarrow> js_number (JStr (show_nat n)) = Fin (of_nat n)"
  by (simp add: to_number_show_nat)

lemma split_at_last: "c \<notin> set a \<Longrightarrow> split_at c a = [a]"
  by (induction a) auto

lemma split_at_append: "c \<notin> set a \<Longrightarrow> split_at c (a @ c # b) = a # split_at c b"
  by (induction a) auto

lemma form_decode_plain: "CHR ''%'' \<notin> set s \<Longrightarrow> form_decode s = map plus_to_blank s"
  by (induction s rule: form_decode.induct) auto

text \<open>
  The invariant of the steps: past the first one a currency is chosen, and at the third one a
  receiver too. A receiver comes from the results of the search, which are objects with a text
  as address; an event with another one cannot be raised there.
\<close>

definition receiver_ok :: "wizard_event \<Rightarrow> bool" where
  "receiver_ok e \<longleftrightarrow> (\<forall>r. e = ReceiverClicked r \<longrightarrow> (\<exists>a. r = JObj [(''address'', JStr a)]))"

definition wizard_ok :: "transfer_wizard \<Rightarrow> bool" where
  "wizard_ok w \<longleftrightarrow>
     wizard_step w \<in> {''select_currency'', ''search_user'', ''input_amount''} \<and>
     (wizard_step w \<noteq> ''select_currency'' \<longrightarrow>
        (\<exists>fs c img. selectCurrency w = currency_data fs c img)) \<and>
     (wizard_step w = ''input_amount'' \<longrightarrow> (\<exists>a. userData w = JObj [(''address'', JStr a)]))"

lemma wizard_ok_step: "wizard_ok w \<Longrightarrow> receiver_ok e \<Longrightarrow> wizard_ok (Transfer_step w e)"
  by (cases e) (auto simp: wizard_ok_def receiver_ok_def handleStepTransfer_def)

definition Transfer_guarded_step :: "transfer_wizard \<Rightarrow> wizard_event \<Rightarrow> transfer_wizard" where
  "Transfer_guarded_step w e = (if receiver_ok e then Transfer_step w e else w)"

interpretation transfer_steps: component Transfer_guarded_step wizard_ok
  by unfold_locales (simp add: Transfer_guarded_step_def wizard_ok_step)

lemma guarded_run:
  "\<forall>e \<in> set es. receiver_ok e \<Longrightarrow> run Transfer_step w es = run Transfer_guarded_step w es"
  by (induction es arbitrary: w) (simp_all add: Transfer_guarded_step_def)

lemma InfoUser_receivers:
  assumes "InfoUser_view s = Inr u" and "su_data s = JObj [(''address'', JStr a)]"
    and "e \<in> set (clickable u)"
  shows "receiver_ok e"
  using assms by (auto simp: InfoUser_view_def receiver_ok_def split: if_splits)

lemma currency_data_obj: "\<exists>fs. currency_data w c img = JObj fs"
  by (cases w) (auto simp: currency_data_def)

lemma currency_data_symbol:
  "get_prop (currency_data w c img) ''currency'' = Inr (JStr c)"
  by (cases w) (simp_all add: currency_data_def update_conv')

section \<open>Properties\<close>

text \<open>
  C33 Whenever the amount form is on the page, whatever the user clicked on the way, a currency
  and a receiver have been chosen: for a wallet with an address the form can be built, and it
  sends to the chosen receiver in the chosen currency from that wallet.
\<close>

theorem amount_form_ready:
  assumes "\<forall>e \<in> set es. receiver_ok e"
    and "Transfer_page (run Transfer_step initial_wizard es) = ShowInputAmount"
    and "w = run Transfer_step initial_wizard es"
  shows "\<exists>s a c. InputAmount_init (JObj [(''address'', from_address)]) (userData w) (selectCurrency w) stored = Inr s \<and>
    userData w = JObj [(''address'', JStr a)] \<and>
    get_oprop (dataSend s) ''to_address'' = JStr a \<and>
    get_oprop (dataSend s) ''symbol'' = JStr c \<and>
    get_oprop (selectCurrency w) ''currency'' = JStr c \<and>
    get_oprop (dataSend s) ''from_address'' = from_address \<and> \<not> isOpen s"
proof -
  have "wizard_ok initial_wizard" by (simp add: wizard_ok_def initial_wizard_def)
  then have ok: "wizard_ok w"
    using assms(1,3) by (simp add: guarded_run transfer_steps.inv_run)
  have step: "wizard_step w = ''input_amount''"
    using assms(2,3) by (auto simp: Transfer_page_def split: if_splits)
  with ok obtain a where a: "userData w = JObj [(''address'', JStr a)]"
    by (auto simp: wizard_ok_def)
  from ok step obtain fs c img where c: "selectCurrency w = currency_data fs c img"
    by (auto simp: wizard_ok_def)
  have sym: "get_prop (selectCurrency w) ''currency'' = Inr (JStr c)"
    unfolding c by (rule currency_data_symbol)
  then have "get_oprop (selectCurrency w) ''currency'' = JStr c" by (simp add: get_oprop_def)
  with a sym show ?thesis by (simp add: InputAmount_init_def)
qed

theorem amount_form_ready_witness:
  "\<exists>s. InputAmount_init (JObj [(''address'', JStr ''0xA'')])
      (JObj [(''address'', JStr ''0xb'')]) (currency_data Undef ''ETH'' ''eth_icon.png'') Null = Inr s \<and>
     get_oprop (dataSend s) ''to_address'' = JStr ''0xb''"
proof -
  let ?es = "[CurrencyClicked Undef ''ETH'' ''eth_icon.png'', ReceiverClicked (JObj [(''address'', JStr ''0xb'')])]"
  let ?w = "run Transfer_step initial_wizard ?es"
  have w: "userData ?w = JObj [(''address'', JStr ''0xb'')]"
    "selectCurrency ?w = currency_data Undef ''ETH'' ''eth_icon.png''"
    "Transfer_page ?w = ShowInputAmount"
    by (simp_all add: initial_wizard_def handleStepTransfer_def Transfer_page_def)
  have "\<forall>e \<in> set ?es. receiver_ok e" by (simp add: receiver_ok_def)
  from amount_form_ready [OF this w(3) refl, of "JStr ''0xA''" Null] show ?thesis
    unfolding w(1,2) by auto
qed

text \<open>
  The search never refuses a transfer to one's own wallet when the address of the wallet has
  a capital letter, as checksummed addresses do: the text typed is put in lower case before the
  comparison, so even the exact own address is accepted as a receiver.
\<close>

lemma self_transfer_accepted:
  assumes "\<exists>c \<in> set addr. has_lower c"
  shows "SearchUser_debounced (JObj [(''address'', JStr addr)]) (SearchUser_onChange typed_text) s =
    (\<lparr>su_data = JObj [(''address'', JStr (to_lower typed_text))], su_loading = JBool False\<rparr>, [])"
proof -
  have "to_lower typed_text \<noteq> addr" using assms to_lower_no_capital by blast
  then show ?thesis by (simp add: SearchUser_debounced_def SearchUser_onChange_def Let_def)
qed

lemma self_transfer_accepted_witness:
  "su_data (fst (SearchUser_debounced (JObj [(''address'', JStr ''0xAb'')]) (SearchUser_onChange ''0xAb'') initial_search))
     = JObj [(''address'', JStr ''0xab'')]"
proof -
  have "\<exists>c \<in> set ''0xAb''. has_lower c" by code_simp
  moreover have "to_lower ''0xAb'' = ''0xab''" by code_simp
  ultimately show ?thesis using self_transfer_accepted [of "''0xAb''" "''0xAb''" initial_search] by simp
qed

text \<open>
  When the first search is for the own address (in lower case), the refusal breaks the page:
  the results are shown although there is no receiver yet, and rendering them throws.
\<close>

lemma self_search_breaks_page:
  assumes "to_lower typed_text = addr" and "trim addr \<noteq> []"
  shows "InfoUser_view (fst (SearchUser_debounced (JObj [(''address'', JStr addr)])
      (SearchUser_onChange typed_text) initial_search)) = Inl type_error"
  using assms
  by (simp add: SearchUser_debounced_def SearchUser_onChange_def initial_search_def InfoUser_view_def Let_def)

lemma self_search_breaks_page_witness:
  "InfoUser_view (fst (SearchUser_debounced (JObj [(''address'', JStr ''0xa'')])
      (SearchUser_onChange ''0xA'') initial_search)) = Inl type_error"
proof -
  have "to_lower ''0xA'' = ''0xa''" and "trim ''0xa'' \<noteq> []" by code_simp+
  then show ?thesis by (rule self_search_breaks_page)
qed

text \<open>
  C13 The amount check, exactly: after typing the whole number \<open>n\<close>, with the whole balance \<open>b\<close>,
  the confirmation opens when \<open>n\<close> is at most \<open>b\<close> and only then; 0 is such an amount, and an
  emptied field counts as 0.
\<close>

theorem transfer_amount_check:
  assumes "n < 2 ^ 53" and "b < 2 ^ 53" and "balance s = JStr (show_nat b)" and "\<not> isOpen s"
  shows "(isOpen (InputAmount_handleSubmit (InputAmount_onValueChange (JStr (show_nat n)) s)) \<longleftrightarrow> n \<le> b) \<and>
    isOpen (InputAmount_handleSubmit (InputAmount_onValueChange Undef s))"
proof
  have nums: "to_number (show_nat n) = Fin (of_nat n)" "to_number (show_nat b) = Fin (of_nat b)"
    using assms(1,2) by (simp_all only: to_number_show_nat)
  then show "isOpen (InputAmount_handleSubmit (InputAmount_onValueChange (JStr (show_nat n)) s)) \<longleftrightarrow> n \<le> b"
    using assms(3,4) by (auto simp: InputAmount_handleSubmit_def InputAmount_onValueChange_def Let_def js_or_def)
  have "''0'' = show_nat 0" by code_simp
  then have "to_number ''0'' = Fin 0" using to_number_show_nat [of 0] by simp
  then show "isOpen (InputAmount_handleSubmit (InputAmount_onValueChange Undef s))"
    using assms(3,4) nums(2)
    by (simp add: InputAmount_handleSubmit_def InputAmount_onValueChange_def Let_def js_or_def)
qed

theorem transfer_amount_check_witness:
  "\<not> isOpen (InputAmount_handleSubmit (InputAmount_onValueChange (JStr (show_nat 8))
      \<lparr>balance = JStr (show_nat 7), dataSend = JObj [], ia_error = Undef, isOpen = False\<rparr>))"
  using transfer_amount_check
    [of 8 7 "\<lparr>balance = JStr (show_nat 7), dataSend = JObj [], ia_error = Undef, isOpen = False\<rparr>"]
  by simp

text \<open>
  C14 The check behind a scanned code: with the amount and the balance converted to the unit of
  the limits, the confirmation opens (or, when open, closes) when the amount is between 100 and
  100000000 and at most the balance, and otherwise an error is shown and it stays as it is. Of the host's
  number format it is used that it formats numbers in the three currencies of the program, whose
  codes are well-formed; for other codes it may throw.
\<close>

theorem qr_amount_check:
  assumes "get_oprop (dataSend s) ''currency'' = JStr cur"
    and "convertCurrency (js_number (get_oprop (dataSend s) ''amount'')) cur = JNum (Fin m)"
    and "convertCurrency (js_number wallet_balance) cur = JNum (Fin b)" and "\<not> nullish wallet_balance"
    and "\<And>c x. c \<in> {''VND'', ''USD'', ''ETH''} \<Longrightarrow> \<exists>t. intl (JStr c) (JNum x) = Inr t"
  shows "\<exists>s'. QrTransfer_handleSubmit intl cur wallet_balance s = Inr s' \<and>
    isOpen s' = (if 100 \<le> m \<and> m \<le> 100000000 \<and> m \<le> b then \<not> isOpen s else isOpen s) \<and>
    (truthy (ia_error s') \<or> isOpen s' \<noteq> isOpen s)"
proof -
  have cur: "cur \<in> {''VND'', ''USD'', ''ETH''}"
    using assms(2) by (auto simp: convertCurrency_def split: if_splits)
  have ex: "\<exists>t. formatCurrency intl (JNum x) (JStr c) = Inr t" if "c \<in> {''VND'', ''USD'', ''ETH''}" for c x
    using assms(5) [OF that, of x] that by (auto simp: formatCurrency_def)
  have bal: "js_number (js_or (JNum (Fin b)) (JNum (Fin 0))) = Fin b" by (simp add: js_or_def)
  have "\<exists>x. convertCurrency (Fin 100) cur = JNum x" using cur by (auto simp: convertCurrency_def)
  then obtain t1 where t1: "formatCurrency intl (convertCurrency (Fin 100) cur) (JStr cur) = Inr t1"
    using ex [OF cur] by metis
  obtain t2 where t2: "formatCurrency intl (JNum (Fin 100000000)) (JStr ''VND'') = Inr t2"
    using ex [of "''VND''"] by blast
  have w: "js_coalesce wallet_balance (JNum (Fin 0)) = wallet_balance"
    using assms(4) by (simp add: js_coalesce_def)
  show ?thesis
    unfolding QrTransfer_handleSubmit_def Let_def assms(1) js_text.simps assms(2) w assms(3) bal t1 t2
    by auto
qed

text \<open>A number format as the host documents it: other codes are a \<open>RangeError\<close>.\<close>

definition three_currencies :: intl_format where
  "three_currencies c v =
     (if c \<in> JStr ` {''VND'', ''USD'', ''ETH''} then Inr (js_text v)
      else Inl (JObj [(''name'', JStr ''RangeError'')]))"

theorem qr_amount_check_witness:
  "\<exists>s'. QrTransfer_handleSubmit three_currencies ''VND'' (JNum (Fin 500))
      \<lparr>balance = Undef, dataSend = JObj [(''amount'', JNum (Fin 200)), (''currency'', JStr ''VND'')],
       ia_error = Undef, isOpen = False\<rparr> = Inr s' \<and> isOpen s'"
  using qr_amount_check [of "\<lparr>balance = Undef,
      dataSend = JObj [(''amount'', JNum (Fin 200)), (''currency'', JStr ''VND'')],
      ia_error = Undef, isOpen = False\<rparr>" "''VND''" 200 "JNum (Fin 500)" 500 three_currencies]
  by (auto simp: convertCurrency_def nullish_def three_currencies_def simp del: js_text.simps)

text \<open>
  C34 What the scanned code transports: for an address of mail without the characters
  \<open>&\<close>, \<open>%\<close> and \<open>#\<close> the transfer page reads the currency the code was made for and the
  address with every plus sign turned into a blank, so the receiver of the code exactly when
  the address has no plus sign.
\<close>

theorem qr_code_roundtrip:
  assumes "set email \<inter> set ''&%#'' = {}" and "cur \<in> {''VND'', ''USD'', ''ETH''}"
  shows "QrTransfer_param (qr_url (JStr email) cur) ''currency'' = cur \<and>
    QrTransfer_param (qr_url (JStr email) cur) ''email'' = map plus_to_blank email \<and>
    (QrTransfer_param (qr_url (JStr email) cur) ''email'' = email \<longleftrightarrow> CHR ''+'' \<notin> set email)"
proof -
  have e: "CHR ''&'' \<notin> set email" "CHR ''%'' \<notin> set email" "CHR ''#'' \<notin> set email"
    using assms(1) by auto
  have hash: "CHR ''#'' \<notin> set (qr_url (JStr email) cur)"
    using e(3) assms(2) by (auto simp: qr_url_def)
  have "takeWhile (\<lambda>c. c \<noteq> CHR ''#'') (qr_url (JStr email) cur) = qr_url (JStr email) cur"
    by (rule takeWhile_eq_all_conv [THEN iffD2]) (use hash in blast)
  then have q: "query_of (qr_url (JStr email) cur) = (''email='' @ email) @ CHR ''&'' # (''currency='' @ cur)"
    unfolding query_of_def by (simp add: qr_url_def)
  have c: "CHR ''&'' \<notin> set (''currency='' @ cur)" "CHR ''%'' \<notin> set cur" "map plus_to_blank cur = cur"
    using assms(2) by (auto simp: plus_to_blank_def)
  have a: "CHR ''&'' \<notin> set (''email='' @ email)" using e(1) by simp
  have names: "form_decode ''email'' = ''email''" "form_decode ''currency'' = ''currency''"
    by (simp_all add: form_decode_plain plus_to_blank_def)
  have pairs: "query_pairs (query_of (qr_url (JStr email) cur)) =
      [(''email'', map plus_to_blank email), (''currency'', cur)]"
    unfolding q query_pairs_def split_at_append [OF a] split_at_last [OF c(1)]
    using names form_decode_plain [OF e(2)] form_decode_plain [OF c(2)] c(3) by simp
  have "map plus_to_blank email = email \<longleftrightarrow> CHR ''+'' \<notin> set email"
    by (induction email) (auto simp: plus_to_blank_def)
  then show ?thesis by (simp add: QrTransfer_param_def pairs)
qed

theorem qr_code_roundtrip_witness:
  "QrTransfer_param (qr_url (JStr ''a+b@c.d'') ''USD'') ''email'' = ''a b@c.d''"
  using qr_code_roundtrip [of "''a+b@c.d''" "''USD''"] by (simp add: plus_to_blank_def)

end
