(* ===== verification/MoneyPages.thy ===== *)
theory MoneyPages
  imports OtpDrawers Formatting TransferFlow
begin

text \<open>
  Deposits and withdrawals (\<^verbatim>\<open>pages/deposit-withdraw\<close>) with the wallet button of
  \<^verbatim>\<open>components/button/wallet.tsx\<close>: the page that chooses a currency and a card, the two
  dialogs that check the amount, and the result page. \<open>locale_text\<close> is the host's
  \<open>toLocaleString\<close> of a whole number.
\<close>

section \<open>Choosing a crd\<close>

text \<open>\<open>cards && cards.find(card => card._id === cardId)\<close>.\<close>

fun find_card :: "jsval list \<Rightarrow> jsval \<Rightarrow> jsval throws" where
  "find_card [] cardId = Inr Undef"
| "find_card (crd # cards) cardId =
     throws_bind (get_prop crd ''_id'') (\<lambda>card_id.
       if card_id = cardId then Inr crd else find_card cards cardId)"

definition selectedCard :: "jsval \<Rightarrow> jsval \<Rightarrow> jsval throws" where
  "selectedCard cardData cardId =
     (if \<not> truthy cardData then Inr cardData
      else case cardData of JArr cards \<Rightarrow> find_card cards cardId | _ \<Rightarrow> Inl type_error)"

section \<open>The amount\<close>

record money_form =
  mf_amount :: string
  drawerOpen :: bool

definition initial_money_form :: money_form where
  "initial_money_form = \<lparr>mf_amount = [], drawerOpen = False\<rparr>"

text \<open>\<open>parseFloat(value.replace(/[^0-9.-]+/g, ""))\<close>.\<close>

definition numeric_text :: "string \<Rightarrow> jsnum" where
  "numeric_text value = parse_float (filter is_numeric_char value)"

definition MIN_MONEY :: "string \<Rightarrow> jsnum" where
  "MIN_MONEY currency = Fin (if currency = ''USD'' then 10 else 10000)"

definition MAX_MONEY :: "string \<Rightarrow> jsnum" where
  "MAX_MONEY currency = Fin (if currency = ''USD'' then 1000 else 10000000)"

text \<open>The field gives \<open>undefined\<close> or a text; \<open>None\<close> is \<open>undefined\<close>.\<close>

definition Deposit_handleAmountChange ::
    "string \<Rightarrow> string option \<Rightarrow> money_form \<Rightarrow> money_form \<times> effect list" where
  "Deposit_handleAmountChange currency value s =
     (let text_value = (case value of None \<Rightarrow> [] | Some v \<Rightarrow> v);
          numericValue = (if text_value \<noteq> [] then numeric_text text_value else Fin 0)
      in if currency = ''VND'' \<and> num_rem numericValue (Fin 1) \<noteq> Fin 0
         then (s, [Toast Error (JStr ''So^/ tie^`n na.p ba(`ng VND pha?i la` so^/ cha(~n!'')])
         else (s\<lparr>mf_amount := text_value\<rparr>, []))"

definition Withdraw_handleAmountChange ::
    "string \<Rightarrow> string option \<Rightarrow> money_form \<Rightarrow> money_form \<times> effect list" where
  "Withdraw_handleAmountChange currency value s =
     (let text_value = (case value of None \<Rightarrow> [] | Some v \<Rightarrow> v);
          numericValue = (if text_value \<noteq> [] then numeric_text text_value else Fin 0)
      in if currency = ''VND'' \<and> num_rem numericValue (Fin 1) \<noteq> Fin 0
         then (s, [Toast Error (JStr ''So^/ tie^`n ru/t ba(`ng VND pha?i la` so^/ cha(~n!'')])
         else (s\<lparr>mf_amount := text_value\<rparr>, []))"

definition handleConfirmDeposit ::
    "(jsnum \<Rightarrow> string) \<Rightarrow> string \<Rightarrow> jsval \<Rightarrow> money_form \<Rightarrow> money_form \<times> effect list" where
  "handleConfirmDeposit locale_text currency crd s =
     (let numericAmount = numeric_text (mf_amount s)
      in if num_lt numericAmount (MIN_MONEY currency) then
           (s, [Message Error (JStr (''So^/ tie^`n na.p to^/i thie^?u la` '' @ locale_text (MIN_MONEY currency) @ ''!''))])
         else if num_gt numericAmount (MAX_MONEY currency) then
           (s, [Message Error (JStr (''So^/ tie^`n na.p to^/i dda la` '' @ locale_text (MAX_MONEY currency) @ ''!''))])
         else if currency \<noteq> ''ETH'' \<and> truthy crd then (s\<lparr>drawerOpen := True\<rparr>, [])
         else (s, []))"

definition handleConfirmWithdraw ::
    "(jsnum \<Rightarrow> string) \<Rightarrow> string \<Rightarrow> jsval \<Rightarrow> money_form \<Rightarrow> money_form \<times> effect list" where
  "handleConfirmWithdraw locale_text currency crd s =
     (let numericAmount = numeric_text (mf_amount s)
      in if num_lt numericAmount (MIN_MONEY currency) then
           (s, [Message Error (JStr (''So^/ tie^`n ru/t to^/i thie^?u la` '' @ locale_text (MIN_MONEY currency) @ ''!''))])
         else if num_gt numericAmount (MAX_MONEY currency) then
           (s, [Message Error (JStr (''So^/ tie^`n ru/t to^/i dda la` '' @ locale_text (MAX_MONEY currency) @ ''!''))])
         else if truthy crd then (s\<lparr>drawerOpen := True\<rparr>, [])
         else (s, [Message Error (JStr ''Kho^ng ti`m tha^/y the?!'')]))"

definition Deposit_handleCopyAddress :: "jsval \<Rightarrow> effect list" where
  "Deposit_handleCopyAddress walletAddress =
     [CopyText (js_or walletAddress (JStr [])), Message Success (JStr ''DDa~ sao che/p ddi.a chi? vi/!'')]"

text \<open>The data each dialog hands to the drawer.\<close>

definition drawer_data :: "bool \<Rightarrow> string \<Rightarrow> jsval \<Rightarrow> money_form \<Rightarrow> jsval" where
  "drawer_data isDeposit currency cardID s =
     JObj [(''currency'', JStr currency), (''cardID'', cardID), (''security_code'', JStr []),
           (''amount'', JStr (mf_amount s)), (''isDeposit'', JBool isDeposit)]"

datatype money_event =
    CopyAddress
  | MoneyTyped string
  | ConfirmMoney

text \<open>The picture of a card: number, expiry, code and name.\<close>

definition card_picture :: "jsval \<Rightarrow> 'e ui" where
  "card_picture crd =
     Box [Expr (get_oprop crd ''number''),
          Text (js_text (get_oprop crd ''expiryMonth'') @ ''/'' @ js_text (get_oprop crd ''expiryYear'')),
          Expr (get_oprop crd ''name'')]"

text \<open>\<open>{balance ? formatCurrency(balance, currency) : 0}\<close>.\<close>

definition balance_text :: "intl_format \<Rightarrow> jsval \<Rightarrow> string \<Rightarrow> string throws" where
  "balance_text intl bal currency =
     (if truthy bal then formatCurrency intl bal (JStr currency) else Inr ''0'')"

text \<open>
  Without a card the deposit dialog announces it while it renders: the second component lists
  the effects of the render.
\<close>

definition Deposit_view ::
    "intl_format \<Rightarrow> string \<Rightarrow> jsval \<Rightarrow> jsval \<Rightarrow> jsval \<Rightarrow> money_form \<Rightarrow> (money_event ui \<times> effect list) throws" where
  "Deposit_view intl currency bal crd walletAddress s =
     (if currency = ''ETH'' then
        Inr (Box
          [Text ''DDi.a chi? vi/: '', Click CopyAddress [Expr walletAddress],
           Btn False CopyAddress [Text ''Sao che/p'']], [])
      else
        throws_bind (balance_text intl bal currency) (\<lambda>t.
          Inr (Box
            [if truthy crd then card_picture crd else Box [],
             Text ''Tie^`n te^.: '', Text currency, Text ''So^/ du+: '', Text t,
             Text ''So^/ tie^`n:'', Field ''amount'' (JStr (mf_amount s)) MoneyTyped,
             Btn (mf_amount s = []) ConfirmMoney [Text ''Xa/c nha^.n na.p tie^`n'']],
           if truthy crd then [] else [Toast Error (JStr ''Kho^ng ti`m tha^/y the?!'')])))"

definition Withdraw_view ::
    "intl_format \<Rightarrow> string \<Rightarrow> jsval \<Rightarrow> jsval \<Rightarrow> money_form \<Rightarrow> money_event ui throws" where
  "Withdraw_view intl currency bal crd s =
     throws_bind (balance_text intl bal currency) (\<lambda>t.
       Inr (Box
         [if truthy crd then card_picture crd else Text ''Kho^ng ti`m tha^/y the?!'',
          Text ''Tie^`n te^.: '', Text currency, Text ''So^/ du+: '', Text t,
          Text ''So^/ tie^`n:'', Field ''amount'' (JStr (mf_amount s)) MoneyTyped,
          Btn (mf_amount s = []) ConfirmMoney [Text ''Xa/c nha^.n ru/t tie^`n'']]))"

section \<open>The page\<close>

text \<open>The wallets of \<^verbatim>\<open>components/button/wallet.tsx\<close>: picture and currency.\<close>

definition wallet_buttons :: "(string \<times> string) list" where
  "wallet_buttons = [(''vnd_icon.jpg'', ''VND''), (''usd_icon.png'', ''USD''), (''eth_icon.png'', ''ETH'')]"

record deposit_page =
  isSelectedCard :: jsval
  isSelectedCurrency :: string
  selectedBalance :: jsval
  isDepositModalOpen :: bool
  isWithdrawModalOpen :: bool

datatype deposit_page_event =
    CardSelected jsval
  | CurrencySelected string jsval
  | DepositModal bool
  | WithdrawModal bool

text \<open>The read \<open>user?.data.walletData\<close> of every render, and \<open>w?.currencies?.[i]?.balance || 0\<close>.\<close>

definition DepositWithdraw_walletData :: "jsval \<Rightarrow> jsval throws" where
  "DepositWithdraw_walletData profile = qpath profile [''data'', ''walletData'']"

definition wallet_balance_at :: "jsval \<Rightarrow> nat \<Rightarrow> jsval" where
  "wallet_balance_at walletData i =
     js_or
       (case get_oprop walletData ''currencies'' of
          JArr vs \<Rightarrow> if i < length vs then get_oprop (vs ! i) ''balance'' else Undef
        | _ \<Rightarrow> Undef)
       (JNum (Fin 0))"

definition DepositWithdraw_init :: "jsval \<Rightarrow> deposit_page throws" where
  "DepositWithdraw_init profile =
     throws_bind (DepositWithdraw_walletData profile) (\<lambda>walletData.
       Inr \<lparr>isSelectedCard = Null, isSelectedCurrency = ''VND'',
            selectedBalance = wallet_balance_at walletData 0,
            isDepositModalOpen = False, isWithdrawModalOpen = False\<rparr>)"

fun DepositWithdraw_step :: "deposit_page \<Rightarrow> deposit_page_event \<Rightarrow> deposit_page" where
  "DepositWithdraw_step s (CardSelected cardId) = s\<lparr>isSelectedCard := js_coalesce cardId (JStr [])\<rparr>"
| "DepositWithdraw_step s (CurrencySelected currency bal) =
     s\<lparr>isSelectedCurrency := currency, selectedBalance := bal\<rparr>"
| "DepositWithdraw_step s (DepositModal b) = s\<lparr>isDepositModalOpen := b\<rparr>"
| "DepositWithdraw_step s (WithdrawModal b) = s\<lparr>isWithdrawModalOpen := b\<rparr>"

text \<open>The effect when the cards arrive.\<close>

definition DepositWithdraw_cardsChanged :: "jsval list option \<Rightarrow> effect list" where
  "DepositWithdraw_cardsChanged cardData =
     (if cardData = Some [] then [Toast Error (JStr ''Vui lo`ng the^m the? ti/n du.ng!'')] else [])"

definition filterCards :: "jsval list \<Rightarrow> jsval list" where
  "filterCards cards =
     filter (\<lambda>crd. get_oprop crd ''type'' = JStr ''visa'' \<or> get_oprop crd ''type'' = JStr ''mastercard'') cards"

definition Wallet_button ::
    "intl_format \<Rightarrow> jsval \<Rightarrow> string \<Rightarrow> string \<Rightarrow> bool \<Rightarrow> bool \<Rightarrow> 'e \<Rightarrow> 'e ui throws" where
  "Wallet_button intl bal icon currency isSelected isLoading click =
     throws_bind (if isLoading then Inr [] else formatCurrency intl bal (JStr currency)) (\<lambda>t.
       Inr (Styled (if isSelected then ''border-[#0094FF] shadow-lg'' else ''border-gray-300'')
         [Click click
           [Img (JStr icon), Text currency, (if isLoading then Box [] else Text t)]]))"

text \<open>One tab: the wallets, the cards and the button that opens its dialog.\<close>

fun wallet_row ::
    "intl_format \<Rightarrow> jsval \<Rightarrow> string \<Rightarrow> nat \<Rightarrow> (string \<times> string) list \<Rightarrow> deposit_page_event ui list throws" where
  "wallet_row intl walletData sel i [] = Inr []"
| "wallet_row intl walletData sel i ((icon, currency) # ws) =
     throws_bind
       (Wallet_button intl (wallet_balance_at walletData i) icon currency (sel = currency) False
          (CurrencySelected currency (wallet_balance_at walletData i))) (\<lambda>u.
     throws_bind (wallet_row intl walletData sel (Suc i) ws) (\<lambda>us. Inr (u # us)))"

definition card_choice :: "jsval \<Rightarrow> jsval \<Rightarrow> deposit_page_event ui" where
  "card_choice sel crd =
     Styled (if sel = get_oprop crd ''_id'' then ''border-4 border-blue-500'' else ''border-2 border-gray-200'')
       [Click (CardSelected (get_oprop crd ''_id''))
         [card_picture crd, Expr (get_oprop crd ''number''), Expr (get_oprop crd ''type'')]]"

definition money_tab ::
    "intl_format \<Rightarrow> jsval \<Rightarrow> jsval list option \<Rightarrow> deposit_page \<Rightarrow> string \<Rightarrow> deposit_page_event \<Rightarrow>
     deposit_page_event ui throws" where
  "money_tab intl walletData cards s label opens =
     throws_bind (wallet_row intl walletData (isSelectedCurrency s) 0 wallet_buttons) (\<lambda>ws.
       Inr (Box
         [Text label, Box ws,
          Box (case cards of None \<Rightarrow> [] | Some cs \<Rightarrow> map (card_choice (isSelectedCard s)) (filterCards cs)),
          Btn False opens [Text label]]))"

definition DepositWithdraw_view ::
    "intl_format \<Rightarrow> jsval \<Rightarrow> jsval list option \<Rightarrow> bool \<Rightarrow> deposit_page \<Rightarrow> deposit_page_event ui throws" where
  "DepositWithdraw_view intl walletData cards isLoading s =
     (if isLoading then Inr Loading
      else if cards = Some [] then
        Inr (Box [Text ''Na.p/Ru/t Tie^`n'', Text ''Ba.n chu+a lie^n ke^/t vo+/i ba^/t ky` the? na`o!'',
                  Link ''/credit-card'' [Text ''Lie^n ke^/t the?'']])
      else
        throws_bind (money_tab intl walletData cards s ''Na.p tie^`n'' (DepositModal True)) (\<lambda>d.
        throws_bind (money_tab intl walletData cards s ''Ru/t tie^`n'' (WithdrawModal True)) (\<lambda>w.
          Inr (Box
            [Text ''Na.p/Ru/t Tie^`n'', d, w,
             Sheet (isDepositModalOpen s) (DepositModal False) [Text ''Na.p tie^`n''],
             Sheet (isWithdrawModalOpen s) (WithdrawModal False) [Text ''Ru/t tie^`n'']]))))"

section \<open>The result page\<close>

definition Result_view :: "intl_format \<Rightarrow> date_format \<Rightarrow> jsval \<Rightarrow> effect ui throws" where
  "Result_view intl fmt_date location_state =
     (let st = js_or location_state (JObj [])
      in throws_bind (formatCurrency intl (get_oprop st ''amount'') (get_oprop st ''currency'')) (\<lambda>t.
         throws_bind (fmt_date (get_oprop st ''createdAt'')) (\<lambda>d.
           Inr (Box
             [Icon ''CheckCircleOutlined'', Expr (get_oprop st ''type''), Text '' tha`nh co^ng!'',
              Text t, Expr (get_oprop st ''title''),
              Text ''Tra.ng tha/i:'', Text ''Hoa`n tha`nh'',
              Text ''Ma~ giao di.ch:'', Expr (get_oprop st ''_id''),
              Text ''Tho+`i gian:'', Text d,
              Btn False (Navigate ''/'' Undef) [Text ''Quay la.i trang chu?'']]))))"

section \<open>Properties\<close>

lemma numeric_text_nat:
  assumes "filter is_numeric_char t = show_nat n" and "n < 2 ^ 53"
  shows "numeric_text t = Fin (of_nat n)"
  using assms by (simp add: numeric_text_def parse_float_show_nat)

text \<open>
  C35 The limits of a deposit and of a withdrawal, exactly: for a typed text whose digits are the
  whole number \<open>n\<close>, a chosen card and a currency other than \<open>ETH\<close>, both dialogs go on to the
  confirmation when \<open>n\<close> is between the limits of the currency, bounds included, and otherwise
  stay and show one message. The balance plays no part in it.
\<close>

theorem money_limits:
  assumes "filter is_numeric_char (mf_amount s) = show_nat n" and "n < 2 ^ 53"
    and "truthy crd" and "currency \<noteq> ''ETH''" and "\<not> drawerOpen s"
    and "lo = (if currency = ''USD'' then 10 else 10000)"
    and "hi = (if currency = ''USD'' then 1000 else 10000000)"
  shows "(if lo \<le> n \<and> n \<le> hi
      then handleConfirmDeposit locale_text currency crd s = (s\<lparr>drawerOpen := True\<rparr>, []) \<and>
           handleConfirmWithdraw locale_text currency crd s = (s\<lparr>drawerOpen := True\<rparr>, [])
      else (\<exists>m m'. handleConfirmDeposit locale_text currency crd s = (s, [Message Error (JStr m)]) \<and>
                   handleConfirmWithdraw locale_text currency crd s = (s, [Message Error (JStr m')])))"
proof -
  have num: "numeric_text (mf_amount s) = Fin (of_nat n)" by (rule numeric_text_nat [OF assms(1,2)])
  have lo: "num_lt (Fin (of_nat n)) (MIN_MONEY currency) \<longleftrightarrow> \<not> lo \<le> n"
    using assms(6) by (simp add: MIN_MONEY_def not_le of_nat_less_numeral_iff)
  have hi: "num_gt (Fin (of_nat n)) (MAX_MONEY currency) \<longleftrightarrow> \<not> n \<le> hi"
    using assms(7) by (simp add: MAX_MONEY_def not_le)
  show ?thesis
    using assms(3,4) unfolding handleConfirmDeposit_def handleConfirmWithdraw_def Let_def num lo hi by auto
qed

theorem money_limits_witness:
  "handleConfirmDeposit (\<lambda>_. []) ''USD'' (JObj []) \<lparr>mf_amount = show_nat 10, drawerOpen = False\<rparr> =
     (\<lparr>mf_amount = show_nat 10, drawerOpen = True\<rparr>, [])"
proof -
  have "filter is_numeric_char (show_nat 10) = show_nat 10" by code_simp
  then show ?thesis
    using money_limits [of "\<lparr>mf_amount = show_nat 10, drawerOpen = False\<rparr>" 10 "JObj []" "''USD''" 10 1000 "\<lambda>_. []"]
    by simp
qed

text \<open>
  The pages disagree on the profile: a response that has its data under \<open>payload\<close> and no
  field \<open>data\<close>, as the home and the transfer page read it, breaks the deposit page on its first
  render and makes the page to receive money report that nothing could be loaded.
\<close>

lemma profile_shape_conflict:
  assumes "get_oprop (JObj response_fields) ''data'' = Undef"
  shows "DepositWithdraw_init (JObj response_fields) = Inl type_error \<and>
    Receive_init (JObj response_fields) = None"
proof -
  have "get_prop (JObj response_fields) ''data'' = Inr Undef" using assms by simp
  then show ?thesis
    using assms
    by (simp add: DepositWithdraw_init_def DepositWithdraw_walletData_def qpath_def nullish_def Receive_init_def
        del: get_prop.simps(3))
qed

lemma profile_shape_conflict_witness:
  "DepositWithdraw_init (JObj [(''message'', JStr ''ok''), (''payload'', JObj [(''wallet'', JObj [])])]) = Inl type_error"
  using profile_shape_conflict [of "[(''message'', JStr ''ok''), (''payload'', JObj [(''wallet'', JObj [])])]"]
  by simp

text \<open>
  What a dialog confirms is what was chosen: the request of the deposit drawer carries the
  amount, the currency and the card of the dialog and the code typed, and goes to the address of
  the dialog's operation.
\<close>

lemma confirmed_request:
  "DepositDrawer_request (drawer_data isDeposit currency cardID s) v =
     instance_request POST
       (if isDeposit then ''/api/v1/wallet/deposit-money'' else ''/api/v1/wallet/withdraw-money'')
       (JObj [(''currency'', JStr currency), (''cardID'', cardID), (''security_code'', JStr v),
              (''amount'', JStr (mf_amount s))])"
  by (simp add: DepositDrawer_request_def drawer_data_def isDeposit_of_def depositMoney_def
      withdrawMoney_def Let_def)

end
