(* ===== verification/ConfirmDelete.thy ===== *)
theory ConfirmDelete
  imports Effects Ui
begin

text \<open>
  The contract of a deletion in two steps, which the page of the cards and the page of the API
  keys share: \<open>ask\<close> remembers what is to be deleted and opens a dialog, \<open>cancel\<close> forgets it,
  \<open>confirm\<close> deletes what is remembered. Other events of the page may come in between.
\<close>

datatype ('i, 'o) delete_event = Ask 'i | Cancel | Confirm | Other 'o

text \<open>What a run of such events deletes, in order, and its final state.\<close>

fun deletions ::
    "('i \<Rightarrow> 's \<Rightarrow> 's) \<Rightarrow> ('s \<Rightarrow> 's) \<Rightarrow> ('s \<Rightarrow> 's \<times> 'i option) \<Rightarrow> ('o \<Rightarrow> 's \<Rightarrow> 's) \<Rightarrow>
     ('i, 'o) delete_event list \<Rightarrow> 's \<Rightarrow> 'i list \<times> 's" where
  "deletions ask cancel confirm other [] s = ([], s)"
| "deletions ask cancel confirm other (Ask i # es) s = deletions ask cancel confirm other es (ask i s)"
| "deletions ask cancel confirm other (Cancel # es) s = deletions ask cancel confirm other es (cancel s)"
| "deletions ask cancel confirm other (Other o' # es) s = deletions ask cancel confirm other es (other o' s)"
| "deletions ask cancel confirm other (Confirm # es) s =
     (case confirm s of
        (s', d) \<Rightarrow>
          (case deletions ask cancel confirm other es s' of
             (ds, t) \<Rightarrow> ((case d of None \<Rightarrow> ds | Some i \<Rightarrow> i # ds), t)))"

fun asked :: "('i, 'o) delete_event list \<Rightarrow> 'i list" where
  "asked [] = []"
| "asked (Ask i # es) = i # asked es"
| "asked (_ # es) = asked es"

locale confirm_delete =
  fixes ask :: "'i \<Rightarrow> 's \<Rightarrow> 's"
    and cancel :: "'s \<Rightarrow> 's"
    and confirm :: "'s \<Rightarrow> 's \<times> 'i option"
    and other :: "'o \<Rightarrow> 's \<Rightarrow> 's"
    and target :: "'s \<Rightarrow> 'i option"
  assumes target_ask:
      "target (ask i s) = None \<or> target (ask i s) = Some i \<or> target (ask i s) = target s"
    and target_cancel: "target (cancel s) = None"
    and target_other: "target (other e s) = target s \<or> target (other e s) = None"
    and confirm_deletes: "snd (confirm s) = target s"
    and target_confirm: "target (fst (confirm s)) = target s \<or> target (fst (confirm s)) = None"
begin

text \<open>Nothing is deleted that was not asked for.\<close>

lemma deletes_only_asked:
  "set (fst (deletions ask cancel confirm other es s)) \<subseteq>
     set (asked es) \<union> (case target s of None \<Rightarrow> {} | Some i \<Rightarrow> {i})"
proof (induction es arbitrary: s)
  case Nil
  show ?case by simp
next
  case (Cons e es)
  show ?case
  proof (cases e)
    case (Ask i)
    show ?thesis using Cons [of "ask i s"] target_ask [of i s] Ask by auto
  next
    case Cancel
    show ?thesis using Cons [of "cancel s"] target_cancel [of s] Cancel by auto
  next
    case (Other o')
    show ?thesis using Cons [of "other o' s"] target_other [of o' s] Other by auto
  next
    case Confirm
    obtain s' d where c: "confirm s = (s', d)" by fastforce
    have "d = target s" and "target s' = target s \<or> target s' = None"
      using confirm_deletes [of s] target_confirm [of s] c by simp_all
    then show ?thesis
      using Cons [of s'] Confirm c by (auto split: option.splits prod.splits)
  qed
qed

text \<open>A cancelled request deletes nothing.\<close>

lemma cancel_then_confirm:
  "fst (deletions ask cancel confirm other [Cancel, Confirm] s) = []"
  using confirm_deletes [of "cancel s"] target_cancel [of s] by (cases "confirm (cancel s)") simp

lemma no_deletion_unasked:
  "target s = None \<Longrightarrow> asked es = [] \<Longrightarrow> fst (deletions ask cancel confirm other es s) = []"
  using deletes_only_asked [of es s] by simp

end

end
