(* ===== verification/CreditCards.thy ===== *)
theory CreditCards
  imports ConfirmDelete ReauthQuery MoneyPages
begin

text \<open>
  The cards of the user: the list with its deletion dialog (\<^verbatim>\<open>pages/credit-card/index.tsx\<close>),
  the form for a new card (\<^verbatim>\<open>pages/credit-card/pages/add-credit-card.tsx\<close>) and their parts
  (\<^verbatim>\<open>pages/credit-card/components\<close>). \<open>cardType\<close> is the issuer test of the package
  \<^verbatim>\<open>payment\<close>; the year and the month of the clock are arguments.
\<close>

section \<open>The dialog\<close>

text \<open>
  The effect of the dialog runs after the render, so a dialog that was open stays on the page,
  fading out, for one more render. The result is the value for \<open>overflow\<close> and the new
  \<open>isVisible\<close>.
\<close>

definition Modal_effect :: "bool \<Rightarrow> string \<times> bool" where
  "Modal_effect opened = (if opened then (''hidden'', True) else (''auto'', False))"

definition Modal_view :: "bool \<Rightarrow> bool \<Rightarrow> 'e \<Rightarrow> 'e ui list \<Rightarrow> 'e ui option" where
  "Modal_view opened isVisible close children =
     (if \<not> opened \<and> \<not> isVisible then None
      else Some (Styled (if isVisible then ''opacity-100'' else ''opacity-0'')
        [Click close
          [Styled (if isVisible then ''scale-100'' else ''scale-95'')
            (Click close [Icon ''IoMdClose''] # children)]]))"

section \<open>The list\<close>

record card_page =
  isModalOpen_cards :: bool
  hoveredCardId :: jsval
  deleteCardId :: jsval

definition initial_card_page :: card_page where
  "initial_card_page = \<lparr>isModalOpen_cards = False, hoveredCardId = Null, deleteCardId = Null\<rparr>"

datatype card_event =
    OpenAddCard | CloseAddCard
  | HoverCard jsval
  | AskDeleteCard jsval
  | ConfirmDeleteCard
  | CancelDeleteCard

text \<open>The button on a card asks only when the card has an identifier.\<close>

definition handleDeleteCard :: "jsval \<Rightarrow> card_page \<Rightarrow> card_page" where
  "handleDeleteCard card_id s = (if truthy card_id then s\<lparr>deleteCardId := card_id\<rparr> else s)"

definition cancelDeleteCard :: "card_page \<Rightarrow> card_page" where
  "cancelDeleteCard s = s\<lparr>deleteCardId := Null\<rparr>"

definition card_target :: "card_page \<Rightarrow> jsval option" where
  "card_target s = (if truthy (deleteCardId s) then Some (deleteCardId s) else None)"

text \<open>
  Confirming sends the deletion and leaves the dialog open until the answer is there: the
  second component is the card the request deletes.
\<close>

definition confirmDeleteCard :: "card_page \<Rightarrow> card_page \<times> jsval option" where
  "confirmDeleteCard s = (s, card_target s)"

text \<open>The mutation does not throw; it gives an object with \<open>data\<close> or \<open>error\<close>.\<close>

definition confirmDeleteCard_resume :: "fetch_result \<Rightarrow> card_page \<Rightarrow> card_page \<times> effect list" where
  "confirmDeleteCard_resume r s =
     (let msg = get_oprop (result_data r) ''message''
      in (s\<lparr>deleteCardId := Null\<rparr>, if truthy msg then [Toast Success msg] else []))"

definition CreditCard_deleteErrorChanged :: "jsval \<Rightarrow> effect list" where
  "CreditCard_deleteErrorChanged deleteError =
     (if truthy deleteError
      then [Toast Error (js_or (get_oprop deleteError ''message'') (JStr ''Xo/a the? tha^/t ba.i!''))]
      else [])"

datatype card_other = CardModal bool | CardHover jsval | CardAnswer fetch_result

fun card_other_step :: "card_other \<Rightarrow> card_page \<Rightarrow> card_page" where
  "card_other_step (CardModal b) s = s\<lparr>isModalOpen_cards := b\<rparr>"
| "card_other_step (CardHover h) s = s\<lparr>hoveredCardId := h\<rparr>"
| "card_other_step (CardAnswer r) s = fst (confirmDeleteCard_resume r s)"

interpretation card_deletion:
  confirm_delete handleDeleteCard cancelDeleteCard confirmDeleteCard card_other_step card_target
proof unfold_locales
  fix e s
  show "card_target (card_other_step e s) = card_target s \<or> card_target (card_other_step e s) = None"
    by (cases e) (simp_all add: card_target_def confirmDeleteCard_resume_def Let_def)
qed (auto simp: handleDeleteCard_def cancelDeleteCard_def confirmDeleteCard_def card_target_def)

definition card_tile :: "card_page \<Rightarrow> jsval \<Rightarrow> card_event ui" where
  "card_tile s crd =
     Box
       [card_picture crd,
        Styled (if hoveredCardId s = get_oprop crd ''_id'' then ''opacity-100'' else ''opacity-0'')
          [Click (AskDeleteCard (get_oprop crd ''_id'')) [Icon ''FiTrash2'']]]"

definition CreditCard_view :: "bool \<Rightarrow> bool \<Rightarrow> jsval list option \<Rightarrow> card_page \<Rightarrow> card_event ui" where
  "CreditCard_view isLoading isDeleting cards s =
     (if isLoading then Loading
      else Box
        [Text ''Qua?n ly/ the?'',
         (if isDeleting then Box (replicate 4 (Box []))
          else case cards of
                 Some [] \<Rightarrow> Text ''Ba.n chu+a co/ lie^n ke^/t vo+/i ba^/t ky` the? na`o!''
               | Some cs \<Rightarrow> Box (map (card_tile s) cs)
               | None \<Rightarrow> Box []),
         Click OpenAddCard [Text ''The^m the?''],
         Sheet (isModalOpen_cards s) CloseAddCard [],
         whenever (card_target s \<noteq> None)
           (Sheet True CancelDeleteCard
             [Text ''Ba.n co/ cha(/c cha(/n muo^/n xo/a the? na`y?'',
              Btn False ConfirmDeleteCard [Text ''Xo/a''],
              Btn False CancelDeleteCard [Text ''Hu?y'']])])"

section \<open>A new card\<close>

record card_form =
  cf_number :: string
  cf_name :: string
  cf_month :: string
  cf_year :: string
  cf_cvc :: string
  cf_type :: string

record card_validity =
  ok_number :: bool
  ok_month :: bool
  ok_year :: bool
  ok_cvc :: bool

record add_card =
  formData :: card_form
  card_focus :: "string option"
  cvvLength :: nat
  validity :: card_validity

definition empty_card :: card_form where
  "empty_card =
     \<lparr>cf_number = [], cf_name = [], cf_month = [], cf_year = [], cf_cvc = [], cf_type = ''credit''\<rparr>"

definition AddCreditCard_init :: add_card where
  "AddCreditCard_init =
     \<lparr>formData = empty_card, card_focus = None, cvvLength = 3,
      validity = \<lparr>ok_number = True, ok_month = True, ok_year = True, ok_cvc = True\<rparr>\<rparr>"

definition two_digits :: "nat \<Rightarrow> string" where   \<comment> \<open>\<open>toString().padStart(2, "0")\<close>\<close>
  "two_digits n = replicate (2 - length (show_nat n)) CHR ''0'' @ show_nat n"

definition months :: "string list" where
  "months = map (\<lambda>i. two_digits (Suc i)) [0..<12]"

definition years :: "nat \<Rightarrow> string list" where
  "years currentYear = map (\<lambda>i. show_nat (currentYear + i)) [0..<10]"

definition resetForm :: "add_card \<Rightarrow> add_card" where
  "resetForm s = s\<lparr>formData := empty_card, card_focus := None\<rparr>"

text \<open>
  The three text inputs of the form are called \<open>number\<close>, \<open>name\<close> and \<open>cvc\<close>; the branch of the
  handler for the code is for the name \<open>cvv\<close>. A name of no field of the form would add a field
  that nothing reads.
\<close>

definition set_field :: "string \<Rightarrow> string \<Rightarrow> card_form \<Rightarrow> card_form" where
  "set_field field_name value f =
     (if field_name = ''number'' then f\<lparr>cf_number := value\<rparr>
      else if field_name = ''name'' then f\<lparr>cf_name := value\<rparr>
      else if field_name = ''expiryMonth'' then f\<lparr>cf_month := value\<rparr>
      else if field_name = ''expiryYear'' then f\<lparr>cf_year := value\<rparr>
      else if field_name = ''cvc'' then f\<lparr>cf_cvc := value\<rparr>
      else if field_name = ''cardType'' then f\<lparr>cf_type := value\<rparr>
      else f)"

definition AddCard_handleChange ::
    "(string \<Rightarrow> string option) \<Rightarrow> string \<Rightarrow> string \<Rightarrow> add_card \<Rightarrow> add_card" where
  "AddCard_handleChange cardType field_name value s =
     (if field_name = ''number'' then
        let formattedValue = formatCreditCardNumber cardType value;
            issuer = cardType formattedValue
        in s\<lparr>cvvLength := (if issuer = Some ''amex'' then 4 else 3),
             formData := set_field ''number'' formattedValue
               ((formData s)\<lparr>cf_number := formattedValue,
                             cf_type := (case issuer of None \<Rightarrow> ''debit'' | Some t \<Rightarrow> if t = [] then ''debit'' else t)\<rparr>)\<rparr>
      else if field_name = ''cvv'' then
        s\<lparr>formData := set_field ''cvv'' (formatCVC cardType value (cf_number (formData s))) (formData s)\<rparr>
      else s\<lparr>formData := set_field field_name value (formData s)\<rparr>)"

definition AddCard_handleInputFocus :: "string \<Rightarrow> add_card \<Rightarrow> add_card" where
  "AddCard_handleInputFocus field_name s = s\<lparr>card_focus := Some field_name\<rparr>"

text \<open>A choice of the month or of the year.\<close>

datatype expiry_field = ExpiryMonth | ExpiryYear

fun AddCard_select :: "expiry_field \<Rightarrow> string \<Rightarrow> add_card \<Rightarrow> add_card" where
  "AddCard_select ExpiryMonth value s = s\<lparr>formData := (formData s)\<lparr>cf_month := value\<rparr>\<rparr>"
| "AddCard_select ExpiryYear value s = s\<lparr>formData := (formData s)\<lparr>cf_year := value\<rparr>\<rparr>"

definition isValidExpiry :: "nat \<Rightarrow> nat \<Rightarrow> string \<Rightarrow> string \<Rightarrow> bool" where
  "isValidExpiry currentYear currentMonth month year \<longleftrightarrow>
     num_gt (parse_int year) (Fin (of_nat currentYear)) \<or>
     (parse_int year = Fin (of_nat currentYear) \<and>
      num_ge (parse_int month) (Fin (of_nat currentMonth)))"

definition validateCardData ::
    "(string \<Rightarrow> string option) \<Rightarrow> nat \<Rightarrow> nat \<Rightarrow> add_card \<Rightarrow> add_card \<times> effect list \<times> bool" where
  "validateCardData cardType currentYear currentMonth s =
     (let f = formData s;
          expiry_ok = isValidExpiry currentYear currentMonth (cf_month f) (cf_year f);
          v = \<lparr>ok_number = (case cardType (cf_number f) of None \<Rightarrow> False | Some t \<Rightarrow> t \<noteq> []),
               ok_month = (cf_month f \<noteq> [] \<and> expiry_ok),
               ok_year = (cf_year f \<noteq> [] \<and> expiry_ok),
               ok_cvc = (length (cf_cvc f) = cvvLength s)\<rparr>
      in (s\<lparr>validity := v\<rparr>,
          (if \<not> ok_number v then [Toast Error (JStr ''So^/ the? kho^ng ho+.p le^..'')]
           else if \<not> ok_month v \<or> \<not> ok_year v then [Toast Error (JStr ''Nga`y he^/t ha.n kho^ng ho+.p le^..'')]
           else if \<not> ok_cvc v then [Toast Error (JStr ''CVC kho^ng ho+.p le^..'')]
           else []),
          ok_number v \<and> ok_month v \<and> ok_year v \<and> ok_cvc v))"

definition card_body :: "card_form \<Rightarrow> jsval" where
  "card_body f =
     JObj [(''number'', JStr (cf_number f)), (''name'', JStr (cf_name f)),
           (''expiryMonth'', JStr (cf_month f)), (''expiryYear'', JStr (cf_year f)),
           (''cvc'', JStr (cf_cvc f)), (''cardType'', JStr (cf_type f)), (''type'', JStr (cf_type f))]"

definition AddCard_handleSubmit ::
    "(string \<Rightarrow> string option) \<Rightarrow> nat \<Rightarrow> nat \<Rightarrow> add_card \<Rightarrow> add_card \<times> effect list \<times> query_args option" where
  "AddCard_handleSubmit cardType currentYear currentMonth s =
     (case validateCardData cardType currentYear currentMonth s of
        (s', out, ok) \<Rightarrow>
          (s', out, if ok then Some (addCreditCard_query (card_body (formData s))) else None))"

text \<open>
  The answer, unwrapped: a refused request throws its error, an object with \<open>status\<close> and
  \<open>data\<close>.
\<close>

definition AddCard_catch :: "jsval \<Rightarrow> effect list" where
  "AddCard_catch e =
     (case path e [''data'', ''message''] of
        Inl e' \<Rightarrow> [Uncaught e']
      | Inr m \<Rightarrow> [Toast Error m])"

fun AddCard_resume :: "fetch_result \<Rightarrow> add_card \<Rightarrow> add_card \<times> effect list" where
  "AddCard_resume (Data d) s =
     (case get_prop d ''message'' of
        Inl e \<Rightarrow> (s, AddCard_catch e)
      | Inr m \<Rightarrow> (resetForm s, if truthy m then [Toast Success m] else []))"
| "AddCard_resume (FetchError status d) s =
     (s, AddCard_catch (JObj [(''status'', status), (''data'', d)]))"

datatype add_card_event =
    CardTyped string string
  | CardFocus string
  | CardSelect expiry_field string
  | CardSubmit
  | CardAnswered fetch_result

text \<open>The form along its events; the year and the month of the clock are those of a submit.\<close>

fun AddCard_step ::
    "(string \<Rightarrow> string option) \<Rightarrow> nat \<Rightarrow> nat \<Rightarrow> add_card \<Rightarrow> add_card_event \<Rightarrow> add_card" where
  "AddCard_step cardType currentYear currentMonth s (CardTyped field_name value) =
     AddCard_handleChange cardType field_name value s"
| "AddCard_step cardType currentYear currentMonth s (CardFocus field_name) = AddCard_handleInputFocus field_name s"
| "AddCard_step cardType currentYear currentMonth s (CardSelect field value) = AddCard_select field value s"
| "AddCard_step cardType currentYear currentMonth s CardSubmit =
     fst (AddCard_handleSubmit cardType currentYear currentMonth s)"
| "AddCard_step cardType currentYear currentMonth s (CardAnswered r) = fst (AddCard_resume r s)"

text \<open>A field without the property \<open>isValid\<close> is drawn as an invalid one.\<close>

definition InputField :: "string \<Rightarrow> string \<Rightarrow> string \<Rightarrow> bool \<Rightarrow> nat \<Rightarrow> add_card_event ui" where
  "InputField label field_name value isValid max_length =
     Box
       [Text label,
        Styled (if isValid then ''border-gray-300'' else ''border-gray-500'')
          [Click (CardFocus field_name) [Input [MaxLength max_length] ''text'' (JStr value) (CardTyped field_name)]]]"

definition SelectField :: "string \<Rightarrow> expiry_field \<Rightarrow> string list \<Rightarrow> bool \<Rightarrow> add_card_event ui" where
  "SelectField label field_name options isValid =
     Box
       [Text label, Text (''Cho.n '' @ to_lower label),
        Styled (if isValid then [] else ''border-red-500'')
          (map (\<lambda>opt. Click (CardSelect field_name opt) [Text opt]) options)]"

definition AddCreditCard_view :: "nat \<Rightarrow> bool \<Rightarrow> add_card \<Rightarrow> add_card_event ui" where
  "AddCreditCard_view currentYear isLoading s =
     (let f = formData s
      in Box
        [Box [Text (cf_number f), Text (cf_month f @ ''/'' @ cf_year f), Text (cf_cvc f), Text (cf_name f)],
         Form CardSubmit
           [InputField ''So^/ the?'' ''number'' (cf_number f) False 19,
            InputField ''Te^n chu? the?'' ''name'' (cf_name f) False 50,
            SelectField ''Tha/ng he^/t ha.n'' ExpiryMonth months (ok_month (validity s)),
            SelectField ''Na(m he^/t ha.n'' ExpiryYear (years currentYear) (ok_year (validity s)),
            InputField ''CVC'' ''cvc'' (cf_cvc f) (ok_cvc (validity s)) (cvvLength s),
            Btn isLoading CardSubmit [if isLoading then Icon ''LoadingIcon'' else Text ''The^m the?'']]])"

section \<open>Lemmas\<close>

lemma parse_int_show_nat: "n < 2 ^ 53 \<Longrightarrow> parse_int (show_nat n) = Fin (of_nat n)"
  using parse_int_digits [of "show_nat n"] by simp

lemma months_value:
  "list_all (\<lambda>m. digits (two_digits m) \<and> nat_of_digits (two_digits m) = m) [1, 2, 3, 4, 5, 6, 7, 8, 9, 10, 11, 12]"
  by code_simp

lemma parse_int_month: "m \<in> {1..12} \<Longrightarrow> parse_int (two_digits m) = Fin (of_nat m)"
proof -
  assume m: "m \<in> {1..12}"
  then have "m \<in> set [1, 2, 3, 4, 5, 6, 7, 8, 9, 10, 11, 12]"
    by (simp only: set_simps insert_iff empty_iff atLeastAtMost_iff) presburger
  then have "digits (two_digits m)" "nat_of_digits (two_digits m) = m"
    using months_value unfolding list_all_iff by blast+
  moreover have "m < 2 ^ 53" using m by simp
  ultimately show ?thesis using parse_int_digits [of "two_digits m"] by simp
qed

lemma isValidExpiry_iff:
  assumes "m \<in> {1..12}" and "y < 2 ^ 53"
  shows "isValidExpiry cy cm (two_digits m) (show_nat y) \<longleftrightarrow> cy < y \<or> (y = cy \<and> cm \<le> m)"
  unfolding isValidExpiry_def parse_int_month [OF assms(1)] parse_int_show_nat [OF assms(2)]
  by (auto simp: num_ge_def)

text \<open>
  The length of the code follows the number: once the number is not empty, it is the one of the
  issuer found for it. (A form that was reset after a success keeps the old length until the next
  number is typed.)
\<close>

definition code_length :: "string option \<Rightarrow> nat" where
  "code_length issuer = (if issuer = Some ''amex'' then 4 else 3)"

definition length_of_issuer :: "(string \<Rightarrow> string option) \<Rightarrow> add_card \<Rightarrow> bool" where
  "length_of_issuer cardType s \<longleftrightarrow>
     cf_number (formData s) \<noteq> [] \<longrightarrow> cvvLength s = code_length (cardType (cf_number (formData s)))"

lemma length_of_issuer_step:
  assumes "length_of_issuer cardType s"
  shows "length_of_issuer cardType (AddCard_step cardType cy cm s e)"
proof (cases e)
  case (CardTyped k v)
  with assms show ?thesis
    by (auto simp: length_of_issuer_def code_length_def AddCard_handleChange_def set_field_def Let_def)
next
  case (CardSelect k v)
  with assms show ?thesis by (cases k) (simp_all add: length_of_issuer_def)
next
  case (CardAnswered r)
  with assms show ?thesis
    by (cases r) (auto simp: length_of_issuer_def resetForm_def empty_card_def split: sum.splits)
qed (use assms in \<open>simp_all add: length_of_issuer_def AddCard_handleInputFocus_def AddCard_handleSubmit_def
      validateCardData_def Let_def\<close>)

interpretation add_card_form: component "AddCard_step cardType cy cm" "length_of_issuer cardType"
  for cardType cy cm
  by unfold_locales (rule length_of_issuer_step)

lemma length_of_issuer_init: "length_of_issuer cardType AddCreditCard_init"
  by (simp add: length_of_issuer_def AddCreditCard_init_def empty_card_def)

lemma submit_outcome:
  assumes "m \<in> {1..12}" and "y < 2 ^ 53"
    and "cf_month (formData s) = two_digits m" and "cf_year (formData s) = show_nat y"
    and "(s', out, r) = AddCard_handleSubmit cardType cy cm s"
  shows "(if (\<exists>t. cardType (cf_number (formData s)) = Some t \<and> t \<noteq> []) \<and>
             (cy < y \<or> (y = cy \<and> cm \<le> m)) \<and> length (cf_cvc (formData s)) = cvvLength s
          then r = Some (addCreditCard_query (card_body (formData s))) \<and> out = []
          else r = None \<and> (\<exists>msg. out = [Toast Error (JStr msg)])) \<and>
    formData s' = formData s"
proof -
  have ne: "two_digits m \<noteq> []" "show_nat y \<noteq> []" by (simp_all add: two_digits_def)
  have known: "(case cardType n of None \<Rightarrow> False | Some t \<Rightarrow> t \<noteq> []) \<longleftrightarrow> (\<exists>t. cardType n = Some t \<and> t \<noteq> [])" for n
    by (cases "cardType n") auto
  have result: "(s', out, r) = AddCard_handleSubmit cardType cy cm s" by (rule assms(5))
  show ?thesis
    using result
    unfolding AddCard_handleSubmit_def validateCardData_def Let_def assms(3,4)
      isValidExpiry_iff [OF assms(1,2)] known
    by (cases "\<exists>t. cardType (cf_number (formData s)) = Some t \<and> t \<noteq> []";
        cases "cy < y \<or> (y = cy \<and> cm \<le> m)"; cases "length (cf_cvc (formData s)) = cvvLength s")
      (simp_all add: ne)
qed

section \<open>Properties\<close>

text \<open>
  C37 What the form of a new card sends, after any sequence of events from its first render: for
  a month and a year of its lists, the request leaves exactly when the issuer of the number is
  known, the end of the chosen month is not before the current month, and the code has the length
  of that issuer, four characters for amex and three for every other; the request then has the
  fields of the form. Otherwise one message is shown. Of the issuer test it is used that the empty
  number has no issuer.
\<close>

theorem add_card_submits:
  assumes "s = run (AddCard_step cardType cy0 cm0) AddCreditCard_init es" and "cardType [] = None"
    and "m \<in> {1..12}" and "y < 2 ^ 53"
    and "cf_month (formData s) = two_digits m" and "cf_year (formData s) = show_nat y"
    and "(s', out, r) = AddCard_handleSubmit cardType cy cm s"
  shows "(if (\<exists>t. cardType (cf_number (formData s)) = Some t \<and> t \<noteq> [] \<and>
                length (cf_cvc (formData s)) = (if t = ''amex'' then 4 else 3)) \<and>
             (cy < y \<or> (y = cy \<and> cm \<le> m))
          then r = Some (addCreditCard_query (card_body (formData s))) \<and> out = []
          else r = None \<and> (\<exists>msg. out = [Toast Error (JStr msg)])) \<and>
    formData s' = formData s"
proof -
  have "length_of_issuer cardType s"
    unfolding assms(1) by (rule add_card_form.inv_run [OF length_of_issuer_init])
  then have "cvvLength s = (if t = ''amex'' then 4 else 3)"
    if "cardType (cf_number (formData s)) = Some t" for t
    using that assms(2) by (cases "cf_number (formData s) = []") (auto simp: length_of_issuer_def code_length_def)
  with submit_outcome [OF assms(3-7)] show ?thesis by (auto split: if_splits)
qed

text \<open>An issuer test that knows amex by its first digit.\<close>

definition issuer_example :: "string \<Rightarrow> string option" where
  "issuer_example n = (if n = [] then None else if hd n = CHR ''3'' then Some ''amex'' else Some ''visa'')"

theorem add_card_submits_witness:
  "\<exists>s' out f. AddCard_handleSubmit issuer_example 2025 6
      (run (AddCard_step issuer_example 2025 6) AddCreditCard_init
        [CardTyped ''number'' ''34'', CardSelect ExpiryMonth (two_digits 6),
         CardSelect ExpiryYear (show_nat 2025), CardTyped ''cvc'' ''1234''])
     = (s', out, Some (addCreditCard_query (card_body f))) \<and> cf_cvc f = ''1234'' \<and> cf_type f = ''amex''"
proof -
  let ?es = "[CardTyped ''number'' ''34'', CardSelect ExpiryMonth (two_digits 6),
              CardSelect ExpiryYear (show_nat 2025), CardTyped ''cvc'' ''1234'']"
  define s where "s = run (AddCard_step issuer_example 2025 6) AddCreditCard_init ?es"
  have n: "formatCreditCardNumber issuer_example ''34'' = ''34''" by code_simp
  have f: "formData s = \<lparr>cf_number = ''34'', cf_name = [], cf_month = two_digits 6,
      cf_year = show_nat 2025, cf_cvc = ''1234'', cf_type = ''amex''\<rparr>"
    by (simp add: s_def AddCard_handleChange_def n set_field_def Let_def AddCreditCard_init_def
        empty_card_def issuer_example_def)
  obtain s' out r where h: "(s', out, r) = AddCard_handleSubmit issuer_example 2025 6 s"
    by (metis prod_cases3)
  have "r = Some (addCreditCard_query (card_body (formData s)))"
    using add_card_submits [OF s_def _ _ _ _ _ h, of 6 2025] by (simp add: f issuer_example_def)
  with h f show ?thesis unfolding s_def [symmetric] by (metis card_form.select_convs(5,6))
qed

text \<open>
  The form never formats the security code of a card: what is typed into its field is stored
  as it is, digits or not, because the handler formats a field of another name. Any text of
  three characters is sent as the code of a card that is valid otherwise.
\<close>

lemma card_code_unformatted:
  "cf_cvc (formData (AddCard_handleChange cardType ''cvc'' value s)) = value \<and>
   cf_number (formData (AddCard_handleChange cardType ''cvc'' value s)) = cf_number (formData s) \<and>
   cf_number (formData (AddCard_handleChange cardType ''number'' value s)) = formatCreditCardNumber cardType value"
  by (simp add: AddCard_handleChange_def set_field_def Let_def)

text \<open>
  C39 A card is deleted only after its dialog: the requests of any run delete cards whose
  deletion was asked for; the button that sends one is on the page exactly when a card is
  waiting for its confirmation; and after the answer, whatever it is, no card is.
\<close>

theorem card_deletion_confirmed:
  "set (fst (deletions handleDeleteCard cancelDeleteCard confirmDeleteCard card_other_step es initial_card_page))
     \<subseteq> set (asked es) \<and>
   (ConfirmDeleteCard \<in> set (clickable (CreditCard_view False isDeleting cards s)) \<longleftrightarrow> card_target s \<noteq> None) \<and>
   card_target (fst (confirmDeleteCard_resume r s)) = None"
proof (intro conjI)
  show "set (fst (deletions handleDeleteCard cancelDeleteCard confirmDeleteCard card_other_step es initial_card_page))
      \<subseteq> set (asked es)"
    using card_deletion.deletes_only_asked [of es initial_card_page]
    by (simp add: card_target_def initial_card_page_def)
  show "ConfirmDeleteCard \<in> set (clickable (CreditCard_view False isDeleting cards s)) \<longleftrightarrow> card_target s \<noteq> None"
    by (auto simp: CreditCard_view_def card_tile_def card_picture_def split: option.splits list.splits)
  show "card_target (fst (confirmDeleteCard_resume r s)) = None"
    by (simp add: confirmDeleteCard_resume_def card_target_def Let_def)
qed

end
