(* ===== verification/Widgets.thy ===== *)
theory Widgets
  imports TransferFlow
begin

text \<open>
  The small components several pages render: the headers of \<^verbatim>\<open>components/header\<close>, the page for
  unknown addresses, the button of \<^verbatim>\<open>components/button/button_event.tsx\<close>, and the
  \<open>queries\<close> a page waits for. A query is loading, failed, or has data.
\<close>

datatype query = QLoading | QError | QData jsval

fun query_data :: "query \<Rightarrow> jsval" where
  "query_data (QData d) = d"
| "query_data _ = Undef"

text \<open>
  The library of the queries is \<^verbatim>\<open>@tanstack/react-query\<close>; \<^verbatim>\<open>main.tsx\<close> sets the time after which
  data are stale and leaves its other documented defaults. A call of the query function that fails
  is repeated, after a pause, up to three times, as long as a component shows the query. A query
  is called when such a component is mounted or the window gets the focus (or the network) back,
  and the data are missing or stale. One call is live at a time.
\<close>

definition default_retry :: nat where
  "default_retry = 3"

definition PageNotFound_view :: "'e ui" where
  "PageNotFound_view =
     Box [Text ''404'', Text ''Oops!'', Text ''Xin lo^~i, kho^ng the^? ti`m tha^/y trang. '',
          Link ''/'' [Text ''Tro+? ve^` trang chu?'']]"

definition HeaderDefault :: "'e \<Rightarrow> string \<Rightarrow> 'e ui" where
  "HeaderDefault back title = Box [Click back [Icon ''back_arrow.svg''], Text title]"

definition HeaderTransfer :: "'e \<Rightarrow> string \<Rightarrow> 'e ui" where
  "HeaderTransfer onClick title = Box [Click onClick [Icon ''back_arrow.svg''], Text title]"

definition Header :: "'e ui" where
  "Header =
     Box [Link ''/'' [Img (JStr ''auth_img1.jpg''), Text ''Vaulta''], Img Undef]"

definition ButtonEvent :: "'e \<Rightarrow> string \<Rightarrow> 'e ui" where
  "ButtonEvent onClick label = Btn False onClick [Text label]"

section \<open>Assets\<close>

text \<open>The row of an asset on the home page, the one of the transfer page, and their placeholder.\<close>

definition ItemCurrency_home :: "intl_format \<Rightarrow> string \<Rightarrow> jsval \<Rightarrow> string \<Rightarrow> string \<Rightarrow> 'e ui throws" where
  "ItemCurrency_home intl image_file item symb title =
     throws_bind (formatCurrency intl (get_oprop item ''balance'') (JStr symb)) (\<lambda>t.
       Inr (Box [Img (JStr image_file), Text title, Text t]))"

definition ItemCurrency_transfer :: "string \<Rightarrow> string \<Rightarrow> 'e ui" where
  "ItemCurrency_transfer image_file title =
     Box [Img (JStr image_file), Text title, Text ''dd23,000'', Text ''1200'', Text ''dd2,300,000'']"

definition ItemCurrencyLoading :: "'e ui" where
  "ItemCurrencyLoading = Styled ''animate-pulse'' [Box [], Box []]"

definition ButtonFeature :: "string \<Rightarrow> string \<Rightarrow> string \<Rightarrow> 'e ui" where
  "ButtonFeature to image_file title = Link to [Img (JStr image_file), Text title]"

end
