(* ===== verification/Payment.thy ===== *)
theory Payment
  imports Widgets ReauthQuery
begin

text \<open>
  Paying an order: \<^verbatim>\<open>pages/payment\<close> and \<^verbatim>\<open>components/payment\<close>. The page waits for the bill; its
  voucher sheet sends a code to the server and hands the accepted code and the new total to the
  page; its security drawer (theory \<^verbatim>\<open>OtpDrawers\<close>) confirms the payment with the voucher code
  the page holds. Requests are answered in any order: a pending voucher call is kept with the
  continuation it belongs to.
\<close>

section \<open>The page and its voucher sheet\<close>

text \<open>
  A call of the server with a voucher code: from the form, whose continuation reads its input
  field again (the field is given by its index among the fields mounted so far), or from the
  button of a listed voucher.
\<close>

datatype voucher_call = FormCall nat jsval | ItemCall jsval

fun sent_code :: "voucher_call \<Rightarrow> jsval" where
  "sent_code (FormCall _ c) = c"
| "sent_code (ItemCall c) = c"

record payment_page =
  bill :: query
  newAmount :: jsval
  voucherCode :: jsval
  pay_open :: bool
  voucher_open :: bool
  voucherData :: jsval
  vouchers_loading :: bool
  code_inputs :: "string list"
  voucher_calls :: "voucher_call list"

definition PaymentGateway_init :: payment_page where
  "PaymentGateway_init =
     \<lparr>bill = QLoading, newAmount = Undef, voucherCode = Undef, pay_open = False,
      voucher_open = False, voucherData = Undef, vouchers_loading = True, code_inputs = [],
      voucher_calls = []\<rparr>"

datatype payment_event =
    BillAnswer reply
  | VouchersAnswer reply
  | TogglePay
  | ToggleVoucher
  | VoucherTyped string
  | VoucherSubmitted
  | VoucherUsed jsval
  | VoucherAnswer nat reply
  | PayDrawer drawer_event

text \<open>The order is named by the \<open>token\<close> of the address, \<open>null\<close> when there is none.\<close>

definition bill_request :: "vite_env \<Rightarrow> string \<Rightarrow> api_request" where
  "bill_request env address =
     paymentAPI env
       (case map_of (query_pairs (query_of address)) ''token'' of None \<Rightarrow> Null | Some t \<Rightarrow> JStr t)"

text \<open>The query of the bill: each time it runs it also resets the total.\<close>

fun bill_answer :: "reply \<Rightarrow> payment_page \<Rightarrow> payment_page" where
  "bill_answer (Resolved status d) s =
     (case get_prop d ''amount'' of
        Inl e \<Rightarrow> s\<lparr>bill := QError\<rparr>
      | Inr amount \<Rightarrow> s\<lparr>newAmount := amount, bill := QData d\<rparr>)"
| "bill_answer (Failed e) s = s\<lparr>bill := QError\<rparr>"

definition transactionID :: "payment_page \<Rightarrow> jsval" where
  "transactionID s = get_oprop (query_data (bill s)) ''_id''"

definition handleApplyVoucher :: "jsval \<Rightarrow> jsval \<Rightarrow> payment_page \<Rightarrow> payment_page" where
  "handleApplyVoucher c amount s =
     s\<lparr>newAmount := amount, voucherCode := c, voucher_open := False\<rparr>"

definition handleOpenVoucher :: "payment_page \<Rightarrow> payment_page" where
  "handleOpenVoucher s =
     s\<lparr>voucher_open := \<not> voucher_open s,
       code_inputs := (if voucher_open s then code_inputs s else code_inputs s @ [[]])\<rparr>"

definition handleClose :: "payment_page \<Rightarrow> payment_page" where
  "handleClose s = s\<lparr>pay_open := \<not> pay_open s\<rparr>"

text \<open>The effect of the sheet's mount asks for the partner's vouchers.\<close>

fun fetchVoucher_resume :: "reply \<Rightarrow> payment_page \<Rightarrow> payment_page" where
  "fetchVoucher_resume (Resolved status d) s =
     (if status = 200
      then (case get_prop d ''data'' of
              Inl e \<Rightarrow> s\<lparr>vouchers_loading := False\<rparr>
            | Inr vs \<Rightarrow> s\<lparr>voucherData := vs, vouchers_loading := False\<rparr>)
      else s)"
| "fetchVoucher_resume (Failed e) s = s\<lparr>vouchers_loading := False\<rparr>"

definition fetchVoucher :: "vite_env \<Rightarrow> payment_page \<Rightarrow> api_request throws" where
  "fetchVoucher env s =
     throws_bind (qpath (query_data (bill s)) [''partnerID'', ''_id'']) (\<lambda>partner.
       Inr (getVouchersPartner env (js_coalesce partner (JStr []))))"

text \<open>The two handlers of the sheet send the same request.\<close>

definition voucher_request :: "payment_page \<Rightarrow> jsval \<Rightarrow> api_request" where
  "voucher_request s c =
     applyVoucher_request (JObj [(''transactionID'', transactionID s), (''code'', c)])"

definition voucher_catch :: "jsval \<Rightarrow> effect list" where
  "voucher_catch e =
     (case path e [''response'', ''data'', ''message''] of
        Inl e' \<Rightarrow> [Uncaught e']
      | Inr m \<Rightarrow> [Toast Error m])"

definition handed_code :: "payment_page \<Rightarrow> voucher_call \<Rightarrow> jsval" where
  "handed_code s v = (case v of FormCall i _ \<Rightarrow> JStr (code_inputs s ! i) | ItemCall c \<Rightarrow> c)"

fun applyVoucher_resume :: "voucher_call \<Rightarrow> reply \<Rightarrow> payment_page \<Rightarrow> payment_page \<times> effect list" where
  "applyVoucher_resume v (Resolved status d) s =
     (if status = 200
      then (case get_prop d ''data'' of
              Inl e \<Rightarrow> (s, voucher_catch e)
            | Inr amount \<Rightarrow>
                ((handleApplyVoucher (handed_code s v) amount s)\<lparr>vouchers_loading := False\<rparr>,
                 [Toast Success (JStr ''A/p du.ng voucher tha`nh co^ng'')]))
      else (s, []))"
| "applyVoucher_resume v (Failed e) s = (s, voucher_catch e)"

definition submit_voucher :: "payment_page \<Rightarrow> payment_page \<times> effect list \<times> api_request list" where
  "submit_voucher s =
     (if code_inputs s = [] then (s, voucher_catch type_error, [])
      else (let c = JStr (last (code_inputs s))
            in (s\<lparr>voucher_calls := voucher_calls s @ [FormCall (length (code_inputs s) - 1) c]\<rparr>,
                [], [voucher_request s c])))"

definition handleAvailableApplyVoucher ::
    "jsval \<Rightarrow> payment_page \<Rightarrow> payment_page \<times> effect list \<times> api_request list" where
  "handleAvailableApplyVoucher c s =
     (s\<lparr>voucher_calls := voucher_calls s @ [ItemCall c]\<rparr>, [], [voucher_request s c])"

text \<open>The page with its sheet; the drawer's own events do not reach this state.\<close>

fun Payment_step :: "payment_page \<Rightarrow> payment_event \<Rightarrow> payment_page \<times> effect list \<times> api_request list" where
  "Payment_step s (BillAnswer a) = (bill_answer a s, [], [])"
| "Payment_step s (VouchersAnswer a) = (fetchVoucher_resume a s, [], [])"
| "Payment_step s TogglePay = (handleClose s, [], [])"
| "Payment_step s ToggleVoucher = (handleOpenVoucher s, [], [])"
| "Payment_step s (VoucherTyped v) =
     (s\<lparr>code_inputs := (if code_inputs s = [] then [] else butlast (code_inputs s) @ [v])\<rparr>, [], [])"
| "Payment_step s VoucherSubmitted = submit_voucher s"
| "Payment_step s (VoucherUsed c) = handleAvailableApplyVoucher c s"
| "Payment_step s (VoucherAnswer i a) =
     (if i < length (voucher_calls s)
      then (case applyVoucher_resume (voucher_calls s ! i) a
                   (s\<lparr>voucher_calls := take i (voucher_calls s) @ drop (Suc i) (voucher_calls s)\<rparr>) of
              (s', out) \<Rightarrow> (s', out, []))
      else (s, [], []))"
| "Payment_step s (PayDrawer e) = (s, [], [])"

definition Payment_next :: "payment_page \<Rightarrow> payment_event \<Rightarrow> payment_page" where
  "Payment_next s e = fst (Payment_step s e)"

fun payment_requests :: "payment_page \<Rightarrow> payment_event list \<Rightarrow> api_request list" where
  "payment_requests s [] = []"
| "payment_requests s (e # es) = snd (snd (Payment_step s e)) @ payment_requests (Payment_next s e) es"

text \<open>What the drawer of the page sends for a security code.\<close>

definition payment_request :: "payment_page \<Rightarrow> string \<Rightarrow> api_request" where
  "payment_request s security_code =
     PaymentDrawer_request (transactionID s) (voucherCode s) security_code"


section \<open>What the page shows\<close>

text \<open>A voucher can be used when the amount of the bill is above its condition.\<close>

definition VoucherItem :: "jsval \<Rightarrow> jsval \<Rightarrow> payment_event ui throws" where
  "VoucherItem amount item =
     throws_bind (get_prop item ''image'') (\<lambda>img.
     throws_bind (get_prop item ''title'') (\<lambda>title.
     throws_bind (get_prop item ''quantity'') (\<lambda>quantity.
     throws_bind (get_prop item ''min_condition'') (\<lambda>min_condition.
       Inr (Box
         [Img (if truthy img then img else JStr []), Expr title,
          Text ''Co`n la.i:'', Expr quantity,
          if js_greater amount min_condition
          then Btn False (VoucherUsed (get_oprop item ''code'')) [Text ''Su+? du.ng'']
          else Btn True (VoucherUsed (get_oprop item ''code'')) [Text ''Kho^ng ddu? ddie^`u kie^.n'']])))))"

text \<open>\<open>voucherData?.map\<close>: nothing when there are no vouchers; other values have no \<open>map\<close>.\<close>

definition VoucherItems :: "jsval \<Rightarrow> jsval \<Rightarrow> payment_event ui throws" where
  "VoucherItems amount vs =
     (if nullish vs then Inr (Box [])
      else (case vs of
              JArr items \<Rightarrow> throws_bind (map_throws (VoucherItem amount) items) (\<lambda>us. Inr (Box us))
            | _ \<Rightarrow> Inl type_error))"

definition ApplyVoucher_view :: "payment_page \<Rightarrow> jsval \<Rightarrow> payment_event ui throws" where
  "ApplyVoucher_view s amount =
     throws_bind (if vouchers_loading s then Inr (Text ''Loading'') else VoucherItems amount (voucherData s))
       (\<lambda>items.
          Inr (Sheet (voucher_open s) ToggleVoucher
            [Click ToggleVoucher [Icon ''close.svg''],
             Form VoucherSubmitted
               [Field ''input'' (JStr (if code_inputs s = [] then [] else last (code_inputs s))) VoucherTyped,
                Text ''A/p du.ng''],
             items]))"

text \<open>The clock and the date format of the host are parameters of the page.\<close>

definition PaymentGateway_view ::
    "intl_format \<Rightarrow> date_format \<Rightarrow> jsval \<Rightarrow> drawer \<Rightarrow> payment_page \<Rightarrow> payment_event ui throws" where
  "PaymentGateway_view intl fmt_date now drw s =
     (case bill s of
        QError \<Rightarrow> Inr PageNotFound_view
      | QLoading \<Rightarrow> Inr Loading
      | QData d \<Rightarrow>
          throws_bind (qpath d [''partnerID'', ''name'']) (\<lambda>partner.
          throws_bind (qpath d [''currency'', ''symbol'']) (\<lambda>symb.
          throws_bind (formatCurrency intl (get_oprop d ''amount'') symb) (\<lambda>amount_text.
          throws_bind (fmt_date (js_or (get_oprop d ''createdAt'') now)) (\<lambda>date_text.
          throws_bind (formatCurrency intl (newAmount s) symb) (\<lambda>total_text.
          throws_bind (ApplyVoucher_view s (js_coalesce (get_oprop d ''amount'') (JNum (Fin 1)))) (\<lambda>sheet.
            Inr (Box
              [Text ''Thanh toa/n ho/a ddo+n'',
               Text ''Ho/a ddo+n tu+` '', Expr partner, Text amount_text, Text date_text,
               Text ''Tho^ng tin sa?n pha^?m'',
               Text ''Te^n sa?n pha^?m'', Expr (get_oprop d ''message''),
               Text ''Ma~ ddo+n ha`ng'', Expr (get_oprop d ''orderID''),
               Text ''Giao di.ch he^/t ha.n sau'', Text ''5p'',
               Text ''U+u dda~i'',
               Click ToggleVoucher
                 [Text (if truthy (voucherCode s)
                        then ''DDang a/p du.ng voucher '' @ js_text (voucherCode s)
                        else ''Cho.n the? qua` ta(.ng'')],
               Text ''To^?ng tie^`n'', Text total_text,
               Click TogglePay [Text ''Thanh toa/n''],
               map_ui (\<lambda>e. if e = DrawerClose then TogglePay else PayDrawer e)
                 (PaymentDrawer_view (pay_open s) drw),
               sheet]))))))))"

section \<open>Scanning a code\<close>

text \<open>
  The camera gives a screenshot (falsy when it is not ready) every second; \<open>decode\<close> is the
  reader of \<^verbatim>\<open>jsqr\<close> on the picture. The address is followed as it was read.
\<close>

definition captureAndDecode ::
    "(jsval \<Rightarrow> string option) \<Rightarrow> bool \<Rightarrow> jsval \<Rightarrow> jsval \<Rightarrow> jsval \<times> effect list" where
  "captureAndDecode decode has_context screenshot qrCodeData =
     (if \<not> truthy screenshot \<or> \<not> has_context then (qrCodeData, [])
      else (case decode screenshot of
              None \<Rightarrow> (qrCodeData, [])
            | Some t \<Rightarrow> (JStr t, [Redirect (JStr t)])))"

definition ScanQR_view :: "unit ui" where
  "ScanQR_view = Box [Icon ''webcam'', Text ''Que/t ma~ QR dde^? thanh toa/n hoa(.c chuye^?n tie^`n'']"

section \<open>The result of a payment\<close>

definition PaymentResults_request :: "jsval \<Rightarrow> api_request throws" where
  "PaymentResults_request location_state =
     throws_bind (get_prop location_state ''id'') (\<lambda>i. Inr (getTransactionAPI i))"

fun PaymentResults_answer :: "reply \<Rightarrow> query" where
  "PaymentResults_answer (Resolved status d) =
     (case get_prop d ''data'' of
        Inl e \<Rightarrow> QError
      | Inr t \<Rightarrow> if t = Undef then QError else QData t)"
| "PaymentResults_answer (Failed e) = QError"

definition PaymentResults_view ::
    "intl_format \<Rightarrow> date_format \<Rightarrow> jsval \<Rightarrow> jsval \<Rightarrow> query \<Rightarrow> unit ui throws" where
  "PaymentResults_view intl fmt_date now location_state q =
     throws_bind (get_prop location_state ''id'') (\<lambda>_.
       if q = QLoading then Inr Loading
       else
         throws_bind (qpath (query_data q) [''currency'', ''symbol'']) (\<lambda>symb.
         throws_bind (formatCurrency intl (get_oprop (query_data q) ''amount'') symb) (\<lambda>amount_text.
         throws_bind (fmt_date (js_coalesce (get_oprop (query_data q) ''createdAt'') now)) (\<lambda>date_text.
         throws_bind (qpath (query_data q) [''partnerID'', ''name'']) (\<lambda>partner.
           Inr (Box
             [Link ''/'' [Icon ''home.svg''], Img (JStr ''ic_success.png''),
              Text ''Thanh toa/n tha`nh co^ng'', Text amount_text, Text date_text,
              Text ''Tho^ng tin sa?n pha^?m'',
              Text ''Te^n sa?n pha^?m'', Expr (get_oprop (query_data q) ''message''),
              Text ''Nha` cung ca^/p'', Expr partner,
              Link ''/'' [Text ''Quay ve^`''], Link ''/'' [Text ''Tie^/p tu.c thanh toa/n'']]))))))"

definition SelectOptions_view :: "'e \<Rightarrow> (string \<Rightarrow> 'e) \<Rightarrow> 'e ui" where
  "SelectOptions_view ignored typed_ignored =
     Box
       [Text ''Cho.n ca/ch thanh toa/n'', Text ''Thanh toa/n vo+/i ma~ thanh toa/n'',
        Field ''Nha^.p ma~ thanh toa/n'' Undef typed_ignored,
        Text ''Thanh toa/n vo+/i ma~ thanh toa/n'', Btn False ignored [Text ''Thanh toa/n ngay'']]"

definition details_invoice_view :: "unit ui" where
  "details_invoice_view = Box [Text ''details_invoice'']"

section \<open>The applied voucher\<close>

text \<open>The pairs of code and total the server accepted along a run, oldest first.\<close>

fun accepted :: "payment_page \<Rightarrow> payment_event \<Rightarrow> (jsval \<times> jsval) list" where
  "accepted s (VoucherAnswer i (Resolved status d)) =
     (if i < length (voucher_calls s) \<and> status = 200
      then (case get_prop d ''data'' of
              Inl e \<Rightarrow> []
            | Inr amount \<Rightarrow> [(sent_code (voucher_calls s ! i), amount)])
      else [])"
| "accepted s _ = []"

fun accepted_run :: "payment_page \<Rightarrow> payment_event list \<Rightarrow> (jsval \<times> jsval) list" where
  "accepted_run s [] = []"
| "accepted_run s (e # es) = accepted s e @ accepted_run (Payment_next s e) es"

text \<open>A run in which the form is left alone while its call is pending and the bill is not reloaded.\<close>

fun is_form_call :: "voucher_call \<Rightarrow> bool" where
  "is_form_call (FormCall _ _) = True"
| "is_form_call (ItemCall _) = False"

fun undisturbed :: "payment_page \<Rightarrow> payment_event \<Rightarrow> bool" where
  "undisturbed s (VoucherTyped _) = list_all (\<lambda>v. \<not> is_form_call v) (voucher_calls s)"
| "undisturbed s (BillAnswer _) = False"
| "undisturbed s _ = True"

fun undisturbed_run :: "payment_page \<Rightarrow> payment_event list \<Rightarrow> bool" where
  "undisturbed_run s [] = True"
| "undisturbed_run s (e # es) = (undisturbed s e \<and> undisturbed_run (Payment_next s e) es)"

text \<open>A pending form call still finds in its field the code it sent.\<close>

fun call_ok :: "string list \<Rightarrow> voucher_call \<Rightarrow> bool" where
  "call_ok inputs (FormCall i c) = (i < length inputs \<and> c = JStr (inputs ! i))"
| "call_ok inputs (ItemCall c) = True"

definition calls_ok :: "payment_page \<Rightarrow> bool" where
  "calls_ok s \<longleftrightarrow> list_all (call_ok (code_inputs s)) (voucher_calls s)"

lemma call_ok_more: "call_ok xs v \<Longrightarrow> call_ok (xs @ ys) v"
  by (cases v) (auto simp: nth_append)

lemma call_ok_no_form: "\<not> is_form_call v \<Longrightarrow> call_ok xs v"
  by (cases v) simp_all

lemma handed_code_ok: "call_ok (code_inputs s) v \<Longrightarrow> handed_code s v = sent_code v"
  by (cases v) (simp_all add: handed_code_def)

lemma list_all_remove:
  "list_all P xs \<Longrightarrow> list_all P (take i xs)"
  "list_all P xs \<Longrightarrow> list_all P (drop i xs)"
  by (auto simp: list_all_iff dest: in_set_takeD in_set_dropD)

lemma resume_code_inputs [simp]: "code_inputs (fst (applyVoucher_resume v a s)) = code_inputs s"
  by (cases a) (auto simp: handleApplyVoucher_def split: sum.splits)

lemma resume_voucher_calls [simp]: "voucher_calls (fst (applyVoucher_resume v a s)) = voucher_calls s"
  by (cases a) (auto simp: handleApplyVoucher_def split: sum.splits)

lemma resume_bill [simp]: "bill (fst (applyVoucher_resume v a s)) = bill s"
  by (cases a) (auto simp: handleApplyVoucher_def split: sum.splits)

lemma fetchVoucher_resume_keeps [simp]:
  "code_inputs (fetchVoucher_resume a s) = code_inputs s"
  "voucher_calls (fetchVoucher_resume a s) = voucher_calls s"
  "bill (fetchVoucher_resume a s) = bill s"
  "newAmount (fetchVoucher_resume a s) = newAmount s"
  "voucherCode (fetchVoucher_resume a s) = voucherCode s"
  by (cases a; auto split: sum.splits)+


lemma calls_ok_step:
  assumes ok: "calls_ok s" and quiet: "undisturbed s e"
  shows "calls_ok (Payment_next s e)"
proof (cases e)
  case (VoucherTyped v)
  with quiet have "list_all (\<lambda>w. \<not> is_form_call w) (voucher_calls s)" by simp
  with VoucherTyped show ?thesis
    by (auto simp: calls_ok_def Payment_next_def list_all_iff intro: call_ok_no_form)
next
  case (VoucherAnswer i a)
  with ok show ?thesis
    by (auto simp: calls_ok_def Payment_next_def split_beta intro: list_all_remove)
next
  case ToggleVoucher
  with ok show ?thesis
    by (auto simp: calls_ok_def Payment_next_def handleOpenVoucher_def list_all_iff intro: call_ok_more)
next
  case VoucherSubmitted
  with ok show ?thesis
    by (auto simp: calls_ok_def Payment_next_def submit_voucher_def Let_def last_conv_nth)
qed (use ok quiet in \<open>auto simp: calls_ok_def Payment_next_def handleClose_def
        handleAvailableApplyVoucher_def\<close>)

text \<open>An undisturbed step changes code and total exactly when the server accepts a voucher.\<close>

definition voucher_pair :: "payment_page \<Rightarrow> jsval \<times> jsval" where
  "voucher_pair s = (voucherCode s, newAmount s)"

lemma voucher_pair_step:
  assumes "calls_ok s" "undisturbed s e"
  shows "voucher_pair (Payment_next s e) = last (voucher_pair s # accepted s e)"
proof (cases e)
  case (VoucherAnswer i a)
  show ?thesis
  proof (cases "i < length (voucher_calls s)")
    case True
    with assms(1) have "handed_code s (voucher_calls s ! i) = sent_code (voucher_calls s ! i)"
      by (auto simp: calls_ok_def list_all_length intro: handed_code_ok)
    with True VoucherAnswer show ?thesis
      by (cases a) (auto simp: voucher_pair_def Payment_next_def handleApplyVoucher_def handed_code_def
          split: sum.splits voucher_call.splits)
  next
    case False
    with VoucherAnswer show ?thesis by (cases a) (auto simp: Payment_next_def)
  qed
qed (use assms in \<open>auto simp: voucher_pair_def Payment_next_def handleClose_def handleOpenVoucher_def
        submit_voucher_def handleAvailableApplyVoucher_def Let_def\<close>)

lemma transactionID_step: "undisturbed s e \<Longrightarrow> transactionID (Payment_next s e) = transactionID s"
  by (cases e) (auto simp: transactionID_def Payment_next_def handleClose_def handleOpenVoucher_def
      submit_voucher_def handleAvailableApplyVoucher_def Let_def split_beta)

lemma voucher_pair_run:
  "calls_ok s \<Longrightarrow> undisturbed_run s es \<Longrightarrow>
     voucher_pair (run Payment_next s es) = last (voucher_pair s # accepted_run s es) \<and>
     transactionID (run Payment_next s es) = transactionID s"
proof (induction es arbitrary: s)
  case Nil
  then show ?case by simp
next
  case (Cons e es)
  then have "calls_ok (Payment_next s e)" by (auto intro: calls_ok_step)
  with Cons show ?case
    by (auto simp: voucher_pair_step transactionID_step last_append)
qed

section \<open>The vouchers on offer\<close>

lemma VoucherItem_clickable:
  "VoucherItem amount item = Inr u \<Longrightarrow>
     clickable u = (if js_greater amount (get_oprop item ''min_condition'')
                    then [VoucherUsed (get_oprop item ''code'')] else [])"
  by (auto simp: VoucherItem_def throws_bind_Inr_iff get_oprop_def split: sum.splits)

lemma VoucherItems_clickable:
  assumes "VoucherItems amount (JArr items) = Inr u"
  shows "clickable u =
    map (\<lambda>item. VoucherUsed (get_oprop item ''code''))
      (filter (\<lambda>item. js_greater amount (get_oprop item ''min_condition'')) items)"
proof -
  from assms obtain us where us: "list_all2 (\<lambda>x v. VoucherItem amount x = Inr v) items us" and u: "u = Box us"
    by (auto simp: VoucherItems_def nullish_def throws_bind_Inr_iff map_throws_Inr)
  from us have "concat (map clickable us) =
      map (\<lambda>item. VoucherUsed (get_oprop item ''code''))
        (filter (\<lambda>item. js_greater amount (get_oprop item ''min_condition'')) items)"
    by (induction rule: list_all2_induct) (auto simp: VoucherItem_clickable)
  with u show ?thesis by simp
qed

section \<open>Properties\<close>

text \<open>
  C8 The payment carries the voucher the total was computed with. From any moment at which no
  voucher call is pending, however the user opens and closes the sheet, types, submits codes and
  picks listed vouchers, and in whichever order and with whichever outcome the server answers,
  as long as the code is not edited while its call is pending and the bill is not reloaded: once
  the server has accepted a voucher, the total shown is the total it answered last, and the
  request that confirms the payment names the code that was sent for it.
\<close>
theorem payment_uses_applied_voucher:
  assumes "voucher_calls s = []"
    and "undisturbed_run s es"
    and "accepted_run s es = earlier @ [(c, amt)]"
  shows "newAmount (run Payment_next s es) = amt \<and>
    payment_request (run Payment_next s es) security_code =
      confirmPaymentAPI
        (JObj [(''security_code'', JStr security_code), (''transactionID'', transactionID s),
               (''voucher_code'', c)])"
proof -
  have "calls_ok s" using assms(1) by (simp add: calls_ok_def)
  then have "voucher_pair (run Payment_next s es) = (c, amt)"
    and "transactionID (run Payment_next s es) = transactionID s"
    using voucher_pair_run [of s es] assms(2,3) by auto
  then show ?thesis
    by (simp add: voucher_pair_def payment_request_def PaymentDrawer_request_def)
qed

definition order_page :: payment_page where
  "order_page = fst (Payment_step PaymentGateway_init
     (BillAnswer (Resolved 200 (JObj [(''_id'', JStr ''o1''), (''amount'', JNum (Fin 90000))]))))"

definition price :: "nat \<Rightarrow> reply" where
  "price n = Resolved 200 (JObj [(''data'', JNum (Fin (of_nat n)))])"

theorem payment_uses_applied_voucher_witness:
  "let es = [ToggleVoucher, VoucherTyped ''TET'', VoucherSubmitted, VoucherUsed (JStr ''VIP''),
             VoucherAnswer 1 (price 70000), VoucherAnswer 0 (price 80000)]
   in newAmount (run Payment_next order_page es) = JNum (Fin 80000) \<and>
      payment_request (run Payment_next order_page es) ''123456'' =
        confirmPaymentAPI
          (JObj [(''security_code'', JStr ''123456''), (''transactionID'', JStr ''o1''),
                 (''voucher_code'', JStr ''TET'')])"
  using payment_uses_applied_voucher
    [of order_page "[ToggleVoucher, VoucherTyped ''TET'', VoucherSubmitted, VoucherUsed (JStr ''VIP''),
        VoucherAnswer 1 (price 70000), VoucherAnswer 0 (price 80000)]"
       "[(JStr ''VIP'', JNum (Fin 70000))]" "JStr ''TET''" "JNum (Fin 80000)" "''123456''"]
  by (simp add: order_page_def PaymentGateway_init_def Payment_next_def price_def handleOpenVoucher_def
      submit_voucher_def handleAvailableApplyVoucher_def handleApplyVoucher_def transactionID_def
      handed_code_def Let_def)

text \<open>
  The code is read from its field again after the answer: a user who submits one code and
  types another before the answer arrives has the server's total for the first code shown, and
  pays with the second, which the server never saw.
\<close>
lemma edited_voucher_is_paid_with:
  assumes "voucher_open s = False" and "voucher_calls s = []"
    and "es = [ToggleVoucher, VoucherTyped c1, VoucherSubmitted, VoucherTyped c2,
               VoucherAnswer 0 (Resolved 200 (JObj [(''data'', amt)]))]"
  shows "payment_requests s es = [voucher_request s (JStr c1)] \<and>
    newAmount (run Payment_next s es) = amt \<and>
    payment_request (run Payment_next s es) security_code =
      PaymentDrawer_request (transactionID s) (JStr c2) security_code"
  using assms
  by (simp add: Payment_next_def handleOpenVoucher_def submit_voucher_def handed_code_def
      handleApplyVoucher_def voucher_request_def payment_request_def transactionID_def nth_append Let_def)

lemma edited_voucher_is_paid_with_witness:
  "payment_request
     (run Payment_next order_page
        [ToggleVoucher, VoucherTyped ''TET'', VoucherSubmitted, VoucherTyped ''X'', VoucherAnswer 0 (price 80000)])
     ''123456'' = PaymentDrawer_request (JStr ''o1'') (JStr ''X'') ''123456''"
  using edited_voucher_is_paid_with [of order_page _ "''TET''" "''X''" "JNum (Fin 80000)" "''123456''"]
  by (simp add: order_page_def PaymentGateway_init_def price_def transactionID_def)

text \<open>Reloading the bill puts the full amount back and keeps the voucher.\<close>

lemma reloaded_bill_keeps_voucher:
  "newAmount (bill_answer (Resolved 200 (JObj (fs @ [(''amount'', full)]))) s) =
     (case map_of fs ''amount'' of None \<Rightarrow> full | Some v \<Rightarrow> v) \<and>
   voucherCode (bill_answer (Resolved 200 (JObj (fs @ [(''amount'', full)]))) s) = voucherCode s"
  by (auto split: option.splits)


text \<open>
  C36 The sheet offers, in the server's order, exactly the vouchers whose condition the amount of
  the bill exceeds (equality does not suffice): besides closing the sheet and submitting the
  form, these are the only things a click can do, and a closed sheet offers nothing.
\<close>
theorem vouchers_offered:
  assumes "ApplyVoucher_view s amount = Inr u"
    and "voucherData s = JArr items" and "\<not> vouchers_loading s"
  shows "clickable u =
    (if voucher_open s
     then [ToggleVoucher, ToggleVoucher, VoucherSubmitted] @
          map (\<lambda>item. VoucherUsed (get_oprop item ''code''))
            (filter (\<lambda>item. js_greater amount (get_oprop item ''min_condition'')) items)
     else [])"
proof -
  from assms obtain v where v: "VoucherItems amount (JArr items) = Inr v"
    and u: "u = Sheet (voucher_open s) ToggleVoucher
            [Click ToggleVoucher [Icon ''close.svg''],
             Form VoucherSubmitted
               [Field ''input'' (JStr (if code_inputs s = [] then [] else last (code_inputs s))) VoucherTyped,
                Text (''A/p du.ng'')],
             v]"
    by (auto simp: ApplyVoucher_view_def throws_bind_Inr_iff)
  show ?thesis by (simp add: u VoucherItems_clickable [OF v])
qed

definition voucher_item :: "string \<Rightarrow> nat \<Rightarrow> jsval" where
  "voucher_item c n =
     JObj [(''title'', JStr c), (''code'', JStr c), (''min_condition'', JNum (Fin (of_nat n)))]"

theorem vouchers_offered_witness:
  "\<exists>u. ApplyVoucher_view
         (order_page\<lparr>voucher_open := True, vouchers_loading := False,
            voucherData := JArr [voucher_item ''A'' 90000, voucher_item ''B'' 50000]\<rparr>)
         (JNum (Fin 90000)) = Inr u \<and>
       clickable u = [ToggleVoucher, ToggleVoucher, VoucherSubmitted, VoucherUsed (JStr ''B'')]"
proof -
  let ?s = "order_page\<lparr>voucher_open := True, vouchers_loading := False,
              voucherData := JArr [voucher_item ''A'' 90000, voucher_item ''B'' 50000]\<rparr>"
  obtain u where u: "ApplyVoucher_view ?s (JNum (Fin 90000)) = Inr u"
    by (simp add: ApplyVoucher_view_def VoucherItems_def VoucherItem_def nullish_def voucher_item_def)
  then show ?thesis
    using vouchers_offered [of ?s "JNum (Fin 90000)" u] by (simp add: voucher_item_def)
qed

end
