(* ===== verification/History.thy ===== *)
theory History
  imports Payment
begin

text \<open>
  The history of transactions: \<^verbatim>\<open>pages/transaction\<close> and \<^verbatim>\<open>components/transaction\<close>. The list is an
  infinite query of \<^verbatim>\<open>@tanstack/react-query\<close>: the pages fetched so far, the parameter of the
  next one computed from them, and at most one live fetch (a request for a further page replaces
  it), which is repeated when it fails and which, for stale data, runs through all pages again.
\<close>

section \<open>A row of the list\<close>

text \<open>\<open>a === b\<close> for values read from different objects.\<close>

fun js_same :: "jsval \<Rightarrow> jsval \<Rightarrow> bool" where
  "js_same (JNum NaN) _ = False"
| "js_same (JArr _) _ = False"
| "js_same (JObj _) _ = False"
| "js_same a b = (a = b)"

definition type_is :: "jsval \<Rightarrow> string \<Rightarrow> bool" where
  "type_is item t \<longleftrightarrow> get_oprop item ''type'' = JStr t"

definition sent_by :: "jsval \<Rightarrow> jsval \<Rightarrow> bool" where
  "sent_by item userID \<longleftrightarrow> js_same (opath item [''sender'', ''_id'']) userID"

definition FormatTitle :: "jsval \<Rightarrow> jsval \<Rightarrow> 'e ui" where
  "FormatTitle item userID =
     (if type_is item ''transfer'' \<and> sent_by item userID then
        Box [Text ''Chuye^?n tie^`n dde^/n '',
             Expr (js_or (opath item [''receiver'', ''full_name'']) (JStr ''ngu+o+`i du`ng kho^ng xa/c ddi.nh''))]
      else if type_is item ''transfer'' \<and> \<not> sent_by item userID then
        Box [Text ''Nha^.n tie^`n tu+` '',
             Expr (js_or (opath item [''sender'', ''full_name'']) (JStr ''ngu+o+`i du`ng kho^ng xa/c ddi.nh''))]
      else if type_is item ''payment'' then
        Expr (js_or (get_oprop item ''title'') (JStr ''Giao di.ch thanh toa/n''))
      else if type_is item ''refund'' then
        Expr (js_or (get_oprop item ''title'') (JStr ''Hoa`n tie^`n''))
      else if type_is item ''deposit'' then
        Expr (js_or (get_oprop item ''title'') (JStr ''Na.p tie^`n''))
      else if type_is item ''withdraw'' then
        Expr (js_or (get_oprop item ''title'') (JStr ''Ru/t tie^`n''))
      else if type_is item ''withdraw-partner'' then
        Expr (js_or (get_oprop item ''title'') (JStr ''Ru/t tie^`n ddo^/i ta/c''))
      else Text ''Kho^ng co/ tie^u dde^`'')"

text \<open>The colour and the sign of the amount.\<close>

definition amount_sign :: "jsval \<Rightarrow> jsval \<Rightarrow> string \<times> string" where
  "amount_sign item userID =
     (if type_is item ''payment'' then (''text-red-500'', ''-'')
      else if type_is item ''transfer'' \<and> sent_by item userID then (''text-red-500'', ''-'')
      else if type_is item ''transfer'' \<and> \<not> sent_by item userID then (''text-green-500'', ''+'')
      else if type_is item ''refund'' \<or> type_is item ''deposit'' then (''text-green-500'', ''+'')
      else if type_is item ''withdraw'' then (''text-red-500'', ''-'')
      else if type_is item ''withdraw-partner'' then (''text-green-500'', ''+'')
      else (''text-gray-500'', []))"

definition FormatTypeCurrency :: "intl_format \<Rightarrow> jsval \<Rightarrow> jsval \<Rightarrow> 'e ui throws" where
  "FormatTypeCurrency intl item userID =
     throws_bind (get_prop item ''amount'') (\<lambda>amount.
     throws_bind (formatCurrency intl amount
                    (js_or (opath item [''currency'', ''symbol'']) (JStr ''VND''))) (\<lambda>t.
       Inr (case amount_sign item userID of (colour, sign) \<Rightarrow> Styled colour [Text (sign @ t)])))"

definition FormatIcon :: "jsval \<Rightarrow> 'e ui" where
  "FormatIcon kind_of =
     (if kind_of = JStr ''transfer'' then Icon ''send_money.svg''
      else if kind_of = JStr ''payment'' then Icon ''vnd_icon.jpg''
      else Icon ''send_money.svg'')"

definition ItemTransaction :: "intl_format \<Rightarrow> date_format \<Rightarrow> jsval \<Rightarrow> jsval \<Rightarrow> 'e ui throws" where
  "ItemTransaction intl fmt_date item userID =
     (if \<not> truthy item \<or> \<not> truthy (get_oprop item ''id'') then Inr (Box [])
      else
        throws_bind (fmt_date (get_oprop item ''created_at'')) (\<lambda>date_text.
        throws_bind (FormatTypeCurrency intl item userID) (\<lambda>amount.
          Inr (Link (''/transaction/details?id='' @ js_text (get_oprop item ''_id''))
            [FormatIcon (get_oprop item ''type''), FormatTitle item userID, Text date_text, amount]))))"

section \<open>The list\<close>

text \<open>The page and the limit arrive in the parameters for the address and the page.\<close>

definition fetchTransaction :: "nat \<Rightarrow> api_request" where
  "fetchTransaction page =
     getTransactionPaginate (JNum (Fin (of_nat page))) (JNum (Fin 12)) Undef"

text \<open>What the query function makes of the answer: a page, which can be \<open>undefined\<close>, or a throw.\<close>

fun fetchTransaction_answer :: "reply \<Rightarrow> jsval throws" where
  "fetchTransaction_answer (Resolved status d) =
     (if status = 200 then path d [''data'', ''transactions'', ''transactions'']
      else Inl (JObj [(''message'', JStr ''Failed to fetch transactions'')]))"
| "fetchTransaction_answer (Failed e) = Inl e"

text \<open>
  A fetch collects the pages \<open>pf_got\<close> up to the number \<open>pf_goal\<close>: one more than there are
  (\<open>fetchNextPage\<close>), or all of them again. Between a failure and its repetition it waits.
\<close>

record page_fetch =
  pf_got :: "jsval list"
  pf_goal :: nat
  pf_more :: bool
  pf_failures :: nat
  pf_waiting :: bool

record history =
  fetched :: "jsval list"      \<comment> \<open>\<open>data.pages\<close>; no page yet is no data\<close>
  hs_fetch :: "page_fetch option"
  hs_mounted :: bool

definition History_init :: history where
  "History_init = \<lparr>fetched = [], hs_fetch = None, hs_mounted = False\<rparr>"

text \<open>\<open>p.length\<close>.\<close>

fun js_length :: "jsval \<Rightarrow> jsval throws" where
  "js_length (JArr vs) = Inr (JNum (Fin (of_nat (length vs))))"
| "js_length (JStr t) = Inr (JNum (Fin (of_nat (length t))))"
| "js_length (JObj fs) = get_prop (JObj fs) ''length''"
| "js_length v = (if nullish v then Inl type_error else Inr Undef)"

definition getNextPageParam :: "jsval \<Rightarrow> jsval list \<Rightarrow> nat option throws" where
  "getNextPageParam lastPage ps =
     throws_bind (js_length lastPage) (\<lambda>n.
       Inr (if js_gt n (Fin 0) then Some (length ps + 1) else None))"

definition next_page :: "history \<Rightarrow> nat option throws" where
  "next_page s = (if fetched s = [] then Inr None else getNextPageParam (last (fetched s)) (fetched s))"

text \<open>The parameter of the next call: \<open>initialPageParam\<close>, then what follows the pages collected.\<close>

definition page_param :: "jsval list \<Rightarrow> nat option throws" where
  "page_param got = (if got = [] then Inr (Some 1) else getNextPageParam (last got) got)"

definition fetch_failed :: "page_fetch \<Rightarrow> history \<Rightarrow> history" where
  "fetch_failed f s =
     (if pf_failures f < default_retry \<and> hs_mounted s
      then s\<lparr>hs_fetch := Some (f\<lparr>pf_failures := pf_failures f + 1, pf_waiting := True\<rparr>)\<rparr>
      else s\<lparr>hs_fetch := None\<rparr>)"

definition fetch_done :: "jsval list \<Rightarrow> history \<Rightarrow> history" where
  "fetch_done got s = s\<lparr>fetched := got, hs_fetch := None\<rparr>"

definition fetch_page :: "page_fetch \<Rightarrow> history \<Rightarrow> history \<times> nat list" where
  "fetch_page f s =
     (case page_param (pf_got f) of
        Inl e \<Rightarrow> (fetch_failed f s, [])
      | Inr None \<Rightarrow> (fetch_done (pf_got f) s, [])
      | Inr (Some n) \<Rightarrow> (s\<lparr>hs_fetch := Some (f\<lparr>pf_waiting := False\<rparr>)\<rparr>, [n]))"

definition page_received :: "jsval \<Rightarrow> page_fetch \<Rightarrow> history \<Rightarrow> history \<times> nat list" where
  "page_received p f s =
     (let got = pf_got f @ [p]
      in if length got < pf_goal f then fetch_page (f\<lparr>pf_got := got\<rparr>) s else (fetch_done got s, []))"

definition fetchNextPage :: "history \<Rightarrow> history \<times> nat list" where
  "fetchNextPage s =
     fetch_page \<lparr>pf_got = fetched s, pf_goal = length (fetched s) + 1, pf_more = True,
                 pf_failures = 0, pf_waiting = False\<rparr> s"

definition fetch_if_needed :: "bool \<Rightarrow> history \<Rightarrow> history \<times> nat list" where
  "fetch_if_needed stale s =
     (if hs_fetch s = None \<and> (fetched s = [] \<or> stale)
      then fetch_page \<lparr>pf_got = [], pf_goal = length (fetched s), pf_more = False,
                       pf_failures = 0, pf_waiting = False\<rparr> s
      else (s, []))"

text \<open>
  The events: the page is opened or closed, the window gets the focus (each with whether the data
  are stale), the effect runs on the last row, the live call is answered, a pause ends.
\<close>

datatype history_event =
    HistoryOpened bool | HistoryClosed | HistoryFocused bool
  | Intersected bool | PageAnswer reply | RetryDue

fun History_step :: "history \<Rightarrow> history_event \<Rightarrow> history \<times> nat list" where
  "History_step s (HistoryOpened stale) = fetch_if_needed stale (s\<lparr>hs_mounted := True\<rparr>)"
| "History_step s HistoryClosed = (s\<lparr>hs_mounted := False\<rparr>, [])"
| "History_step s (HistoryFocused stale) = (if hs_mounted s then fetch_if_needed stale s else (s, []))"
| "History_step s (Intersected b) =
     (case next_page s of
        Inr (Some n) \<Rightarrow> if b \<and> hs_mounted s then fetchNextPage s else (s, [])
      | _ \<Rightarrow> (s, []))"
| "History_step s (PageAnswer a) =
     (case hs_fetch s of
        None \<Rightarrow> (s, [])
      | Some f \<Rightarrow>
          if pf_waiting f then (s, [])
          else (case fetchTransaction_answer a of
                  Inl e \<Rightarrow> (fetch_failed f s, [])
                | Inr p \<Rightarrow> page_received p f s))"
| "History_step s RetryDue =
     (case hs_fetch s of
        None \<Rightarrow> (s, [])
      | Some f \<Rightarrow>
          if \<not> pf_waiting f then (s, [])
          else if hs_mounted s then fetch_page f s
          else (s\<lparr>hs_fetch := None\<rparr>, []))"

text \<open>A run: the state, and the numbers of the pages requested so far.\<close>

definition History_next :: "history \<times> nat list \<Rightarrow> history_event \<Rightarrow> history \<times> nat list" where
  "History_next sn e = (case History_step (fst sn) e of (s', new) \<Rightarrow> (s', snd sn @ new))"

definition History_start :: "history \<times> nat list" where
  "History_start = (History_init, [])"

text \<open>\<open>pages.flat()\<close>: one level of arrays is opened.\<close>

definition flat_pages :: "jsval list \<Rightarrow> jsval list" where
  "flat_pages ps = concat (map (\<lambda>p. case p of JArr vs \<Rightarrow> vs | _ \<Rightarrow> [p]) ps)"

definition History_row :: "intl_format \<Rightarrow> date_format \<Rightarrow> jsval \<Rightarrow> unit ui throws" where
  "History_row intl fmt_date item =
     throws_bind (get_prop item ''userID'') (\<lambda>userID. ItemTransaction intl fmt_date item userID)"

definition HistoryTransactions_view :: "intl_format \<Rightarrow> date_format \<Rightarrow> history \<Rightarrow> unit ui throws" where
  "HistoryTransactions_view intl fmt_date s =
     (if fetched s = [] \<and> hs_fetch s \<noteq> None then Inr Loading
      else if fetched s \<noteq> [] \<and> flat_pages (fetched s) = [] then
        Inr (Box [Text ''Kho^ng co/ giao di.ch na`o dde^? hie^?n thi..'', Img (JStr ''empty_transaction.jpg'')])
      else
        throws_bind (map_throws (History_row intl fmt_date) (flat_pages (fetched s))) (\<lambda>rows.
        throws_bind (next_page s) (\<lambda>following.
          Inr (Box
            [HeaderDefault () ''Li.ch su+? giao di.ch'',
             Box [],
             Box rows,
             whenever (\<exists>f. hs_fetch s = Some f \<and> pf_more f) (Icon ''loading.svg''),
             whenever (following = None) (Text ''DDa~ hie^?n thi. ta^/t ca? giao di.ch'')]))))"

section \<open>The details of a transaction\<close>

text \<open>The address of the page carries the transaction; an absent one is the empty text.\<close>

definition TransactionDetails_request :: "string \<Rightarrow> api_request" where
  "TransactionDetails_request address = getTransactionDetails (JStr (QrTransfer_param address ''id''))"

definition TransactionInfo_title :: "jsval \<Rightarrow> 'e ui throws" where
  "TransactionInfo_title ps =
     (if type_is ps ''transfer'' then
        throws_bind (path ps [''sender'', ''_id'']) (\<lambda>sender.
          if \<not> js_same sender (get_oprop ps ''userID'')
          then throws_bind (path ps [''sender'', ''full_name'']) (\<lambda>n. Inr (Text (''Nha^.n tie^`n tu+` '' @ js_text n)))
          else throws_bind (path ps [''receiver'', ''full_name'']) (\<lambda>n. Inr (Text (''Chuye^?n tie^`n dde^/n '' @ js_text n))))
      else Inr (Box []))"

definition TransactionInfo :: "intl_format \<Rightarrow> date_format \<Rightarrow> jsval \<Rightarrow> 'e ui throws" where
  "TransactionInfo intl fmt_date ps =
     throws_bind (fmt_date (get_oprop ps ''createdAt'')) (\<lambda>date_text.
     throws_bind (path ps [''currency'', ''symbol'']) (\<lambda>symb.
     throws_bind (formatCurrency intl (get_oprop ps ''amount'') symb) (\<lambda>amount_text.
     throws_bind (if truthy (get_oprop ps ''title'') then Inr (Expr (get_oprop ps ''title''))
                  else TransactionInfo_title ps) (\<lambda>title.
       Inr (Box [Img (JStr []), title, Expr (get_oprop ps ''image''), Text date_text,
                 Text amount_text, Text ''Completed''])))))"

definition UserInfo :: "jsval \<Rightarrow> 'e ui throws" where
  "UserInfo ps =
     throws_bind (path ps [''sender'', ''_id'']) (\<lambda>sender.
     throws_bind (path ps [if \<not> js_same sender (get_oprop ps ''userID'') then ''sender'' else ''receiver'',
                           ''full_name'']) (\<lambda>full_name.
     throws_bind (path ps [if \<not> js_same sender (get_oprop ps ''userID'') then ''sender'' else ''receiver'',
                           ''email'']) (\<lambda>email.
       Inr (Box
         [Text ''Mo^ ta?'', Expr (js_or (get_oprop ps ''message'') (JStr ''Kho^ng co/ no^.i dung'')),
          Text ''Tho^ng tin giao di.ch'', Text ''Ma~ giao di.ch'', Expr (get_oprop ps ''_id''),
          Text (if js_same sender (get_oprop ps ''userID'') then ''Ngu+o+`i nha^.n'' else ''Ngu+o+`i gu+?i''),
          Expr full_name, Text ''Email'', Expr email]))))"

definition PartnerInfo :: "'e ui" where
  "PartnerInfo =
     Box [Text ''Mo^ ta?'', Text ''12312312 ABCDASDA'', Text ''Tho^ng tin giao di.ch'',
          Text ''Ma~ giao di.ch'', Text ''123123123123'', Text ''Nha` cung ca^/p '', Text ''Viettel'',
          Text ''Ma~ ddo+n ha`ng'', Text ''123123-123123-123123'',
          Text ''Ma~ kha/ch ha`ng'', Text ''123123-12312312-3123123'']"

definition InfoDetails :: "jsval \<Rightarrow> 'e ui throws" where
  "InfoDetails ps =
     (if type_is ps ''transfer'' then UserInfo ps
      else if type_is ps ''payment'' then UserInfo ps
      else Inr (Box []))"

text \<open>The fields of the answer become the properties of the two parts; \<open>null\<close> has none.\<close>

definition TransactionDetails_view :: "intl_format \<Rightarrow> date_format \<Rightarrow> query \<Rightarrow> unit ui throws" where
  "TransactionDetails_view intl fmt_date q =
     (case q of
        QLoading \<Rightarrow> Inr Loading
      | QError \<Rightarrow> Inr (Text ''Transaction not found'')
      | QData d \<Rightarrow>
          (let ps = (case d of JObj _ \<Rightarrow> d | _ \<Rightarrow> JObj [])
           in throws_bind (TransactionInfo intl fmt_date ps) (\<lambda>info.
              throws_bind (InfoDetails ps) (\<lambda>details.
                Inr (Box [HeaderDefault () ''Chi tie^/t giao di.ch'', info, details])))))"


section \<open>The pages asked for\<close>

definition has_items :: "jsval \<Rightarrow> bool" where
  "has_items p \<longleftrightarrow> (\<exists>n. js_length p = Inr n \<and> js_gt n (Fin 0))"

lemma getNextPageParam_Some [simp]:
  "getNextPageParam p ps = Inr (Some n) \<longleftrightarrow> has_items p \<and> n = length ps + 1"
  by (auto simp: getNextPageParam_def has_items_def throws_bind_Inr_iff)

lemma next_page_Some:
  "next_page s = Inr (Some n) \<longleftrightarrow>
     fetched s \<noteq> [] \<and> has_items (last (fetched s)) \<and> n = length (fetched s) + 1"
  by (auto simp: next_page_def)

lemma page_param_Some [simp]:
  "page_param got = Inr (Some n) \<longleftrightarrow> n = length got + 1 \<and> (got = [] \<or> has_items (last got))"
  by (auto simp: page_param_def)

text \<open>
  The log against the state: no number is asked for before the smaller ones; of the pages shown and
  of those a fetch has collected only the last can be empty, and all have been asked for; and a
  fetch that is not waiting has asked for the page after those it has, which all have items.
\<close>

definition items_before :: "jsval list \<Rightarrow> bool" where
  "items_before ps \<longleftrightarrow> (\<forall>p \<in> set (butlast ps). has_items p)"

definition no_gap :: "nat list \<Rightarrow> bool" where
  "no_gap ns \<longleftrightarrow> 0 \<notin> set ns \<and> (\<forall>n \<in> set ns. {1..n} \<subseteq> set ns)"

definition pages_log :: "history \<Rightarrow> nat list \<Rightarrow> bool" where
  "pages_log s ns \<longleftrightarrow>
     no_gap ns \<and> items_before (fetched s) \<and> {1..length (fetched s)} \<subseteq> set ns"

definition fetch_log :: "page_fetch \<Rightarrow> nat list \<Rightarrow> bool" where
  "fetch_log f ns \<longleftrightarrow>
     items_before (pf_got f) \<and> {1..length (pf_got f)} \<subseteq> set ns \<and>
     (\<not> pf_waiting f \<longrightarrow> length (pf_got f) + 1 \<in> set ns \<and> (\<forall>p \<in> set (pf_got f). has_items p))"

definition page_log :: "history \<times> nat list \<Rightarrow> bool" where
  "page_log sn \<longleftrightarrow> pages_log (fst sn) (snd sn) \<and> (\<forall>f. hs_fetch (fst sn) = Some f \<longrightarrow> fetch_log f (snd sn))"

lemma all_items: "items_before ps \<Longrightarrow> ps = [] \<or> has_items (last ps) \<Longrightarrow> \<forall>p \<in> set ps. has_items p"
  by (cases ps rule: rev_cases) (auto simp: items_before_def)

lemma no_gap_snoc: "no_gap ns \<Longrightarrow> {1..k} \<subseteq> set ns \<Longrightarrow> no_gap (ns @ [Suc k])"
  by (auto simp: no_gap_def atLeastAtMostSuc_conv)

lemma no_gap_upto:
  assumes "no_gap ns"
  shows "\<exists>k. set ns = {1..k}"
proof (cases "ns = []")
  case False
  then have "Max (set ns) \<in> set ns" by simp
  with assms have "{1..Max (set ns)} \<subseteq> set ns" by (simp add: no_gap_def)
  moreover have "set ns \<subseteq> {1..Max (set ns)}"
    using assms by (auto simp: no_gap_def Suc_le_eq intro: gr0I)
  ultimately show ?thesis by blast
qed (auto intro: exI [of _ 0])

lemma fetch_failed_log:
  "pages_log s ns \<Longrightarrow> items_before (pf_got f) \<Longrightarrow> {1..length (pf_got f)} \<subseteq> set ns \<Longrightarrow>
   page_log (fetch_failed f s, ns)"
  by (simp add: page_log_def pages_log_def fetch_log_def fetch_failed_def)

lemma fetch_done_log:
  "pages_log s ns \<Longrightarrow> items_before got \<Longrightarrow> {1..length got} \<subseteq> set ns \<Longrightarrow> page_log (fetch_done got s, ns)"
  by (simp add: page_log_def pages_log_def fetch_done_def)

text \<open>What an event may ask for.\<close>

definition asks_next :: "history \<times> nat list \<Rightarrow> bool" where
  "asks_next r \<longleftrightarrow>
     snd r = [] \<or>
     (\<exists>f. hs_fetch (fst r) = Some f \<and> snd r = [length (pf_got f) + 1] \<and> (\<forall>p \<in> set (pf_got f). has_items p))"

lemma fetch_page_log:
  assumes "pages_log s ns" and "items_before (pf_got f)" and "{1..length (pf_got f)} \<subseteq> set ns"
    and "fetch_page f s = (s', new)"
  shows "page_log (s', ns @ new) \<and> asks_next (s', new)"
proof (cases "\<exists>n. page_param (pf_got f) = Inr (Some n)")
  case True
  then obtain n where n: "page_param (pf_got f) = Inr (Some n)" by blast
  then have items: "\<forall>p \<in> set (pf_got f). has_items p" using assms(2) by (intro all_items) simp_all
  have new: "new = [length (pf_got f) + 1]" "s' = s\<lparr>hs_fetch := Some (f\<lparr>pf_waiting := False\<rparr>)\<rparr>"
    using assms(4) n by (simp_all add: fetch_page_def)
  have "no_gap (ns @ [Suc (length (pf_got f))])"
    using assms(1,3) by (intro no_gap_snoc) (simp_all add: pages_log_def)
  then show ?thesis
    using assms(1-3) items
    by (auto simp: new page_log_def pages_log_def fetch_log_def asks_next_def)
next
  case False
  with assms show ?thesis
    by (auto simp: fetch_page_def asks_next_def fetch_failed_log fetch_done_log split: sum.splits option.splits)
qed

lemma fetch_if_needed_log:
  assumes "page_log (s, ns)" and "fetch_if_needed stale s = (s', new)"
  shows "page_log (s', ns @ new) \<and> asks_next (s', new)"
proof (cases "hs_fetch s = None \<and> (fetched s = [] \<or> stale)")
  case True
  then show ?thesis
    using assms by (intro fetch_page_log) (auto simp: fetch_if_needed_def page_log_def items_before_def)
next
  case False
  with assms show ?thesis by (auto simp: fetch_if_needed_def asks_next_def)
qed

lemma page_received_log:
  assumes "page_log (s, ns)" and "hs_fetch s = Some f" and "\<not> pf_waiting f"
    and "page_received p f s = (s', new)"
  shows "page_log (s', ns @ new) \<and> asks_next (s', new)"
proof -
  have log: "pages_log s ns" "items_before (pf_got f @ [p])" "{1..length (pf_got f @ [p])} \<subseteq> set ns"
    using assms(1-3) by (auto simp: page_log_def fetch_log_def items_before_def atLeastAtMostSuc_conv)
  show ?thesis
  proof (cases "length (pf_got f @ [p]) < pf_goal f")
    case True
    with assms(4) have "fetch_page (f\<lparr>pf_got := pf_got f @ [p]\<rparr>) s = (s', new)"
      by (simp add: page_received_def)
    with log show ?thesis by (intro fetch_page_log) simp_all
  next
    case False
    with assms(4) have "s' = fetch_done (pf_got f @ [p]) s" "new = []"
      by (auto simp: page_received_def)
    with fetch_done_log [OF log] show ?thesis by (simp add: asks_next_def)
  qed
qed

lemma History_step_log:
  assumes "page_log (s, ns)" and "History_step s e = (s', new)"
  shows "page_log (s', ns @ new) \<and> asks_next (s', new)"
proof -
  have idle: "page_log (s\<lparr>hs_fetch := None\<rparr>, ns)" and mounted: "page_log (s\<lparr>hs_mounted := b\<rparr>, ns)" for b
    using assms(1) by (simp_all add: page_log_def pages_log_def)
  have fetch: "pages_log s ns \<and> items_before (pf_got f) \<and> {1..length (pf_got f)} \<subseteq> set ns"
    if "hs_fetch s = Some f" for f
    using assms(1) that by (simp add: page_log_def fetch_log_def)
  show ?thesis
  proof (cases e)
    case (HistoryOpened stale)
    with assms(2) fetch_if_needed_log [OF mounted] show ?thesis by simp
  next
    case HistoryClosed
    with assms(2) mounted show ?thesis by (auto simp: asks_next_def)
  next
    case (HistoryFocused stale)
    with assms fetch_if_needed_log [OF assms(1)] show ?thesis by (auto simp: asks_next_def split: if_splits)
  next
    case (Intersected b)
    have "page_log (s', ns @ new) \<and> asks_next (s', new)" if "fetchNextPage s = (s', new)"
      using assms(1) that unfolding fetchNextPage_def
      by (intro fetch_page_log) (simp_all add: page_log_def pages_log_def)
    with Intersected assms show ?thesis
      by (auto simp: asks_next_def split: sum.splits option.splits if_splits)
  next
    case (PageAnswer a)
    with assms fetch page_received_log [OF assms(1)] fetch_failed_log [of s ns] show ?thesis
      by (fastforce simp: asks_next_def split: sum.splits option.splits if_splits)
  next
    case RetryDue
    with assms idle fetch fetch_page_log [of s ns] show ?thesis
      by (fastforce simp: asks_next_def split: option.splits if_splits)
  qed
qed

lemma page_log_next [inv_intros]: "page_log sn \<Longrightarrow> page_log (History_next sn e)"
  using History_step_log [of "fst sn" "snd sn" e] by (simp add: History_next_def split: prod.splits)

interpretation history_log: component History_next page_log
  by unfold_locales (rule inv_intros)

lemma page_log_start: "page_log History_start"
  by (simp add: page_log_def pages_log_def no_gap_def items_before_def History_start_def History_init_def)

section \<open>Properties\<close>

text \<open>
  C27 The list asks for its pages in order and never after an empty one: after any sequence of
  openings, focus changes, scrolls, answers, failures and repetitions, the pages asked for so far
  are 1 up to some number without a gap; of the pages shown at most the last is empty; and the
  next event asks for at most one page, the one that follows the pages of the list it loads, all
  of which came with items. But the number is sent as the wallet address: every request is one for
  page 12 with an undefined page size.
\<close>
theorem history_requests:
  assumes "run History_next History_start es = (s, ns)" and "History_step s e = (s', new)"
  shows "(\<exists>k. set ns = {1..k}) \<and>
    (\<forall>p \<in> set (butlast (fetched s)). has_items p) \<and>
    (new = [] \<or>
      (\<exists>f. hs_fetch s' = Some f \<and> new = [length (pf_got f) + 1] \<and> (\<forall>p \<in> set (pf_got f). has_items p))) \<and>
    (\<forall>n \<in> set ns. n \<le> 2 ^ 53 \<longrightarrow>
       url (fetchTransaction n) =
         ''/api/v1/transactions?wallet_address='' @ show_nat n @ ''&page=12&page_size=undefined'')"
proof -
  have log: "page_log (s, ns)"
    using history_log.inv_run [OF page_log_start, of es] assms(1) by simp
  then have "no_gap ns" by (simp add: page_log_def pages_log_def)
  moreover have "\<forall>p \<in> set (butlast (fetched s)). has_items p"
    using log by (simp add: page_log_def pages_log_def items_before_def)
  moreover have "asks_next (s', new)" using History_step_log [OF log assms(2)] by simp
  moreover have "js_text (JNum (Fin 12)) = ''12''"
  proof -
    have "show_nat 12 = ''12''" by code_simp
    with js_text_nat [of 12] show ?thesis by simp
  qed
  ultimately show ?thesis
    using no_gap_upto by (auto simp: asks_next_def fetchTransaction_def getTransactionPaginate_def
        instance_request_def js_text_nat simp del: js_text.simps(4))
qed

definition full_page :: reply where
  "full_page = Resolved 200 (JObj [(''data'', JObj [(''transactions'', JObj [(''transactions'',
     JArr [JObj []])])])])"

theorem history_requests_witness:
  "let es = [HistoryOpened False, PageAnswer (Failed network_error), RetryDue, PageAnswer full_page,
             Intersected True]
   in snd (run History_next History_start es) = [1, 1, 2] \<and>
      (\<exists>k. set (snd (run History_next History_start es)) = {1..k})"
proof -
  let ?es = "[HistoryOpened False, PageAnswer (Failed network_error), RetryDue, PageAnswer full_page,
              Intersected True]"
  let ?s = "fst (run History_next History_start ?es)"
  have log: "snd (run History_next History_start ?es) = [1, 1, 2]"
    by (simp add: History_next_def History_start_def History_init_def full_page_def next_page_def
        getNextPageParam_def fetch_if_needed_def fetch_page_def page_param_def fetch_failed_def
        default_retry_def page_received_def fetch_done_def fetchNextPage_def)
  have "run History_next History_start ?es = (?s, [1, 1, 2])"
    unfolding log [symmetric] by (rule surjective_pairing)
  from history_requests [OF this surjective_pairing, of RetryDue] log show ?thesis unfolding Let_def by simp
qed

text \<open>
  For a transfer the title of the row and the sign of its amount agree: the amount is
  negative exactly when the row says the money was sent, and positive exactly when it says it
  was received. Both depend on the user only through the comparison with the sender.
\<close>
lemma transfer_row_agrees:
  assumes "type_is item ''transfer''"
  shows "(snd (amount_sign item userID) = ''-'' \<longleftrightarrow> hd (shown (FormatTitle item userID)) = ''Chuye^?n tie^`n dde^/n '') \<and>
    (snd (amount_sign item userID) = ''+'' \<longleftrightarrow> hd (shown (FormatTitle item userID)) = ''Nha^.n tie^`n tu+` '') \<and>
    (snd (amount_sign item userID) = ''-'' \<longleftrightarrow> sent_by item userID)"
  using assms by (auto simp: amount_sign_def FormatTitle_def type_is_def)

lemma transfer_row_agrees_witness:
  "let item = JObj [(''type'', JStr ''transfer''), (''sender'', JObj [(''_id'', JStr ''u1'')])]
   in snd (amount_sign item (JStr ''u1'')) = ''-'' \<and>
      hd (shown (FormatTitle item (JStr ''u2''))) = ''Nha^.n tie^`n tu+` ''"
proof -
  let ?i = "JObj [(''type'', JStr ''transfer''), (''sender'', JObj [(''_id'', JStr ''u1'')])]"
  have t: "type_is ?i ''transfer''" by (simp add: type_is_def)
  have "snd (amount_sign ?i (JStr ''u2'')) = ''+''" by (simp add: amount_sign_def type_is_def sent_by_def)
  with transfer_row_agrees [OF t, of "JStr ''u2''"]
  have received: "hd (shown (FormatTitle ?i (JStr ''u2''))) = ''Nha^.n tie^`n tu+` ''" by blast
  have "sent_by ?i (JStr ''u1'')" by (simp add: sent_by_def)
  with transfer_row_agrees [OF t, of "JStr ''u1''"]
  have "snd (amount_sign ?i (JStr ''u1'')) = ''-''" by blast
  with received show ?thesis unfolding Let_def by blast
qed

text \<open>
  The rows of the server's own transactions: an object with the fields the server documents
  (identifier, addresses, chain, hash and times) has no type, no amount and no \<open>_id\<close>, so its
  row has the title for unknown kinds, the format of an undefined amount, and a link to the
  details of the transaction \<open>undefined\<close>.
\<close>
lemma server_transaction_row:
  assumes "item = JObj fs" and "truthy (get_oprop item ''id'')"
    and "fst ` set fs \<subseteq> {''id'', ''from_address'', ''to_address'', ''chain_id'', ''tx_hash'',
          ''created_at'', ''updated_at''}"
    and "fmt_date (get_oprop item ''created_at'') = Inr date" and "intl (JStr ''VND'') Undef = Inr amt"
  shows "\<exists>u. ItemTransaction intl fmt_date item userID = Inr u \<and>
    shown u = [''Kho^ng co/ tie^u dde^`'', date, amt] \<and> links u = [''/transaction/details?id=undefined'']"
proof -
  have none: "get_oprop item k = Undef"
    if "k \<in> {''type'', ''amount'', ''_id'', ''currency'', ''sender''}" for k
  proof -
    from that assms(3) have "k \<notin> fst ` set fs" by auto
    then show ?thesis by (simp add: assms(1) map_of_eq_None_iff [THEN iffD2])
  qed
  have "get_prop item ''amount'' = Inr Undef"
    using none [of "''amount''"] by (simp add: assms(1))
  then show ?thesis
    using none assms(2,4,5)
    by (simp add: ItemTransaction_def FormatTypeCurrency_def amount_sign_def type_is_def FormatTitle_def
        FormatIcon_def formatCurrency_def js_or_def)
       (use assms(1) in simp)
qed

lemma server_transaction_row_witness:
  "\<exists>u. ItemTransaction (\<lambda>_ _. Inr ''NaN'') (\<lambda>_. Inr ''2025-01-01'')
         (JObj [(''id'', JStr ''7f''), (''tx_hash'', JStr ''0xab'')]) Undef = Inr u \<and>
       shown u = [''Kho^ng co/ tie^u dde^`'', ''2025-01-01'', ''NaN''] \<and>
       links u = [''/transaction/details?id=undefined'']"
  by (rule server_transaction_row [OF refl]) simp_all

end
