(* ===== verification/Settings.thy ===== *)
theory Settings
  imports History
begin

text \<open>
  The settings: \<^verbatim>\<open>pages/setting\<close> and \<^verbatim>\<open>components/setting\<close>. The two popups that change the
  password and the security code are mounted afresh each time they open; their mutations report
  to the page even when the popup was closed meanwhile. \<open>mutate\<close> of
  \<^verbatim>\<open>@tanstack/react-query\<close> never throws: what a callback throws is dropped.
\<close>

section \<open>Inputs\<close>

definition SettingInput ::
    "constraint list \<Rightarrow> string \<Rightarrow> string \<Rightarrow> jsval \<Rightarrow> (string \<Rightarrow> 'e) \<Rightarrow> bool \<Rightarrow> 'e ui" where
  "SettingInput cs title field_name value onChange disable =
     Box [Text title, if disable then Expr value else Input cs field_name value onChange]"

definition SettingButton :: "bool \<Rightarrow> 'e \<Rightarrow> string \<Rightarrow> 'e ui" where
  "SettingButton isLoading submit title =
     (if isLoading then Btn True submit [Icon ''loading.svg''] else Btn False submit [Text title])"

definition SettingSelect :: "string \<Rightarrow> 'e \<Rightarrow> 'e ui" where
  "SettingSelect title open_it = Click open_it [Text title, Img Undef]"

text \<open>The picture chosen from a file: its address is made by \<open>URL.createObjectURL\<close>.\<close>

definition UploadImage_handleImageChange ::
    "(jsval \<Rightarrow> string) \<Rightarrow> jsval option \<Rightarrow> jsval \<Rightarrow> jsval \<times> jsval option" where
  "UploadImage_handleImageChange createObjectURL chosen shown_image =
     (case chosen of
        None \<Rightarrow> (shown_image, None)
      | Some file \<Rightarrow> (JStr (createObjectURL file), Some file))"

definition UploadImage_view :: "'e \<Rightarrow> jsval \<Rightarrow> 'e ui" where
  "UploadImage_view pick picture = Click pick [Img picture]"

section \<open>The popups\<close>

record change_form =
  ch_data :: jsval
  ch_error :: jsval
  ch_open :: bool
  ch_pending :: nat     \<comment> \<open>mutations under way\<close>

definition password_initialData :: jsval where
  "password_initialData =
     JObj [(''old_password'', JStr []), (''new_password'', JStr []), (''confirmNewPassword'', JStr [])]"

definition code_initialData :: jsval where
  "code_initialData = JObj [(''old_code'', JStr []), (''new_code'', JStr []), (''confirm_code'', JStr [])]"

definition closed_form :: "jsval \<Rightarrow> change_form" where
  "closed_form d = \<lparr>ch_data = d, ch_error = Undef, ch_open = False, ch_pending = 0\<rparr>"

text \<open>A popup that opens is a new one.\<close>

definition toggle_form :: "jsval \<Rightarrow> change_form \<Rightarrow> change_form" where
  "toggle_form d s =
     (if ch_open s then s\<lparr>ch_open := False\<rparr> else s\<lparr>ch_open := True, ch_data := d, ch_error := Undef\<rparr>)"

definition Password_handleInputChange :: "string \<Rightarrow> string \<Rightarrow> change_form \<Rightarrow> change_form" where
  "Password_handleInputChange field_name value s =
     (let s1 = (if field_name = ''confirmNewPassword'' then
                  (if get_oprop (ch_data s) ''new_password'' \<noteq> JStr value
                   then s\<lparr>ch_error := JStr ''Ma^.t kha^?u mo+/i kho^ng kho+/p''\<rparr>
                   else s\<lparr>ch_error := JStr []\<rparr>)
                else s)
      in s1\<lparr>ch_data := spread_set (ch_data s1) field_name (JStr value)\<rparr>)"

definition Password_handleSubmit :: "change_form \<Rightarrow> change_form \<times> effect list \<times> api_request option" where
  "Password_handleSubmit s =
     (let d = ch_data s
      in if \<not> truthy (get_oprop d ''new_password'') \<or> \<not> truthy (get_oprop d ''old_password'') \<or>
            \<not> truthy (get_oprop d ''confirmNewPassword'')
         then (s, [Toast Error (JStr ''Vui lo`ng nha^.p ma^.t kha^?u'')], None)
         else if truthy (ch_error s)
         then (s, [Toast Error (JStr ''Ma^.t kha^?u kho^ng kho+/p vui lo`ng nha^.p la.i'')], None)
         else (s\<lparr>ch_pending := ch_pending s + 1\<rparr>, [], Some (changePassword_request d)))"

text \<open>The error callback of both mutations; an error it cannot read is dropped.\<close>

definition mutation_error :: "jsval \<Rightarrow> effect list" where
  "mutation_error e =
     (case path e [''response'', ''data'', ''message''] of
        Inl _ \<Rightarrow> []
      | Inr m \<Rightarrow> [Toast Error m])"

fun Password_answer :: "reply \<Rightarrow> change_form \<Rightarrow> change_form \<times> effect list" where
  "Password_answer (Resolved status d) s =
     ((toggle_form password_initialData s)\<lparr>ch_data := password_initialData\<rparr>,
      [Toast Success (JStr ''DDo^?i ma^.t kha^?u tha`nh co^ng'')])"
| "Password_answer (Failed e) s = (s, mutation_error e)"

definition Code_handleInputChange :: "string \<Rightarrow> string \<Rightarrow> change_form \<Rightarrow> change_form" where
  "Code_handleInputChange field_name value s =
     (let s1 = (if field_name = ''confirmNewPassword'' then
                  (if get_oprop (ch_data s) ''new_code'' \<noteq> JStr value
                   then s\<lparr>ch_error := JStr ''Ma^.t kha^?u mo+/i kho^ng kho+/p''\<rparr>
                   else s\<lparr>ch_error := JStr []\<rparr>)
                else s)
      in s1\<lparr>ch_data := spread_set (ch_data s1) field_name (JStr value)\<rparr>)"

definition Code_handleSubmit :: "change_form \<Rightarrow> change_form \<times> effect list \<times> api_request option" where
  "Code_handleSubmit s =
     (let d = ch_data s;
          missing = (\<not> truthy (get_oprop d ''new_code'') \<or> \<not> truthy (get_oprop d ''old_code'') \<or>
                     \<not> truthy (get_oprop d ''confirm_code''))
      in if missing then (s, [Toast Error (JStr ''Vui lo`ng nha^.p ma^.t kha^?u.'')], None)
         else if missing then (s, [Toast Error (JStr ''Ma~ ba?o ma^.t pha?i co/ 6 ky/ tu+. la` chu+~ so^/.'')], None)
         else if truthy (ch_error s)
         then (s, [Toast Error (JStr ''Ma^.t kha^?u kho^ng kho+/p vui lo`ng nha^.p la.i.'')], None)
         else (s\<lparr>ch_pending := ch_pending s + 1\<rparr>, [], Some (changeSecurityCode_request d)))"

fun Code_answer :: "reply \<Rightarrow> change_form \<Rightarrow> change_form \<times> effect list" where
  "Code_answer (Resolved status d) s =
     (toggle_form code_initialData s, [Toast Success (JStr ''DDo^?i ma^.t kha^?u tha`nh co^ng'')])"
| "Code_answer (Failed e) s = (s, mutation_error e)"

section \<open>The security tab\<close>

record security_tab =
  password_popup :: change_form
  code_popup :: change_form

definition Security_init :: security_tab where
  "Security_init =
     \<lparr>password_popup = closed_form password_initialData, code_popup = closed_form code_initialData\<rparr>"

datatype security_event =
    OpenModal string
  | PasswordTyped string string | PasswordSubmit | PasswordAnswer reply
  | NewCodeTyped string string | NewCodeSubmit | NewCodeAnswer reply

definition handleOpenModal :: "string \<Rightarrow> security_tab \<Rightarrow> security_tab" where
  "handleOpenModal field_name s =
     (if field_name = ''password''
      then s\<lparr>password_popup := toggle_form password_initialData (password_popup s)\<rparr>
      else if field_name = ''security_code''
      then s\<lparr>code_popup := toggle_form code_initialData (code_popup s)\<rparr>
      else s)"

text \<open>
  The two forms with the constraints of their fields: at most 20 characters for a password; at
  most six, all digits, for a code.
\<close>

definition password_constraints :: "constraint list" where
  "password_constraints = [MaxLength 20]"

definition code_constraints :: "constraint list" where
  "code_constraints = [Pattern (Star (Cls is_digit)), MaxLength 6]"

definition ChangePassword_view :: "change_form \<Rightarrow> security_event ui" where
  "ChangePassword_view s =
     Box
       [Text ''DDo^?i ma^.t kha^?u'',
        Text ''Ma^.t kha^?u cu?a ba.n pha?i co/ to^/i thie^?u 8 ky/ tu+., ddo^`ng tho+`i bao go^`m ca? chu+~ so^/, chu+~ ca/i va` ky/ tu+. dda(.c bie^.t (!$@%).'',
        Click (OpenModal ''password'') [Icon ''plus.svg''],
        Form PasswordSubmit
          [SettingInput password_constraints ''Ma^.t kha^?u cu~'' ''old_password'' (get_oprop (ch_data s) ''old_password'')
             (PasswordTyped ''old_password'') False,
           SettingInput password_constraints ''Ma^.t kha^?u mo+/i'' ''new_password'' (get_oprop (ch_data s) ''new_password'')
             (PasswordTyped ''new_password'') False,
           Expr (ch_error s),
           SettingInput password_constraints ''Xa/c nha^.n ma^.t kha^?u mo+/i'' ''confirmNewPassword''
             (get_oprop (ch_data s) ''confirmNewPassword'') (PasswordTyped ''confirmNewPassword'') False,
           Text ''DDo^?i ma^.t kha^?u'']]"

definition ChangeSecurityCode_view :: "change_form \<Rightarrow> security_event ui" where
  "ChangeSecurityCode_view s =
     Box
       [Text ''DDo^?i ma~ ba?o ma^.t'', Text ''Ma~ ba?o ma^.t cu?a ba.n pha?i co/ 6 ky/ tu+. la` chu+~ so^/.'',
        Click (OpenModal ''security_code'') [Icon ''plus.svg''],
        Form NewCodeSubmit
          [SettingInput code_constraints ''Ma~ ba?o ma^.t cu~'' ''old_code'' (get_oprop (ch_data s) ''old_code'')
             (NewCodeTyped ''old_code'') False,
           SettingInput code_constraints ''Ma~ ba?o ma^.t mo+/i'' ''new_code'' (get_oprop (ch_data s) ''new_code'')
             (NewCodeTyped ''new_code'') False,
           Expr (ch_error s),
           SettingInput code_constraints ''Xa/c ma~ ba?o ma^.t mo+/i'' ''confirm_code'' (get_oprop (ch_data s) ''confirm_code'')
             (NewCodeTyped ''confirm_code'') False,
           Text ''DDo^?i ma~ ba?o ma^.t '']]"

text \<open>
  A form event needs its popup open, an answer a mutation under way. The browser submits a form
  only when its fields meet their patterns. What is typed is the content of the field after the
  key stroke: the browser raises no event for a text above the limit of its field.
\<close>

fun Security_step ::
    "security_tab \<Rightarrow> security_event \<Rightarrow> security_tab \<times> effect list \<times> api_request option" where
  "Security_step s (OpenModal f) = (handleOpenModal f s, [], None)"
| "Security_step s (PasswordTyped f v) =
     (if ch_open (password_popup s)
      then (s\<lparr>password_popup := Password_handleInputChange f v (password_popup s)\<rparr>, [], None)
      else (s, [], None))"
| "Security_step s PasswordSubmit =
     (if ch_open (password_popup s) \<and> form_valid (ChangePassword_view (password_popup s))
      then (case Password_handleSubmit (password_popup s) of
              (p, out, r) \<Rightarrow> (s\<lparr>password_popup := p\<rparr>, out, r))
      else (s, [], None))"
| "Security_step s (PasswordAnswer a) =
     (if ch_pending (password_popup s) = 0 then (s, [], None)
      else (case Password_answer a ((password_popup s)\<lparr>ch_pending := ch_pending (password_popup s) - 1\<rparr>) of
              (p, out) \<Rightarrow> (s\<lparr>password_popup := p\<rparr>, out, None)))"
| "Security_step s (NewCodeTyped f v) =
     (if ch_open (code_popup s)
      then (s\<lparr>code_popup := Code_handleInputChange f v (code_popup s)\<rparr>, [], None)
      else (s, [], None))"
| "Security_step s NewCodeSubmit =
     (if ch_open (code_popup s) \<and> form_valid (ChangeSecurityCode_view (code_popup s))
      then (case Code_handleSubmit (code_popup s) of
              (p, out, r) \<Rightarrow> (s\<lparr>code_popup := p\<rparr>, out, r))
      else (s, [], None))"
| "Security_step s (NewCodeAnswer a) =
     (if ch_pending (code_popup s) = 0 then (s, [], None)
      else (case Code_answer a ((code_popup s)\<lparr>ch_pending := ch_pending (code_popup s) - 1\<rparr>) of
              (p, out) \<Rightarrow> (s\<lparr>code_popup := p\<rparr>, out, None)))"

definition Security_next :: "security_tab \<Rightarrow> security_event \<Rightarrow> security_tab" where
  "Security_next s e = fst (Security_step s e)"

definition Security_sends :: "security_tab \<Rightarrow> security_event \<Rightarrow> api_request option" where
  "Security_sends s e = snd (snd (Security_step s e))"

definition Security_view :: "security_tab \<Rightarrow> security_event ui" where
  "Security_view s =
     Box
       [Text ''DDa(ng nha^.p'', Text ''Qua?n ly/ ddo^?i ma^.t kha^?u, ma~ ba?o ma^.t.'',
        SettingSelect ''DDo^?i ma^.t kha^?u'' (OpenModal ''password''),
        whenever (ch_open (password_popup s)) (ChangePassword_view (password_popup s)),
        SettingSelect ''DDo^?i ma~ ba?o ma^.t'' (OpenModal ''security_code''),
        whenever (ch_open (code_popup s)) (ChangeSecurityCode_view (code_popup s)),
        Text ''Kie^?m tra ba?o ma^.t'', Text ''Ca/c thie^/t bi. dda~ dda(ng nha^.p'', Text ''soon...'']"

section \<open>The profile tab\<close>

record profile_tab =
  pt_user :: jsval
  pt_image :: "jsval option"
  pt_loading :: bool
  pt_modal :: bool

definition Profile_init :: "jsval \<Rightarrow> profile_tab throws" where
  "Profile_init d =
     throws_bind (get_prop d ''email'') (\<lambda>email.
     throws_bind (get_prop d ''avatar'') (\<lambda>avatar.
       Inr \<lparr>pt_user = JObj [(''full_name'', get_oprop d ''full_name''), (''email'', email),
                            (''avatar'', js_or avatar (JStr ''default_avatar.jpg''))],
            pt_image = None, pt_loading = False, pt_modal = False\<rparr>))"

definition Profile_handleInputChange :: "string \<Rightarrow> string \<Rightarrow> profile_tab \<Rightarrow> profile_tab" where
  "Profile_handleInputChange field_name value s =
     s\<lparr>pt_user := spread_set (pt_user s) field_name (JStr value)\<rparr>"

definition Profile_handleImageChange :: "jsval \<Rightarrow> profile_tab \<Rightarrow> profile_tab" where
  "Profile_handleImageChange file s = s\<lparr>pt_image := Some file\<rparr>"

text \<open>The entries of the form data; a text that is not there is appended as \<open>undefined\<close>.\<close>

definition Profile_handleSubmit :: "profile_tab \<Rightarrow> profile_tab \<times> api_request" where
  "Profile_handleSubmit s =
     (s\<lparr>pt_loading := True\<rparr>,
      editProfile
        (JObj ((case pt_image s of None \<Rightarrow> [] | Some file \<Rightarrow> [(''image'', file)]) @
               [(''full_name'', JStr (js_text (get_oprop (pt_user s) ''full_name'')))])))"

fun Profile_answer :: "reply \<Rightarrow> profile_tab \<Rightarrow> profile_tab \<times> effect list" where
  "Profile_answer (Resolved status d) s =
     (s\<lparr>pt_loading := False\<rparr>, [Toast Success (JStr ''Thay ddo^?i tho^ng tin tha`nh co^ng'')])"
| "Profile_answer (Failed e) s =
     (case path e [''response'', ''data'', ''message''] of
        Inl _ \<Rightarrow> (s, [])
      | Inr m \<Rightarrow> (s\<lparr>pt_loading := False\<rparr>, [Toast Error m]))"

definition handleLogOut :: api_request where
  "handleLogOut = logout"

definition logOut_catch :: "jsval \<Rightarrow> effect list" where
  "logOut_catch e =
     (case path e [''data'', ''message''] of
        Inl e' \<Rightarrow> [Uncaught e']
      | Inr m \<Rightarrow> [Toast Error m])"

fun handleLogOut_answer :: "reply \<Rightarrow> profile_tab \<Rightarrow> profile_tab \<times> effect list" where
  "handleLogOut_answer (Resolved status d) s =
     (if status = 200
      then (case get_prop d ''message'' of
              Inl e \<Rightarrow> (s, logOut_catch e)
            | Inr m \<Rightarrow>
                (s\<lparr>pt_modal := False\<rparr>, [Toast Success m, Delay 1000 [Dispatch RemoveAccessToken]]))
      else (s, []))"
| "handleLogOut_answer (Failed e) s = (s, logOut_catch e)"

datatype profile_event =
    ProfileTyped string string | ProfileSubmit | PickImage | AskLogOut | ConfirmLogOut | CancelLogOut

definition Profile_view :: "jsval \<Rightarrow> profile_tab \<Rightarrow> profile_event ui" where
  "Profile_view picture s =
     Box
       [Box
         [SettingInput [MaxLength 30] ''Ho. va` te^n'' ''full_name'' (get_oprop (pt_user s) ''full_name'')
            (ProfileTyped ''full_name'') False,
          SettingInput [MaxLength 30] ''Email'' ''email'' (get_oprop (pt_user s) ''email'') (ProfileTyped ''email'') True],
        UploadImage_view PickImage picture,
        SettingButton (pt_loading s) ProfileSubmit ''Ca^.p nha^.t'',
        Btn False AskLogOut [Text ''DDa(ng xua^/t''],
        Sheet (pt_modal s) CancelLogOut
          [Text ''Xa/c nha^.n dda(ng xua^/t'', Text ''Ba.n co/ cha(/c cha(/n muo^/n dda(ng xua^/t kho^ng?'',
           Btn False ConfirmLogOut [Text ''Xa/c nha^.n''], Btn False CancelLogOut [Text ''Hu?y'']]]"

section \<open>The page\<close>

fun Setting_answer :: "reply \<Rightarrow> query" where
  "Setting_answer (Resolved status d) =
     (case path d [''data'', ''userData''] of
        Inl e \<Rightarrow> QError
      | Inr u \<Rightarrow> if u = Undef then QError else QData u)"
| "Setting_answer (Failed e) = QError"

datatype setting_event = ProfileEvent profile_event | SecurityEvent security_event | ChooseTab bool

text \<open>
  The page mounts the profile tab on the data of the query, whatever the query came to;
  \<open>on_security\<close> tells which tab is chosen.
\<close>

definition Setting_view ::
    "query \<Rightarrow> bool \<Rightarrow> security_tab \<Rightarrow> setting_event ui throws" where
  "Setting_view q on_security sec =
     (if q = QLoading then Inr Loading
      else
        throws_bind
          (if on_security then Inr (map_ui SecurityEvent (Security_view sec))
           else throws_bind (Profile_init (query_data q)) (\<lambda>p.
                  Inr (map_ui ProfileEvent (Profile_view (get_oprop (pt_user p) ''avatar'') p))))
          (\<lambda>panel.
             Inr (Box [Click (ChooseTab False) [Text ''Tho^ng tin''], Click (ChooseTab True) [Text ''Ba?o ma^.t''],
                       panel])))"


section \<open>Invariants of the forms\<close>

text \<open>The data of both forms are objects, and no handler of the second form sets its error.\<close>

definition is_obj :: "jsval \<Rightarrow> bool" where
  "is_obj v \<longleftrightarrow> (\<exists>fs. v = JObj fs)"

lemma is_obj_simps [simp]: "is_obj (JObj fs)" "is_obj password_initialData" "is_obj code_initialData"
  by (simp_all add: is_obj_def password_initialData_def code_initialData_def)

lemma is_obj_spread_set [simp]: "is_obj (spread_set v k w)"
  by (cases v) (simp_all add: is_obj_def)

lemma get_spread_set_obj: "is_obj v \<Longrightarrow> k' \<noteq> k \<Longrightarrow> get_oprop (spread_set v k w) k' = get_oprop v k'"
  by (auto simp: is_obj_def simp del: spread_set.simps)

lemma toggle_form_data [simp]: "is_obj d \<Longrightarrow> is_obj (ch_data s) \<Longrightarrow> is_obj (ch_data (toggle_form d s))"
  by (simp add: toggle_form_def)

definition form_data_ok :: "security_tab \<Rightarrow> bool" where
  "form_data_ok s \<longleftrightarrow> is_obj (ch_data (password_popup s)) \<and> is_obj (ch_data (code_popup s))"

lemmas form_handlers =
  handleOpenModal_def Password_handleInputChange_def Password_handleSubmit_def
  Code_handleInputChange_def Code_handleSubmit_def Let_def

lemma Password_answer_data:
  "is_obj (ch_data s) \<Longrightarrow> is_obj (ch_data (fst (Password_answer a s)))"
  by (cases a) simp_all

lemma Code_answer_data: "is_obj (ch_data s) \<Longrightarrow> is_obj (ch_data (fst (Code_answer a s)))"
  by (cases a) simp_all

interpretation security_forms: component Security_next form_data_ok
  by (unfold_locales, rename_tac s e, case_tac e)
    (auto simp: Security_next_def form_data_ok_def form_handlers split_beta
      intro: Password_answer_data Code_answer_data)

lemma form_data_ok_init: "form_data_ok Security_init"
  by (simp add: form_data_ok_def Security_init_def closed_form_def)

text \<open>What the forms ask of their fields.\<close>

lemma password_form_valid [simp]: "form_valid (ChangePassword_view s)"
  by (simp add: ChangePassword_view_def SettingInput_def form_valid_def password_constraints_def accepts_def)

lemma code_form_valid:
  assumes "get_oprop (ch_data s) ''old_code'' = JStr old" and "get_oprop (ch_data s) ''new_code'' = JStr new"
    and "get_oprop (ch_data s) ''confirm_code'' = JStr again"
  shows "form_valid (ChangeSecurityCode_view s) \<longleftrightarrow> (\<forall>c \<in> set (old @ new @ again). is_digit c)"
proof -
  have "accepts code_constraints v \<longleftrightarrow> (\<forall>c \<in> set v. is_digit c)" for v
    by (auto simp: accepts_def code_constraints_def matches_lang lang_Star_Cls simp del: lang.simps)
  then show ?thesis
    using assms by (auto simp: ChangeSecurityCode_view_def SettingInput_def form_valid_def field_text_def nullish_def)
qed

text \<open>The three codes, along a run in which the fields of the form are typed within their limits.\<close>

definition code_fields :: "string list" where
  "code_fields = [''old_code'', ''new_code'', ''confirm_code'']"

definition short_codes :: "change_form \<Rightarrow> bool" where
  "short_codes p \<longleftrightarrow>
     is_obj (ch_data p) \<and>
     (\<forall>k \<in> set code_fields. \<exists>v. get_oprop (ch_data p) k = JStr v \<and> length v \<le> 6)"

definition form_typing :: "security_event \<Rightarrow> bool" where
  "form_typing e \<longleftrightarrow>
     (case e of NewCodeTyped f v \<Rightarrow> f \<in> set code_fields \<and> typable code_constraints v | _ \<Rightarrow> True)"

lemma short_codes_initial:
  "is_obj code_initialData \<and> (\<forall>k \<in> set code_fields. \<exists>v. get_oprop code_initialData k = JStr v \<and> length v \<le> 6)"
  by (simp add: code_initialData_def code_fields_def)

lemma short_codes_typed:
  assumes "short_codes p" and "f \<in> set code_fields" and "length v \<le> 6"
  shows "short_codes (Code_handleInputChange f v p)"
proof -
  let ?p = "Code_handleInputChange f v p"
  have d: "ch_data ?p = spread_set (ch_data p) f (JStr v)" by (simp add: Code_handleInputChange_def Let_def)
  have obj: "is_obj (ch_data p)" using assms(1) by (simp add: short_codes_def)
  have "\<exists>w. get_oprop (ch_data ?p) k = JStr w \<and> length w \<le> 6" if "k \<in> set code_fields" for k
  proof (cases "k = f")
    case False
    then have "get_oprop (ch_data ?p) k = get_oprop (ch_data p) k" unfolding d by (rule get_spread_set_obj [OF obj])
    with assms(1) that show ?thesis by (simp add: short_codes_def)
  qed (simp add: d assms(3))
  then show ?thesis by (simp add: short_codes_def d)
qed

lemma short_codes_answer: "short_codes p \<Longrightarrow> short_codes (fst (Code_answer a p))"
  using short_codes_initial by (cases a) (auto simp: short_codes_def toggle_form_def)

lemma short_codes_step:
  assumes "short_codes (code_popup s)" and "form_typing e"
  shows "short_codes (code_popup (Security_next s e))"
proof (cases e)
  case (NewCodeTyped f v)
  with assms show ?thesis
    by (simp add: Security_next_def form_typing_def typable_def code_constraints_def short_codes_typed)
next
  case (OpenModal f)
  with assms(1) short_codes_initial show ?thesis
    by (auto simp: Security_next_def handleOpenModal_def toggle_form_def short_codes_def)
next
  case (NewCodeAnswer a)
  have "short_codes ((code_popup s)\<lparr>ch_pending := n\<rparr>)" for n using assms(1) by (simp add: short_codes_def)
  with assms(1) NewCodeAnswer show ?thesis
    by (simp add: Security_next_def split_beta short_codes_answer)
qed (use assms(1) in \<open>auto simp: Security_next_def Code_handleSubmit_def Let_def split_beta short_codes_def\<close>)

lemma short_codes_run:
  "short_codes (code_popup s) \<Longrightarrow> list_all form_typing es \<Longrightarrow> short_codes (code_popup (run Security_next s es))"
  by (induction es arbitrary: s) (simp_all add: short_codes_step)

lemma Code_answer_error: "ch_error p = Undef \<Longrightarrow> ch_error (fst (Code_answer a p)) = Undef"
  by (cases a) (simp_all add: toggle_form_def)

lemma code_error_unset:
  "ch_error (code_popup t) = Undef \<Longrightarrow>
   \<forall>f v. NewCodeTyped f v \<in> set es \<longrightarrow> f \<in> {''old_code'', ''new_code'', ''confirm_code''} \<Longrightarrow>
     ch_error (code_popup (run Security_next t es)) = Undef"
proof (induction es arbitrary: t)
  case Nil
  then show ?case by simp
next
  case (Cons e es)
  have "ch_error (code_popup (Security_next t e)) = Undef"
  proof (cases e)
    case (NewCodeTyped f v)
    with Cons.prems(2) have "f \<noteq> ''confirmNewPassword''" by auto
    with Cons.prems(1) NewCodeTyped show ?thesis
      by (simp add: Security_next_def Code_handleInputChange_def Let_def)
  qed (use Cons.prems(1) in \<open>auto simp: Security_next_def handleOpenModal_def toggle_form_def
        Code_handleSubmit_def Let_def split_beta Code_answer_error\<close>)
  moreover from Cons.prems(2)
  have "\<forall>f v. NewCodeTyped f v \<in> set es \<longrightarrow> f \<in> {''old_code'', ''new_code'', ''confirm_code''}"
    by (meson list.set_intros(2))
  ultimately show ?case unfolding run.simps by (rule Cons.IH)
qed

section \<open>Properties\<close>

text \<open>
  C31 The confirmation of a new password is checked when it is typed, and only then. If it is what
  the user typed last, the form only sends a password equal to its confirmation; but when the
  form would send it and the new password is then changed, the changed password is sent with the
  old confirmation.
\<close>
theorem password_confirmation:
  assumes "s = run Security_next Security_init (es @ [PasswordTyped ''confirmNewPassword'' v])"
    and "Security_sends s PasswordSubmit = Some r"
  shows "get_oprop (body r) ''new_password'' = JStr v \<and>
    get_oprop (body r) ''confirmNewPassword'' = JStr v \<and>
    (q \<noteq> [] \<longrightarrow>
      (\<exists>r'. Security_sends (Security_next s (PasswordTyped ''new_password'' q)) PasswordSubmit = Some r' \<and>
         get_oprop (body r') ''new_password'' = JStr q \<and>
         get_oprop (body r') ''confirmNewPassword'' = JStr v))"
proof -
  define s1 where "s1 = run Security_next Security_init es"
  have s: "s = Security_next s1 (PasswordTyped ''confirmNewPassword'' v)"
    by (simp add: assms(1) s1_def)
  have "form_data_ok s1" unfolding s1_def by (rule security_forms.inv_run [OF form_data_ok_init])
  then have obj: "is_obj (ch_data (password_popup s1))" by (simp add: form_data_ok_def)
  have opened: "ch_open (password_popup s1)"
    using assms(2) by (auto simp: s Security_next_def Security_sends_def split: if_splits)
  show ?thesis
    using assms(2) opened obj
    by (auto simp: s Security_next_def Security_sends_def form_handlers get_spread_set_obj
        changePassword_request_def instance_request_def split: if_splits simp del: spread_set.simps)
qed

theorem password_confirmation_witness:
  "let es = [OpenModal ''password'', PasswordTyped ''old_password'' ''a'',
             PasswordTyped ''new_password'' ''b'', PasswordTyped ''confirmNewPassword'' ''b'']
   in \<exists>r'. Security_sends (run Security_next Security_init (es @ [PasswordTyped ''new_password'' ''x'']))
             PasswordSubmit = Some r' \<and>
           get_oprop (body r') ''new_password'' = JStr ''x'' \<and>
           get_oprop (body r') ''confirmNewPassword'' = JStr ''b''"
proof -
  let ?es = "[OpenModal ''password'', PasswordTyped ''old_password'' ''a'', PasswordTyped ''new_password'' ''b'']"
  let ?s = "run Security_next Security_init (?es @ [PasswordTyped ''confirmNewPassword'' ''b''])"
  have "\<exists>r. Security_sends ?s PasswordSubmit = Some r"
    by (simp add: Security_next_def Security_sends_def Security_init_def closed_form_def toggle_form_def
        password_initialData_def form_handlers)
  then obtain r where "Security_sends ?s PasswordSubmit = Some r" by blast
  from password_confirmation [OF refl this, of "''x''"] show ?thesis by simp
qed

text \<open>
  C32 The form of the security code never compares the new code with its confirmation: whatever
  is typed into its three fields within their limits, in any order and with any answers in
  between, each field holds at most six characters, and submitting the form sends what they hold
  exactly when none is empty and all are digits, however the two codes differ and however short
  they are; the browser stops a code with another character before the handler runs.
\<close>
theorem code_change_unconfirmed:
  assumes "list_all form_typing es" and "s = run Security_next Security_init es"
    and "ch_open (code_popup s)"
  shows "\<exists>old new again.
    get_oprop (ch_data (code_popup s)) ''old_code'' = JStr old \<and>
    get_oprop (ch_data (code_popup s)) ''new_code'' = JStr new \<and>
    get_oprop (ch_data (code_popup s)) ''confirm_code'' = JStr again \<and>
    length old \<le> 6 \<and> length new \<le> 6 \<and> length again \<le> 6 \<and>
    Security_sends s NewCodeSubmit =
      (if old \<noteq> [] \<and> new \<noteq> [] \<and> again \<noteq> [] \<and> (\<forall>c \<in> set (old @ new @ again). is_digit c)
       then Some (changeSecurityCode_request (ch_data (code_popup s))) else None)"
proof -
  have "short_codes (code_popup Security_init)"
    using short_codes_initial by (simp add: short_codes_def Security_init_def closed_form_def)
  then have "short_codes (code_popup s)" unfolding assms(2) using assms(1) by (rule short_codes_run)
  then obtain old new again where c: "get_oprop (ch_data (code_popup s)) ''old_code'' = JStr old"
      "get_oprop (ch_data (code_popup s)) ''new_code'' = JStr new"
      "get_oprop (ch_data (code_popup s)) ''confirm_code'' = JStr again"
    and l: "length old \<le> 6" "length new \<le> 6" "length again \<le> 6"
    by (auto simp: short_codes_def code_fields_def)
  have "\<forall>f v. NewCodeTyped f v \<in> set es \<longrightarrow> f \<in> {''old_code'', ''new_code'', ''confirm_code''}"
    using assms(1) by (auto simp: list_all_iff form_typing_def code_fields_def)
  with code_error_unset [of Security_init es]
  have "ch_error (code_popup s) = Undef" by (simp add: assms(2) Security_init_def closed_form_def)
  with assms(3) c have "Security_sends s NewCodeSubmit =
      (if old \<noteq> [] \<and> new \<noteq> [] \<and> again \<noteq> [] \<and> (\<forall>c \<in> set (old @ new @ again). is_digit c)
       then Some (changeSecurityCode_request (ch_data (code_popup s))) else None)"
    by (simp add: Security_sends_def Code_handleSubmit_def code_form_valid)
  with c l show ?thesis by blast
qed

theorem code_change_unconfirmed_witness:
  "let s = run Security_next Security_init
             [OpenModal ''security_code'', NewCodeTyped ''old_code'' ''1'', NewCodeTyped ''new_code'' ''2'',
              NewCodeTyped ''confirm_code'' ''345'']
   in Security_sends s NewCodeSubmit = Some (changeSecurityCode_request (ch_data (code_popup s)))"
proof -
  let ?es = "[OpenModal ''security_code'', NewCodeTyped ''old_code'' ''1'', NewCodeTyped ''new_code'' ''2'',
              NewCodeTyped ''confirm_code'' ''345'']"
  let ?s = "run Security_next Security_init ?es"
  have "list_all form_typing ?es" by code_simp
  moreover have o: "ch_open (code_popup ?s)"
    and d: "ch_data (code_popup ?s) =
      JObj [(''old_code'', JStr ''1''), (''new_code'', JStr ''2''), (''confirm_code'', JStr ''345'')]"
    by (simp_all add: Security_next_def Security_init_def closed_form_def toggle_form_def
        handleOpenModal_def code_initialData_def Code_handleInputChange_def)
  moreover have "\<forall>c \<in> set ''12345''. is_digit c" by code_simp
  ultimately show ?thesis
    using code_change_unconfirmed [OF _ refl, of ?es] unfolding Let_def by simp
qed

text \<open>
  A popup closed while its change is under way opens again when the change succeeds.
\<close>

lemma late_success_reopens:
  assumes "ch_open (password_popup s)" and "ch_pending (password_popup s) = Suc n"
  shows "ch_open (password_popup
    (run Security_next s [OpenModal ''password'', PasswordAnswer (Resolved 200 d)]))"
  using assms by (simp add: Security_next_def handleOpenModal_def toggle_form_def)

text \<open>
  What logging out does. When the server confirms with a message, the token leaves the store,
  one second later; when the call fails, in the shape \<^verbatim>\<open>axios\<close> gives its errors (a refusal with
  any status and body, or no answer at all), nothing changes: the token stays, no message is
  shown, and the handler itself dies of an exception.
\<close>
lemma logout_outcome:
  assumes "get_prop d ''message'' = Inr m"
  shows "handleLogOut_answer (Resolved 200 d) s =
      (s\<lparr>pt_modal := False\<rparr>, [Toast Success m, Delay 1000 [Dispatch RemoveAccessToken]]) \<and>
    accessToken (auth (rootReducer st RemoveAccessToken)) = JStr [] \<and>
    handleLogOut_answer (Failed (http_error status b)) s = (s, [Uncaught type_error]) \<and>
    handleLogOut_answer (Failed network_error) s = (s, [Uncaught type_error])"
  using assms by (simp add: logOut_catch_def http_error_def network_error_def rootReducer_def)

lemma logout_outcome_witness:
  "\<forall>s. snd (handleLogOut_answer (Resolved 200 (JObj [(''message'', JStr ''bye'')])) s) =
     [Toast Success (JStr ''bye''), Delay 1000 [Dispatch RemoveAccessToken]]"
  using logout_outcome [of "JObj [(''message'', JStr ''bye'')]" "JStr ''bye''"] by simp

text \<open>
  The settings and the profile of the server: an answer whose profile is under \<open>payload\<close>, as
  the home page reads it, fails the query, and the page, which mounts the profile tab on the data
  the query does not have, throws instead of showing anything; the same holds for a failed call.
\<close>
lemma settings_need_other_profile:
  assumes "a = Failed e \<or> a = Resolved status (JObj [(''payload'', p)])"
  shows "Setting_answer a = QError \<and> Setting_view (Setting_answer a) False sec = Inl type_error"
  using assms by (auto simp: Setting_view_def Profile_init_def throws_bind_def)

lemma settings_need_other_profile_witness:
  "Setting_view (Setting_answer (Resolved 200 (JObj [(''payload'', JObj [(''user'', JObj [])])])))
     False Security_init = Inl type_error"
  using settings_need_other_profile [of _ _ 200 "JObj [(''user'', JObj [])]" Security_init] by blast

end
