(* ===== verification/HomePage.thy ===== *)
theory HomePage
  imports Settings
begin

text \<open>
  The home page (\<^verbatim>\<open>pages/home.tsx\<close> and \<^verbatim>\<open>components/home\<close>): the greeting and the balance, the
  assets with a balance of their own, and the recent transactions, a query of
  \<^verbatim>\<open>@tanstack/react-query\<close> under a constant key: the library calls it when a component with the
  query is mounted or the window gets the focus and its data are missing or stale, and again when
  a call failed, but not when the component is rendered again.
\<close>

section \<open>The buttons\<close>

text \<open>A button of \<^verbatim>\<open>constants/index.ts\<close>: address, picture and title.\<close>

definition buttonFeatures :: "(string \<times> string \<times> string) list" where
  "buttonFeatures =
     [(''/transfer'', ''cashin.svg'', ''Gu+?i''),
      (''/receive-page'', ''history_trans.svg'', ''Nha^.n''),
      (''/scan-qrcode'', ''scan-qr.svg'', ''Que/t ma~''),
      (''/deposit-withdraw'', ''depo.svg'', ''Na.p/Ru/t''),
      (''/transaction/history'', ''history_trans.svg'', ''Li.ch su+?'')]"

section \<open>Assets\<close>

definition fetchBalance :: api_request where
  "fetchBalance = instance_request GET ''/api/v1/wallets/balance'' Undef"

definition Assets_init :: jsval where
  "Assets_init = JStr ''0''"

fun fetchBalance_answer :: "reply \<Rightarrow> jsval \<Rightarrow> jsval" where
  "fetchBalance_answer (Resolved status d) b =
     js_coalesce (opath d [''payload'', ''balance'']) (JNum (Fin 0))"
| "fetchBalance_answer (Failed e) b = b"

definition Assets_view :: "intl_format \<Rightarrow> bool \<Rightarrow> jsval \<Rightarrow> 'e ui throws" where
  "Assets_view intl isLoading b =
     (if isLoading
      then Inr (Box [Text ''Ta`i sa?n'', ItemCurrencyLoading, ItemCurrencyLoading, ItemCurrencyLoading])
      else
        throws_bind (ItemCurrency_home intl ''vnd_icon.jpg'' Undef ''VND'' ''Vietnamese Dong'') (\<lambda>vnd.
        throws_bind (ItemCurrency_home intl ''usd_icon.png'' Undef ''USD'' ''US Dollar'') (\<lambda>usd.
        throws_bind (ItemCurrency_home intl ''eth_icon.png'' (JObj [(''balance'', b)]) ''ETH'' ''Ethereum'') (\<lambda>eth.
          Inr (Box [Text ''Ta`i sa?n'', vnd, usd, eth])))))"

section \<open>Recent transactions\<close>

record recent =
  rc_query :: query
  rc_fetching :: bool
  rc_failures :: nat
  rc_waiting :: bool      \<comment> \<open>between a failed call and its repetition\<close>
  rc_mounted :: bool
  rc_address :: jsval     \<comment> \<open>the property of the last render\<close>











text \<open>The rows get the address of the wallet, but no \<open>userID\<close>.\<close>

definition RecentTransaction_view :: "intl_format \<Rightarrow> date_format \<Rightarrow> recent \<Rightarrow> 'e ui throws" where
  "RecentTransaction_view intl fmt_date s =
     (let ts = opath (query_data (rc_query s)) [''transactions''];
          n = (case js_length ts of Inl _ \<Rightarrow> Undef | Inr k \<Rightarrow> k)
      in if rc_query s = QLoading \<and> rc_fetching s
         then Inr (Box (replicate 5 (Styled ''animate-pulse'' [Box []])))
         else if js_gt n (Fin 0) then
           (case ts of
              JArr items \<Rightarrow>
                throws_bind (map_throws (\<lambda>item. ItemTransaction intl fmt_date item Undef) items)
                  (\<lambda>rows. Inr (Box rows))
            | _ \<Rightarrow> Inl type_error)
         else Inr (Box [Text ''Chu+a co/ giao di.ch na`o'', Img (JStr ''empty_transaction.jpg'')]))"

section \<open>The page\<close>

definition getGreetingByTime :: "nat \<Rightarrow> string" where
  "getGreetingByTime hour =
     (if hour < 12 then ''Cha`o buo^?i sa/ng''
      else if hour < 18 then ''Cha`o buo^?i chie^`u''
      else ''Cha`o buo^?i to^/i'')"

text \<open>The effect that reloads the profile after a payment or a transfer.\<close>

definition Home_walletUpdated :: "RootState \<Rightarrow> effect list" where
  "Home_walletUpdated st =
     (if isUpdated (wallet st) then [Refetch, Dispatch (SetWalletUpdated False)] else [])"

text \<open>The two parts of the profile, each \<open>undefined\<close> before the profile is there.\<close>

definition Home_payload :: "jsval \<Rightarrow> jsval" where
  "Home_payload profileData =
     js_or (get_oprop profileData ''payload'') (JObj [(''userData'', Undef), (''walletData'', Undef)])"

definition Home_user :: "jsval \<Rightarrow> jsval" where
  "Home_user profileData = get_oprop (Home_payload profileData) ''user''"

definition Home_wallet :: "jsval \<Rightarrow> jsval" where
  "Home_wallet profileData = get_oprop (Home_payload profileData) ''wallet''"

definition Home_balance :: "jsval \<Rightarrow> jsval" where
  "Home_balance profileData =
     (let cs = get_oprop (Home_wallet profileData) ''currencies'';
          first_one = (case get_index cs 0 of Inl _ \<Rightarrow> Undef | Inr c \<Rightarrow> c)
      in js_or (get_oprop first_one ''balance'') (JNum (Fin 0)))"

definition renderUserGreeting :: "nat \<Rightarrow> bool \<Rightarrow> jsval \<Rightarrow> 'e ui" where
  "renderUserGreeting hour isLoading profileData =
     (if isLoading then Box [Box [], Box []]
      else
        Box [Text (getGreetingByTime hour),
             Expr (js_or (js_or (get_oprop (Home_user profileData) ''full_name'')
                                (get_oprop (Home_user profileData) ''email''))
                     (JStr ''Ngu+o+`i du`ng''))])"

definition Home_view ::
    "intl_format \<Rightarrow> date_format \<Rightarrow> nat \<Rightarrow> bool \<Rightarrow> jsval \<Rightarrow> jsval \<Rightarrow> recent \<Rightarrow> unit ui throws" where
  "Home_view intl fmt_date hour isLoading profileData eth_balance rc =
     throws_bind
       (if isLoading then Inr (Box [])
        else throws_bind (formatCurrency intl (Home_balance profileData) (JStr ''VND'')) (\<lambda>t. Inr (Text t)))
       (\<lambda>balance_part.
     throws_bind (Assets_view intl isLoading eth_balance) (\<lambda>assets.
     throws_bind (RecentTransaction_view intl fmt_date rc) (\<lambda>recent_part.
       Inr (Box
         [Styled (if isLoading then ''animate-pulse'' else ''object-cover'')
            [whenever (\<not> isLoading \<and> truthy (get_oprop (Home_user profileData) ''avatar''))
               (Img (get_oprop (Home_user profileData) ''avatar''))],
          renderUserGreeting hour isLoading profileData,
          Link ''/setting'' [Icon ''settings.svg''],
          balance_part,
          Box (map (\<lambda>(to, img, title). ButtonFeature to img title) buttonFeatures),
          assets,
          Text ''Giao di.ch ga^`n dda^y'',
          recent_part]))))"

text \<open>The address the page hands to the recent transactions when it is rendered.\<close>

definition Home_address :: "jsval \<Rightarrow> jsval" where
  "Home_address profileData = get_oprop (Home_wallet profileData) ''address''"

section \<open>Properties\<close>

text \<open>The effect reloads the profile once: the flag it waits for is reset by what it dispatches.\<close>

lemma wallet_reload_once:
  "Home_walletUpdated (run rootReducer st (dispatched (Home_walletUpdated st))) = []"
  by (simp add: Home_walletUpdated_def rootReducer_def)









lemma Home_address_unknown [simp]: "Home_address Undef = Undef"
  by (simp add: Home_address_def Home_wallet_def Home_payload_def js_or_def)





end
