(* ===== verification/Business.thy ===== *)
theory Business
  imports Widgets
begin

text \<open>
  The pages of an organization: the table of users (\<^verbatim>\<open>pages/b2b/users.tsx\<close>) with its search, its
  two filters, invitations and removals, and the dashboard (\<^verbatim>\<open>pages/b2b/dashboard.tsx\<close>). Both
  load their data with a timer. The list shown is a second state, recomputed by an effect when
  the users or a filter change.
\<close>

section \<open>Users\<close>

datatype role = Admin | Member | Viewer

datatype user_status = Active | Inactive | Pending

fun role_text :: "role \<Rightarrow> string" where
  "role_text Admin = ''admin''"
| "role_text Member = ''member''"
| "role_text Viewer = ''viewer''"

fun status_text :: "user_status \<Rightarrow> string" where
  "status_text Active = ''active''"
| "status_text Inactive = ''inactive''"
| "status_text Pending = ''pending''"

record b2b_user =
  bu_id :: string
  bu_email :: string
  bu_fullName :: string
  bu_role :: role
  bu_status :: user_status
  bu_lastLogin :: string
  bu_createdAt :: string
  bu_permissions :: "string list"

definition mockUsers :: "b2b_user list" where
  "mockUsers =
     [\<lparr>bu_id = ''1'', bu_email = ''john.doe@company.com'', bu_fullName = ''John Doe'', bu_role = Admin,
       bu_status = Active, bu_lastLogin = ''2024-01-15T10:30:00Z'',
       bu_createdAt = ''2024-01-01T00:00:00Z'',
       bu_permissions = [''wallet:read'', ''wallet:write'', ''transaction:sign'', ''user:manage'']\<rparr>,
      \<lparr>bu_id = ''2'', bu_email = ''jane.smith@company.com'', bu_fullName = ''Jane Smith'', bu_role = Member,
       bu_status = Active, bu_lastLogin = ''2024-01-14T15:45:00Z'',
       bu_createdAt = ''2024-01-05T00:00:00Z'', bu_permissions = [''wallet:read'', ''transaction:sign'']\<rparr>,
      \<lparr>bu_id = ''3'', bu_email = ''bob.wilson@company.com'', bu_fullName = ''Bob Wilson'', bu_role = Viewer,
       bu_status = Active, bu_lastLogin = ''2024-01-13T09:20:00Z'',
       bu_createdAt = ''2024-01-10T00:00:00Z'', bu_permissions = [''wallet:read'']\<rparr>,
      \<lparr>bu_id = ''4'', bu_email = ''alice.johnson@company.com'', bu_fullName = ''Alice Johnson'',
       bu_role = Member, bu_status = Pending, bu_lastLogin = [],
       bu_createdAt = ''2024-01-12T00:00:00Z'', bu_permissions = [''wallet:read'', ''transaction:sign'']\<rparr>]"

record users_page =
  up_users :: "b2b_user list"
  up_filtered :: "b2b_user list"
  up_search :: string
  up_role :: string
  up_status :: string
  up_loading :: bool
  up_invite :: bool
  up_inviteEmail :: string
  up_inviteRole :: role

definition B2BUsers_init :: users_page where
  "B2BUsers_init =
     \<lparr>up_users = [], up_filtered = [], up_search = [], up_role = ''all'', up_status = ''all'',
      up_loading = True, up_invite = False, up_inviteEmail = [], up_inviteRole = Member\<rparr>"

text \<open>The effect on the users and the filters, one stage after the other.\<close>

definition filterUsers :: "users_page \<Rightarrow> b2b_user list" where
  "filterUsers s =
     (let filtered = up_users s;
          filtered = (if up_search s \<noteq> [] then
                        filter (\<lambda>u. str_includes (to_lower (bu_email u)) (to_lower (up_search s)) \<or>
                                    str_includes (to_lower (bu_fullName u)) (to_lower (up_search s))) filtered
                      else filtered);
          filtered = (if up_role s \<noteq> ''all''
                      then filter (\<lambda>u. role_text (bu_role u) = up_role s) filtered else filtered);
          filtered = (if up_status s \<noteq> ''all''
                      then filter (\<lambda>u. status_text (bu_status u) = up_status s) filtered else filtered)
      in filtered)"

definition same_deps :: "users_page \<Rightarrow> users_page \<Rightarrow> bool" where
  "same_deps s t \<longleftrightarrow>
     up_users s = up_users t \<and> up_search s = up_search t \<and> up_role s = up_role t \<and>
     up_status s = up_status t"

definition users_effect :: "users_page \<Rightarrow> users_page \<Rightarrow> users_page" where
  "users_effect before s = (if same_deps before s then s else s\<lparr>up_filtered := filterUsers s\<rparr>)"

text \<open>
  An invitation takes its identifier and its date from the clock: \<open>now\<close> in milliseconds, and
  its ISO text.
\<close>

definition handleInviteUser :: "nat \<Rightarrow> string \<Rightarrow> users_page \<Rightarrow> users_page \<times> effect list" where
  "handleInviteUser now iso_text s =
     (if up_inviteEmail s = [] \<or> \<not> str_includes (up_inviteEmail s) ''@''
      then (s, [Toast Error (JStr ''Please enter a valid email address'')])
      else
        (s\<lparr>up_users := up_users s @
              [\<lparr>bu_id = show_nat now, bu_email = up_inviteEmail s, bu_fullName = ''Pending Invitation'',
                bu_role = up_inviteRole s, bu_status = Pending, bu_lastLogin = [], bu_createdAt = iso_text,
                bu_permissions = (if up_inviteRole s = Member then [''wallet:read'', ''transaction:sign'']
                                  else [''wallet:read''])\<rparr>],
           up_inviteEmail := [], up_inviteRole := Member, up_invite := False\<rparr>,
         [Toast Success (JStr ''Invitation sent successfully!'')]))"

definition handleDeleteUser :: "bool \<Rightarrow> string \<Rightarrow> users_page \<Rightarrow> users_page \<times> effect list" where
  "handleDeleteUser confirmed userId s =
     (if confirmed
      then (s\<lparr>up_users := filter (\<lambda>u. bu_id u \<noteq> userId) (up_users s)\<rparr>,
            [Toast Success (JStr ''User removed successfully'')])
      else (s, []))"

datatype users_event =
    UsersLoaded
  | SearchTyped string | RoleChosen string | StatusChosen string
  | ShowInvite bool | InviteEmailTyped string | InviteRoleChosen role
  | SendInvite nat string
  | RemoveUser string bool
  | EditUser string

fun users_handler :: "users_page \<Rightarrow> users_event \<Rightarrow> users_page \<times> effect list" where
  "users_handler s UsersLoaded =
     (if up_loading s
      then (s\<lparr>up_users := mockUsers, up_filtered := mockUsers, up_loading := False\<rparr>, [])
      else (s, []))"
| "users_handler s (SearchTyped t) = (s\<lparr>up_search := t\<rparr>, [])"
| "users_handler s (RoleChosen t) = (s\<lparr>up_role := t\<rparr>, [])"
| "users_handler s (StatusChosen t) = (s\<lparr>up_status := t\<rparr>, [])"
| "users_handler s (ShowInvite b) = (s\<lparr>up_invite := b\<rparr>, [])"
| "users_handler s (InviteEmailTyped t) = (s\<lparr>up_inviteEmail := t\<rparr>, [])"
| "users_handler s (InviteRoleChosen r) = (s\<lparr>up_inviteRole := r\<rparr>, [])"
| "users_handler s (SendInvite now iso_text) = handleInviteUser now iso_text s"
| "users_handler s (RemoveUser i confirmed) = handleDeleteUser confirmed i s"
| "users_handler s (EditUser i) = (s, [])"

text \<open>While the page loads it has no fields and no buttons: only the timer can fire.\<close>

definition B2BUsers_step :: "users_page \<Rightarrow> users_event \<Rightarrow> users_page" where
  "B2BUsers_step s e =
     (if up_loading s \<and> e \<noteq> UsersLoaded then s else users_effect s (fst (users_handler s e)))"






section \<open>The dashboard\<close>

record dashboard_stats =
  totalUsers :: jsnum
  activeAPIKeys :: jsnum
  monthlyRequests :: jsnum
  totalTransactions :: jsnum
  revenue :: jsnum
  growthRate :: jsnum

record activity =
  act_id :: string
  act_type :: string
  act_description :: string
  act_timestamp :: string
  act_status :: string

record dashboard =
  db_stats :: dashboard_stats
  db_recent :: "activity list"
  db_loading :: bool

definition B2BDashboard_init :: dashboard where
  "B2BDashboard_init =
     \<lparr>db_stats = \<lparr>totalUsers = Fin 0, activeAPIKeys = Fin 0, monthlyRequests = Fin 0,
                  totalTransactions = Fin 0, revenue = Fin 0, growthRate = Fin 0\<rparr>,
      db_recent = [], db_loading = True\<rparr>"

definition B2BDashboard_loaded :: "dashboard \<Rightarrow> dashboard" where
  "B2BDashboard_loaded s =
     \<lparr>db_stats = \<lparr>totalUsers = Fin 1250, activeAPIKeys = Fin 8, monthlyRequests = Fin 45678,
                  totalTransactions = Fin 8923, revenue = Fin 45600, growthRate = Fin (47 / 2)\<rparr>,
      db_recent =
        [\<lparr>act_id = ''1'', act_type = ''api_call'', act_description = ''API call to /v1/wallets endpoint'',
          act_timestamp = ''2024-01-15T10:30:00Z'', act_status = ''success''\<rparr>,
         \<lparr>act_id = ''2'', act_type = ''transaction'',
          act_description = ''Transaction signed: 0.5 ETH transfer'',
          act_timestamp = ''2024-01-15T10:25:00Z'', act_status = ''success''\<rparr>,
         \<lparr>act_id = ''3'', act_type = ''user_signup'',
          act_description = ''New user registered: john.doe@company.com'',
          act_timestamp = ''2024-01-15T10:20:00Z'', act_status = ''success''\<rparr>,
         \<lparr>act_id = ''4'', act_type = ''wallet_created'',
          act_description = ''New wallet created for organization'',
          act_timestamp = ''2024-01-15T10:15:00Z'', act_status = ''success''\<rparr>],
      db_loading = False\<rparr>"

definition activity_StatusColor :: "string \<Rightarrow> string" where
  "activity_StatusColor t =
     (if t = ''success'' then ''text-green-600 bg-green-100''
      else if t = ''error'' then ''text-red-600 bg-red-100''
      else if t = ''pending'' then ''text-yellow-600 bg-yellow-100''
      else ''text-gray-600 bg-gray-100'')"

definition getActivityIcon :: "string \<Rightarrow> 'e ui" where
  "getActivityIcon t =
     (if t = ''api_call'' then Icon ''FiKey''
      else if t = ''transaction'' then Icon ''FiActivity''
      else if t = ''user_signup'' then Icon ''FiUsers''
      else if t = ''wallet_created'' then Icon ''FiDollarSign''
      else Icon ''FiActivity'')"

text \<open>The formats of numbers and times depend on the locale of the host.\<close>

definition B2BDashboard_view ::
    "(jsnum \<Rightarrow> string) \<Rightarrow> (string \<Rightarrow> string) \<Rightarrow> dashboard \<Rightarrow> unit ui" where
  "B2BDashboard_view locale_text locale_time s =
     (if db_loading s then Styled ''animate-pulse'' [Box (replicate 4 (Box []))]
      else
        Box
          [Text ''Business Dashboard'', Text ''Monitor your organization's MPC wallet usage and performance'',
           Box [Text ''Total Users'', Text (locale_text (totalUsers (db_stats s))), Icon ''FiUsers''],
           Box [Text ''Active API Keys'', Expr (JNum (activeAPIKeys (db_stats s))), Icon ''FiKey''],
           Box [Text ''Monthly Requests'', Text (locale_text (monthlyRequests (db_stats s))), Icon ''FiActivity''],
           Box [Text ''Total Transactions'', Text (locale_text (totalTransactions (db_stats s))), Icon ''FiDollarSign''],
           Box [Text ''Revenue Overview'', Text (''$'' @ locale_text (revenue (db_stats s))),
                Text ''Total revenue this month'', Icon ''FiTrendingUp'',
                Text ''+'', Expr (JNum (growthRate (db_stats s))), Text ''%''],
           Box [Text ''Quick Actions'',
                Link ''/b2b/api-keys'' [Icon ''FiKey'', Text ''Manage API Keys''],
                Link ''/b2b/users'' [Icon ''FiUsers'', Text ''Manage Users''],
                Link ''/b2b/analytics'' [Icon ''FiActivity'', Text ''View Analytics'']],
           Text ''Recent Activity'',
           Box (map (\<lambda>a. Box [getActivityIcon (act_type a), Text (act_description a),
                              Text (locale_time (act_timestamp a)),
                              Styled (activity_StatusColor (act_status a)) [Text (act_status a)]])
                 (db_recent s))])"

section \<open>The table against its abstract list\<close>

text \<open>
  What the table promises: the users that match the three criteria, in the order of the list.
\<close>

definition occurs_in :: "string \<Rightarrow> string \<Rightarrow> bool" where
  "occurs_in p t \<longleftrightarrow> (\<exists>a b. to_lower t = a @ to_lower p @ b)"


lemma occurs_in_iff: "str_includes (to_lower t) (to_lower p) \<longleftrightarrow> occurs_in p t"
  by (simp add: includes_iff occurs_in_def)

lemma occurs_in_Nil [simp]: "occurs_in [] t"
  using includes_Nil [of "to_lower t"] by (simp add: occurs_in_iff [symmetric] to_lower_def)


definition table_ok :: "users_page \<Rightarrow> bool" where
  "table_ok s \<longleftrightarrow> up_filtered s = filterUsers s \<and> (up_loading s \<longrightarrow> up_users s = [])"

lemma filterUsers_deps: "same_deps s t \<Longrightarrow> filterUsers s = filterUsers t"
  by (simp add: same_deps_def filterUsers_def Let_def)

lemma filterUsers_own [simp]: "filterUsers (s\<lparr>up_filtered := us\<rparr>) = filterUsers s"
  by (simp add: filterUsers_def Let_def)

text \<open>A handler that leaves the dependencies of the effect alone leaves the list alone.\<close>

lemma handler_keeps_filtered:
  assumes "table_ok s" "same_deps s (fst (users_handler s e))"
  shows "up_filtered (fst (users_handler s e)) = up_filtered s"
  using assms
  by (cases e) (simp_all add: same_deps_def handleInviteUser_def handleDeleteUser_def mockUsers_def table_ok_def)

lemma handler_ends_loading:
  "\<not> up_loading s \<or> e = UsersLoaded \<Longrightarrow> \<not> up_loading (fst (users_handler s e))"
  by (cases e) (auto simp: handleInviteUser_def handleDeleteUser_def)

lemma effect_filters:
  assumes "table_ok s"
  shows "up_filtered (users_effect s (fst (users_handler s e))) =
    filterUsers (users_effect s (fst (users_handler s e)))"
proof (cases "same_deps s (fst (users_handler s e))")
  case True
  with assms show ?thesis
    by (simp add: users_effect_def handler_keeps_filtered table_ok_def filterUsers_deps)
next
  case False
  then show ?thesis by (simp add: users_effect_def)
qed

lemma table_ok_step [inv_intros]: "table_ok s \<Longrightarrow> table_ok (B2BUsers_step s e)"
  using effect_filters [of s e] handler_ends_loading [of s e]
  by (auto simp: table_ok_def B2BUsers_step_def users_effect_def)



section \<open>Identifiers\<close>

text \<open>The times of the invitations of a run, in order.\<close>

fun invite_times :: "users_event list \<Rightarrow> nat list" where
  "invite_times [] = []"
| "invite_times (SendInvite now _ # es) = now # invite_times es"
| "invite_times (_ # es) = invite_times es"

text \<open>
  The identifiers are the texts of numbers, all different; those from the clock are below the
  times still to come.
\<close>

definition ids_before :: "nat \<Rightarrow> users_page \<Rightarrow> bool" where
  "ids_before t s \<longleftrightarrow>
     distinct (map bu_id (up_users s)) \<and> (\<forall>u \<in> set (up_users s). \<exists>n < t. bu_id u = show_nat n) \<and>
     (up_loading s \<longrightarrow> up_users s = [])"

lemma users_effect_users [simp]:
  "up_users (users_effect b s) = up_users s" "up_loading (users_effect b s) = up_loading s"
  by (simp_all add: users_effect_def)

lemma mock_ids: "map bu_id mockUsers = map show_nat [1, 2, 3, 4]"
  by code_simp

lemma ids_before_loaded:
  assumes "5 \<le> t" "ids_before t s"
  shows "ids_before t (B2BUsers_step s UsersLoaded)"
proof (cases "up_loading s")
  case True
  have d: "distinct (map bu_id mockUsers)" by code_simp
  have "\<exists>n < t. bu_id u = show_nat n" if "u \<in> set mockUsers" for u
  proof -
    from that have "bu_id u \<in> set (map bu_id mockUsers)" by simp
    then have "bu_id u \<in> show_nat ` {1, 2, 3, 4}" unfolding mock_ids by simp
    then obtain n where "n \<in> {1, 2, 3, 4}" "bu_id u = show_nat n" by blast
    then show ?thesis using assms(1) by (intro exI [of _ n]) auto
  qed
  with True d show ?thesis by (simp add: ids_before_def B2BUsers_step_def)
next
  case False
  with assms show ?thesis by (simp add: ids_before_def B2BUsers_step_def)
qed


lemma ids_before_mono: "ids_before t s \<Longrightarrow> t \<le> t' \<Longrightarrow> ids_before t' s"
  unfolding ids_before_def by (meson less_le_trans)

lemma ids_before_invite:
  assumes "ids_before t s" "t \<le> now"
  shows "ids_before (Suc now) (B2BUsers_step s (SendInvite now iso_text))"
proof -
  have old: "ids_before (Suc now) s" using assms by (auto intro: ids_before_mono)
  have "show_nat now \<notin> bu_id ` set (up_users s)"
  proof
    assume "show_nat now \<in> bu_id ` set (up_users s)"
    then obtain n where "n < t" "show_nat now = show_nat n" using assms(1) by (auto simp: ids_before_def)
    then have "now = n" by (metis nat_of_digits_show_nat)
    with \<open>n < t\<close> assms(2) show False by simp
  qed
  with old show ?thesis
    by (auto simp: ids_before_def B2BUsers_step_def handleInviteUser_def)
qed

lemma ids_before_other:
  assumes "ids_before t s" "5 \<le> t" "invite_times [e] = []"
  shows "ids_before t (B2BUsers_step s e)"
proof (cases e)
  case UsersLoaded
  with assms show ?thesis by (simp add: ids_before_loaded)
next
  case (RemoveUser i confirmed)
  with assms(1) show ?thesis
    by (auto simp: ids_before_def B2BUsers_step_def handleDeleteUser_def distinct_map_filter)
qed (use assms in \<open>auto simp: ids_before_def B2BUsers_step_def\<close>)

lemma ids_before_run:
  "ids_before t s \<Longrightarrow> 5 \<le> t \<Longrightarrow> sorted_wrt (<) (invite_times es) \<Longrightarrow>
     \<forall>n \<in> set (invite_times es). t \<le> n \<Longrightarrow> \<exists>t'. ids_before t' (run B2BUsers_step s es)"
proof (induction es arbitrary: s t)
  case Nil
  then show ?case by auto
next
  case (Cons e es)
  show ?case
  proof (cases "invite_times [e] = []")
    case True
    then have "invite_times (e # es) = invite_times es" by (cases e) simp_all
    with Cons.prems Cons.IH [OF ids_before_other [OF Cons.prems(1,2) True]] show ?thesis by simp
  next
    case False
    then obtain now iso_text where e: "e = SendInvite now iso_text" by (cases e) simp_all
    with Cons.prems have "ids_before (Suc now) (B2BUsers_step s e)" by (simp add: ids_before_invite)
    from Cons.IH [OF this] Cons.prems show ?thesis by (auto simp: e Suc_le_eq)
  qed
qed

lemma ids_before_init: "ids_before t B2BUsers_init"
  by (simp add: ids_before_def B2BUsers_init_def)

section \<open>Properties\<close>



text \<open>
  C30 A removal removes one user: as long as the invitations of a run are sent at increasing
  times of the clock (later than the fifth millisecond of 1970, as the mock users have the
  identifiers 1 to 4), the identifiers of the users stay different, a confirmed removal takes
  exactly the chosen user out of the list, and a declined one changes nothing at all.
\<close>
theorem user_removed:
  assumes "sorted_wrt (<) (invite_times es)" and "\<forall>n \<in> set (invite_times es). 5 \<le> n"
    and "s = run B2BUsers_step B2BUsers_init es" and "\<not> up_loading s" and "u \<in> set (up_users s)"
  shows "distinct (map bu_id (up_users s)) \<and>
    up_users (B2BUsers_step s (RemoveUser (bu_id u) True)) = remove1 u (up_users s) \<and>
    B2BUsers_step s (RemoveUser i False) = s"
proof -
  from ids_before_run [OF ids_before_init [of 5] _ assms(1)] assms(2,3)
  have d: "distinct (map bu_id (up_users s))" by (auto simp: ids_before_def)
  then have "filter (\<lambda>v. bu_id v \<noteq> bu_id u) (up_users s) = filter (\<lambda>v. v \<noteq> u) (up_users s)"
    using assms(5) by (intro filter_cong) (auto simp: distinct_map dest: inj_onD)
  also have "\<dots> = remove1 u (up_users s)"
    using d by (simp add: distinct_remove1_removeAll distinct_map removeAll_filter_not_eq eq_commute)
  finally have "up_users (B2BUsers_step s (RemoveUser (bu_id u) True)) = remove1 u (up_users s)"
    using assms(4) by (simp add: B2BUsers_step_def handleDeleteUser_def)
  moreover have "B2BUsers_step s (RemoveUser i False) = s"
    using assms(4) by (simp add: B2BUsers_step_def handleDeleteUser_def users_effect_def same_deps_def)
  ultimately show ?thesis using d by blast
qed

theorem user_removed_witness:
  "let s = run B2BUsers_step B2BUsers_init
             [UsersLoaded, InviteEmailTyped ''a@b.c'', SendInvite 1700000000000 ''2023'']
   in up_users (B2BUsers_step s (RemoveUser ''1'' True)) = remove1 (hd mockUsers) (up_users s)"
proof -
  let ?es = "[UsersLoaded, InviteEmailTyped ''a@b.c'', SendInvite 1700000000000 ''2023'']"
  let ?s = "run B2BUsers_step B2BUsers_init ?es"
  have u: "up_users ?s = mockUsers @ drop 4 (up_users ?s)" and l: "\<not> up_loading ?s"
    by (simp_all add: B2BUsers_step_def B2BUsers_init_def handleInviteUser_def starts_with_def mockUsers_def)
  then have "hd mockUsers \<in> set (up_users ?s)"
    by (metis UnI1 hd_in_set list.distinct(1) mockUsers_def set_append)
  from user_removed [OF _ _ refl l this] have
    "up_users (B2BUsers_step ?s (RemoveUser (bu_id (hd mockUsers)) True)) =
       remove1 (hd mockUsers) (up_users ?s)" by simp
  then show ?thesis by (simp add: mockUsers_def)
qed

end
