(* ===== verification/Debounce.thy ===== *)
theory Debounce
  imports Prelude
begin

text \<open>
  The hook of \<^verbatim>\<open>hooks/useDebounce.ts\<close>, which no page uses (the search of a transfer calls the
  library of the same purpose). A render and the effect after it are one event; the effect runs
  when the value or the delay differ from the last render, and its clean-up clears the timer of
  the effect before. The host fires a timer at some moment not before its time, in milliseconds.
\<close>

record 'a debounce =
  db_value :: 'a
  db_delay :: nat
  debouncedValue :: 'a
  db_timer :: "(nat \<times> 'a) option"
  db_now :: nat

datatype 'a debounce_event = DbRender 'a "nat option" | Elapse nat | Fire

text \<open>The delay of a call without a second argument.\<close>

definition debounce_delay :: "nat option \<Rightarrow> nat" where
  "debounce_delay d = (case d of None \<Rightarrow> 500 | Some n \<Rightarrow> n)"

definition debounce_effect :: "'a debounce \<Rightarrow> 'a debounce" where
  "debounce_effect s = s\<lparr>db_timer := Some (db_now s + db_delay s, db_value s)\<rparr>"

definition useDebounce_init :: "'a \<Rightarrow> nat option \<Rightarrow> nat \<Rightarrow> 'a debounce" where
  "useDebounce_init v d now =
     debounce_effect
       \<lparr>db_value = v, db_delay = debounce_delay d, debouncedValue = v, db_timer = None, db_now = now\<rparr>"

fun useDebounce_step :: "'a debounce \<Rightarrow> 'a debounce_event \<Rightarrow> 'a debounce" where
  "useDebounce_step s (DbRender v d) =
     (if v = db_value s \<and> debounce_delay d = db_delay s then s
      else debounce_effect (s\<lparr>db_value := v, db_delay := debounce_delay d\<rparr>))"
| "useDebounce_step s (Elapse n) = s\<lparr>db_now := db_now s + n\<rparr>"
| "useDebounce_step s Fire =
     (case db_timer s of
        None \<Rightarrow> s
      | Some (t, v) \<Rightarrow> if t \<le> db_now s then s\<lparr>debouncedValue := v, db_timer := None\<rparr> else s)"

text \<open>
  The moment of the last change, beside the state: a render with another value or delay sets it
  to the present.
\<close>

definition watched_step :: "'a debounce \<times> nat \<Rightarrow> 'a debounce_event \<Rightarrow> 'a debounce \<times> nat" where
  "watched_step p e =
     (let t = useDebounce_step (fst p) e
      in (t, if db_value t = db_value (fst p) \<and> db_delay t = db_delay (fst p) then snd p else db_now t))"

text \<open>
  The timer, when there is one, is the one of the present value and runs since the last change;
  without one the value shown is the present one.
\<close>

definition timer_of_last_change :: "'a debounce \<times> nat \<Rightarrow> bool" where
  "timer_of_last_change p \<longleftrightarrow>
     (case db_timer (fst p) of
        None \<Rightarrow> debouncedValue (fst p) = db_value (fst p)
      | Some (t, v) \<Rightarrow> t = snd p + db_delay (fst p) \<and> v = db_value (fst p)) \<and>
     snd p \<le> db_now (fst p)"

lemma timer_of_last_change_init: "timer_of_last_change (useDebounce_init v d now, now)"
  by (simp add: timer_of_last_change_def useDebounce_init_def debounce_effect_def)

lemma timer_of_last_change_step [inv_intros]:
  assumes "timer_of_last_change p"
  shows "timer_of_last_change (watched_step p e)"
  using assms by (cases e)
    (auto simp: timer_of_last_change_def watched_step_def debounce_effect_def Let_def split: option.splits)

interpretation debounce: component watched_step timer_of_last_change
  by unfold_locales (rule inv_intros)

text \<open>
  A value is shown only after it was left alone for the whole delay: wherever a run stands, an
  event that changes the value shown is the timer, it shows the value of the last render, and
  the last change is at least the delay ago.
\<close>

lemma debounce_only_settled:
  assumes "p = run watched_step (useDebounce_init v d now, now) es"
    and "debouncedValue (useDebounce_step (fst p) e) \<noteq> debouncedValue (fst p)"
  shows "e = Fire \<and> debouncedValue (useDebounce_step (fst p) e) = db_value (fst p) \<and>
    snd p + db_delay (fst p) \<le> db_now (fst p)"
proof -
  have "timer_of_last_change p"
    unfolding assms(1) by (rule debounce.inv_run [OF timer_of_last_change_init])
  with assms(2) show ?thesis
    by (cases e) (auto simp: timer_of_last_change_def debounce_effect_def split: option.splits if_splits)
qed

text \<open>And it is shown in the end: once the delay has passed, the timer leaves the last value shown.\<close>

lemma debounce_settles:
  assumes "p = run watched_step (useDebounce_init v d now, now) es"
    and "db_delay (fst p) \<le> n"
  shows "debouncedValue (run useDebounce_step (fst p) [Elapse n, Fire]) = db_value (fst p)"
proof -
  have "timer_of_last_change p"
    unfolding assms(1) by (rule debounce.inv_run [OF timer_of_last_change_init])
  with assms(2) show ?thesis
    by (auto simp: timer_of_last_change_def split: option.splits)
qed

end
