(* ===== verification/Spec2Isabelle.thy ===== *)
theory Spec2Isabelle
  imports Formatting AxiosClient ReauthQuery Routing AuthPages MoneyPages ApiKeys CreditCards
    HomePage Business Debounce
begin

text \<open>
  A verification of the web client of an MPC wallet (\<^verbatim>\<open>src/client/src\<close>, TypeScript with Preact).
  All paths below are relative to that directory. The client signs users in, keeps an access
  token and renews it, shows wallets, cards and transactions, and sends transfers, payments,
  deposits and withdrawals, each confirmed with a six-character code.

  \<^bold>\<open>How the parts interact.\<close> \<^verbatim>\<open>app.tsx\<close> maps an address to pages behind guards; the guards ask
  \<^verbatim>\<open>utils/expired-token.ts\<close>, which reads the token from the Redux store. Pages call the services
  of \<^verbatim>\<open>services/api\<close>, which send requests through plain axios or through the instance of
  \<^verbatim>\<open>config/axios.config.ts\<close>; two sets of endpoints go through the base query of
  \<^verbatim>\<open>redux/features/api/apiSlice.ts\<close> instead. Both clients renew the token and write it to the
  store, each in its own way. The thunks of \<^verbatim>\<open>redux/auth/authThunk.ts\<close> write the token at sign-in
  and the user's key share to the local storage at sign-up; the amount form of a transfer reads
  the share again. A drawer that moved money sets a flag of the store, on which the home page
  reloads the profile.

  \<^bold>\<open>How the code is modelled.\<close> The types of TypeScript are erased at run time, so what the network
  or the router hands over is a \<^typ>\<open>jsval\<close>, and a property read of \<open>undefined\<close> or \<open>null\<close> is an
  exception: \<open>Inl\<close> of the type \<open>throws\<close>. The state of a component is a record with a field for
  each \<open>useState\<close>, \<open>useRef\<close> or slice; a handler is a function on it that also returns its effects
  in the order of the source (theory \<^verbatim>\<open>Effects\<close>: toasts, navigation, dispatched actions, storage,
  clipboard, uncaught exceptions). A handler that awaits a call is split at the call: the first
  part gives the request, the second (\<open>_resume\<close>, \<open>_answer\<close>) takes the reply, and between the two
  any other event may come. A rendered tree is a value of the type \<open>ui\<close>, whose leaves carry the
  events the user can raise and whose inputs carry the constraints the browser checks before it
  submits a form (\<open>required\<close>, \<open>maxlength\<close>, \<open>pattern\<close>, the type \<open>email\<close>); what is a hypothesis of a
  handler (a disabled button, a missing field, an input the browser refuses) is read off that tree.
  The queries of the history and of the recent transactions keep the defaults of the library that
  \<^verbatim>\<open>main.tsx\<close> leaves in place: a failed call is repeated up to three times, and stale data are asked
  for again at a mount and at a focus of the window.

  \<^bold>\<open>Theories, from the language upwards.\<close>
  \<^item> \<^verbatim>\<open>Prelude\<close>: values, property reads, runs of a component, the locale \<open>component\<close>.
  \<^item> \<^verbatim>\<open>JsString\<close>, \<^verbatim>\<open>RegExp\<close>, \<^verbatim>\<open>JsNumber\<close>, \<^verbatim>\<open>JsText\<close>: strings, regular expressions with a matcher
    proved against their language, doubles as exact rationals with rounding, and the text of a
    value.
  \<^item> \<^verbatim>\<open>Ui\<close>, \<^verbatim>\<open>Effects\<close>, \<^verbatim>\<open>Widgets\<close>: rendered trees with the browser's own checks of inputs, effects
    and replies, shared components.
  \<^item> \<^verbatim>\<open>Formatting\<close>: \<^verbatim>\<open>utils\<close> (card masks, currencies, password rule, cookie options).
  \<^item> \<^verbatim>\<open>AuthStore\<close>: \<^verbatim>\<open>redux/auth/authSlice.ts\<close>, \<^verbatim>\<open>redux/features/walletSlice.ts\<close>, \<^verbatim>\<open>redux/store.ts\<close>.
  \<^item> \<^verbatim>\<open>AxiosClient\<close>: \<^verbatim>\<open>config/axios.config.ts\<close> as a step relation over the requests in flight.
  \<^item> \<^verbatim>\<open>ReauthQuery\<close>: the base query, \<^verbatim>\<open>creditCardApi.ts\<close> and \<^verbatim>\<open>profileApi.ts\<close>.
  \<^item> \<^verbatim>\<open>Services\<close>: the requests of \<^verbatim>\<open>services/api\<close>.
  \<^item> \<^verbatim>\<open>Routing\<close>: the route table, the guards, the side bars, the header of the business portal.
  \<^item> \<^verbatim>\<open>AuthPages\<close>: the thunks and \<^verbatim>\<open>pages/authentication\<close>.
  \<^item> \<^verbatim>\<open>OtpDrawers\<close>: the four drawers for the security code.
  \<^item> \<^verbatim>\<open>TransferFlow\<close>, \<^verbatim>\<open>MoneyPages\<close>, \<^verbatim>\<open>Payment\<close>: \<^verbatim>\<open>pages/transfer\<close>, \<^verbatim>\<open>pages/receive\<close>,
    \<^verbatim>\<open>pages/deposit-withdraw\<close>, \<^verbatim>\<open>pages/payment\<close> with their components.
  \<^item> \<^verbatim>\<open>ConfirmDelete\<close>, \<^verbatim>\<open>CreditCards\<close>, \<^verbatim>\<open>ApiKeys\<close>: deletions in two steps, \<^verbatim>\<open>pages/credit-card\<close>,
    \<^verbatim>\<open>pages/connect-app\<close>.
  \<^item> \<^verbatim>\<open>History\<close>, \<^verbatim>\<open>HomePage\<close>, \<^verbatim>\<open>Settings\<close>, \<^verbatim>\<open>Business\<close>: \<^verbatim>\<open>pages/transaction\<close>, \<^verbatim>\<open>pages/home.tsx\<close>,
    \<^verbatim>\<open>pages/setting\<close>, \<^verbatim>\<open>pages/b2b\<close> with their components.
  \<^item> \<^verbatim>\<open>Debounce\<close>: \<^verbatim>\<open>hooks/useDebounce.ts\<close>.
  \<^item> This theory: the local storage between sign-up and transfer, the links of the navigation, and
    the properties that span components.

  \<^bold>\<open>Interfaces.\<close> \<open>component\<close> (a step function and an invariant it keeps) is interpreted on the auth
  slice, the side bar, the transfer wizard and its amount form, the history, the form of a new card,
  the forms of the settings, the table of users, the page of the API keys and the debounce hook. \<open>otp_entry\<close> (a field that starts one call
  per completed code) and its extension \<open>settling_entry\<close> (every answer ends the waiting) are
  interpreted on the drawers and on the code fields of the sign-in pages. \<open>confirm_delete\<close> is
  interpreted on the cards and on the API keys.

  \<^bold>\<open>What is shown.\<close> For the axios client: no call is lost, at most one refresh is in flight, no call
  is sent more than twice, and two defects (a refused refresh waits for itself; a retry leaves with
  the old token). For the base query: the requests in every behaviour of the network, and the
  token of the retry. For the store: it refines one token cell, and no form shows an error while
  its request is under way. For the guards and the navigation: an address is redirected exactly
  without a valid token, the redirection ends, and no link of the program is dead. For the forms:
  when something is sent, what is sent, and which message every other branch shows. For the
  drawers and the pages that move money: one request per completed code for every interleaving,
  the limits of the amounts, the voucher that is paid with, and the effect of an accepted operation
  on the home page. For lists: which page is asked for, which users are shown, what a removal
  removes. Statements of defects are proved like the others; the manifest lists them as findings.

  \<^bold>\<open>Bounds.\<close> Counts the client prints are at most \<open>2 ^ 53\<close>, up to which doubles are exact. The text
  of a number searches at most 17 significant digits, which always suffice for a double, and the
  position of its point with fuel 330, more than the 323 zeros after the point of the smallest
  double. No other function has fuel: the loops of the client are bounded by their data. The axios
  client has no bound on the number of calls, requests or renewals.

  \<^bold>\<open>Parameters: code outside the repository.\<close> \<open>Intl.NumberFormat\<close>
  (which may throw; where a property needs a text, the hypothesis is for numbers in the three
  currencies of the program), \<open>toLocaleString\<close> and the date format of date-fns-tz; the
  decoder of tokens (jwt-decode); the choice of a route (react-router, with its documented promise
  \<open>router_ok\<close>); the issuer test of the package payment (of which a property uses only
  that an empty number has no issuer); the values react-hook-form holds of the registration form;
  the reader of scanned codes; the answers of the network; the clock. Of axios, react-query and the
  query library of Redux Toolkit the documented behaviour is stated in the theories that use it, as
  is the check of an address of mail by the browser, from the HTML standard.

  \<^bold>\<open>Not modelled.\<close> The server and the signing services (Go): the client is the subject, and the
  shapes of their answers are quoted where a property is about them. \<^verbatim>\<open>main.tsx\<close>,
  \<^verbatim>\<open>redux/hooks.ts\<close> and \<^verbatim>\<open>vite-env.d.ts\<close> only wire libraries; the \<^verbatim>\<open>.d.ts\<close> files declare types
  without behaviour; \<^verbatim>\<open>utils/format_date.ts\<close> is one call of a library. Of modelled files: fixed
  class names and pictures, the picture of a code, the persistence of the store, the caches of the
  query libraries beyond what a page observes, and, for the queries other than the history and the
  recent transactions, their repetitions and refetches.

  \<^bold>\<open>Plan.\<close> Next: the caches of the query library with the tags they invalidate, the persisted part
  of the store, and the interplay of both token clients over one store.
\<close>

section \<open>The key share between the pages\<close>

text \<open>
  The local storage of the browser, as a map: what the effects of a handler store in it, and what
  the amount form of a transfer reads from it (\<^verbatim>\<open>pages/transfer/input_amount.tsx\<close>).
\<close>

fun storage_after :: "(string \<Rightarrow> string option) \<Rightarrow> effect list \<Rightarrow> string \<Rightarrow> string option" where
  "storage_after st [] = st"
| "storage_after st (StoreItem prefix key value # es) =
     storage_after (st(prefix @ js_text key \<mapsto> js_text value)) es"
| "storage_after st (_ # es) = storage_after st es"

definition getItem :: "(string \<Rightarrow> string option) \<Rightarrow> string \<Rightarrow> jsval" where
  "getItem st key = (case st key of None \<Rightarrow> Null | Some v \<Rightarrow> JStr v)"

definition InputAmount_mount ::
    "(string \<Rightarrow> string option) \<Rightarrow> jsval \<Rightarrow> jsval \<Rightarrow> jsval \<Rightarrow> input_amount throws" where
  "InputAmount_mount st wallet_data user_data currencyData =
     InputAmount_init wallet_data user_data currencyData
       (getItem st (''share_data_'' @ js_text (get_oprop wallet_data ''user_id'')))"

section \<open>Properties that span components\<close>

text \<open>
  What a registration stores: the identifier of the new user, when the answer is accepted and has
  one, and the share that comes with it.
\<close>

fun registered_id :: "reply \<Rightarrow> string option" where
  "registered_id (Resolved status d) =
     (if status = 200
      then (case throws_bind (path d [''payload'', ''user'']) (\<lambda>u. get_prop u ''id'') of
              Inl e \<Rightarrow> None
            | Inr i \<Rightarrow> Some (js_text i))
      else None)"
| "registered_id (Failed e) = None"

fun registered_share :: "reply \<Rightarrow> string" where
  "registered_share (Resolved status d) = js_text (opath d [''payload'', ''share_data''])"
| "registered_share (Failed e) = []"

definition after_registrations ::
    "(jsval \<times> reply) list \<Rightarrow> (string \<Rightarrow> string option) \<Rightarrow> string \<Rightarrow> string option" where
  "after_registrations = fold (\<lambda>(u, a) st. storage_after st (registerUsers_resume u a))"

lemma storage_after_register:
  "storage_after st (registerUsers_resume u a) =
     (case registered_id a of
        None \<Rightarrow> st
      | Some i \<Rightarrow> st(''share_data_'' @ i \<mapsto> registered_share a))"
  by (cases a) (auto simp: register_rejected_def throws_bind_def simp del: path.simps opath.simps
      split: sum.splits)

lemma other_registrations:
  "\<forall>(u, b) \<in> set regs. registered_id b \<noteq> Some i \<Longrightarrow>
     after_registrations regs st (''share_data_'' @ i) = st (''share_data_'' @ i)"
proof (induction regs arbitrary: st)
  case (Cons r regs)
  then show ?case
    by (cases r) (auto simp: after_registrations_def storage_after_register split: option.splits)
qed (simp add: after_registrations_def)

text \<open>
  The amount form keeps the share and the wallet it was built with, and its drawer opens only with
  an amount.
\<close>

definition form_sends :: "jsval \<Rightarrow> jsval \<Rightarrow> input_amount \<Rightarrow> bool" where
  "form_sends share from_address s \<longleftrightarrow>
     is_obj (dataSend s) \<and> get_oprop (dataSend s) ''share_data'' = share \<and>
     get_oprop (dataSend s) ''from_address'' = from_address \<and>
     (isOpen s \<longrightarrow> truthy (get_oprop (dataSend s) ''amount''))"

lemma form_sends_step [inv_intros]:
  assumes "form_sends share from_address s"
  shows "form_sends share from_address (InputAmount_step s e)"
proof (cases e)
  case (BalanceAnswer a)
  with assms show ?thesis by (cases a) (simp_all add: form_sends_def)
qed (use assms in \<open>auto simp: form_sends_def InputAmount_onValueChange_def InputAmount_handleChange_def
      InputAmount_handleSubmit_def Let_def get_spread_set_obj js_or_def simp del: spread_set.simps\<close>)

interpretation amount_form: component InputAmount_step "form_sends share from_address"
  for share from_address
  by unfold_locales (rule inv_intros)

lemma form_sends_mount:
  assumes "InputAmount_mount st w rcv cur = Inr s"
  shows "form_sends (js_or (getItem st (''share_data_'' @ js_text (get_oprop w ''user_id''))) (JStr []))
    (get_oprop w ''address'') s"
  using assms
  by (auto simp: InputAmount_mount_def InputAmount_init_def throws_bind_Inr_iff form_sends_def get_oprop_def)

lemma form_sends_request:
  assumes "form_sends share from_address s"
  shows "get_oprop (body (TransferDrawer_request (dataSend s) pin)) ''share_data'' = share \<and>
    get_oprop (body (TransferDrawer_request (dataSend s) pin)) ''from_address'' = from_address"
  using assms
  by (auto simp: form_sends_def TransferDrawer_request_def sendMoneyAPI_def instance_request_def
      get_spread_set_obj simp del: spread_set.simps)

text \<open>
  C6 The share of the key comes back: the share the server hands out at a registration is the one
  that a transfer from the wallet of that user sends, whatever is typed into the amount form before
  its drawer opens, whoever registered on the same browser before, and whichever other users did
  afterwards. On a browser on which only other users registered, a transfer from that wallet is
  sent with an empty share. Both are sent from the address of the wallet, and never without an
  amount.
\<close>
theorem key_share_roundtrip:
  assumes "registered_id a = Some i" and "registered_share a = share" and "share \<noteq> []"
    and "\<forall>(u, b) \<in> set later. registered_id b \<noteq> Some i"
    and "\<forall>(u, b) \<in> set others. registered_id b \<noteq> Some i" and "blank (''share_data_'' @ i) = None"
    and "js_text (get_oprop w ''user_id'') = i"
    and "InputAmount_mount (after_registrations (earlier @ [(u, a)] @ later) st) w rcv cur = Inr s0"
    and "s = run InputAmount_step s0 es" and "isOpen s"
    and "InputAmount_mount (after_registrations others blank) w rcv cur = Inr t0"
    and "t = run InputAmount_step t0 fs" and "isOpen t"
  shows "get_oprop (body (TransferDrawer_request (dataSend s) pin)) ''share_data'' = JStr share \<and>
    get_oprop (body (TransferDrawer_request (dataSend t) pin)) ''share_data'' = JStr [] \<and>
    (\<forall>x \<in> {s, t}.
       get_oprop (body (TransferDrawer_request (dataSend x) pin)) ''from_address'' = get_oprop w ''address'' \<and>
       truthy (get_oprop (dataSend x) ''amount''))"
proof -
  have "after_registrations (earlier @ [(u, a)] @ later) st (''share_data_'' @ i) = Some share"
    using other_registrations [OF assms(4)] assms(1,2)
    by (simp add: after_registrations_def storage_after_register)
  then have "form_sends (JStr share) (get_oprop w ''address'') s0"
    using form_sends_mount [OF assms(8)] assms(3,7) by (simp add: getItem_def js_or_def)
  then have s: "form_sends (JStr share) (get_oprop w ''address'') s"
    unfolding assms(9) by (rule amount_form.inv_run)
  have "after_registrations others blank (''share_data_'' @ i) = None"
    using other_registrations [OF assms(5)] assms(6) by simp
  then have "form_sends (JStr []) (get_oprop w ''address'') t0"
    using form_sends_mount [OF assms(11)] assms(7) by (simp add: getItem_def js_or_def)
  then have t: "form_sends (JStr []) (get_oprop w ''address'') t"
    unfolding assms(12) by (rule amount_form.inv_run)
  from s t assms(10,13) show ?thesis
    using form_sends_request by (auto simp: form_sends_def)
qed

definition registered :: "string \<Rightarrow> string \<Rightarrow> reply" where
  "registered i share =
     Resolved 200
       (JObj [(''payload'', JObj [(''user'', JObj [(''id'', JStr i)]), (''share_data'', JStr share)])])"

definition typed_transfer :: "input_amount_event list" where
  "typed_transfer = [BalanceAnswer (Failed network_error), AmountTyped [], MessageTyped ''hi'', SubmitAmount]"

theorem key_share_roundtrip_witness:
  "let st = after_registrations [(Null, registered ''7'' ''k7''), (Null, registered ''8'' ''k8'')] (\<lambda>_. None);
       w = JObj [(''address'', JStr ''0xA''), (''user_id'', JStr ''7'')]
   in \<exists>s0. InputAmount_mount st w (JObj []) (JObj []) = Inr s0 \<and>
        get_oprop (body (TransferDrawer_request (dataSend (run InputAmount_step s0 typed_transfer)) ''123456''))
          ''share_data'' = JStr ''k7''"
proof -
  let ?regs = "[] @ [(Null, registered ''7'' ''k7'')] @ [(Null, registered ''8'' ''k8'')]"
  let ?w = "JObj [(''address'', JStr ''0xA''), (''user_id'', JStr ''7'')]"
  obtain s0 where s0: "InputAmount_mount (after_registrations ?regs (\<lambda>_. None)) ?w (JObj []) (JObj []) = Inr s0"
    by (simp add: InputAmount_mount_def InputAmount_init_def)
  obtain t0 where t0: "InputAmount_mount (after_registrations [] (\<lambda>_. None)) ?w (JObj []) (JObj []) = Inr t0"
    by (simp add: InputAmount_mount_def InputAmount_init_def)
  have z: "to_number ''0'' = Fin 0" by code_simp
  have o: "isOpen (run InputAmount_step x0 typed_transfer)"
    if "InputAmount_mount st0 ?w (JObj []) (JObj []) = Inr x0" for st0 x0
    using that z
    by (auto simp: InputAmount_mount_def InputAmount_init_def typed_transfer_def InputAmount_onValueChange_def
        InputAmount_handleChange_def InputAmount_handleSubmit_def Let_def js_or_def)
  have "get_oprop (body (TransferDrawer_request (dataSend (run InputAmount_step s0 typed_transfer)) ''123456''))
      ''share_data'' = JStr ''k7''"
    by (rule key_share_roundtrip [where i = "''7''" and share = "''k7''" and others = "[]",
          OF _ _ _ _ _ _ _ s0 refl o [OF s0] t0 refl o [OF t0], THEN conjunct1])
      (simp_all add: registered_def)
  with s0 show ?thesis unfolding Let_def by auto
qed

text \<open>
  C7 A session from end to end: a login the server accepts with a token that is not expired
  makes every page behind the guard appear and every query carry the token; logging out (the
  action the settings dispatch) sends every address but those of \<open>/auth\<close> to the login page and
  makes the queries leave without a token.
\<close>
theorem session_lifecycle:
  assumes "path d [''payload'', ''access_token''] = Inr tok" and "truthy tok"
    and "st = run rootReducer st0
      (dispatched (fst (loginUsers_start u) @ loginUsers_resume u (Resolved 200 d)))"
    and "useTokenExpired decode now st = Inr False"
    and "router_ok pick" and "norm_path loc \<notin> set auth_paths"
  shows "App pick decode now st loc =
      Shown (route_layout (pick app_routes loc)) (route_pages (pick app_routes loc)) \<and>
    prepareHeaders st = Some tok \<and>
    App pick decode now (rootReducer st RemoveAccessToken) loc = Redirected ''/auth/login'' \<and>
    prepareHeaders (rootReducer st RemoveAccessToken) = None"
proof -
  have guarded: "route_guard (pick app_routes loc) = Protected" by (rule App_guard [OF assms(5,6)])
  have "accessToken (auth st) = tok" using assms(1,3) by (simp add: loginUsers_start_def rootReducer_def)
  moreover have "accessToken (auth (rootReducer st RemoveAccessToken)) = JStr []"
    by (simp add: rootReducer_def)
  ultimately show ?thesis
    using assms(2,4) guarded
    by (simp add: App_def ProtectRoutes_def prepareHeaders_def useTokenExpired_def Let_def)
qed

theorem session_lifecycle_witness:
  "let d = JObj [(''payload'', JObj [(''access_token'', JStr ''t'')])];
       st = run rootReducer initialRoot
              (dispatched (fst (loginUsers_start (JObj [])) @ loginUsers_resume (JObj []) (Resolved 200 d)))
   in prepareHeaders st = Some (JStr ''t'') \<and>
      App first_match (\<lambda>_. Inr (JObj [(''exp'', JNum (Fin 9))])) 0 (rootReducer st RemoveAccessToken)
        ''/setting'' = Redirected ''/auth/login''"
proof -
  let ?d = "JObj [(''payload'', JObj [(''access_token'', JStr ''t'')])]"
  let ?st = "run rootReducer initialRoot
      (dispatched (fst (loginUsers_start (JObj [])) @ loginUsers_resume (JObj []) (Resolved 200 ?d)))"
  have p: "path ?d [''payload'', ''access_token''] = Inr (JStr ''t'')" "truthy (JStr ''t'')" by simp_all
  have e: "useTokenExpired (\<lambda>_. Inr (JObj [(''exp'', JNum (Fin 9))])) 0 ?st = Inr False"
    by (simp add: useTokenExpired_def loginUsers_start_def rootReducer_def)
  have n: "norm_path ''/setting'' \<notin> set auth_paths" by code_simp
  show ?thesis unfolding Let_def
    using session_lifecycle [OF p refl e first_match_ok n] by blast
qed

text \<open>
  C9 The two writers of the token meet: a user who logs out while the axios client waits for a
  renewal is signed in again by its answer, when that carries a token in the shape the client
  reads. Both steps are steps of the client; in the store they are the removal of the token and
  the addition of the renewed one, after which the pages behind the guard appear again.
\<close>
theorem logout_undone_by_refresh:
  assumes "inFlight c = xs @ r # ys" and "is_refresh r"
    and "get_prop d ''data'' = Inr tok"
    and "c1 = c\<lparr>token := accessToken (auth (rootReducer st RemoveAccessToken))\<rparr>"
    and "c2 = responseInterceptor r (Resolved 200 d) (c1\<lparr>inFlight := xs @ ys\<rparr>)"
    and "st2 = run rootReducer st [RemoveAccessToken, AddAccessToken (token c2)]"
    and "truthy tok" and "useTokenExpired decode now st2 = Inr False"
    and "router_ok pick" and "norm_path loc \<notin> set auth_paths"
  shows "ax_step c c1 \<and> ax_step c1 c2 \<and> token c2 = tok \<and>
    App pick decode now (rootReducer st RemoveAccessToken) loc = Redirected ''/auth/login'' \<and>
    App pick decode now st2 loc =
      Shown (route_layout (pick app_routes loc)) (route_pages (pick app_routes loc))"
proof -
  have "inFlight c1 = xs @ r # ys" using assms(1,4) by simp
  then have steps: "ax_step c c1" "ax_step c1 c2"
    unfolding assms(5) by (simp_all only: assms(4) set_token deliver)
  obtain q e where "origin r = RefreshFor q e" using assms(2) by (cases "origin r") (auto simp: is_refresh_def)
  then have tok: "token c2 = tok" using assms(3,5) by (cases q) simp
  have guarded: "route_guard (pick app_routes loc) = Protected" by (rule App_guard [OF assms(9,10)])
  have "accessToken (auth (rootReducer st RemoveAccessToken)) = JStr []" "accessToken (auth st2) = tok"
    unfolding assms(6) tok by (simp_all add: rootReducer_def)
  then show ?thesis using steps tok guarded assms(7,8)
    by (simp add: App_def ProtectRoutes_def useTokenExpired_def Let_def)
qed

theorem logout_undone_by_refresh_witness:
  "let r = Request (JStr ''a'') (Some (JStr ''a'')) False
             (RefreshFor (Request (JStr ''a'') (Some (JStr ''a'')) True (Caller 0)) Null);
       c = (initialClient (JStr ''a''))\<lparr>isRefreshing := True, inFlight := [r]\<rparr>;
       c2 = responseInterceptor r (Resolved 200 (JObj [(''data'', JStr ''b'')]))
              (c\<lparr>token := JStr [], inFlight := []\<rparr>)
   in App first_match (\<lambda>_. Inr (JObj [(''exp'', JNum (Fin 9))])) 0
        (run rootReducer initialRoot [RemoveAccessToken, AddAccessToken (token c2)]) ''/setting''
      \<noteq> Redirected ''/auth/login''"
proof -
  let ?r = "Request (JStr ''a'') (Some (JStr ''a'')) False
             (RefreshFor (Request (JStr ''a'') (Some (JStr ''a'')) True (Caller 0)) Null)"
  let ?c = "(initialClient (JStr ''a''))\<lparr>isRefreshing := True, inFlight := [?r]\<rparr>"
  let ?d = "JObj [(''data'', JStr ''b'')]"
  let ?c1 = "?c\<lparr>token := accessToken (auth (rootReducer initialRoot RemoveAccessToken))\<rparr>"
  let ?c2 = "responseInterceptor ?r (Resolved 200 ?d) (?c1\<lparr>inFlight := [] @ []\<rparr>)"
  have f: "inFlight ?c = [] @ ?r # []" "is_refresh ?r" "get_prop ?d ''data'' = Inr (JStr ''b'')"
    "truthy (JStr ''b'')" by simp_all
  have e: "useTokenExpired (\<lambda>_. Inr (JObj [(''exp'', JNum (Fin 9))])) 0
      (run rootReducer initialRoot [RemoveAccessToken, AddAccessToken (token ?c2)]) = Inr False"
    by (simp add: useTokenExpired_def rootReducer_def)
  have n: "norm_path ''/setting'' \<notin> set auth_paths" by code_simp
  show ?thesis unfolding Let_def
    using logout_undone_by_refresh [OF f(1-3) refl refl refl f(4) e first_match_ok n]
    by (simp add: rootReducer_def)
qed

text \<open>
  C11 Money that moved shows on the home page: each of the drawers for transfers, payments and
  deposits or withdrawals, when the server answers as the drawer expects, leaves the store in a
  state in which the home page reloads the profile, exactly once.
\<close>
theorem moved_money_reloads_home:
  assumes "path t [''data'', ''_id''] = Inr i"
    and "out \<in> {snd (TransferDrawer_resume (Resolved 200 t) s), snd (PaymentDrawer_resume p (Resolved 200 r) s),
           snd (DepositDrawer_resume d (Resolved 200 r) s)}"
    and "st = run rootReducer st0 (dispatched out)"
  shows "Home_walletUpdated st = [Refetch, Dispatch (SetWalletUpdated False)] \<and>
    Home_walletUpdated (run rootReducer st (dispatched (Home_walletUpdated st))) = []"
  using assms by (auto simp: Home_walletUpdated_def rootReducer_def)

theorem moved_money_reloads_home_witness:
  "Home_walletUpdated (run rootReducer initialRoot
     (dispatched (snd (TransferDrawer_resume
        (Resolved 200 (JObj [(''data'', JObj [(''_id'', JStr ''x'')])])) TransferDrawer_init)))) =
   [Refetch, Dispatch (SetWalletUpdated False)]"
proof -
  have "path (JObj [(''data'', JObj [(''_id'', JStr ''x'')])]) [''data'', ''_id''] = Inr (JStr ''x'')" by simp
  from moved_money_reloads_home [OF this _ refl,
      of "snd (TransferDrawer_resume (Resolved 200 (JObj [(''data'', JObj [(''_id'', JStr ''x'')])])) TransferDrawer_init)"
         TransferDrawer_init] show ?thesis by blast
qed

text \<open>
  C10 A transfer the server made and answered in its own shape, with the transaction under
  \<open>payload\<close>, passes unnoticed: the drawer's spinner stops, but nothing is shown, the page is not
  left, no error is set, the handler dies of an exception, and the home page does not reload.
\<close>
theorem accepted_transfer_unnoticed:
  assumes "get_oprop d ''data'' = Undef" and "\<not> nullish d"
    and "st = run rootReducer st0 (dispatched (snd (TransferDrawer_resume (Resolved 200 d) s)))"
  shows "TransferDrawer_resume (Resolved 200 d) s = (s\<lparr>d_loading := False\<rparr>, [Uncaught type_error]) \<and>
    st = st0"
proof -
  have "get_prop d ''data'' = Inr Undef"
    using assms(1,2) by (cases d) (auto simp: get_oprop_def nullish_def split: option.splits)
  then have "TransferDrawer_resume (Resolved 200 d) s = (s\<lparr>d_loading := False\<rparr>, [Uncaught type_error])"
    by (simp add: TransferDrawer_catch_def type_error_def nullish_def Let_def)
  then show ?thesis by (simp add: assms(3))
qed

theorem accepted_transfer_unnoticed_witness:
  "TransferDrawer_resume (Resolved 200 (JObj [(''payload'', JObj [(''id'', JStr ''7f'')])])) TransferDrawer_init =
     (TransferDrawer_init\<lparr>d_loading := False\<rparr>, [Uncaught type_error])"
  using accepted_transfer_unnoticed [of "JObj [(''payload'', JObj [(''id'', JStr ''7f'')])]"]
  by (simp add: nullish_def)

text \<open>The addresses the menus, the buttons of the home page and the dashboard lead to.\<close>

definition navigation_links :: "dashboard \<Rightarrow> string list" where
  "navigation_links s =
     map tab_link sidebarItems @ map tab_link menuItems @ map fst buttonFeatures @
     links (Header :: unit ui) @ links (PageNotFound_view :: unit ui) @
     links (B2BDashboard_view (\<lambda>_. []) (\<lambda>_. []) s)"

lemma navigation_links_paths:
  "\<forall>l \<in> set (navigation_links (B2BDashboard_loaded B2BDashboard_init)).
     norm_path l = l \<and> l \<noteq> ''*'' \<and> l \<in> route_path ` set app_routes \<and> l \<notin> set auth_paths"
  by code_simp

lemma table_pages:
  "\<forall>r \<in> set app_routes. route_path r \<noteq> ''*'' \<longrightarrow> PageNotFound \<notin> set (route_pages r)"
  by code_simp

text \<open>
  C16 No dead ends: with a valid token, every address in the side bars, the buttons of the home
  page, the header, the page for unknown addresses and the quick actions of the dashboard leads
  to a page of the program, never to the page for unknown addresses.
\<close>
theorem navigation_complete:
  assumes "router_ok pick" and "useTokenExpired decode now st = Inr False"
    and "l \<in> set (navigation_links (B2BDashboard_loaded s))"
  shows "\<exists>lay ps. App pick decode now st l = Shown lay ps \<and> PageNotFound \<notin> set ps"
proof -
  have "navigation_links (B2BDashboard_loaded s) = navigation_links (B2BDashboard_loaded B2BDashboard_init)"
    by (simp add: B2BDashboard_loaded_def)
  with assms(3) navigation_links_paths
  have l: "norm_path l = l" "l \<noteq> ''*''" "l \<in> route_path ` set app_routes" "l \<notin> set auth_paths" by auto
  have "pick app_routes l \<in> set app_routes \<and> route_path (pick app_routes l) = l"
    using assms(1) l unfolding router_ok_def by metis
  then have "PageNotFound \<notin> set (route_pages (pick app_routes l))" using table_pages l(2) by auto
  moreover have "route_guard (pick app_routes l) = Protected"
    by (rule App_guard [OF assms(1)]) (simp add: l(1,4))
  ultimately show ?thesis using assms(2) by (simp add: App_def ProtectRoutes_def Let_def)
qed

theorem navigation_complete_witness:
  "\<exists>lay ps. App first_match (\<lambda>_. Inr (JObj [(''exp'', JNum (Fin 9))])) 0
      (rootReducer initialRoot (AddAccessToken (JStr ''t''))) ''/b2b/analytics'' = Shown lay ps \<and>
    PageNotFound \<notin> set ps"
proof -
  have "useTokenExpired (\<lambda>_. Inr (JObj [(''exp'', JNum (Fin 9))])) 0
      (rootReducer initialRoot (AddAccessToken (JStr ''t''))) = Inr False"
    by (simp add: useTokenExpired_def rootReducer_def)
  moreover have "''/b2b/analytics'' \<in> set (navigation_links (B2BDashboard_loaded B2BDashboard_init))"
    by code_simp
  ultimately show ?thesis by (rule navigation_complete [OF first_match_ok])
qed

end
